(* ===== verification/Prelude.thy ===== *)
theory Prelude
  imports Main "HOL-Library.Word" "HOL-Library.Signed_Division"
begin

text \<open>
  What every component shares: the machine types of the Go code, the big-endian codec of
  \<^verbatim>\<open>encoding/binary\<close>, slice expressions, signed 64-bit arithmetic, and the collections of
  facts the component proofs draw on.

  A Go call that does not return a value (a run-time panic or a loop that never ends) is
  \<open>None\<close>; a Go error return is \<open>Inl\<close> of an error value. A function that can do both has a
  result of type \<open>(error + 'a) option\<close>.
\<close>

unbundle bit_operations_syntax

named_theorems go_len \<open>lengths of encoded values\<close>
named_theorems go_codec \<open>decoding what was encoded\<close>
named_theorems go_slice \<open>slices of concatenations\<close>

section \<open>Machine types\<close>

type_synonym byte = "8 word"
type_synonym bytes = "8 word list"
type_synonym u16 = "16 word"
type_synonym u32 = "32 word"
type_synonym u64 = "64 word"

text \<open>
  Go's \<^verbatim>\<open>int64\<close>, and its \<^verbatim>\<open>int\<close> on the 64-bit targets of the repository: the same bits as
  \<open>u64\<close>, read by \<open>sint\<close>, compared by \<open>\<le>s\<close> and \<open><s\<close>; addition, subtraction and
  multiplication wrap.
\<close>

type_synonym i64 = "64 word"

text \<open>The bytes of an ASCII string, as \<^verbatim>\<open>[]byte(s)\<close> gives them.\<close>

definition bytes_of_string :: "string \<Rightarrow> bytes" where
  "bytes_of_string s = map (\<lambda>c. word_of_nat (of_char c)) s"

lemma length_bytes_of_string [simp, go_len]: "length (bytes_of_string s) = length s"
  by (simp add: bytes_of_string_def)

lemma bytes_of_string_Nil [simp]: "bytes_of_string [] = []"
  by (simp add: bytes_of_string_def)

lemma of_char_word_inj: "(word_of_nat (of_char c) :: byte) = word_of_nat (of_char d) \<longleftrightarrow> c = d"
proof -
  have "(word_of_nat (of_char c) :: byte) = word_of_nat (of_char d)
      \<longleftrightarrow> (of_char c :: nat) mod 2 ^ 8 = of_char d mod 2 ^ 8"
    by (simp add: word_of_nat_eq_iff take_bit_eq_mod)
  also have "\<dots> \<longleftrightarrow> (of_char c :: nat) = of_char d"
    using nat_of_char_less_256 [of c] nat_of_char_less_256 [of d] by simp
  finally show ?thesis by simp
qed

lemma bytes_of_string_inj: "bytes_of_string s = bytes_of_string t \<longleftrightarrow> s = t"
proof (induction s arbitrary: t)
  case Nil
  then show ?case by (cases t) (simp_all add: bytes_of_string_def)
next
  case (Cons c s)
  then show ?case
    by (cases t) (simp_all add: bytes_of_string_def of_char_word_inj)
qed

section \<open>Slices\<close>

text \<open>\<^verbatim>\<open>xs[a:b]\<close> for bounds the code has checked; \<open>go_slice\<close> is the checked form,
  \<open>None\<close> being the run-time panic.\<close>

definition subslice :: "nat \<Rightarrow> nat \<Rightarrow> 'a list \<Rightarrow> 'a list" where
  "subslice a b xs = take (b - a) (drop a xs)"

definition go_slice :: "nat \<Rightarrow> nat \<Rightarrow> 'a list \<Rightarrow> 'a list option" where
  "go_slice a b xs = (if a \<le> b \<and> b \<le> length xs then Some (subslice a b xs) else None)"

lemma length_subslice [simp, go_len]: "length (subslice a b xs) = min (b - a) (length xs - a)"
  by (simp add: subslice_def)

lemma subslice_append_skip [go_slice]:
  "length xs \<le> a \<Longrightarrow> subslice a b (xs @ ys) = subslice (a - length xs) (b - length xs) ys"
  by (simp add: subslice_def)

lemma subslice_append_first [go_slice]:
  "b \<le> length xs \<Longrightarrow> subslice a b (xs @ ys) = subslice a b xs"
  by (cases "a \<le> b") (simp_all add: subslice_def)

lemma subslice_all [go_slice]: "length xs \<le> b \<Longrightarrow> subslice 0 b xs = xs"
  by (simp add: subslice_def)

lemma subslice_Cons_Suc [go_slice]: "subslice (Suc a) (Suc b) (x # xs) = subslice a b xs"
  by (simp add: subslice_def)

lemma subslice_take: "b \<le> n \<Longrightarrow> subslice a b (take n xs) = subslice a b xs"
  by (simp add: subslice_def drop_take min_def)

lemma nth_take_eq: "take n xs = take n ys \<Longrightarrow> i < n \<Longrightarrow> xs ! i = ys ! i"
  by (metis nth_take)

section \<open>Big-endian integers\<close>

text \<open>\<^verbatim>\<open>binary.BigEndian.PutUint64\<close>, \<^verbatim>\<open>PutUint32\<close>, \<^verbatim>\<open>Uint64\<close> and \<^verbatim>\<open>Uint32\<close>: the most
  significant byte first.\<close>

definition put_be32 :: "u32 \<Rightarrow> bytes" where
  "put_be32 w = [ucast (drop_bit 24 w), ucast (drop_bit 16 w), ucast (drop_bit 8 w), ucast w]"

definition put_be64 :: "u64 \<Rightarrow> bytes" where
  "put_be64 w =
     [ucast (drop_bit 56 w), ucast (drop_bit 48 w), ucast (drop_bit 40 w), ucast (drop_bit 32 w),
      ucast (drop_bit 24 w), ucast (drop_bit 16 w), ucast (drop_bit 8 w), ucast w]"

fun get_be :: "bytes \<Rightarrow> nat" where
  "get_be [] = 0"
| "get_be (b # bs) = unat b * 256 ^ length bs + get_be bs"

definition get_be32 :: "bytes \<Rightarrow> u32" where
  "get_be32 bs = word_of_nat (get_be bs)"

definition get_be64 :: "bytes \<Rightarrow> u64" where
  "get_be64 bs = word_of_nat (get_be bs)"

lemma length_put_be32 [simp, go_len]: "length (put_be32 w) = 4"
  by (simp add: put_be32_def)

lemma length_put_be64 [simp, go_len]: "length (put_be64 w) = 8"
  by (simp add: put_be64_def)

text \<open>Both codecs are the digits of a number in base 256; the two inversions below are proved
  once for any number of digits.\<close>

definition be_digits :: "nat \<Rightarrow> nat \<Rightarrow> bytes" where
  "be_digits n x = map (\<lambda>i. word_of_nat (x div 256 ^ i)) (rev [0..<n])"

lemma unat_byte_of_nat: "unat (word_of_nat x :: byte) = x mod 256"
  by (simp add: unat_of_nat)

lemma be_digits_Suc: "be_digits (Suc n) x = word_of_nat (x div 256 ^ n) # be_digits n x"
  by (simp add: be_digits_def)

lemma length_be_digits [simp]: "length (be_digits n x) = n"
  by (simp add: be_digits_def)

lemma get_be_digits: "get_be (be_digits n x) = x mod 256 ^ n"
proof (induction n)
  case 0
  show ?case by (simp add: be_digits_def)
next
  case (Suc n)
  have "x mod 256 ^ Suc n = 256 ^ n * (x div 256 ^ n mod 256) + x mod 256 ^ n"
    by (simp only: power_Suc2 mod_mult2_eq)
  then show ?case by (simp add: be_digits_Suc unat_byte_of_nat Suc)
qed

lemma get_be_less: "get_be bs < 256 ^ length bs"
proof (induction bs)
  case (Cons b bs)
  have "unat b \<le> 255" proof -
    have "unat b < 2 ^ LENGTH(8)" by (rule unsigned_less)
    then show ?thesis by simp
  qed
  then have "unat b * 256 ^ length bs \<le> 255 * 256 ^ length bs" by (rule mult_le_mono1)
  then have "unat b * 256 ^ length bs + get_be bs < 255 * 256 ^ length bs + 256 ^ length bs"
    using Cons by (rule add_le_less_mono)
  then show ?case by simp
qed simp

lemma be_digits_add: "be_digits n (y * 256 ^ n + x) = be_digits n x"
proof -
  have "(word_of_nat ((y * 256 ^ n + x) div 256 ^ i) :: byte) = word_of_nat (x div 256 ^ i)"
    if "i < n" for i
  proof -
    from that obtain k where n: "n = i + Suc k" using less_imp_Suc_add by fastforce
    have "y * 256 ^ n = (256 * (y * 256 ^ k)) * 256 ^ i" by (simp add: n power_add)
    then have "(y * 256 ^ n + x) div 256 ^ i = 256 * (y * 256 ^ k) + x div 256 ^ i"
      by (metis div_mult_self3 power_not_zero zero_neq_numeral)
    then show ?thesis
      by (simp add: word_of_nat_eq_iff take_bit_eq_mod del: of_nat_add of_nat_mult)
  qed
  then show ?thesis by (simp add: be_digits_def)
qed

lemma be_digits_get: "be_digits (length bs) (get_be bs) = bs"
proof (induction bs)
  case (Cons b bs)
  have "(unat b * 256 ^ length bs + get_be bs) div 256 ^ length bs = unat b"
    using get_be_less [of bs] by simp
  then show ?case by (simp add: be_digits_Suc be_digits_add Cons)
qed (simp add: be_digits_def)

lemma ucast_byte: "(ucast (w :: 'a::len word) :: byte) = word_of_nat (unat w)"
  by (simp add: word_unat_eq_iff unsigned_ucast_eq unat_of_nat take_bit_eq_mod)

lemma ucast_drop_bit_byte:
  "(ucast (drop_bit n (w :: 'a::len word)) :: byte) = word_of_nat (unat w div 2 ^ n)"
  by (simp only: ucast_byte unat_drop_bit_eq drop_bit_eq_div [of n "unat w"])

lemma be_digit:
  "(word_of_nat (unat (w :: 'a::len word) div 256 ^ i) :: byte) = ucast (drop_bit (8 * i) w)"
  by (simp add: ucast_drop_bit_byte power_mult)

lemma upt_4: "rev [0..<4] = [3, 2, 1, 0]"
  by (simp add: numeral_eq_Suc)

lemma upt_8: "rev [0..<8] = [7, 6, 5, 4, 3, 2, 1, 0]"
  by (simp add: numeral_eq_Suc)

lemma put_be32_digits: "put_be32 w = be_digits 4 (unat w)"
  by (simp only: put_be32_def be_digits_def upt_4 list.map be_digit) simp

lemma put_be64_digits: "put_be64 w = be_digits 8 (unat w)"
  by (simp only: put_be64_def be_digits_def upt_8 list.map be_digit) simp

lemma get_put_be32 [simp, go_codec]: "get_be32 (put_be32 w) = w"
proof -
  have "unat w < 2 ^ LENGTH(32)" by (rule unsigned_less)
  then show ?thesis by (simp add: get_be32_def put_be32_digits get_be_digits)
qed

lemma get_put_be64 [simp, go_codec]: "get_be64 (put_be64 w) = w"
proof -
  have "unat w < 2 ^ LENGTH(64)" by (rule unsigned_less)
  then show ?thesis by (simp add: get_be64_def put_be64_digits get_be_digits)
qed

lemma put_get_be32: "length bs = 4 \<Longrightarrow> put_be32 (get_be32 bs) = bs"
  using get_be_less [of bs] be_digits_get [of bs]
  by (simp add: get_be32_def put_be32_digits unat_of_nat)

lemma put_get_be64: "length bs = 8 \<Longrightarrow> put_be64 (get_be64 bs) = bs"
  using get_be_less [of bs] be_digits_get [of bs]
  by (simp add: get_be64_def put_be64_digits unat_of_nat)

section \<open>Signed 64-bit arithmetic\<close>

text \<open>\<^verbatim>\<open>a / b\<close> on \<^verbatim>\<open>int64\<close>: rounds towards zero, panics on a zero divisor, wraps on the one
  quotient that does not fit.\<close>

definition go_sdiv :: "i64 \<Rightarrow> i64 \<Rightarrow> i64 option" where
  "go_sdiv a b = (if b = 0 then None else Some (word_of_int (sint a sdiv sint b)))"

definition int64_fits :: "int \<Rightarrow> bool" where
  "int64_fits k \<longleftrightarrow> - (2 ^ 63) \<le> k \<and> k < 2 ^ 63"

lemma sint_of_int64: "int64_fits k \<Longrightarrow> sint (word_of_int k :: i64) = k"
  by (simp add: int64_fits_def signed_of_int signed_take_bit_int_eq_self)

lemma sint_fits [simp]: "int64_fits (sint (a :: i64))"
  using sint_ge [of a] sint_lt [of a] by (simp add: int64_fits_def)

lemma sint_add64: "int64_fits (sint a + sint b) \<Longrightarrow> sint (a + b :: i64) = sint a + sint b"
  using sint_of_int64 [of "sint a + sint b"] by simp

lemma sint_diff64: "int64_fits (sint a - sint b) \<Longrightarrow> sint (a - b :: i64) = sint a - sint b"
  using sint_of_int64 [of "sint a - sint b"] by simp

lemma sint_mult64: "int64_fits (sint a * sint b) \<Longrightarrow> sint (a * b :: i64) = sint a * sint b"
  using sint_of_int64 [of "sint a * sint b"] by simp

lemma sint_minus64: "int64_fits (- sint a) \<Longrightarrow> sint (- a :: i64) = - sint a"
  using sint_of_int64 [of "- sint a"] by simp

lemma go_sdiv_Some: "b \<noteq> 0 \<Longrightarrow> go_sdiv a b = Some (word_of_int (sint a sdiv sint b))"
  by (simp add: go_sdiv_def)

lemma go_sdiv_None [simp]: "go_sdiv a b = None \<longleftrightarrow> b = 0"
  by (simp add: go_sdiv_def)

lemma sdiv_nonneg: "0 \<le> (a :: int) \<Longrightarrow> 0 < b \<Longrightarrow> a sdiv b = a div b"
  by (cases "a = 0") (simp_all add: signed_divide_int_def)

end
