(* ===== verification/GoLib.thy ===== *)
theory GoLib
  imports Prelude "HOL-Library.Sublist"
begin

text \<open>
  The functions of Go's \<^verbatim>\<open>net\<close>, \<^verbatim>\<open>bytes\<close> and \<^verbatim>\<open>strings\<close> packages that the program calls.
  A Go string is its bytes, here a list of characters (an Isabelle character is one byte).
\<close>

section \<open>net.IP\<close>

text \<open>An address is a byte subslice; \<open>None\<close> is the nil subslice.\<close>

type_synonym net_ip = "bytes option"

definition v4_in_v6_prefix :: bytes where
  "v4_in_v6_prefix = [0, 0, 0, 0, 0, 0, 0, 0, 0, 0, 0xff, 0xff]"

definition ip_to4 :: "net_ip \<Rightarrow> net_ip" where
  "ip_to4 ip = (case ip of None \<Rightarrow> None
     | Some b \<Rightarrow> if length b = 4 then Some b
                 else if length b = 16 \<and> take 12 b = v4_in_v6_prefix then Some (drop 12 b)
                 else None)"

definition ip_to16 :: "net_ip \<Rightarrow> net_ip" where
  "ip_to16 ip = (case ip of None \<Rightarrow> None
     | Some b \<Rightarrow> if length b = 4 then Some (v4_in_v6_prefix @ b)
                 else if length b = 16 then Some b
                 else None)"

text \<open>\<^verbatim>\<open>net.IPv4zero.To16()\<close>\<close>

definition ipv4_zero16 :: bytes where
  "ipv4_zero16 = v4_in_v6_prefix @ [0, 0, 0, 0]"

lemma length_v4_in_v6_prefix [simp]: "length v4_in_v6_prefix = 12"
  by (simp add: v4_in_v6_prefix_def)

lemma length_ipv4_zero16 [simp]: "length ipv4_zero16 = 16"
  by (simp add: ipv4_zero16_def)

lemma ip_to16_length: "ip_to16 ip = Some b \<Longrightarrow> length b = 16"
  by (auto simp: ip_to16_def split: option.splits if_splits)

lemma ip_to4_length: "ip_to4 ip = Some b \<Longrightarrow> length b = 4"
  by (auto simp: ip_to4_def split: option.splits if_splits)

lemma ip_to16_idem: "ip_to16 ip = Some b \<Longrightarrow> ip_to16 (Some b) = Some b"
  by (drule ip_to16_length) (simp add: ip_to16_def)

lemma ip_to4_of_to16: "ip_to4 (ip_to16 ip) = ip_to4 ip"
  by (auto simp: ip_to4_def ip_to16_def split: option.splits)

text \<open>Two addresses with the same 16-byte form have the same 4-byte form.\<close>

lemma ip_to16_eq_to4: "ip_to16 a = ip_to16 b \<Longrightarrow> ip_to4 a = ip_to4 b"
  by (metis ip_to4_of_to16)

section \<open>White space\<close>

text \<open>
  The UTF-8 encodings of the code points for which \<^verbatim>\<open>unicode.IsSpace\<close> holds. \<^verbatim>\<open>TrimSpace\<close>
  removes them from both ends, on strings and on byte slices alike.
\<close>

definition space_encodings :: "bytes list" where
  "space_encodings =
     [[0x09], [0x0a], [0x0b], [0x0c], [0x0d], [0x20],
      [0xc2, 0x85], [0xc2, 0xa0], [0xe1, 0x9a, 0x80],
      [0xe2, 0x80, 0x80], [0xe2, 0x80, 0x81], [0xe2, 0x80, 0x82], [0xe2, 0x80, 0x83],
      [0xe2, 0x80, 0x84], [0xe2, 0x80, 0x85], [0xe2, 0x80, 0x86], [0xe2, 0x80, 0x87],
      [0xe2, 0x80, 0x88], [0xe2, 0x80, 0x89], [0xe2, 0x80, 0x8a],
      [0xe2, 0x80, 0xa8], [0xe2, 0x80, 0xa9], [0xe2, 0x80, 0xaf],
      [0xe2, 0x81, 0x9f], [0xe3, 0x80, 0x80]]"

text \<open>The first encoding, if any, that \<open>xs\<close> starts with.\<close>

definition leading :: "'a list list \<Rightarrow> 'a list \<Rightarrow> 'a list option" where
  "leading sps xs = find (\<lambda>p. p \<noteq> [] \<and> take (length p) xs = p) sps"

lemma leading_SomeD: "leading sps xs = Some p \<Longrightarrow> p \<noteq> [] \<and> take (length p) xs = p \<and> p \<in> set sps"
  by (auto simp: leading_def find_Some_iff)

lemma leading_shorter: "leading sps xs = Some p \<Longrightarrow> length (drop (length p) xs) < length xs"
  by (drule leading_SomeD) (metis diff_less length_drop length_greater_0_conv take_eq_Nil)

function trim_left :: "'a list list \<Rightarrow> 'a list \<Rightarrow> 'a list" where
  "trim_left sps xs =
     (case leading sps xs of None \<Rightarrow> xs | Some p \<Rightarrow> trim_left sps (drop (length p) xs))"
  by pat_completeness auto
termination
  by (relation "measure (length \<circ> snd)") (auto dest: leading_shorter)

declare trim_left.simps [simp del]

definition trim_right :: "'a list list \<Rightarrow> 'a list \<Rightarrow> 'a list" where
  "trim_right sps xs = rev (trim_left (map rev sps) (rev xs))"

definition trim_space_with :: "'a list list \<Rightarrow> 'a list \<Rightarrow> 'a list" where
  "trim_space_with sps xs = trim_right sps (trim_left sps xs)"

text \<open>\<^verbatim>\<open>bytes.TrimSpace\<close> and \<^verbatim>\<open>strings.TrimSpace\<close>\<close>

definition bytes_trim_space :: "bytes \<Rightarrow> bytes" where
  "bytes_trim_space = trim_space_with space_encodings"

definition space_strings :: "string list" where
  "space_strings = map (map (\<lambda>b. char_of (unat b))) space_encodings"

definition strings_trim_space :: "string \<Rightarrow> string" where
  "strings_trim_space = trim_space_with space_strings"

lemma trim_left_id [simp]: "leading sps xs = None \<Longrightarrow> trim_left sps xs = xs"
  by (subst trim_left.simps) simp

lemma length_trim_left: "length (trim_left sps xs) \<le> length xs"
proof (induction sps xs rule: trim_left.induct)
  case (1 sps xs)
  then show ?case
    by (subst trim_left.simps) (auto split: option.split intro: le_trans)
qed

lemma trim_left_leading: "leading sps (trim_left sps xs) = None"
proof (induction sps xs rule: trim_left.induct)
  case (1 sps xs)
  then show ?case
    by (subst trim_left.simps) (auto split: option.split)
qed

lemma trim_left_less: "leading sps xs = Some p \<Longrightarrow> length (trim_left sps xs) < length xs"
proof -
  assume p: "leading sps xs = Some p"
  have "length (trim_left sps xs) \<le> length (drop (length p) xs)"
    using p length_trim_left [of sps "drop (length p) xs"] by (subst trim_left.simps) simp
  also have "\<dots> < length xs" using p by (rule leading_shorter)
  finally show ?thesis .
qed

lemma trim_left_eq_iff: "length (trim_left sps xs) = length xs \<longleftrightarrow> leading sps xs = None"
  using trim_left_less [of sps xs] by (cases "leading sps xs") auto

text \<open>Trimming keeps the length exactly when neither end is white space; it then changes nothing.\<close>

lemma trim_space_length_iff:
  "length (trim_space_with sps xs) = length xs
     \<longleftrightarrow> leading sps xs = None \<and> leading (map rev sps) (rev xs) = None"
proof (cases "leading sps xs")
  case None
  then show ?thesis
    by (simp add: trim_space_with_def trim_right_def)
       (metis length_rev trim_left_eq_iff)
next
  case (Some p)
  then have "length (trim_left sps xs) < length xs" by (rule trim_left_less)
  moreover have "length (trim_space_with sps xs) \<le> length (trim_left sps xs)"
    using length_trim_left [of "map rev sps" "rev (trim_left sps xs)"]
    by (simp add: trim_space_with_def trim_right_def)
  ultimately show ?thesis using Some by simp
qed

lemma trim_space_id:
  "leading sps xs = None \<Longrightarrow> leading (map rev sps) (rev xs) = None \<Longrightarrow> trim_space_with sps xs = xs"
  by (simp add: trim_space_with_def trim_right_def)

section \<open>Splitting and paths\<close>

text \<open>\<^verbatim>\<open>strings.Split\<close> for a one-byte separator: always at least one part.\<close>

fun split_on :: "'a \<Rightarrow> 'a list \<Rightarrow> 'a list list" where
  "split_on c [] = [[]]"
| "split_on c (x # xs) =
     (if x = c then [] # split_on c xs
      else case split_on c xs of [] \<Rightarrow> [[x]] | p # ps \<Rightarrow> (x # p) # ps)"

definition join_with :: "'a list \<Rightarrow> 'a list list \<Rightarrow> 'a list" where
  "join_with sep ps = (case ps of [] \<Rightarrow> [] | q # qs \<Rightarrow> q @ concat (map (\<lambda>r. sep @ r) qs))"

lemma split_on_nonempty [simp]: "split_on c xs \<noteq> []"
  by (induction xs) (auto split: list.split)

lemma join_split_on: "join_with [c] (split_on c xs) = xs"
proof (induction xs)
  case (Cons x xs)
  obtain p ps where "split_on c xs = p # ps"
    by (cases "split_on c xs") auto
  with Cons show ?case by (auto simp: join_with_def)
qed (simp add: join_with_def)

text \<open>\<^verbatim>\<open>filepath.Clean\<close> and the two-argument \<^verbatim>\<open>filepath.Join\<close> on Unix; the stack holds the
  cleaned components, last first.\<close>

definition clean_step :: "bool \<Rightarrow> string list \<Rightarrow> string \<Rightarrow> string list" where
  "clean_step rooted stack c =
     (if c = [] \<or> c = ''.'' then stack
      else if c = ''..'' then
        (case stack of
           [] \<Rightarrow> if rooted then [] else [c]
         | t # rest \<Rightarrow> if t = ''..'' then c # stack else rest)
      else c # stack)"

definition path_clean :: "string \<Rightarrow> string" where
  "path_clean p =
     (let rooted = (take 1 p = ''/'');
          out = join_with ''/'' (rev (foldl (clean_step rooted) [] (split_on (CHR ''/'') p)))
      in if rooted then ''/'' @ out else if out = [] then ''.'' else out)"

definition path_join :: "string \<Rightarrow> string \<Rightarrow> string" where
  "path_join a b =
     (let ne = filter (\<lambda>s. s \<noteq> []) [a, b]
      in if ne = [] then [] else path_clean (join_with ''/'' ne))"

lemma split_on_append: "split_on c (xs @ c # ys) = split_on c xs @ split_on c ys"
proof (induction xs)
  case (Cons x xs)
  obtain p ps where "split_on c xs = p # ps"
    by (cases "split_on c xs") auto
  with Cons show ?case by auto
qed simp

lemma split_on_notin: "c \<notin> set xs \<Longrightarrow> split_on c xs = [xs]"
  by (induction xs) auto

lemma join_with_snoc: "join_with sep (ps @ [q]) = (if ps = [] then q else join_with sep ps @ sep @ q)"
  by (cases ps) (auto simp: join_with_def)

text \<open>A plain file name stays the last component of a joined path.\<close>

lemma path_join_suffix:
  assumes n: "CHR ''/'' \<notin> set n" "n \<noteq> []" "n \<noteq> ''.''" "n \<noteq> ''..''"
  shows "\<exists>pre. path_join d n = pre @ n"
proof -
  have clean: "\<exists>pre. path_clean p = pre @ n" if "split_on (CHR ''/'') p = ps @ [n]" for p ps
  proof -
    let ?r = "take 1 p = ''/''"
    have "foldl (clean_step ?r) [] (ps @ [n]) = n # foldl (clean_step ?r) [] ps"
      using n by (simp add: clean_step_def)
    then show ?thesis
      using that n by (auto simp: path_clean_def Let_def join_with_snoc split: if_splits)
  qed
  show ?thesis
  proof (cases "d = []")
    case True
    then show ?thesis
      using n clean [of n "[]"] by (simp add: path_join_def join_with_def split_on_notin)
  next
    case False
    then show ?thesis
      using n clean [of "d @ ''/'' @ n" "split_on (CHR ''/'') d"]
      by (simp add: path_join_def join_with_def split_on_notin split_on_append)
  qed
qed

section \<open>Constant-time comparison\<close>

text \<open>The accumulated difference of the common prefix, and \<^verbatim>\<open>subtle.ConstantTimeCompare\<close>.\<close>

definition byte_difference :: "bytes \<Rightarrow> bytes \<Rightarrow> byte" where
  "byte_difference xs ys = foldl (\<lambda>d (x, y). d OR (x XOR y)) 0 (zip xs ys)"

definition constant_time_compare :: "bytes \<Rightarrow> bytes \<Rightarrow> bool" where
  "constant_time_compare xs ys \<longleftrightarrow> length xs = length ys \<and> byte_difference xs ys = 0"

lemma xor_zero: "p XOR t = (0 :: byte) \<longleftrightarrow> p = t"
  by (metis xor.assoc xor.left_neutral xor.right_neutral xor_self_eq)

lemma byte_difference_zero:
  "byte_difference xs ys = 0 \<longleftrightarrow> take (length ys) xs = take (length xs) ys"
proof -
  have "foldl (\<lambda>d (x, y). d OR (x XOR y)) d (zip xs ys) = (0 :: byte) \<longleftrightarrow>
      d = 0 \<and> take (length ys) xs = take (length xs) ys" for d
  proof (induction xs ys arbitrary: d rule: list_induct2')
    case (4 x xs y ys)
    have "d OR (x XOR y) = 0 \<longleftrightarrow> d = 0 \<and> x = y" by (simp add: or_eq_0_iff xor_zero)
    with 4 show ?case by auto
  qed auto
  then show ?thesis by (simp add: byte_difference_def)
qed

lemma constant_time_compare_eq: "constant_time_compare xs ys \<longleftrightarrow> xs = ys"
  by (auto simp: constant_time_compare_def byte_difference_zero)

section \<open>Numerals and searching\<close>

text \<open>Decimal numerals, as \<^verbatim>\<open>%d\<close> prints them.\<close>

fun show_nat :: "nat \<Rightarrow> string" where
  "show_nat n =
     (if n < 10 then [''0123456789'' ! n] else show_nat (n div 10) @ [''0123456789'' ! (n mod 10)])"

declare show_nat.simps [simp del]

definition show_i64 :: "i64 \<Rightarrow> string" where
  "show_i64 w = (if w <s 0 then CHR ''-'' # show_nat (nat (- sint w)) else show_nat (nat (sint w)))"

text \<open>\<^verbatim>\<open>strings.Index\<close>, \<^verbatim>\<open>strings.Contains\<close>, \<^verbatim>\<open>strings.HasPrefix\<close>,
  \<^verbatim>\<open>strings.HasSuffix\<close>, and \<^verbatim>\<open>strings.TrimPrefix\<close>.\<close>

definition has_prefix :: "'a list \<Rightarrow> 'a list \<Rightarrow> bool" where
  "has_prefix s p \<longleftrightarrow> take (length p) s = p"

definition has_suffix :: "'a list \<Rightarrow> 'a list \<Rightarrow> bool" where
  "has_suffix s p \<longleftrightarrow> has_prefix (rev s) (rev p)"

fun str_index :: "'a list \<Rightarrow> 'a list \<Rightarrow> nat option" where
  "str_index [] p = (if p = [] then Some 0 else None)"
| "str_index (x # xs) p = (if has_prefix (x # xs) p then Some 0 else map_option Suc (str_index xs p))"

definition str_contains :: "'a list \<Rightarrow> 'a list \<Rightarrow> bool" where
  "str_contains s p \<longleftrightarrow> str_index s p \<noteq> None"

definition trim_prefix :: "'a list \<Rightarrow> 'a list \<Rightarrow> 'a list" where
  "trim_prefix s p = (if has_prefix s p then drop (length p) s else s)"

lemma has_prefix_prefix: "has_prefix s p \<longleftrightarrow> prefix p s"
  by (metis has_prefix_def prefix_def append_take_drop_id append_eq_conv_conj)

lemma str_index_None: "str_index s p = None \<longleftrightarrow> \<not> sublist p s"
  by (induction s) (auto simp: has_prefix_prefix sublist_Cons_right)

lemma str_contains_sublist: "str_contains s p \<longleftrightarrow> sublist p s"
  by (simp add: str_contains_def str_index_None)

lemma str_index_Some:
  "str_index s p = Some i \<Longrightarrow> i + length p \<le> length s \<and> take (length p) (drop i s) = p"
proof (induction s arbitrary: i)
  case (Cons x xs)
  then show ?case
    by (cases "has_prefix (x # xs) p")
      (auto simp: has_prefix_def split: option.splits dest!: arg_cong [where f = length])
qed (auto split: if_splits)

end
