(* ===== verification/Crypto.thy ===== *)
theory Crypto
  imports Prelude
begin

text \<open>
  The part of Go's \<^verbatim>\<open>crypto\<close> packages that the program calls: SHA-1 and SHA-256 (FIPS 180-4),
  HMAC over either (RFC 2104), hexadecimal encoding, and the interface of Ed25519. The hashes and
  HMAC are executable definitions. Ed25519 is an argument of the definitions that use it: a record of its three
  functions, with the documented laws as \<open>ed25519_laws\<close>.
\<close>

section \<open>Message padding\<close>

text \<open>Both hashes append the bit 1, zeros up to 56 bytes modulo 64, and the bit length.\<close>

definition sha_pad :: "bytes \<Rightarrow> bytes" where
  "sha_pad m =
     m @ [0x80] @ replicate ((119 - length m mod 64) mod 64) 0
       @ put_be64 (word_of_nat (8 * length m))"

fun words_of :: "bytes \<Rightarrow> u32 list" where
  "words_of (a # b # c # d # bs) = get_be32 [a, b, c, d] # words_of bs"
| "words_of _ = []"

function blocks16 :: "'a list \<Rightarrow> 'a list list" where
  "blocks16 xs = (if length xs < 16 then [] else take 16 xs # blocks16 (drop 16 xs))"
  by pat_completeness auto
termination
  by (relation "measure length") auto

declare blocks16.simps [simp del]

definition sha_blocks :: "bytes \<Rightarrow> u32 list list" where
  "sha_blocks m = blocks16 (words_of (sha_pad m))"

definition rotl32 :: "nat \<Rightarrow> u32 \<Rightarrow> u32" where
  "rotl32 n x = push_bit n x OR drop_bit (32 - n) x"

definition rotr32 :: "nat \<Rightarrow> u32 \<Rightarrow> u32" where
  "rotr32 n x = drop_bit n x OR push_bit (32 - n) x"

section \<open>SHA-1\<close>

type_synonym sha1_state = "u32 \<times> u32 \<times> u32 \<times> u32 \<times> u32"

text \<open>The four phases of twenty rounds: the Boolean function of each and its constant.\<close>

datatype sha1_phase = Choose | Parity | Majority

fun sha1_f :: "sha1_phase \<Rightarrow> u32 \<Rightarrow> u32 \<Rightarrow> u32 \<Rightarrow> u32" where
  "sha1_f Choose b c d = (b AND c) OR (NOT b AND d)"
| "sha1_f Parity b c d = b XOR c XOR d"
| "sha1_f Majority b c d = (b AND c) OR (b AND d) OR (c AND d)"

definition sha1_k :: "(sha1_phase \<times> u32) list" where
  "sha1_k = replicate 20 (Choose, 0x5A827999) @ replicate 20 (Parity, 0x6ED9EBA1)
          @ replicate 20 (Majority, 0x8F1BBCDC) @ replicate 20 (Parity, 0xCA62C1D6)"

text \<open>A round consumes the head of the window of sixteen schedule words and appends the next.\<close>

fun sha1_rounds :: "(sha1_phase \<times> u32) list \<Rightarrow> u32 list \<Rightarrow> sha1_state \<Rightarrow> sha1_state" where
  "sha1_rounds [] w s = s"
| "sha1_rounds ((ph, k) # ks) w (a, b, c, d, e) =
     (let temp = rotl32 5 a + sha1_f ph b c d + e + k + hd w;
          next = rotl32 1 (w ! 13 XOR w ! 8 XOR w ! 2 XOR w ! 0)
      in sha1_rounds ks (tl w @ [next]) (temp, a, rotl32 30 b, c, d))"

fun sha1_block :: "sha1_state \<Rightarrow> u32 list \<Rightarrow> sha1_state" where
  "sha1_block (a, b, c, d, e) w =
     (case sha1_rounds sha1_k w (a, b, c, d, e) of
        (a', b', c', d', e') \<Rightarrow> (a + a', b + b', c + c', d + d', e + e'))"

definition sha1_init :: sha1_state where
  "sha1_init = (0x67452301, 0xEFCDAB89, 0x98BADCFE, 0x10325476, 0xC3D2E1F0)"

definition sha1 :: "bytes \<Rightarrow> bytes" where
  "sha1 m = (case foldl sha1_block sha1_init (sha_blocks m) of
     (a, b, c, d, e) \<Rightarrow> put_be32 a @ put_be32 b @ put_be32 c @ put_be32 d @ put_be32 e)"

section \<open>SHA-256\<close>

type_synonym sha256_state = "u32 \<times> u32 \<times> u32 \<times> u32 \<times> u32 \<times> u32 \<times> u32 \<times> u32"

definition sha256_k :: "u32 list" where
  "sha256_k =
    [1116352408, 1899447441, 3049323471, 3921009573, 961987163, 1508970993, 2453635748, 2870763221,
     3624381080, 310598401, 607225278, 1426881987, 1925078388, 2162078206, 2614888103, 3248222580,
     3835390401, 4022224774, 264347078, 604807628, 770255983, 1249150122, 1555081692, 1996064986,
     2554220882, 2821834349, 2952996808, 3210313671, 3336571891, 3584528711, 113926993, 338241895,
     666307205, 773529912, 1294757372, 1396182291, 1695183700, 1986661051, 2177026350, 2456956037,
     2730485921, 2820302411, 3259730800, 3345764771, 3516065817, 3600352804, 4094571909, 275423344,
     430227734, 506948616, 659060556, 883997877, 958139571, 1322822218, 1537002063, 1747873779,
     1955562222, 2024104815, 2227730452, 2361852424, 2428436474, 2756734187, 3204031479, 3329325298]"

fun sha256_rounds :: "u32 list \<Rightarrow> u32 list \<Rightarrow> sha256_state \<Rightarrow> sha256_state" where
  "sha256_rounds [] w s = s"
| "sha256_rounds (k # ks) w (a, b, c, d, e, f, g, h) =
     (let s1 = rotr32 6 e XOR rotr32 11 e XOR rotr32 25 e;
          ch = (e AND f) XOR (NOT e AND g);
          t1 = h + s1 + ch + k + hd w;
          s0 = rotr32 2 a XOR rotr32 13 a XOR rotr32 22 a;
          maj = (a AND b) XOR (a AND c) XOR (b AND c);
          t2 = s0 + maj;
          r0 = rotr32 7 (w ! 1) XOR rotr32 18 (w ! 1) XOR drop_bit 3 (w ! 1);
          r1 = rotr32 17 (w ! 14) XOR rotr32 19 (w ! 14) XOR drop_bit 10 (w ! 14);
          next = w ! 0 + r0 + w ! 9 + r1
      in sha256_rounds ks (tl w @ [next]) (t1 + t2, a, b, c, d + t1, e, f, g))"

fun sha256_block :: "sha256_state \<Rightarrow> u32 list \<Rightarrow> sha256_state" where
  "sha256_block (a, b, c, d, e, f, g, h) w =
     (case sha256_rounds sha256_k w (a, b, c, d, e, f, g, h) of
        (a', b', c', d', e', f', g', h') \<Rightarrow>
          (a + a', b + b', c + c', d + d', e + e', f + f', g + g', h + h'))"

definition sha256_init :: sha256_state where
  "sha256_init =
     (1779033703, 3144134277, 1013904242, 2773480762, 1359893119, 2600822924, 528734635, 1541459225)"

definition sha256 :: "bytes \<Rightarrow> bytes" where
  "sha256 m = (case foldl sha256_block sha256_init (sha_blocks m) of
     (a, b, c, d, e, f, g, h) \<Rightarrow>
       put_be32 a @ put_be32 b @ put_be32 c @ put_be32 d @
       put_be32 e @ put_be32 f @ put_be32 g @ put_be32 h)"

lemma length_sha1 [simp, go_len]: "length (sha1 m) = 20"
  by (simp add: sha1_def split: prod.split)

lemma length_sha256 [simp, go_len]: "length (sha256 m) = 32"
  by (simp add: sha256_def split: prod.split)

section \<open>HMAC\<close>

text \<open>A digest with a fixed output size, and HMAC over it with the 64-byte block both hashes use.\<close>

definition hmac :: "(bytes \<Rightarrow> bytes) \<Rightarrow> bytes \<Rightarrow> bytes \<Rightarrow> bytes" where
  "hmac dig key m =
     (let k0 = (if length key > 64 then dig key else key);
          k = k0 @ replicate (64 - length k0) 0
      in dig (map (\<lambda>b. b XOR 0x5c) k @ dig (map (\<lambda>b. b XOR 0x36) k @ m)))"

locale digest =
  fixes dig :: "bytes \<Rightarrow> bytes" and size :: nat
  assumes length_dig: "length (dig m) = size"
begin

lemma length_hmac: "length (hmac dig key m) = size"
  by (simp add: hmac_def Let_def length_dig)

end

interpretation sha1: digest sha1 20
  by unfold_locales simp

interpretation sha256: digest sha256 32
  by unfold_locales simp

abbreviation hmac_sha1 :: "bytes \<Rightarrow> bytes \<Rightarrow> bytes" where
  "hmac_sha1 \<equiv> hmac sha1"

abbreviation hmac_sha256 :: "bytes \<Rightarrow> bytes \<Rightarrow> bytes" where
  "hmac_sha256 \<equiv> hmac sha256"

lemmas length_hmac_sha1 [simp, go_len] = sha1.length_hmac
lemmas length_hmac_sha256 [simp, go_len] = sha256.length_hmac

text \<open>\<^verbatim>\<open>hmac.Equal\<close>: equal lengths and equal contents.\<close>

definition hmac_equal :: "bytes \<Rightarrow> bytes \<Rightarrow> bool" where
  "hmac_equal a b \<longleftrightarrow> a = b"

section \<open>Hexadecimal\<close>

definition hex_digit :: "nat \<Rightarrow> char" where
  "hex_digit n = ''0123456789abcdef'' ! n"

definition hex_encode :: "bytes \<Rightarrow> string" where
  "hex_encode bs = concat (map (\<lambda>b. [hex_digit (unat b div 16), hex_digit (unat b mod 16)]) bs)"

section \<open>Ed25519\<close>

text \<open>
  \<^verbatim>\<open>crypto/ed25519\<close>: \<open>ed_newkey\<close> is \<^verbatim>\<open>NewKeyFromSeed\<close>, \<open>ed_sign\<close> and \<open>ed_verify\<close> the
  functions of the same name. A private key is 64 bytes, its last 32 the public key, which is what
  \<^verbatim>\<open>PrivateKey.Public\<close> returns.
\<close>

record ed25519 =
  ed_newkey :: "bytes \<Rightarrow> bytes"
  ed_sign :: "bytes \<Rightarrow> bytes \<Rightarrow> bytes"
  ed_verify :: "bytes \<Rightarrow> bytes \<Rightarrow> bytes \<Rightarrow> bool"

definition ed_public :: "bytes \<Rightarrow> bytes" where
  "ed_public sk = drop 32 sk"

text \<open>What the package documents: key and signature sizes, that a signature made with a key is
  valid under its public key, and that a signature of another size is not valid.\<close>

definition ed25519_laws :: "ed25519 \<Rightarrow> bool" where
  "ed25519_laws E \<longleftrightarrow>
     (\<forall>seed. length (ed_newkey E seed) = 64) \<and>
     (\<forall>sk m. length (ed_sign E sk m) = 64) \<and>
     (\<forall>seed m. ed_verify E (ed_public (ed_newkey E seed)) m (ed_sign E (ed_newkey E seed) m)) \<and>
     (\<forall>pk m s. ed_verify E pk m s \<longrightarrow> length s = 64)"

text \<open>A concrete scheme with these laws, for the witnesses: a tag under the public key.\<close>

definition ed_example :: ed25519 where
  "ed_example = \<lparr>
     ed_newkey = (\<lambda>seed. let k = take 32 (seed @ replicate 32 1) in k @ k),
     ed_sign = (\<lambda>sk m. hmac_sha256 (ed_public sk) m @ hmac_sha256 (ed_public sk) m),
     ed_verify = (\<lambda>pk m s. s = hmac_sha256 pk m @ hmac_sha256 pk m)\<rparr>"

lemma ed_example_laws: "ed25519_laws ed_example"
proof -
  have "min n 32 + (32 - n) = 32" for n :: nat by simp
  then have "min n 32 + (32 - n + (min n 32 + (32 - n))) = 64" for n :: nat by linarith
  then show ?thesis by (simp add: ed25519_laws_def ed_example_def Let_def)
qed

end
