(* ===== verification/Config.thy ===== *)
theory Config
  imports GoLib Crypto
begin

text \<open>
  \<^verbatim>\<open>internal/config\<close>: the protected and the fake ports with their lookup and validation
  (\<^verbatim>\<open>ports.go\<close>), the constants shared with the kernel programs (\<^verbatim>\<open>constants.go\<close>), the
  Elasticsearch settings (\<^verbatim>\<open>config.go\<close>), and the configuration and key files of dynamic SPA
  (\<^verbatim>\<open>spa.go\<close>).
\<close>

section \<open>config.go\<close>

definition SPAMagicPort :: i64 where "SPAMagicPort = 1337"
definition SPASecretToken :: string where "SPASecretToken = ''PHANTOM_GRID_SPA_2025''"
definition SPATokenLen :: i64 where "SPATokenLen = 21"
definition SPAWhitelistDuration :: i64 where "SPAWhitelistDuration = 30"
definition HoneypotPort :: i64 where "HoneypotPort = 9999"
definition SSHPort :: i64 where "SSHPort = 22"

definition FallbackPorts :: "i64 list" where
  "FallbackPorts = [9998, 9997, 9996, 8888, 7777]"

text \<open>\<^verbatim>\<open>OutputMode\<close> is a string type with three named values.\<close>

type_synonym output_mode = string

definition OutputModeDashboard :: output_mode where "OutputModeDashboard = ''dashboard''"
definition OutputModeELK :: output_mode where "OutputModeELK = ''elk''"
definition OutputModeBoth :: output_mode where "OutputModeBoth = ''both''"

lemmas output_mode_defs = OutputModeDashboard_def OutputModeELK_def OutputModeBoth_def

record elk_config =
  elkEnabled :: bool
  elkAddresses :: "string list"
  elkIndex :: string
  elkUsername :: string
  elkPassword :: string
  elkUseTLS :: bool
  elkSkipVerify :: bool
  elkBatchSize :: i64
  elkFlushInterval :: i64

definition DefaultELKConfig :: elk_config where
  "DefaultELKConfig = \<lparr>
     elkEnabled = False,
     elkAddresses = [''http://localhost:9200''],
     elkIndex = ''phantom-grid'',
     elkUsername = '''',
     elkPassword = '''',
     elkUseTLS = False,
     elkSkipVerify = False,
     elkBatchSize = 100,
     elkFlushInterval = 5\<rparr>"

section \<open>ports.go\<close>

record port_definition =
  Port :: i64
  Name :: string
  Description :: string
  Category :: string
  Alias :: string

definition port_def :: "i64 \<Rightarrow> string \<Rightarrow> string \<Rightarrow> string \<Rightarrow> string \<Rightarrow> port_definition" where
  "port_def p n d c a = \<lparr>Port = p, Name = n, Description = d, Category = c, Alias = a\<rparr>"

definition CategoryCore :: string where "CategoryCore = ''core''"
definition CategoryDatabase :: string where "CategoryDatabase = ''database''"
definition CategoryAdmin :: string where "CategoryAdmin = ''admin''"
definition CategoryRemote :: string where "CategoryRemote = ''remote''"
definition CategoryContainer :: string where "CategoryContainer = ''container''"
definition CategoryApplication :: string where "CategoryApplication = ''application''"
definition CategoryDirectory :: string where "CategoryDirectory = ''directory''"
definition CategoryCache :: string where "CategoryCache = ''cache''"
definition CategoryFile :: string where "CategoryFile = ''file''"
definition CategoryMessaging :: string where "CategoryMessaging = ''messaging''"

definition CriticalPortDefinitions :: "port_definition list" where
  "CriticalPortDefinitions = [
    port_def 21 ''FTP'' ''File Transfer Protocol'' CategoryFile ''FTP_PORT'',
    port_def 22 ''SSH'' ''Secure Shell'' CategoryCore ''SSH_PORT'']"

definition FakePortDefinitions :: "port_definition list" where
  "FakePortDefinitions = [
    port_def 80 ''HTTP'' ''HTTP Web Server'' CategoryApplication ''HTTP_PORT'',
    port_def 443 ''HTTPS'' ''HTTPS Web Server'' CategoryApplication ''HTTPS_PORT'',
    port_def 3306 ''MySQL Fake'' ''MySQL (fake honeypot)'' CategoryDatabase ''MYSQL_FAKE_PORT'',
    port_def 5432 ''PostgreSQL Fake'' ''PostgreSQL (fake honeypot)'' CategoryDatabase ''POSTGRES_FAKE_PORT'',
    port_def 6379 ''Redis Fake'' ''Redis (fake honeypot)'' CategoryDatabase ''REDIS_FAKE_PORT'',
    port_def 27017 ''MongoDB Fake'' ''MongoDB (fake honeypot)'' CategoryDatabase ''MONGODB_FAKE_PORT'',
    port_def 8080 ''Admin Panel Fake'' ''Admin Panel (fake)'' CategoryAdmin ''ADMIN_PANEL_FAKE_PORT'',
    port_def 8443 ''HTTPS Alt Fake'' ''HTTPS Alternative (fake)'' CategoryAdmin ''HTTPS_ALT_FAKE_PORT'',
    port_def 9000 ''Admin Panel Fake 2'' ''Admin Panel (fake)'' CategoryAdmin ''ADMIN_PANEL_FAKE_PORT_2'',
    port_def 21 ''FTP'' ''FTP Server'' CategoryFile ''FTP_PORT'',
    port_def 23 ''Telnet'' ''Telnet Server'' CategoryRemote ''TELNET_PORT'',
    port_def 3389 ''RDP Fake'' ''RDP (fake honeypot)'' CategoryRemote ''RDP_FAKE_PORT'',
    port_def 5900 ''VNC'' ''VNC Server'' CategoryRemote ''VNC_PORT'',
    port_def 1433 ''MSSQL Fake'' ''MSSQL (fake honeypot)'' CategoryDatabase ''MSSQL_FAKE_PORT'',
    port_def 1521 ''Oracle Fake'' ''Oracle (fake honeypot)'' CategoryDatabase ''ORACLE_FAKE_PORT'',
    port_def 5433 ''PostgreSQL Alt Fake'' ''PostgreSQL Alternative (fake)'' CategoryDatabase ''POSTGRES_ALT_FAKE_PORT'',
    port_def 11211 ''Memcached Fake'' ''Memcached (fake)'' CategoryCache ''MEMCACHED_FAKE_PORT'',
    port_def 27018 ''MongoDB Shard Fake'' ''MongoDB Shard (fake)'' CategoryDatabase ''MONGODB_SHARD_FAKE_PORT'',
    port_def 9200 ''Elasticsearch Fake'' ''Elasticsearch (fake)'' CategoryAdmin ''ELASTICSEARCH_FAKE_PORT'',
    port_def 5601 ''Kibana Fake'' ''Kibana (fake)'' CategoryAdmin ''KIBANA_FAKE_PORT'',
    port_def 3000 ''Node.js Fake'' ''Node.js (fake)'' CategoryApplication ''NODEJS_FAKE_PORT'',
    port_def 5000 ''Flask Fake'' ''Flask (fake)'' CategoryApplication ''FLASK_FAKE_PORT'',
    port_def 8000 ''Django Fake'' ''Django (fake)'' CategoryApplication ''DJANGO_FAKE_PORT'',
    port_def 8888 ''Jupyter Fake'' ''Jupyter (fake)'' CategoryApplication ''JUPYTER_FAKE_PORT'']"

definition GetCriticalPorts :: "i64 list" where
  "GetCriticalPorts = map Port CriticalPortDefinitions"

definition GetFakePorts :: "i64 list" where
  "GetFakePorts = map Port FakePortDefinitions"

definition CriticalPorts :: "i64 list" where "CriticalPorts = GetCriticalPorts"
definition FakePorts :: "i64 list" where "FakePorts = GetFakePorts"

definition find_port :: "i64 \<Rightarrow> port_definition list \<Rightarrow> port_definition option" where
  "find_port p ds = find (\<lambda>d. Port d = p) ds"

definition FindPortDefinition :: "i64 \<Rightarrow> port_definition option" where
  "FindPortDefinition p =
     (case find_port p CriticalPortDefinitions of
        Some d \<Rightarrow> Some d
      | None \<Rightarrow> find_port p FakePortDefinitions)"

datatype port_error = DuplicateCriticalPort i64 string | InvalidPortRange i64 string

text \<open>The two loops of \<^verbatim>\<open>ValidatePorts\<close>; \<open>seen\<close> holds the keys set to true so far.\<close>

fun check_duplicates :: "i64 set \<Rightarrow> port_definition list \<Rightarrow> port_error + unit" where
  "check_duplicates seen [] = Inr ()"
| "check_duplicates seen (d # ds) =
     (if Port d \<in> seen then Inl (DuplicateCriticalPort (Port d) (Name d))
      else check_duplicates (insert (Port d) seen) ds)"

fun check_ranges :: "port_definition list \<Rightarrow> port_error + unit" where
  "check_ranges [] = Inr ()"
| "check_ranges (d # ds) =
     (if Port d <s 1 \<or> 65535 <s Port d then Inl (InvalidPortRange (Port d) (Name d))
      else check_ranges ds)"

definition validate_ports :: "port_definition list \<Rightarrow> port_error + unit" where
  "validate_ports ds =
     (case check_duplicates {} ds of
        Inl e \<Rightarrow> Inl e
      | Inr _ \<Rightarrow> check_ranges ds)"

definition ValidatePorts :: "port_error + unit" where
  "ValidatePorts = validate_ports CriticalPortDefinitions"

section \<open>constants.go\<close>

record ebpf_constants =
  cHoneypotPort :: i64
  cSSHPort :: i64
  cSPAMagicPort :: i64
  cSPASecretToken :: string
  cSPATokenLen :: i64
  cSPAWhitelistDuration :: i64
  cTTLWindows :: i64
  cTTLLinux :: i64
  cTTLFreeBSD :: i64
  cTTLSolaris :: i64
  cWindowWindows :: i64
  cWindowLinux :: i64
  cWindowFreeBSD :: i64
  cMaxPayloadScan :: i64

definition GetEBPFConstants :: ebpf_constants where
  "GetEBPFConstants = \<lparr>
     cHoneypotPort = HoneypotPort,
     cSSHPort = SSHPort,
     cSPAMagicPort = SPAMagicPort,
     cSPASecretToken = SPASecretToken,
     cSPATokenLen = SPATokenLen,
     cSPAWhitelistDuration = SPAWhitelistDuration,
     cTTLWindows = 128,
     cTTLLinux = 64,
     cTTLFreeBSD = 64,
     cTTLSolaris = 255,
     cWindowWindows = 65535,
     cWindowLinux = 29200,
     cWindowFreeBSD = 65535,
     cMaxPayloadScan = 512\<rparr>"

section \<open>spa.go\<close>

text \<open>\<^verbatim>\<open>SPAMode\<close> is a string type; a configuration can hold any string.\<close>

type_synonym spa_mode = string

definition SPAModeStatic :: spa_mode where "SPAModeStatic = ''static''"
definition SPAModeDynamic :: spa_mode where "SPAModeDynamic = ''dynamic''"
definition SPAModeAsymmetric :: spa_mode where "SPAModeAsymmetric = ''asymmetric''"

lemmas spa_mode_defs = SPAModeStatic_def SPAModeDynamic_def SPAModeAsymmetric_def

record spa_config =
  Mode :: spa_mode
  TOTPTimeStep :: i64
  TOTPTolerance :: i64
  TOTPSecret :: bytes
  PublicKey :: bytes
  PrivateKey :: bytes
  PublicKeys :: "bytes list"
  HMACSecret :: bytes
  HMACSecrets :: "bytes list"
  TOTPSecrets :: "bytes list"
  ReplayWindowSeconds :: i64
  MaxReplayEntries :: i64
  EnableObfuscation :: bool
  ObfuscationKey :: bytes

text \<open>The argument is what \<^verbatim>\<open>rand.Read\<close> put into the 32-byte secret, \<open>None\<close> if it failed.\<close>

definition DefaultDynamicSPAConfig :: "bytes option \<Rightarrow> spa_config" where
  "DefaultDynamicSPAConfig rnd = \<lparr>
     Mode = SPAModeAsymmetric,
     TOTPTimeStep = 30,
     TOTPTolerance = 1,
     TOTPSecret = (case rnd of
         Some b \<Rightarrow> b
       | None \<Rightarrow> bytes_of_string ''PHANTOM_GRID_TOTP_SECRET_2025_DEFAULT''),
     PublicKey = [], PrivateKey = [], PublicKeys = [],
     HMACSecret = [], HMACSecrets = [], TOTPSecrets = [],
     ReplayWindowSeconds = 60,
     MaxReplayEntries = 1000,
     EnableObfuscation = True,
     ObfuscationKey = []\<rparr>"

text \<open>The files the program reads and writes: path to contents, \<open>None\<close> where a read fails.\<close>

type_synonym file_system = "string \<Rightarrow> bytes option"

datatype key_error =
    ReadPublicKey
  | InvalidPublicKeySize nat
  | ReadPrivateKey
  | InvalidPrivateKeySize nat
  | NoKeyPath

definition load_public :: "file_system \<Rightarrow> string \<Rightarrow> key_error + bytes option" where
  "load_public fs path =
     (if path = [] then Inr None
      else case fs path of
        None \<Rightarrow> Inl ReadPublicKey
      | Some raw \<Rightarrow>
          (let d = bytes_trim_space raw
           in if length d \<noteq> 32 then Inl (InvalidPublicKeySize (length d)) else Inr (Some d)))"

definition load_private :: "file_system \<Rightarrow> string \<Rightarrow> key_error + bytes option" where
  "load_private fs path =
     (if path = [] then Inr None
      else case fs path of
        None \<Rightarrow> Inl ReadPrivateKey
      | Some raw \<Rightarrow>
          (let d = bytes_trim_space raw
           in if length d \<noteq> 64 then Inl (InvalidPrivateKeySize (length d)) else Inr (Some d)))"

definition LoadKeysFromFile ::
    "file_system \<Rightarrow> string \<Rightarrow> string \<Rightarrow> key_error + (bytes option \<times> bytes option)" where
  "LoadKeysFromFile fs publicKeyPath privateKeyPath =
     (case load_public fs publicKeyPath of
        Inl e \<Rightarrow> Inl e
      | Inr pub \<Rightarrow>
          (case load_private fs privateKeyPath of
             Inl e \<Rightarrow> Inl e
           | Inr priv \<Rightarrow>
               (let pub' = (case (pub, priv) of (None, Some sk) \<Rightarrow> Some (ed_public sk) | _ \<Rightarrow> pub)
                in if pub' = None \<and> priv = None then Inl NoKeyPath else Inr (pub', priv))))"

definition LoadPrivateKeyFromFile :: "file_system \<Rightarrow> string \<Rightarrow> key_error + bytes option" where
  "LoadPrivateKeyFromFile fs path = map_sum id snd (LoadKeysFromFile fs [] path)"

text \<open>
  Saving: \<open>mkdir_ok\<close> and \<open>write_ok\<close> say which of the system calls succeed; the result is the
  files afterwards, with the error if there was one.
\<close>

datatype save_error = MkdirFailed | WritePublicFailed | WritePrivateFailed

definition SaveKeysToFile ::
    "bool \<Rightarrow> (string \<Rightarrow> bool) \<Rightarrow> bytes \<Rightarrow> bytes \<Rightarrow> string \<Rightarrow> file_system
       \<Rightarrow> file_system \<times> (save_error + unit)" where
  "SaveKeysToFile mkdir_ok write_ok pub priv keyDir fs =
     (let pubPath = path_join keyDir ''spa_public.key'';
          privPath = path_join keyDir ''spa_private.key''
      in if \<not> mkdir_ok then (fs, Inl MkdirFailed)
         else if \<not> write_ok pubPath then (fs, Inl WritePublicFailed)
         else (let fs1 = fs(pubPath \<mapsto> pub)
               in if \<not> write_ok privPath then (fs1, Inl WritePrivateFailed)
                  else (fs1(privPath \<mapsto> priv), Inr ())))"

text \<open>The argument is the value of the environment variable, empty when it is not set.\<close>

definition GetSPAMode :: "string \<Rightarrow> spa_mode" where
  "GetSPAMode mode =
     (if mode \<noteq> [] \<and> (mode = SPAModeStatic \<or> mode = SPAModeDynamic \<or> mode = SPAModeAsymmetric)
      then mode else SPAModeAsymmetric)"

section \<open>Lemmas\<close>

lemma check_duplicates_ok:
  "check_duplicates seen ds = Inr () \<longleftrightarrow> distinct (map Port ds) \<and> Port ` set ds \<inter> seen = {}"
  by (induction ds arbitrary: seen) auto

lemma check_ranges_ok:
  "check_ranges ds = Inr () \<longleftrightarrow> (\<forall>d \<in> set ds. 1 \<le> sint (Port d) \<and> sint (Port d) \<le> 65535)"
  by (induction ds) (auto simp: word_sless_alt not_less)

lemma validate_ports_ok:
  "validate_ports ds = Inr () \<longleftrightarrow>
     distinct (map Port ds) \<and> (\<forall>d \<in> set ds. 1 \<le> sint (Port d) \<and> sint (Port d) \<le> 65535)"
  using check_duplicates_ok [of "{}" ds] check_ranges_ok [of ds]
  by (auto simp: validate_ports_def split: sum.split)

lemma find_port_SomeD: "find_port p ds = Some d \<Longrightarrow> d \<in> set ds \<and> Port d = p"
  by (auto simp: find_port_def find_Some_iff)

lemma find_port_None: "find_port p ds = None \<longleftrightarrow> p \<notin> Port ` set ds"
  by (auto simp: find_port_def find_None_iff)

text \<open>Whether a key survives the \<^verbatim>\<open>TrimSpace\<close> of the loader: no white space at either end.\<close>

definition key_file_ok :: "bytes \<Rightarrow> bool" where
  "key_file_ok k \<longleftrightarrow>
     leading space_encodings k = None \<and> leading (map rev space_encodings) (rev k) = None"

lemma trim_key: "key_file_ok k \<Longrightarrow> bytes_trim_space k = k"
  by (simp add: key_file_ok_def bytes_trim_space_def trim_space_id)

lemma trim_key_length: "length (bytes_trim_space k) = length k \<longleftrightarrow> key_file_ok k"
  by (simp add: key_file_ok_def bytes_trim_space_def trim_space_length_iff)

lemma key_paths:
  "path_join d ''spa_public.key'' \<noteq> path_join d ''spa_private.key''"
  "path_join d ''spa_public.key'' \<noteq> []" "path_join d ''spa_private.key'' \<noteq> []"
proof -
  obtain p where p: "path_join d ''spa_public.key'' = p @ ''spa_public.key''"
    using path_join_suffix [of "''spa_public.key''" d] by auto
  obtain q where q: "path_join d ''spa_private.key'' = q @ ''spa_private.key''"
    using path_join_suffix [of "''spa_private.key''" d] by auto
  have "rev (p @ ''spa_public.key'') \<noteq> rev (q @ ''spa_private.key'')" by simp
  then show "path_join d ''spa_public.key'' \<noteq> path_join d ''spa_private.key''"
    using p q by metis
  show "path_join d ''spa_public.key'' \<noteq> []" "path_join d ''spa_private.key'' \<noteq> []"
    using p q by simp_all
qed
text \<open>C17. A key pair that \<^verbatim>\<open>SaveKeysToFile\<close> has written is read back by
  \<^verbatim>\<open>LoadKeysFromFile\<close> exactly when neither key begins or ends with the encoding of a white
  space character: the loader trims the raw key bytes.\<close>

theorem load_after_save:
  assumes "length pk = 32" and "length sk = 64"
    and "SaveKeysToFile mk wr pk sk dir fs = (fs', Inr ())"
  shows "LoadKeysFromFile fs' (path_join dir ''spa_public.key'') (path_join dir ''spa_private.key'')
           = Inr (Some pk, Some sk) \<longleftrightarrow> key_file_ok pk \<and> key_file_ok sk"
proof -
  let ?P = "path_join dir ''spa_public.key''" and ?S = "path_join dir ''spa_private.key''"
  have fs': "fs' ?P = Some pk" "fs' ?S = Some sk"
    using assms(3) key_paths(1) [of dir]
    by (auto simp: SaveKeysToFile_def Let_def split: if_splits)
  show ?thesis
    using fs' key_paths [of dir] assms(1,2) trim_key [of pk] trim_key [of sk]
      trim_key_length [of pk] trim_key_length [of sk]
    by (auto simp: LoadKeysFromFile_def load_public_def load_private_def Let_def split: if_splits)
qed

definition key_bytes :: "nat \<Rightarrow> bytes" where
  "key_bytes n = replicate n 1"

lemma key_bytes_ok: "key_file_ok (key_bytes 32)" "key_file_ok (key_bytes 64)"
  by (simp_all add: key_bytes_def key_file_ok_def leading_def space_encodings_def)

text \<open>A key whose first byte is a blank cannot be read back.\<close>

lemma blank_key_not_ok: "\<not> key_file_ok (0x20 # key_bytes 31)"
  by (simp add: key_file_ok_def leading_def space_encodings_def)

lemma load_after_save_witness:
  "(let fs' = fst (SaveKeysToFile True (\<lambda>_. True) (0x20 # key_bytes 31) (key_bytes 64) ''keys'' (\<lambda>_. None))
    in LoadKeysFromFile fs' (path_join ''keys'' ''spa_public.key'') (path_join ''keys'' ''spa_private.key'')
         \<noteq> Inr (Some (0x20 # key_bytes 31), Some (key_bytes 64)))"
proof -
  obtain fs' where fs': "SaveKeysToFile True (\<lambda>_. True) (0x20 # key_bytes 31) (key_bytes 64) ''keys''
      (\<lambda>_. None) = (fs', Inr ())"
    by (simp add: SaveKeysToFile_def Let_def)
  show ?thesis
    using load_after_save [OF _ _ fs'] fs' blank_key_not_ok
    by (simp add: key_bytes_def)
qed

end
