(* ===== verification/MapLoader.thy ===== *)
theory MapLoader
  imports Config GoLib "HOL-Library.Multiset"
begin

text \<open>
  \<^verbatim>\<open>internal/spa/map_loader.go\<close>: the user-space side of the kernel's maps, and
  \<^verbatim>\<open>is_spa_whitelisted\<close> of \<^verbatim>\<open>internal/ebpf/programs/phantom.c\<close>, which reads the map
  that \<^verbatim>\<open>WhitelistIP\<close> writes. The maps belong to the kernel and are reached through
  \<^verbatim>\<open>github.com/cilium/ebpf\<close>: their operations are the parameter \<open>ops\<close>, on a state of any
  type. That library turns an integer key or value into bytes in the order of the host, the
  parameter \<open>le\<close> (true on a little-endian host).
\<close>

section \<open>Kernel maps\<close>

record 'm bpf_ops =
  bpf_lookup :: "'m \<Rightarrow> bytes \<Rightarrow> bytes option"
  bpf_put :: "'m \<Rightarrow> bytes \<Rightarrow> bytes \<Rightarrow> 'm option"
  bpf_delete :: "'m \<Rightarrow> bytes \<Rightarrow> 'm option"

text \<open>A put that succeeds stores the pair and may evict other keys of an LRU map; a delete that
  succeeds removes its key only.\<close>

definition bpf_laws :: "'m bpf_ops \<Rightarrow> bool" where
  "bpf_laws ops \<longleftrightarrow>
     (\<forall>m k v m'. bpf_put ops m k v = Some m' \<longrightarrow>
        bpf_lookup ops m' k = Some v \<and>
        (\<forall>j. j \<noteq> k \<longrightarrow> bpf_lookup ops m' j = None \<or> bpf_lookup ops m' j = bpf_lookup ops m j)) \<and>
     (\<forall>m k m'. bpf_delete ops m k = Some m' \<longrightarrow>
        bpf_lookup ops m' k = None \<and> (\<forall>j. j \<noteq> k \<longrightarrow> bpf_lookup ops m' j = bpf_lookup ops m j))"

text \<open>An array map: the keys are fixed, nothing is evicted.\<close>

definition bpf_array_laws :: "'m bpf_ops \<Rightarrow> bool" where
  "bpf_array_laws ops \<longleftrightarrow>
     (\<forall>m k v m'. bpf_put ops m k v = Some m' \<longrightarrow>
        bpf_lookup ops m' k = Some v \<and> (\<forall>j. j \<noteq> k \<longrightarrow> bpf_lookup ops m' j = bpf_lookup ops m j))"

text \<open>A map that holds everything, for the examples.\<close>

definition plain_map :: "(bytes \<Rightarrow> bytes option) bpf_ops" where
  "plain_map = \<lparr>
     bpf_lookup = (\<lambda>m k. m k),
     bpf_put = (\<lambda>m k v. Some (m(k \<mapsto> v))),
     bpf_delete = (\<lambda>m k. if m k = None then None else Some (m(k := None)))\<rparr>"

lemma plain_map_laws: "bpf_laws plain_map" "bpf_array_laws plain_map"
  by (auto simp: bpf_laws_def bpf_array_laws_def plain_map_def)

section \<open>Integers in host order\<close>

definition native_u32 :: "bool \<Rightarrow> u32 \<Rightarrow> bytes" where
  "native_u32 le w = (if le then rev (put_be32 w) else put_be32 w)"

definition native_u64 :: "bool \<Rightarrow> u64 \<Rightarrow> bytes" where
  "native_u64 le w = (if le then rev (put_be64 w) else put_be64 w)"

definition read_u64 :: "bool \<Rightarrow> bytes \<Rightarrow> u64" where
  "read_u64 le bs = (if le then get_be64 (rev bs) else get_be64 bs)"

lemma read_native_u64 [simp]: "read_u64 le (native_u64 le w) = w"
  by (simp add: read_u64_def native_u64_def)

lemma native_u32_inj: "native_u32 le v = native_u32 le w \<longleftrightarrow> v = w"
  by (metis get_put_be32 native_u32_def rev_rev_ident)

section \<open>The loader\<close>

text \<open>A \<open>None\<close> field is a nil map pointer.\<close>

record 'm map_loader =
  whitelistMap :: "'m option"
  replayMap :: "'m option"
  totpSecretMap :: "'m option"
  hmacSecretMap :: "'m option"
  configMap :: "'m option"

definition NewMapLoader ::
    "'m option \<Rightarrow> 'm option \<Rightarrow> 'm option \<Rightarrow> 'm option \<Rightarrow> 'm option \<Rightarrow> 'm map_loader" where
  "NewMapLoader w r t h c = \<lparr>whitelistMap = w, replayMap = r, totpSecretMap = t,
     hmacSecretMap = h, configMap = c\<rparr>"

datatype map_error =
    MapUnavailable
  | InvalidIPv4 net_ip
  | MapOpFailed
  | SecretTooLong nat
  | LoadTOTPFailed map_error
  | LoadHMACFailed map_error

section \<open>The whitelist\<close>

text \<open>
  What \<^verbatim>\<open>getUptimeSeconds\<close> and the conversion \<^verbatim>\<open>uint64(uptimeSeconds * 1e9)\<close> of its result give is the
  argument \<open>uptimeNs\<close>, \<open>None\<close> when reading \<^verbatim>\<open>/proc/uptime\<close> failed; the theory \<open>Uptime\<close> computes it.
\<close>

definition whitelist_expiry :: "u64 option \<Rightarrow> i64 \<Rightarrow> u64" where
  "whitelist_expiry uptimeNs durationSeconds =
     (let durationNs = durationSeconds * 1000000000
      in case uptimeNs of
           None \<Rightarrow> 1000000000000000000 + durationNs
         | Some t \<Rightarrow> t + durationNs + 1000000000)"

definition WhitelistIP ::
    "'m bpf_ops \<Rightarrow> bool \<Rightarrow> 'm map_loader \<Rightarrow> net_ip \<Rightarrow> i64 \<Rightarrow> u64 option
       \<Rightarrow> 'm map_loader \<times> (map_error + unit)" where
  "WhitelistIP ops le ml ip durationSeconds uptimeNs =
     (case whitelistMap ml of
        None \<Rightarrow> (ml, Inl MapUnavailable)
      | Some m \<Rightarrow>
          (case ip_to4 ip of
             None \<Rightarrow> (ml, Inl (InvalidIPv4 ip))
           | Some ipv4 \<Rightarrow>
               (case bpf_put ops m (native_u32 le (get_be32 ipv4))
                       (native_u64 le (whitelist_expiry uptimeNs durationSeconds)) of
                  None \<Rightarrow> (ml, Inl MapOpFailed)
                | Some m' \<Rightarrow> (ml\<lparr>whitelistMap := Some m'\<rparr>, Inr ()))))"

definition RemoveWhitelistIP ::
    "'m bpf_ops \<Rightarrow> bool \<Rightarrow> 'm map_loader \<Rightarrow> net_ip \<Rightarrow> 'm map_loader \<times> (map_error + unit)" where
  "RemoveWhitelistIP ops le ml ip =
     (case whitelistMap ml of
        None \<Rightarrow> (ml, Inl MapUnavailable)
      | Some m \<Rightarrow>
          (case ip_to4 ip of
             None \<Rightarrow> (ml, Inl (InvalidIPv4 ip))
           | Some ipv4 \<Rightarrow>
               (case bpf_delete ops m (native_u32 le (get_be32 ipv4)) of
                  None \<Rightarrow> (ml, Inl MapOpFailed)
                | Some m' \<Rightarrow> (ml\<lparr>whitelistMap := Some m'\<rparr>, Inr ()))))"

section \<open>Secrets and configuration\<close>

text \<open>The loop over the bytes; an error leaves the bytes already stored in the map.\<close>

fun put_bytes :: "'m bpf_ops \<Rightarrow> bool \<Rightarrow> 'm \<Rightarrow> nat \<Rightarrow> bytes \<Rightarrow> 'm \<times> (map_error + unit)" where
  "put_bytes ops le m i [] = (m, Inr ())"
| "put_bytes ops le m i (b # bs) =
     (case bpf_put ops m (native_u32 le (word_of_nat i)) [b] of
        None \<Rightarrow> (m, Inl MapOpFailed)
      | Some m' \<Rightarrow> put_bytes ops le m' (Suc i) bs)"

definition load_secret :: "'m bpf_ops \<Rightarrow> bool \<Rightarrow> 'm \<Rightarrow> bytes \<Rightarrow> 'm \<times> (map_error + unit)" where
  "load_secret ops le m secret =
     (if 32 < length secret then (m, Inl (SecretTooLong (length secret)))
      else put_bytes ops le m 0 secret)"

text \<open>Both take the map they load, which is not nil where they are called.\<close>

definition loadTOTPSecret :: "'m bpf_ops \<Rightarrow> bool \<Rightarrow> 'm \<Rightarrow> bytes \<Rightarrow> 'm \<times> (map_error + unit)" where
  "loadTOTPSecret ops le totpMap secret = load_secret ops le totpMap secret"

definition loadHMACSecret :: "'m bpf_ops \<Rightarrow> bool \<Rightarrow> 'm \<Rightarrow> bytes \<Rightarrow> 'm \<times> (map_error + unit)" where
  "loadHMACSecret ops le hmacMap secret = load_secret ops le hmacMap secret"

definition getSPAModeValue :: "spa_mode \<Rightarrow> u32" where
  "getSPAModeValue mode =
     (if mode = SPAModeStatic then 0
      else if mode = SPAModeDynamic then 1
      else if mode = SPAModeAsymmetric then 2
      else 0)"

definition config_values :: "spa_config \<Rightarrow> (u32 \<times> u32) list" where
  "config_values cfg =
     [(0, ucast (TOTPTimeStep cfg)), (1, ucast (TOTPTolerance cfg)),
      (2, ucast (ReplayWindowSeconds cfg)), (3, getSPAModeValue (Mode cfg))]"

fun put_values :: "'m bpf_ops \<Rightarrow> bool \<Rightarrow> 'm \<Rightarrow> (u32 \<times> u32) list \<Rightarrow> 'm \<times> (map_error + unit)" where
  "put_values ops le m [] = (m, Inr ())"
| "put_values ops le m ((k, v) # kvs) =
     (case bpf_put ops m (native_u32 le k) (native_u32 le v) of
        None \<Rightarrow> (m, Inl MapOpFailed)
      | Some m' \<Rightarrow> put_values ops le m' kvs)"

text \<open>A secret is loaded when its map is there and the secret is not empty.\<close>

definition load_if ::
    "('m \<Rightarrow> bytes \<Rightarrow> 'm \<times> (map_error + unit)) \<Rightarrow> (map_error \<Rightarrow> map_error) \<Rightarrow> 'm option \<Rightarrow> bytes
       \<Rightarrow> 'm option \<times> (map_error + unit)" where
  "load_if load wrap mp secret =
     (case mp of
        None \<Rightarrow> (None, Inr ())
      | Some m \<Rightarrow>
          (if secret = [] then (Some m, Inr ())
           else (case load m secret of (m', r) \<Rightarrow> (Some m', map_sum wrap id r))))"

text \<open>The range over the Go map visits the pairs in an order the run-time chooses: \<open>order\<close> is that
  order.\<close>

definition LoadConfiguration ::
    "'m bpf_ops \<Rightarrow> bool \<Rightarrow> ((u32 \<times> u32) list \<Rightarrow> (u32 \<times> u32) list) \<Rightarrow> 'm map_loader \<Rightarrow> spa_config
       \<Rightarrow> 'm map_loader \<times> (map_error + unit)" where
  "LoadConfiguration ops le order ml cfg =
     (case configMap ml of
        None \<Rightarrow> (ml, Inl MapUnavailable)
      | Some cm \<Rightarrow>
          (case load_if (loadTOTPSecret ops le) LoadTOTPFailed (totpSecretMap ml) (TOTPSecret cfg) of
             (t, Inl e) \<Rightarrow> (ml\<lparr>totpSecretMap := t\<rparr>, Inl e)
           | (t, Inr _) \<Rightarrow>
               (case load_if (loadHMACSecret ops le) LoadHMACFailed (hmacSecretMap ml) (HMACSecret cfg) of
                  (h, Inl e) \<Rightarrow> (ml\<lparr>totpSecretMap := t, hmacSecretMap := h\<rparr>, Inl e)
                | (h, Inr _) \<Rightarrow>
                    (case put_values ops le cm (order (config_values cfg)) of
                       (cm', r) \<Rightarrow>
                         (ml\<lparr>totpSecretMap := t, hmacSecretMap := h, configMap := Some cm'\<rparr>, r)))))"

section \<open>What is in the maps afterwards\<close>

text \<open>A put writes what was asked for, on an array map and nothing else.\<close>

lemma bpf_put_same: "bpf_laws ops \<Longrightarrow> bpf_put ops m k v = Some m' \<Longrightarrow> bpf_lookup ops m' k = Some v"
  by (auto simp: bpf_laws_def)

lemma array_put:
  "bpf_array_laws ops \<Longrightarrow> bpf_put ops m k v = Some m' \<Longrightarrow>
     bpf_lookup ops m' j = (if j = k then Some v else bpf_lookup ops m j)"
  by (auto simp: bpf_array_laws_def)

text \<open>A put that failed ends the loop, so a loop that succeeded did every put.\<close>

lemma put_values_Cons:
  "put_values ops le m ((k, v) # kvs) = (m', Inr ()) \<longleftrightarrow>
     (\<exists>m1. bpf_put ops m (native_u32 le k) (native_u32 le v) = Some m1 \<and>
           put_values ops le m1 kvs = (m', Inr ()))"
  by (auto split: option.splits)

lemma put_bytes_Cons:
  "put_bytes ops le m i (b # bs) = (m', Inr ()) \<longleftrightarrow>
     (\<exists>m1. bpf_put ops m (native_u32 le (word_of_nat i)) [b] = Some m1 \<and>
           put_bytes ops le m1 (Suc i) bs = (m', Inr ()))"
  by (auto split: option.splits)

lemma put_values_other:
  assumes "bpf_array_laws ops"
  shows "put_values ops le m kvs = (m', Inr ()) \<Longrightarrow> k \<notin> fst ` set kvs \<Longrightarrow>
    bpf_lookup ops m' (native_u32 le k) = bpf_lookup ops m (native_u32 le k)"
proof (induction kvs arbitrary: m)
  case (Cons kv kvs)
  then show ?case
    by (cases kv) (auto simp: put_values_Cons array_put [OF assms] native_u32_inj simp del: put_values.simps)
qed simp

lemma put_values_lookup:
  assumes "bpf_array_laws ops"
  shows "put_values ops le m kvs = (m', Inr ()) \<Longrightarrow> distinct (map fst kvs) \<Longrightarrow> (k, v) \<in> set kvs \<Longrightarrow>
    bpf_lookup ops m' (native_u32 le k) = Some (native_u32 le v)"
proof (induction kvs arbitrary: m)
  case (Cons kv kvs)
  obtain j w where kv: "kv = (j, w)" by (cases kv)
  obtain m1 where m1: "bpf_put ops m (native_u32 le j) (native_u32 le w) = Some m1"
    and rest: "put_values ops le m1 kvs = (m', Inr ())"
    using Cons.prems(1) unfolding kv put_values_Cons by blast
  show ?case
  proof (cases "(k, v) = (j, w)")
    case True
    then show ?thesis
      using put_values_other [OF assms rest, of j] Cons.prems(2) array_put [OF assms m1] by (simp add: kv)
  next
    case False
    then show ?thesis using Cons.IH [OF rest] Cons.prems(2,3) by (auto simp: kv)
  qed
qed simp

lemma word_of_nat_32_eq:
  "i < 2 ^ 32 \<Longrightarrow> j < 2 ^ 32 \<Longrightarrow> (word_of_nat i :: u32) = word_of_nat j \<longleftrightarrow> i = j"
  by (simp add: word_of_nat_eq_iff take_bit_eq_mod)

lemma put_bytes_other:
  assumes "bpf_array_laws ops"
  shows "put_bytes ops le m i bs = (m', Inr ()) \<Longrightarrow> i + length bs < 2 ^ 32 \<Longrightarrow> j < i \<Longrightarrow>
    bpf_lookup ops m' (native_u32 le (word_of_nat j)) = bpf_lookup ops m (native_u32 le (word_of_nat j))"
proof (induction bs arbitrary: m i)
  case (Cons b bs)
  then show ?case
    by (auto simp: put_bytes_Cons array_put [OF assms] native_u32_inj word_of_nat_32_eq
        simp del: put_bytes.simps)
qed simp

lemma put_bytes_lookup:
  assumes "bpf_array_laws ops"
  shows "put_bytes ops le m i bs = (m', Inr ()) \<Longrightarrow> i + length bs < 2 ^ 32 \<Longrightarrow> j < length bs \<Longrightarrow>
    bpf_lookup ops m' (native_u32 le (word_of_nat (i + j))) = Some [bs ! j]"
proof (induction bs arbitrary: m i j)
  case (Cons b bs)
  obtain m1 where m1: "bpf_put ops m (native_u32 le (word_of_nat i)) [b] = Some m1"
    and rest: "put_bytes ops le m1 (Suc i) bs = (m', Inr ())"
    using Cons.prems(1) unfolding put_bytes_Cons by blast
  show ?case
  proof (cases j)
    case 0
    then show ?thesis
      using put_bytes_other [OF assms rest, of i] Cons.prems(2) array_put [OF assms m1] by simp
  next
    case (Suc l)
    then show ?thesis using Cons.IH [OF rest, of l] Cons.prems(2,3) by simp
  qed
qed simp

text \<open>Whatever order the run-time visits the settings in, a load that reports success has stored
  all four settings and every byte of the secrets whose maps are there.\<close>

theorem LoadConfiguration_stores:
  assumes "bpf_array_laws ops" and "\<forall>xs. mset (order xs) = mset xs"
    and ok: "LoadConfiguration ops le order ml cfg = (ml', Inr ())"
  shows "(\<exists>cm. configMap ml' = Some cm \<and>
      (\<forall>(k, v) \<in> set (config_values cfg). bpf_lookup ops cm (native_u32 le k) = Some (native_u32 le v)))
    \<and> (\<forall>m. totpSecretMap ml \<noteq> None \<longrightarrow> totpSecretMap ml' = Some m \<longrightarrow>
        length (TOTPSecret cfg) \<le> 32 \<and>
        (\<forall>j < length (TOTPSecret cfg).
           bpf_lookup ops m (native_u32 le (word_of_nat j)) = Some [TOTPSecret cfg ! j]))
    \<and> (\<forall>m. hmacSecretMap ml \<noteq> None \<longrightarrow> hmacSecretMap ml' = Some m \<longrightarrow>
        length (HMACSecret cfg) \<le> 32 \<and>
        (\<forall>j < length (HMACSecret cfg).
           bpf_lookup ops m (native_u32 le (word_of_nat j)) = Some [HMACSecret cfg ! j]))"
proof -
  have secret: "length s \<le> 32 \<and>
      (\<forall>j < length s. bpf_lookup ops m (native_u32 le (word_of_nat j)) = Some [s ! j])"
    if "load_if (load_secret ops le) wrap (Some m0) s = (Some m, Inr ())" for wrap m0 s m
    using that put_bytes_lookup [OF assms(1), of le m0 0 s m]
    by (auto simp: load_if_def load_secret_def split: if_splits prod.splits sum.splits)
       (auto simp: map_sum_def split: sum.splits)
  obtain cm t h cm' where cm: "configMap ml = Some cm"
    and t: "load_if (load_secret ops le) LoadTOTPFailed (totpSecretMap ml) (TOTPSecret cfg) = (t, Inr ())"
    and h: "load_if (load_secret ops le) LoadHMACFailed (hmacSecretMap ml) (HMACSecret cfg) = (h, Inr ())"
    and cm': "put_values ops le cm (order (config_values cfg)) = (cm', Inr ())"
    and ml': "ml' = ml\<lparr>totpSecretMap := t, hmacSecretMap := h, configMap := Some cm'\<rparr>"
    using ok unfolding LoadConfiguration_def loadTOTPSecret_def [abs_def] loadHMACSecret_def [abs_def]
    by (auto split: option.splits prod.splits sum.splits)
  have order: "mset (order (config_values cfg)) = mset (config_values cfg)"
    using assms(2) by blast
  have "distinct (map fst (config_values cfg))" by (simp add: config_values_def)
  then have "distinct (map fst (order (config_values cfg)))"
    using order by (metis mset_eq_imp_distinct_iff mset_map)
  moreover have "set (order (config_values cfg)) = set (config_values cfg)"
    using order by (rule mset_eq_setD)
  ultimately have "\<forall>(k, v) \<in> set (config_values cfg).
      bpf_lookup ops cm' (native_u32 le k) = Some (native_u32 le v)"
    using put_values_lookup [OF assms(1) cm'] by auto
  moreover have "totpSecretMap ml \<noteq> None \<longrightarrow> t = Some m \<longrightarrow> length (TOTPSecret cfg) \<le> 32 \<and>
      (\<forall>j < length (TOTPSecret cfg). bpf_lookup ops m (native_u32 le (word_of_nat j)) = Some [TOTPSecret cfg ! j])" for m
    using secret t by (cases "totpSecretMap ml") auto
  moreover have "hmacSecretMap ml \<noteq> None \<longrightarrow> h = Some m \<longrightarrow> length (HMACSecret cfg) \<le> 32 \<and>
      (\<forall>j < length (HMACSecret cfg). bpf_lookup ops m (native_u32 le (word_of_nat j)) = Some [HMACSecret cfg ! j])" for m
    using secret h by (cases "hmacSecretMap ml") auto
  ultimately show ?thesis by (auto simp: ml')
qed

lemma LoadConfiguration_stores_witness:
  "\<exists>ml cm. LoadConfiguration plain_map True rev
       (NewMapLoader (Some Map.empty) None (Some Map.empty) None (Some Map.empty))
       (DefaultDynamicSPAConfig (Some [1, 2, 3])) = (ml, Inr ())
     \<and> configMap ml = Some cm \<and> cm [0, 0, 0, 0] = Some [30, 0, 0, 0]"
proof -
  let ?ml = "NewMapLoader (Some Map.empty) None (Some Map.empty) None (Some Map.empty)"
  let ?cfg = "DefaultDynamicSPAConfig (Some [1, 2, 3])"
  have "snd (LoadConfiguration plain_map True rev ?ml ?cfg) = Inr ()"
    by (simp add: LoadConfiguration_def NewMapLoader_def load_if_def loadTOTPSecret_def load_secret_def
        plain_map_def DefaultDynamicSPAConfig_def config_values_def)
  then obtain ml where ml: "LoadConfiguration plain_map True rev ?ml ?cfg = (ml, Inr ())"
    by (cases "LoadConfiguration plain_map True rev ?ml ?cfg") simp
  have key: "native_u32 True 0 = [0, 0, 0, 0]" "native_u32 True 30 = [30, 0, 0, 0]"
    by (simp_all add: native_u32_def put_be32_def)
  show ?thesis
    using LoadConfiguration_stores [OF plain_map_laws(2) _ ml] ml
    by (auto simp: config_values_def key plain_map_def DefaultDynamicSPAConfig_def)
qed

end
