(* ===== verification/Gateway.thy ===== *)
theory Gateway
  imports MapLoader
begin

text \<open>
  \<^verbatim>\<open>internal/ebpf/programs/phantom.c\<close>: the XDP program that decides about every frame an
  interface receives. A frame is its bytes; a multi-byte header field is read and written in the
  byte order of the host (\<open>le\<close>, as in the loader), so \<^verbatim>\<open>bpf_htons\<close> is a byte swap on a
  little-endian host. The constants and the two port functions come from generated files; they
  are the record \<open>xdp_consts\<close>, which the theory of the generator fills in.
\<close>

record xdp_consts =
  xHoneypotPort :: u16
  xMagicPort :: u16
  xToken :: bytes
  xWhitelistNs :: u64
  xTTLs :: "byte list"
  xWindows :: "u16 list"
  xCritical :: "u16 \<Rightarrow> bool"
  xFake :: "u16 \<Rightarrow> bool"

text \<open>The kernel's maps: the whitelist and the counters of the one-entry arrays.\<close>

record 'm kernel =
  spa_whitelist :: 'm
  attack_stats :: u64
  stealth_drops :: u64
  os_mutations :: u64
  spa_auth_success :: u64
  spa_auth_failed :: u64

datatype verdict = XDP_PASS | XDP_DROP

section \<open>Header fields\<close>

definition join16 :: "byte \<Rightarrow> byte \<Rightarrow> u16" where
  "join16 hi lo = push_bit 8 (ucast hi) OR ucast lo"

definition load16 :: "bool \<Rightarrow> nat \<Rightarrow> bytes \<Rightarrow> u16" where
  "load16 le i f = (if le then join16 (f ! Suc i) (f ! i) else join16 (f ! i) (f ! Suc i))"

definition hi8 :: "u16 \<Rightarrow> byte" where "hi8 w = ucast (drop_bit 8 w)"
definition lo8 :: "u16 \<Rightarrow> byte" where "lo8 w = ucast w"

definition store16 :: "bool \<Rightarrow> nat \<Rightarrow> u16 \<Rightarrow> bytes \<Rightarrow> bytes" where
  "store16 le i w f =
     (if le then f[i := lo8 w, Suc i := hi8 w] else f[i := hi8 w, Suc i := lo8 w])"

definition swap16 :: "u16 \<Rightarrow> u16" where "swap16 w = join16 (lo8 w) (hi8 w)"

definition bpf_htons :: "bool \<Rightarrow> u16 \<Rightarrow> u16" where
  "bpf_htons le w = (if le then swap16 w else w)"

definition bpf_ntohs :: "bool \<Rightarrow> u16 \<Rightarrow> u16" where
  "bpf_ntohs le w = (if le then swap16 w else w)"

text \<open>Offsets: Ethernet header 14 bytes, IP header without options 20, then TCP 20 or UDP 8.\<close>

definition off_proto :: nat where "off_proto = 12"
definition off_ttl :: nat where "off_ttl = 22"
definition off_protocol :: nat where "off_protocol = 23"
definition off_ip_check :: nat where "off_ip_check = 24"
definition off_saddr :: nat where "off_saddr = 26"
definition off_source :: nat where "off_source = 34"
definition off_dest :: nat where "off_dest = 36"
definition off_flags :: nat where "off_flags = 47"
definition off_window :: nat where "off_window = 48"
definition off_tcp_check :: nat where "off_tcp_check = 50"
definition off_udp_payload :: nat where "off_udp_payload = 42"

lemmas offsets = off_proto_def off_ttl_def off_protocol_def off_ip_check_def off_saddr_def
  off_source_def off_dest_def off_flags_def off_window_def off_tcp_check_def off_udp_payload_def

definition src_addr :: "bytes \<Rightarrow> bytes" where
  "src_addr f = subslice off_saddr (off_saddr + 4) f"

section \<open>Helpers of the program\<close>

definition csum_replace2 :: "u16 \<Rightarrow> u16 \<Rightarrow> u16 \<Rightarrow> u16" where
  "csum_replace2 old_sum old_val new_val =
     (let c0 = NOT (ucast old_sum) AND 0xFFFF :: u32;
          c1 = c0 + ((NOT (ucast old_val) AND 0xFFFF) + (ucast new_val AND 0xFFFF));
          c2 = (c1 AND 0xFFFF) + drop_bit 16 c1;
          c3 = (c2 AND 0xFFFF) + drop_bit 16 c2
      in ucast (NOT c3))"

definition replace_field :: "bool \<Rightarrow> nat \<Rightarrow> u16 \<Rightarrow> u16 \<Rightarrow> bytes \<Rightarrow> bytes" where
  "replace_field le off_check old_val new_val f =
     store16 le off_check (csum_replace2 (load16 le off_check f) old_val new_val) f"

text \<open>The personality by the source port: Windows, Linux, FreeBSD, Solaris; the fourth uses the
  window of Linux.\<close>

definition personality :: "xdp_consts \<Rightarrow> u16 \<Rightarrow> byte \<times> u16" where
  "personality C src_port =
     (let t = unat (src_port mod 4)
      in (xTTLs C ! t, xWindows C ! (if t = 3 then 1 else t)))"

definition mutate_os_personality :: "bool \<Rightarrow> xdp_consts \<Rightarrow> 'm kernel \<Rightarrow> bytes \<Rightarrow> 'm kernel \<times> bytes" where
  "mutate_os_personality le C K f =
     (let (new_ttl, w) = personality C (bpf_ntohs le (load16 le off_source f));
          old_ttl = f ! off_ttl;
          old_window = load16 le off_window f;
          new_window = bpf_htons le w;
          f1 = (if old_ttl \<noteq> new_ttl
                then (replace_field le off_ip_check (bpf_htons le (push_bit 8 (ucast old_ttl)))
                        (bpf_htons le (push_bit 8 (ucast new_ttl))) f)[off_ttl := new_ttl]
                else f);
          f2 = (if old_window \<noteq> new_window
                then store16 le off_window new_window
                       (replace_field le off_tcp_check old_window new_window f1)
                else f1)
      in (K\<lparr>os_mutations := os_mutations K + 1\<rparr>, f2))"

definition is_spa_whitelisted :: "'m bpf_ops \<Rightarrow> bool \<Rightarrow> u64 \<Rightarrow> bytes \<Rightarrow> 'm kernel \<Rightarrow> 'm kernel \<times> bool" where
  "is_spa_whitelisted ops le now src K =
     (case bpf_lookup ops (spa_whitelist K) src of
        None \<Rightarrow> (K, False)
      | Some v \<Rightarrow>
          (if read_u64 le v < now
           then (K\<lparr>spa_whitelist := (case bpf_delete ops (spa_whitelist K) src of
                                      None \<Rightarrow> spa_whitelist K | Some m \<Rightarrow> m)\<rparr>, False)
           else (K, True)))"

text \<open>The constant-time comparison accumulates the differences of all bytes.\<close>

definition verify_magic_packet :: "xdp_consts \<Rightarrow> bytes \<Rightarrow> bool" where
  "verify_magic_packet C payload =
     (length (xToken C) \<le> length payload \<and>
      byte_difference payload (xToken C) = 0)"

definition spa_whitelist_ip :: "'m bpf_ops \<Rightarrow> bool \<Rightarrow> xdp_consts \<Rightarrow> u64 \<Rightarrow> bytes \<Rightarrow> 'm kernel \<Rightarrow> 'm kernel" where
  "spa_whitelist_ip ops le C now src K =
     K\<lparr>spa_whitelist := (case bpf_put ops (spa_whitelist K) src (native_u64 le (now + xWhitelistNs C)) of
                            None \<Rightarrow> spa_whitelist K | Some m \<Rightarrow> m),
       spa_auth_success := spa_auth_success K + 1\<rparr>"

definition is_stealth_scan :: "byte \<Rightarrow> bool" where
  "is_stealth_scan flags =
     (let fin = flags AND 0x01 \<noteq> 0; syn = flags AND 0x02 \<noteq> 0; rst = flags AND 0x04 \<noteq> 0;
          psh = flags AND 0x08 \<noteq> 0; ack = flags AND 0x10 \<noteq> 0; urg = flags AND 0x20 \<noteq> 0
      in fin \<and> urg \<and> psh \<and> \<not> syn \<and> \<not> rst
         \<or> flags = 0
         \<or> fin \<and> \<not> syn \<and> \<not> rst \<and> \<not> psh \<and> \<not> ack \<and> \<not> urg
         \<or> ack \<and> \<not> syn \<and> \<not> fin \<and> \<not> rst)"

section \<open>The program\<close>

definition tcp_filter ::
    "'m bpf_ops \<Rightarrow> bool \<Rightarrow> xdp_consts \<Rightarrow> u64 \<Rightarrow> 'm kernel \<Rightarrow> bytes \<Rightarrow> 'm kernel \<times> bytes \<times> verdict" where
  "tcp_filter ops le C now K f =
     (let dest = load16 le off_dest f in
      if dest = bpf_htons le (xHoneypotPort C) then (K, f, XDP_PASS)
      else if xCritical C (bpf_ntohs le dest) then
        (case is_spa_whitelisted ops le now (src_addr f) K of
           (K1, ok) \<Rightarrow> (K1, f, if ok then XDP_PASS else XDP_DROP))
      else if xFake C (bpf_ntohs le dest) then
        (K\<lparr>attack_stats := attack_stats K + 1\<rparr>, f, XDP_PASS)
      else if is_stealth_scan (f ! off_flags) then
        (K\<lparr>stealth_drops := stealth_drops K + 1\<rparr>, f, XDP_DROP)
      else
        (let K1 = K\<lparr>attack_stats := attack_stats K + 1\<rparr>;
             new_port = bpf_htons le (xHoneypotPort C);
             f1 = store16 le off_dest new_port (replace_field le off_tcp_check dest new_port f)
         in case mutate_os_personality le C K1 f1 of (K2, f2) \<Rightarrow> (K2, f2, XDP_PASS)))"

definition phantom_prog ::
    "'m bpf_ops \<Rightarrow> bool \<Rightarrow> xdp_consts \<Rightarrow> u64 \<Rightarrow> 'm kernel \<Rightarrow> bytes \<Rightarrow> 'm kernel \<times> bytes \<times> verdict" where
  "phantom_prog ops le C now K f =
     (if length f < 14 then (K, f, XDP_PASS)
      else if load16 le off_proto f \<noteq> bpf_htons le 0x0800 then (K, f, XDP_PASS)
      else if length f < 34 then (K, f, XDP_PASS)
      else if f ! off_protocol = 1 then (K, f, XDP_PASS)
      else if f ! off_protocol = 17 then
        (if length f < 42 then (K, f, XDP_PASS)
         else if load16 le off_dest f = bpf_htons le (xMagicPort C) then
           (if verify_magic_packet C (drop off_udp_payload f)
            then (spa_whitelist_ip ops le C now (src_addr f) K, f, XDP_DROP)
            else (K, f, XDP_PASS))
         else (K, f, XDP_PASS))
      else if f ! off_protocol = 6 then
        (if length f < 54 then (K, f, XDP_PASS) else tcp_filter ops le C now K f)
      else (K, f, XDP_PASS))"

section \<open>Byte order\<close>

lemma bit_byte_less: "bit (w :: byte) n \<Longrightarrow> n < 8"
  by (drule bit_imp_le_length) simp

lemma join_halves [simp]: "hi8 (join16 a b) = a" "lo8 (join16 a b) = b" "join16 (hi8 w) (lo8 w) = w"
  by (rule bit_word_eqI, force simp: join16_def hi8_def lo8_def bit_simps dest: bit_byte_less)+

lemma swap16_join16: "swap16 (join16 a b) = join16 b a"
  by (simp add: swap16_def)

lemma swap16_swap16 [simp]: "swap16 (swap16 w) = w"
  by (simp add: swap16_def)

lemma ntohs_htons [simp]: "bpf_ntohs le (bpf_htons le w) = w" "bpf_htons le (bpf_ntohs le w) = w"
  by (simp_all add: bpf_htons_def bpf_ntohs_def)

text \<open>The port field as a number, whatever the host.\<close>

lemma ntohs_load16: "bpf_ntohs le (load16 le i f) = join16 (f ! i) (f ! Suc i)"
  by (simp add: bpf_ntohs_def load16_def swap16_join16)

lemma htons_eq_load16: "load16 le i f = bpf_htons le w \<longleftrightarrow> join16 (f ! i) (f ! Suc i) = w"
  by (metis ntohs_htons ntohs_load16)

section \<open>The incremental checksum\<close>

lemma unat_not: "unat (NOT x) = 2 ^ LENGTH('a) - 1 - unat x" for x :: "'a::len word"
proof -
  have "NOT x = - 1 - x" by (simp add: not_eq_complement)
  then have "unat (NOT x) = unat (- 1 :: 'a word) - unat x" by (simp add: unat_sub)
  then show ?thesis by (simp add: unsigned_minus_1_eq_mask mask_eq_exp_minus_1)
qed

lemma unat_low16: "unat (w AND 0xFFFF :: u32) = unat w mod 65536"
proof -
  have "w AND 0xFFFF = take_bit 16 w" by (simp add: take_bit_eq_mask mask_eq_exp_minus_1)
  then show ?thesis by (simp add: take_bit_eq_mod unat_mod)
qed

lemma unat_u16_less: "unat x < 65536" for x :: u16
proof -
  have "unat x < 2 ^ LENGTH(16)" by (rule unsigned_less)
  then show ?thesis by simp
qed

lemma unat_u16_u32 [simp]: "unat (ucast x :: u32) = unat x" for x :: u16
proof -
  have "unat x < 2 ^ 32" using unat_u16_less [of x] by simp
  then show ?thesis by (simp add: unsigned_ucast_eq take_bit_nat_eq_self)
qed

lemma unat_u32_u16: "unat (ucast w :: u16) = unat w mod 65536" for w :: u32
  by (simp add: unsigned_ucast_eq take_bit_eq_mod)

text \<open>One folding step, on numbers.\<close>

definition fold16 :: "nat \<Rightarrow> nat" where
  "fold16 n = n mod 65536 + n div 65536"

lemma fold16_mod: "fold16 n mod 65535 = n mod 65535"
proof -
  have "n = n div 65536 * 65536 + n mod 65536" by simp
  then have "n mod 65535 = (n div 65536 * 65536 + n mod 65536) mod 65535" by simp
  also have "\<dots> = (n div 65536 * (65536 mod 65535) + n mod 65536) mod 65535"
    by (metis mod_add_left_eq mod_mult_right_eq)
  finally show ?thesis by (simp add: fold16_def add.commute)
qed

lemma fold16_dvd: "65535 dvd int (fold16 (fold16 n)) - int n"
proof -
  have "int (fold16 (fold16 n) mod 65535) = int (n mod 65535)" by (simp only: fold16_mod)
  then have "int (fold16 (fold16 n)) mod 65535 = int n mod 65535" by (simp add: zmod_int)
  then show ?thesis by (simp add: mod_eq_dvd_iff)
qed

lemma fold16_twice: "n < 3 * 65536 \<Longrightarrow> fold16 (fold16 n) < 65536"
proof -
  assume n: "n < 3 * 65536"
  then have "n div 65536 < 3" by (rule less_mult_imp_div_less)
  moreover have "n mod 65536 < 65536" by simp
  ultimately have m: "fold16 n < 65538" unfolding fold16_def by linarith
  show ?thesis
  proof (cases "fold16 n < 65536")
    case True
    then show ?thesis by (simp add: fold16_def [of "fold16 n"])
  next
    case False
    then have "fold16 n = 65536 \<or> fold16 n = 65537" using m by linarith
    then show ?thesis by (auto simp: fold16_def [of "65536"] fold16_def [of "65537"])
  qed
qed

lemma unat_fold: "unat ((w AND 0xFFFF) + drop_bit 16 w :: u32) = fold16 (unat w)"
proof -
  have "unat w mod 65536 < 65536" by simp
  moreover have "unat w div 65536 < 65536"
    using unsigned_less [where w = w] by (intro less_mult_imp_div_less) simp
  ultimately have "unat w mod 65536 + unat w div 65536 < 131072" by linarith
  then have "unat w mod 65536 + unat w div 65536 < 2 ^ 32" by simp
  then show ?thesis
    by (simp add: unat_word_ariths unat_low16 fold16_def unat_drop_bit_eq drop_bit_eq_div)
qed

lemma not_low16:
  assumes "k < (65536 :: nat)"
  shows "(4294967295 - k) mod 65536 = 65535 - k"
proof -
  have "4294967295 - k = (65535 - k) + 65535 * 65536" using assms by linarith
  then have "(4294967295 - k) mod 65536 = (65535 - k) mod 65536" by (simp only: mod_mult_self1)
  then show ?thesis by simp
qed

text \<open>What the function computes, on numbers.\<close>

lemma unat_csum_replace2:
  "unat (csum_replace2 s a b) =
     65535 - fold16 (fold16 ((65535 - unat s) + (65535 - unat a) + unat b))"
proof -
  let ?n = "(65535 - unat s) + (65535 - unat a) + unat b"
  have low: "unat (NOT (ucast x) AND 0xFFFF :: u32) = 65535 - unat x" for x :: u16
    using not_low16 [OF unat_u16_less [of x]] by (simp add: unat_low16 unat_not)
  have b: "unat (ucast b AND 0xFFFF :: u32) = unat b"
    using unat_u16_less [of b] by (simp add: unat_low16)
  have n: "?n < 3 * 65536" using unat_u16_less [of b] by linarith
  have c1: "unat ((NOT (ucast s) AND 0xFFFF) + ((NOT (ucast a) AND 0xFFFF) + (ucast b AND 0xFFFF)) :: u32) = ?n"
    using n by (simp only: unat_word_ariths low b) simp
  have "unat (ucast (NOT c3) :: u16) = 65535 - unat c3" if "unat c3 < 65536" for c3 :: u32
    using not_low16 [OF that] by (simp add: unat_u32_u16 unat_not)
  then show ?thesis
    unfolding csum_replace2_def Let_def using fold16_twice [OF n] by (simp only: unat_fold c1)
qed

text \<open>C18. \<^verbatim>\<open>csum_replace2\<close> keeps a checksum right: if the ones' complement sum of a checksum, the old
  value of a field and the rest of what is summed is zero, so is the sum with the returned checksum
  and the new value.\<close>

theorem csum_replace2_correct:
  assumes "(unat s + unat a + rest) mod 65535 = 0"
  shows "(unat (csum_replace2 s a b) + unat b + rest) mod 65535 = 0"
proof -
  let ?n = "(65535 - unat s) + (65535 - unat a) + unat b"
  let ?r = "fold16 (fold16 ?n)"
  have le: "unat s \<le> 65535" "unat a \<le> 65535"
    using unat_u16_less [of s] unat_u16_less [of a] by simp_all
  have "?n < 3 * 65536" using unat_u16_less [of b] by linarith
  then have r: "?r \<le> 65535" using fold16_twice by fastforce
  have d1: "65535 dvd int ?r - int ?n" by (rule fold16_dvd)
  have d2: "65535 dvd int (unat s + unat a + rest)"
    using assms by (metis dvd_eq_mod_eq_0 int_dvd_int_iff of_nat_numeral)
  have "65535 dvd int (unat s + unat a + rest) - (int ?r - int ?n) - 65535"
    by (rule dvd_diff [OF dvd_diff [OF d2 d1] dvd_refl])
  also have "int (unat s + unat a + rest) - (int ?r - int ?n) - 65535 = int (65535 - ?r + unat b + rest)"
    using le r by (simp only: of_nat_add of_nat_diff of_nat_numeral)
  finally have "65535 dvd 65535 - ?r + unat b + rest"
    by (metis int_dvd_int_iff of_nat_numeral)
  then show ?thesis by (simp add: unat_csum_replace2 dvd_eq_mod_eq_0)
qed

lemma csum_replace2_correct_witness:
  "(unat (csum_replace2 0xB1E6 0x1C28 0x270F) + 9999 + 0x31F1) mod 65535 = 0"
  using csum_replace2_correct [where s = "0xB1E6" and a = "0x1C28" and rest = "0x31F1" and b = "0x270F"] by simp

section \<open>What the program lets through\<close>

text \<open>Frames of a protocol over IPv4 that are long enough to be looked at, and their port.\<close>

definition ipv4_frame :: "byte \<Rightarrow> bytes \<Rightarrow> bool" where
  "ipv4_frame proto f \<longleftrightarrow> join16 (f ! 12) (f ! 13) = 0x0800 \<and> f ! 23 = proto"

definition tcp_frame :: "bytes \<Rightarrow> bool" where
  "tcp_frame f \<longleftrightarrow> 54 \<le> length f \<and> ipv4_frame 6 f"

definition udp_frame :: "bytes \<Rightarrow> bool" where
  "udp_frame f \<longleftrightarrow> 42 \<le> length f \<and> ipv4_frame 17 f"

text \<open>The two bytes the program takes for the destination port. They are that port when the IP header
  has no options; \<^verbatim>\<open>real_dest_port\<close> below is the port the receiver reads.\<close>

definition dest_port :: "bytes \<Rightarrow> u16" where
  "dest_port f = join16 (f ! 36) (f ! 37)"

text \<open>The length of the IP header, from its first byte, and the destination port the receiver finds in
  the TCP or UDP header behind it.\<close>

definition ip_header_len :: "bytes \<Rightarrow> nat" where
  "ip_header_len f = 4 * (unat (f ! 14) mod 16)"

definition real_dest_port :: "bytes \<Rightarrow> u16" where
  "real_dest_port f = join16 (f ! (14 + ip_header_len f + 2)) (f ! (14 + ip_header_len f + 3))"

lemma real_port_plain: "ip_header_len f = 20 \<Longrightarrow> real_dest_port f = dest_port f"
  by (simp add: real_dest_port_def dest_port_def)

text \<open>An address with a whitelist entry that has not expired.\<close>

definition whitelisted :: "'m bpf_ops \<Rightarrow> bool \<Rightarrow> u64 \<Rightarrow> bytes \<Rightarrow> 'm \<Rightarrow> bool" where
  "whitelisted ops le now src m \<longleftrightarrow>
     (case bpf_lookup ops m src of None \<Rightarrow> False | Some v \<Rightarrow> now \<le> read_u64 le v)"

lemma is_spa_whitelisted_result: "snd (is_spa_whitelisted ops le now src K) = whitelisted ops le now src (spa_whitelist K)"
  by (auto simp: is_spa_whitelisted_def whitelisted_def split: option.split)

lemma phantom_tcp: "tcp_frame f \<Longrightarrow> phantom_prog ops le C now K f = tcp_filter ops le C now K f"
  by (auto simp: phantom_prog_def tcp_frame_def ipv4_frame_def offsets htons_eq_load16)

lemma dest_field: "load16 le off_dest f = bpf_htons le p \<longleftrightarrow> dest_port f = p"
  "bpf_ntohs le (load16 le off_dest f) = dest_port f"
  by (simp_all add: htons_eq_load16 ntohs_load16 dest_port_def offsets)

lemma phantom_critical:
  assumes "tcp_frame f" and "xCritical C (dest_port f)" and "dest_port f \<noteq> xHoneypotPort C"
  shows "snd (phantom_prog ops le C now K f) =
    (f, if whitelisted ops le now (src_addr f) (spa_whitelist K) then XDP_PASS else XDP_DROP)"
  using assms is_spa_whitelisted_result [of ops le now "src_addr f" K]
  by (cases "is_spa_whitelisted ops le now (src_addr f) K")
     (simp add: phantom_tcp tcp_filter_def Let_def dest_field)

text \<open>The shield: a TCP frame to a protected port other than the honeypot's passes, unchanged,
  exactly when its source address has a whitelist entry that has not expired; otherwise it is
  dropped.\<close>

theorem phantom_prog_shields:
  assumes "tcp_frame f" and "xCritical C (dest_port f)" and "dest_port f \<noteq> xHoneypotPort C"
  shows "snd (phantom_prog ops le C now K f) =
    (f, if whitelisted ops le now (src_addr f) (spa_whitelist K) then XDP_PASS else XDP_DROP)"
  using assms by (rule phantom_critical)

text \<open>A small frame to port 22 from 192.168.1.100, and small generated constants.\<close>

definition example_consts :: xdp_consts where
  "example_consts = \<lparr>xHoneypotPort = 9999, xMagicPort = 1337, xToken = [80, 72],
     xWhitelistNs = 30000000000, xTTLs = [128, 64, 64, 255], xWindows = [65535, 29200, 65535],
     xCritical = (\<lambda>p. p = 21 \<or> p = 22), xFake = (\<lambda>p. p = 80)\<rparr>"

definition example_frame :: "byte \<Rightarrow> u16 \<Rightarrow> bytes \<Rightarrow> bytes" where
  "example_frame proto port payload =
     replicate 12 0 @ [8, 0] @ replicate 9 0 @ [proto] @ [0, 0] @ [192, 168, 1, 100] @ replicate 4 0
       @ [0, 0] @ [hi8 port, lo8 port] @ payload"

definition example_kernel :: "(bytes \<Rightarrow> bytes option) kernel" where
  "example_kernel = \<lparr>spa_whitelist = Map.empty, attack_stats = 0, stealth_drops = 0,
     os_mutations = 0, spa_auth_success = 0, spa_auth_failed = 0\<rparr>"

lemma join16_ethertype [simp]: "join16 8 0 = 0x0800"
  by (simp add: join16_def)

lemma example_frame_simps:
  "tcp_frame (example_frame 6 p (replicate 16 0))" "dest_port (example_frame pr p pl) = p"
  "udp_frame (example_frame 17 p (0 # 0 # 0 # 0 # pl))"
  "src_addr (example_frame pr p pl) = [192, 168, 1, 100]"
  by (simp_all add: tcp_frame_def udp_frame_def ipv4_frame_def example_frame_def dest_port_def
      src_addr_def subslice_def offsets nth_append)

lemma example_consts_simps [simp]:
  "xCritical example_consts p \<longleftrightarrow> p = 21 \<or> p = 22" "xHoneypotPort example_consts = 9999"
  "xMagicPort example_consts = 1337" "xToken example_consts = [80, 72]"
  "xWhitelistNs example_consts = 30000000000" "xFake example_consts p \<longleftrightarrow> p = 80"
  by (simp_all add: example_consts_def)

lemma phantom_prog_shields_witness:
  "snd (snd (phantom_prog plain_map True example_consts 7 example_kernel (example_frame 6 22 (replicate 16 0))))
     = XDP_DROP"
  using phantom_prog_shields [of "example_frame 6 22 (replicate 16 0)" example_consts plain_map True 7 example_kernel]
  by (simp add: example_frame_simps whitelisted_def plain_map_def example_kernel_def)

lemma verify_magic_packet_eq:
  "verify_magic_packet C payload \<longleftrightarrow> take (length (xToken C)) payload = xToken C"
proof -
  have "length (xToken C) \<le> length payload" if "take (length (xToken C)) payload = xToken C"
    using arg_cong [OF that, of length] by simp
  then show ?thesis by (auto simp: verify_magic_packet_def byte_difference_zero)
qed

text \<open>C13. The static token opens the shield: after a UDP frame to the magic port whose payload begins
  with the token, the frame itself is dropped, and a TCP frame to a protected port from the same
  address passes until the whitelist duration is over, not after.\<close>

theorem static_token_opens:
  assumes laws: "bpf_laws ops"
    and udp: "udp_frame g" "dest_port g = xMagicPort C" "take (length (xToken C)) (drop 42 g) = xToken C"
    and room: "bpf_put ops (spa_whitelist K) (src_addr g) (native_u64 le (now + xWhitelistNs C)) \<noteq> None"
    and tcp: "tcp_frame f" "src_addr f = src_addr g" "xCritical C (dest_port f)" "dest_port f \<noteq> xHoneypotPort C"
  shows "snd (snd (phantom_prog ops le C now K g)) = XDP_DROP \<and>
    snd (snd (phantom_prog ops le C later (fst (phantom_prog ops le C now K g)) f)) =
      (if later \<le> now + xWhitelistNs C then XDP_PASS else XDP_DROP)"
proof -
  obtain m where m: "bpf_put ops (spa_whitelist K) (src_addr g) (native_u64 le (now + xWhitelistNs C)) = Some m"
    using room by blast
  have g: "phantom_prog ops le C now K g = (spa_whitelist_ip ops le C now (src_addr g) K, g, XDP_DROP)"
    using udp by (auto simp: phantom_prog_def udp_frame_def ipv4_frame_def offsets htons_eq_load16
        dest_port_def verify_magic_packet_eq)
  have "bpf_lookup ops m (src_addr g) = Some (native_u64 le (now + xWhitelistNs C))"
    using bpf_put_same [OF laws m] .
  then have wl: "whitelisted ops le later (src_addr f) (spa_whitelist (spa_whitelist_ip ops le C now (src_addr g) K))
      \<longleftrightarrow> later \<le> now + xWhitelistNs C"
    by (simp add: whitelisted_def spa_whitelist_ip_def m tcp(2))
  show ?thesis by (simp add: g phantom_critical [OF tcp(1,3,4)] wl)
qed

lemma static_token_opens_witness:
  "snd (snd (phantom_prog plain_map True example_consts 31000000000
      (fst (phantom_prog plain_map True example_consts 1000000000 example_kernel
              (example_frame 17 1337 [0, 0, 0, 0, 80, 72])))
      (example_frame 6 22 (replicate 16 0)))) = XDP_PASS"
proof -
  let ?g = "example_frame 17 1337 [0, 0, 0, 0, 80, 72]" and ?f = "example_frame 6 22 (replicate 16 0)"
  have "take (length (xToken example_consts)) (drop 42 ?g) = xToken example_consts"
    by (simp add: example_frame_def)
  then show ?thesis
    using static_token_opens [OF plain_map_laws(1), of ?g example_consts example_kernel True 1000000000 ?f 31000000000]
    by (simp add: example_frame_simps plain_map_def)
qed

section \<open>Redirection\<close>

lemma length_store16 [simp]: "length (store16 le i w f) = length f"
  by (simp add: store16_def)

lemma nth_store16_other: "j \<noteq> i \<Longrightarrow> j \<noteq> Suc i \<Longrightarrow> store16 le i w f ! j = f ! j"
  by (simp add: store16_def)

lemma join_store16: "Suc i < length f \<Longrightarrow>
    join16 (store16 le i (bpf_htons le p) f ! i) (store16 le i (bpf_htons le p) f ! Suc i) = p"
  by (simp add: store16_def bpf_htons_def swap16_def)

lemma nth_replace_field: "j \<noteq> i \<Longrightarrow> j \<noteq> Suc i \<Longrightarrow> replace_field le i a b f ! j = f ! j"
  by (simp add: replace_field_def nth_store16_other)

lemma length_replace_field [simp]: "length (replace_field le i a b f) = length f"
  by (simp add: replace_field_def)

text \<open>The personality changes only the time to live, the window and the two checksums.\<close>

lemma mutate_frame:
  assumes "mutate_os_personality le C K f = (K', f')"
  shows "length f' = length f \<and> (\<forall>j. j \<notin> {22, 24, 25, 48, 49, 50, 51} \<longrightarrow> f' ! j = f ! j)"
proof -
  obtain ttl w where "personality C (bpf_ntohs le (load16 le off_source f)) = (ttl, w)" by fastforce
  then show ?thesis
    using assms
    by (auto simp: mutate_os_personality_def Let_def offsets nth_store16_other nth_replace_field split: if_splits)
qed

lemma phantom_redirect:
  assumes tcp: "tcp_frame f"
    and other: "dest_port f \<noteq> xHoneypotPort C" "\<not> xCritical C (dest_port f)" "\<not> xFake C (dest_port f)"
      "\<not> is_stealth_scan (f ! 47)"
  obtains K' f' where "phantom_prog ops le C now K f = (K', f', XDP_PASS)" "length f' = length f"
    "src_addr f' = src_addr f" "dest_port f' = xHoneypotPort C" "ip_header_len f' = ip_header_len f"
proof -
  let ?p = "bpf_htons le (xHoneypotPort C)" and ?K = "K\<lparr>attack_stats := attack_stats K + 1\<rparr>"
  let ?r = "replace_field le off_tcp_check (load16 le off_dest f) ?p f"
  let ?f = "store16 le off_dest ?p ?r"
  obtain K' f' where m: "mutate_os_personality le C ?K ?f = (K', f')" by fastforce
  then have run: "phantom_prog ops le C now K f = (K', f', XDP_PASS)"
    using other by (simp add: phantom_tcp [OF tcp] tcp_filter_def Let_def dest_field off_flags_def)
  have len: "54 \<le> length f" using tcp by (simp add: tcp_frame_def)
  have "dest_port f' = xHoneypotPort C"
    using mutate_frame [OF m] join_store16 [of off_dest ?r le "xHoneypotPort C"] len
    by (simp add: dest_port_def offsets)
  moreover have "f' ! j = f ! j" if "j < 34" "26 \<le> j" for j
    using mutate_frame [OF m] that by (simp add: nth_store16_other nth_replace_field offsets)
  then have "src_addr f' = src_addr f"
    using mutate_frame [OF m] len by (auto simp: src_addr_def subslice_def offsets intro!: nth_equalityI)
  moreover have "ip_header_len f' = ip_header_len f"
    using mutate_frame [OF m] by (simp add: ip_header_len_def nth_store16_other nth_replace_field offsets)
  ultimately show ?thesis using that [OF run] mutate_frame [OF m] by simp
qed

lemma phantom_stealth:
  assumes "tcp_frame f" "dest_port f \<noteq> xHoneypotPort C" "\<not> xCritical C (dest_port f)" "\<not> xFake C (dest_port f)"
    "is_stealth_scan (f ! 47)"
  shows "phantom_prog ops le C now K f = (K\<lparr>stealth_drops := stealth_drops K + 1\<rparr>, f, XDP_DROP)"
  using assms by (simp add: phantom_tcp tcp_filter_def Let_def dest_field off_flags_def)

lemma phantom_passes_field:
  assumes tcp: "tcp_frame f" and pass: "phantom_prog ops le C now K f = (K', f', XDP_PASS)"
  shows "length f' = length f \<and> src_addr f' = src_addr f \<and> ip_header_len f' = ip_header_len f \<and>
    (dest_port f' = xHoneypotPort C
     \<or> f' = f \<and> xFake C (dest_port f) \<and> \<not> xCritical C (dest_port f)
     \<or> f' = f \<and> xCritical C (dest_port f) \<and> whitelisted ops le now (src_addr f) (spa_whitelist K))"
proof -
  have t: "tcp_filter ops le C now K f = (K', f', XDP_PASS)"
    using pass by (simp add: phantom_tcp [OF tcp])
  consider (honeypot) "dest_port f = xHoneypotPort C"
    | (critical) "dest_port f \<noteq> xHoneypotPort C" "xCritical C (dest_port f)"
    | (fake) "dest_port f \<noteq> xHoneypotPort C" "\<not> xCritical C (dest_port f)" "xFake C (dest_port f)"
    | (other) "dest_port f \<noteq> xHoneypotPort C" "\<not> xCritical C (dest_port f)" "\<not> xFake C (dest_port f)"
    by blast
  then show ?thesis
  proof cases
    case critical
    then show ?thesis using phantom_critical [OF tcp critical(2,1), of ops le now K] pass by (auto split: if_splits)
  next
    case other
    show ?thesis
    proof (cases "is_stealth_scan (f ! 47)")
      case True
      then show ?thesis using phantom_stealth [OF tcp other, of ops le now K] pass by simp
    next
      case False
      then show ?thesis
        by (rule phantom_redirect [OF tcp other, of ops le now K]) (use pass in auto)
    qed
  qed (use t in \<open>simp_all add: tcp_filter_def Let_def dest_field\<close>)
qed

text \<open>C10. Nothing else gets in by a frame without IP options: a TCP frame whose IP header has its
  shortest length, 20 bytes, and that passes leaves with the destination port of its TCP header the
  honeypot's, where a frame to any other port has been redirected, or unchanged with a fake port that
  is not protected, or unchanged with a protected port and a whitelisted source. A frame with IP options
  is not covered, and \<^verbatim>\<open>ip_options_bypass\<close> shows that it cannot be: the program looks for the
  TCP header at a fixed place.\<close>

theorem phantom_prog_passes_only:
  assumes tcp: "tcp_frame f" and plain: "ip_header_len f = 20"
    and pass: "phantom_prog ops le C now K f = (K', f', XDP_PASS)"
  shows "length f' = length f \<and> src_addr f' = src_addr f \<and> ip_header_len f' = 20 \<and>
    (real_dest_port f' = xHoneypotPort C
     \<or> f' = f \<and> xFake C (real_dest_port f) \<and> \<not> xCritical C (real_dest_port f)
     \<or> f' = f \<and> xCritical C (real_dest_port f) \<and> whitelisted ops le now (src_addr f) (spa_whitelist K))"
  using phantom_passes_field [OF tcp pass] real_port_plain [OF plain] real_port_plain [of f'] plain by simp

lemma phantom_prog_passes_only_witness:
  "\<exists>K f. phantom_prog plain_map True example_consts 7 example_kernel
       ((example_frame 6 4444 (replicate 10 2 @ replicate 6 0)) [14 := 0x45]) = (K, f, XDP_PASS)
     \<and> real_dest_port f = 9999"
proof -
  let ?f = "(example_frame 6 4444 (replicate 10 2 @ replicate 6 0)) [14 := 0x45]"
  have tcp: "tcp_frame ?f" and d: "dest_port ?f = 4444" and plain: "ip_header_len ?f = 20"
    by (simp_all add: tcp_frame_def ipv4_frame_def example_frame_def dest_port_def ip_header_len_def nth_append)
  have "\<not> is_stealth_scan (?f ! off_flags)"
    by (simp add: example_frame_def off_flags_def nth_append is_stealth_scan_def)
  then have "snd (snd (phantom_prog plain_map True example_consts 7 example_kernel ?f)) = XDP_PASS"
    by (simp add: phantom_tcp [OF tcp] tcp_filter_def Let_def dest_field d case_prod_beta)
  then obtain K f where r: "phantom_prog plain_map True example_consts 7 example_kernel ?f = (K, f, XDP_PASS)"
    by (metis prod.collapse)
  have "real_dest_port f = 9999"
    using phantom_prog_passes_only [OF tcp plain r] d real_port_plain [OF plain] by auto
  with r show ?thesis by blast
qed

text \<open>The way round the shield: from every address and to every port there is a TCP frame that every
  machine lets pass unchanged, whatever its whitelist holds. Its IP header has one option, a router alert
  whose value is the honeypot's port, and that value stands where the program looks for the port.\<close>

definition alert_frame :: "xdp_consts \<Rightarrow> bytes \<Rightarrow> u16 \<Rightarrow> bytes" where
  "alert_frame C src port =
     replicate 12 0 @ [8, 0] @ [0x46] @ replicate 8 0 @ [6] @ [0, 0] @ src @ replicate 4 0
       @ [148, 4, hi8 (xHoneypotPort C), lo8 (xHoneypotPort C)]
       @ [0, 0, hi8 port, lo8 port] @ replicate 9 0 @ [2] @ replicate 6 0"

lemma alert_frame_simps:
  assumes "length src = 4"
  shows "tcp_frame (alert_frame C src port)" "dest_port (alert_frame C src port) = xHoneypotPort C"
    "ip_header_len (alert_frame C src port) = 24" "real_dest_port (alert_frame C src port) = port"
    "src_addr (alert_frame C src port) = src"
proof -
  obtain a b c d where "src = [a, b, c, d]"
    using assms by (auto simp: numeral_eq_Suc length_Suc_conv)
  then show "tcp_frame (alert_frame C src port)" "dest_port (alert_frame C src port) = xHoneypotPort C"
    "ip_header_len (alert_frame C src port) = 24" "real_dest_port (alert_frame C src port) = port"
    "src_addr (alert_frame C src port) = src"
    by (simp_all add: tcp_frame_def ipv4_frame_def alert_frame_def dest_port_def ip_header_len_def
        real_dest_port_def src_addr_def subslice_def offsets nth_append)
qed

theorem ip_options_bypass:
  assumes "length src = 4"
  shows "\<exists>f. tcp_frame f \<and> src_addr f = src \<and> real_dest_port f = port \<and>
    (\<forall>ops le now K. snd (phantom_prog ops le C now K f) = (f, XDP_PASS))"
proof (intro exI conjI allI)
  note s = alert_frame_simps [OF assms, of C port]
  show "snd (phantom_prog ops le C now K (alert_frame C src port)) = (alert_frame C src port, XDP_PASS)"
    for ops le now K
    by (simp add: phantom_tcp [OF s(1)] tcp_filter_def Let_def dest_field s(2))
qed (use alert_frame_simps [OF assms, of C port] in simp_all)

text \<open>C28. A port that is neither protected nor fake can be scanned but not connected to: the SYN is
  redirected to the honeypot, but the ACK that completes the handshake, like every data segment, is
  taken for an ACK scan and dropped, whatever happened before.\<close>

theorem redirected_handshake_dies:
  assumes syn: "tcp_frame f" "f ! 47 = 0x02"
    and ack: "tcp_frame g" "dest_port g = dest_port f" "g ! 47 \<in> {0x10, 0x18}"
    and other: "dest_port f \<noteq> xHoneypotPort C" "\<not> xCritical C (dest_port f)" "\<not> xFake C (dest_port f)"
  shows "(\<exists>K' f'. phantom_prog ops le C now K f = (K', f', XDP_PASS) \<and> dest_port f' = xHoneypotPort C) \<and>
    snd (phantom_prog ops le C later K1 g) = (g, XDP_DROP)"
proof
  have "\<not> is_stealth_scan (f ! 47)" by (simp add: syn(2) is_stealth_scan_def)
  then show "\<exists>K' f'. phantom_prog ops le C now K f = (K', f', XDP_PASS) \<and> dest_port f' = xHoneypotPort C"
    by (rule phantom_redirect [OF syn(1) other, of ops le now K]) blast
  have "is_stealth_scan (g ! 47)" using ack(3) by (auto simp: is_stealth_scan_def)
  then show "snd (phantom_prog ops le C later K1 g) = (g, XDP_DROP)"
    using phantom_stealth [OF ack(1), of C ops le later K1] other by (simp add: ack(2))
qed

lemma redirected_handshake_dies_witness:
  "snd (snd (phantom_prog plain_map True example_consts 9 example_kernel
     (example_frame 6 4444 (replicate 9 0 @ [0x10] @ replicate 6 0)))) = XDP_DROP"
proof -
  let ?f = "\<lambda>flags. example_frame 6 4444 (replicate 9 0 @ [flags] @ replicate 6 0)"
  have f: "tcp_frame (?f b)" "dest_port (?f b) = 4444" "?f b ! 47 = b" for b
    by (simp_all add: tcp_frame_def ipv4_frame_def example_frame_def dest_port_def nth_append)
  show ?thesis
    using redirected_handshake_dies [of "?f 0x02" "?f 0x10" example_consts plain_map True 7 example_kernel 9 example_kernel]
    by (simp add: f [simplified])
qed

section \<open>User space and kernel\<close>

text \<open>The key under which \<^verbatim>\<open>WhitelistIP\<close> stores an address: the kernel's own only on a big-endian
  host.\<close>

definition loader_key :: "bool \<Rightarrow> bytes \<Rightarrow> bytes" where
  "loader_key le a = (if le then rev a else a)"

lemma native_get_be32: "length a = 4 \<Longrightarrow> native_u32 le (get_be32 a) = loader_key le a"
  by (simp add: native_u32_def loader_key_def put_get_be32)

lemma WhitelistIP_ok:
  "WhitelistIP ops le ml ip dur up = (ml', Inr ()) \<longleftrightarrow>
     (\<exists>m a m'. whitelistMap ml = Some m \<and> ip_to4 ip = Some a \<and>
        bpf_put ops m (loader_key le a) (native_u64 le (whitelist_expiry up dur)) = Some m' \<and>
        ml' = ml\<lparr>whitelistMap := Some m'\<rparr>)"
proof -
  have "native_u32 le (get_be32 a) = loader_key le a" if "ip_to4 ip = Some a" for a
    using that by (simp add: native_get_be32 ip_to4_length)
  then show ?thesis by (auto simp: WhitelistIP_def split: option.split)
qed

lemma WhitelistIP_whitelists:
  assumes "bpf_laws ops" and "WhitelistIP ops le ml ip dur up = (ml', Inr ())"
    and "ip_to4 ip = Some a" and "whitelistMap ml = Some m"
  shows "\<exists>m'. whitelistMap ml' = Some m' \<and>
    (\<forall>now src. whitelisted ops le now src m' \<longrightarrow>
       src = loader_key le a \<and> now \<le> whitelist_expiry up dur \<or> whitelisted ops le now src m) \<and>
    (\<forall>now. whitelisted ops le now (loader_key le a) m' \<longleftrightarrow> now \<le> whitelist_expiry up dur)"
proof -
  obtain m' where m': "bpf_put ops m (loader_key le a) (native_u64 le (whitelist_expiry up dur)) = Some m'"
    "whitelistMap ml' = Some m'"
    using assms(2-4) unfolding WhitelistIP_ok by auto
  have same: "bpf_lookup ops m' (loader_key le a) = Some (native_u64 le (whitelist_expiry up dur))"
    and other: "src \<noteq> loader_key le a \<Longrightarrow> bpf_lookup ops m' src = None \<or> bpf_lookup ops m' src = bpf_lookup ops m src" for src
    using assms(1) m'(1) unfolding bpf_laws_def by blast+
  have "src = loader_key le a \<and> now \<le> whitelist_expiry up dur \<or> whitelisted ops le now src m"
    if "whitelisted ops le now src m'" for now src
  proof (cases "src = loader_key le a")
    case True
    then show ?thesis using that same by (simp add: whitelisted_def)
  next
    case False
    then show ?thesis using that other [OF False] by (auto simp: whitelisted_def)
  qed
  then show ?thesis using m'(2) same by (simp add: whitelisted_def)
qed

text \<open>What a successful \<^verbatim>\<open>WhitelistIP\<close> means to the kernel: the stored key is admitted until the
  expiry and nothing else is newly admitted. The key is the client's address in reversed byte order
  on a little-endian host, so a client whose address is no palindrome is not admitted there by this
  call at all, and the host with the reversed address is.\<close>

theorem WhitelistIP_kernel:
  assumes "bpf_laws ops" and "WhitelistIP ops le ml ip dur up = (ml', Inr ())"
    and "ip_to4 ip = Some a" and "whitelistMap ml = Some m"
  shows "\<exists>m'. whitelistMap ml' = Some m' \<and>
    (\<forall>now. whitelisted ops le now (if le then rev a else a) m' \<longleftrightarrow> now \<le> whitelist_expiry up dur) \<and>
    (\<forall>now src. whitelisted ops le now src m' \<longrightarrow>
       src = (if le then rev a else a) \<or> whitelisted ops le now src m) \<and>
    (le \<and> rev a \<noteq> a \<longrightarrow> (\<forall>now. whitelisted ops le now a m' \<longrightarrow> whitelisted ops le now a m))"
  using WhitelistIP_whitelists [OF assms] unfolding loader_key_def by metis

lemma WhitelistIP_kernel_witness:
  "\<exists>ml m. WhitelistIP plain_map True (NewMapLoader (Some Map.empty) None None None None)
       (Some [192, 168, 1, 100]) 60 (Some 5000000000) = (ml, Inr ())
     \<and> whitelistMap ml = Some m
     \<and> \<not> whitelisted plain_map True 5000000000 [192, 168, 1, 100] m
     \<and> whitelisted plain_map True 5000000000 [100, 1, 168, 192] m"
proof -
  let ?ml = "NewMapLoader (Some (Map.empty :: bytes \<Rightarrow> bytes option)) None None None None"
  let ?ip = "Some [192, 168, 1, 100]"
  have "snd (WhitelistIP plain_map True ?ml ?ip 60 (Some 5000000000)) = Inr ()"
    by (simp add: WhitelistIP_def NewMapLoader_def ip_to4_def plain_map_def)
  then obtain ml where ml: "WhitelistIP plain_map True ?ml ?ip 60 (Some 5000000000) = (ml, Inr ())"
    by (cases "WhitelistIP plain_map True ?ml ?ip 60 (Some 5000000000)") simp
  have a: "ip_to4 ?ip = Some [192, 168, 1, 100]" and m: "whitelistMap ?ml = Some Map.empty"
    by (simp_all add: ip_to4_def NewMapLoader_def)
  have none: "\<not> whitelisted plain_map True now src Map.empty" for now src
    by (simp add: whitelisted_def plain_map_def)
  obtain m' where m': "whitelistMap ml = Some m'"
    "\<forall>now. whitelisted plain_map True now (rev [192, 168, 1, 100]) m' \<longleftrightarrow> now \<le> whitelist_expiry (Some 5000000000) 60"
    "\<forall>now. whitelisted plain_map True now [192, 168, 1, 100] m' \<longrightarrow>
       whitelisted plain_map True now [192, 168, 1, 100] Map.empty"
    using WhitelistIP_kernel [OF plain_map_laws(1) ml a m] by auto
  have "whitelisted plain_map True 5000000000 [100, 1, 168, 192] m'"
    using m'(2) [rule_format, of 5000000000] by (simp add: whitelist_expiry_def)
  then show ?thesis using ml m'(1,3) none by blast
qed

end
