(* ===== verification/ConfigGen.thy ===== *)
theory ConfigGen
  imports Gateway "HOL-Library.List_Lexorder" "HOL-Library.Char_ord"
begin

text \<open>
  \<^verbatim>\<open>cmd/config-gen/main.go\<close>: the generator of \<^verbatim>\<open>phantom_ports.h\<close> and
  \<^verbatim>\<open>phantom_ports_functions.c\<close>. What it writes is modelled by content: the header is the list of
  its \<^verbatim>\<open>#define\<close> lines in order, each port function the list of macros it compares its argument
  with. The C preprocessor uses the last definition of a macro.
\<close>

section \<open>Grouping and sorting\<close>

record category_group =
  groupName :: string
  groupPorts :: "port_definition list"

fun add_to_category :: "port_definition \<Rightarrow> (string \<times> port_definition list) list
    \<Rightarrow> (string \<times> port_definition list) list" where
  "add_to_category d [] = [(Category d, [d])]"
| "add_to_category d ((c, ds) # m) =
     (if c = Category d then (c, ds @ [d]) # m else (c, ds) # add_to_category d m)"

definition category_map :: "port_definition list \<Rightarrow> (string \<times> port_definition list) list" where
  "category_map ds = foldl (\<lambda>m d. add_to_category d m) [] ds"

text \<open>\<^verbatim>\<open>strings.Title\<close> on ASCII.\<close>

definition is_letter :: "char \<Rightarrow> bool" where
  "is_letter c \<longleftrightarrow>
     (let n = of_char c :: nat
      in 97 \<le> n \<and> n \<le> 122 \<or> 65 \<le> n \<and> n \<le> 90 \<or> 48 \<le> n \<and> n \<le> 57 \<or> n = 95)"

definition title_letter :: "char \<Rightarrow> char" where
  "title_letter c = (if 97 \<le> (of_char c :: nat) \<and> of_char c \<le> (122 :: nat) then char_of (of_char c - (32 :: nat)) else c)"

fun title_from :: "bool \<Rightarrow> string \<Rightarrow> string" where
  "title_from inside [] = []"
| "title_from inside (c # cs) = (if inside then c else title_letter c) # title_from (is_letter c) cs"

definition getCategoryName :: "string \<Rightarrow> string" where
  "getCategoryName cat =
     (case map_of
        [(CategoryCore, ''Core Services''), (CategoryDatabase, ''Databases''),
         (CategoryAdmin, ''Admin Panels & Management''), (CategoryRemote, ''Remote Access''),
         (CategoryContainer, ''Container Services''), (CategoryApplication, ''Application Frameworks''),
         (CategoryDirectory, ''Directory Services''), (CategoryCache, ''Cache Services''),
         (CategoryFile, ''File Services''), (CategoryMessaging, ''Messaging Protocols'')] cat of
        Some name \<Rightarrow> name
      | None \<Rightarrow> title_from False cat)"

text \<open>\<^verbatim>\<open>sort.Slice\<close> by port: stable here, which \<^verbatim>\<open>sort.Slice\<close> need not be for equal ports.\<close>

definition sort_ports :: "port_definition list \<Rightarrow> port_definition list" where
  "sort_ports ds = sort_key (\<lambda>d. sint (Port d)) ds"

text \<open>\<open>order\<close> is the order in which the run-time visits the map of categories.\<close>

definition port_categories ::
    "((string \<times> port_definition list) list \<Rightarrow> (string \<times> port_definition list) list)
       \<Rightarrow> port_definition list \<Rightarrow> category_group list" where
  "port_categories order crit =
     sort_key groupName
       (map (\<lambda>(c, ds). \<lparr>groupName = getCategoryName c, groupPorts = sort_ports ds\<rparr>)
          (order (category_map crit)))"

section \<open>The generated files\<close>

datatype macro_value = Num i64 | Str string | Prod i64 i64

type_synonym macro_defs = "(string \<times> macro_value) list"

definition constant_defines :: "ebpf_constants \<Rightarrow> macro_defs" where
  "constant_defines c =
     [(''HONEYPOT_PORT'', Num (cHoneypotPort c)),
      (''SSH_PORT'', Num (cSSHPort c)),
      (''SPA_MAGIC_PORT'', Num (cSPAMagicPort c)),
      (''SPA_SECRET_TOKEN'', Str (cSPASecretToken c)),
      (''SPA_TOKEN_LEN'', Num (cSPATokenLen c)),
      (''SPA_WHITELIST_DURATION_NS'', Prod (cSPAWhitelistDuration c) 1000000000),
      (''TTL_WINDOWS'', Num (cTTLWindows c)),
      (''TTL_LINUX'', Num (cTTLLinux c)),
      (''TTL_FREEBSD'', Num (cTTLFreeBSD c)),
      (''TTL_SOLARIS'', Num (cTTLSolaris c)),
      (''WINDOW_WINDOWS'', Num (cWindowWindows c)),
      (''WINDOW_LINUX'', Num (cWindowLinux c)),
      (''WINDOW_FREEBSD'', Num (cWindowFreeBSD c)),
      (''MAX_PAYLOAD_SCAN'', Num (cMaxPayloadScan c))]"

definition port_defines :: "port_definition list \<Rightarrow> macro_defs" where
  "port_defines ds = map (\<lambda>d. (Alias d, Num (Port d))) ds"

definition generateEBPFHeader :: "category_group list \<Rightarrow> port_definition list \<Rightarrow> ebpf_constants \<Rightarrow> macro_defs" where
  "generateEBPFHeader cats fake c =
     constant_defines c @ port_defines (sort_ports (concat (map groupPorts cats))) @ port_defines fake"

definition generateEBPFFunction :: "category_group list \<Rightarrow> port_definition list \<Rightarrow> string list \<times> string list" where
  "generateEBPFFunction cats fake =
     (concat (map (\<lambda>g. map Alias (groupPorts g)) cats), map Alias fake)"

record generated =
  genHeader :: macro_defs
  genCritical :: "string list"
  genFake :: "string list"

text \<open>The program, on any port tables: validate, group, sort, generate.\<close>

definition config_gen ::
    "((string \<times> port_definition list) list \<Rightarrow> (string \<times> port_definition list) list)
       \<Rightarrow> port_definition list \<Rightarrow> port_definition list \<Rightarrow> ebpf_constants \<Rightarrow> port_error + generated" where
  "config_gen order crit fake c =
     (case validate_ports crit of
        Inl e \<Rightarrow> Inl e
      | Inr _ \<Rightarrow>
          (let cats = port_categories order crit;
               fakes = sort_ports fake;
               (ct, ft) = generateEBPFFunction cats fakes
           in Inr \<lparr>genHeader = generateEBPFHeader cats fakes c, genCritical = ct, genFake = ft\<rparr>))"

section \<open>What the generated files mean\<close>

definition macro :: "macro_defs \<Rightarrow> string \<Rightarrow> macro_value option" where
  "macro ds a = map_of (rev ds) a"

text \<open>\<^verbatim>\<open>if (p == ALIAS) return 1;\<close> for each macro of the list.\<close>

definition port_function :: "macro_defs \<Rightarrow> string list \<Rightarrow> u16 \<Rightarrow> bool" where
  "port_function ds as p \<longleftrightarrow>
     (\<exists>a \<in> set as. case macro ds a of Some (Num v) \<Rightarrow> sint v = int (unat p) | _ \<Rightarrow> False)"

definition num_macro :: "macro_defs \<Rightarrow> string \<Rightarrow> i64" where
  "num_macro ds a = (case macro ds a of Some (Num v) \<Rightarrow> v | _ \<Rightarrow> 0)"

text \<open>The constants and functions the XDP program is compiled with.\<close>

definition compiled :: "generated \<Rightarrow> xdp_consts" where
  "compiled g = (let n = num_macro (genHeader g) in
     \<lparr>xHoneypotPort = ucast (n ''HONEYPOT_PORT''),
      xMagicPort = ucast (n ''SPA_MAGIC_PORT''),
      xToken = (case macro (genHeader g) ''SPA_SECRET_TOKEN'' of
                  Some (Str s) \<Rightarrow> take (nat (sint (n ''SPA_TOKEN_LEN''))) (bytes_of_string s) | _ \<Rightarrow> []),
      xWhitelistNs = (case macro (genHeader g) ''SPA_WHITELIST_DURATION_NS'' of
                        Some (Prod a b) \<Rightarrow> a * b | _ \<Rightarrow> 0),
      xTTLs = map (\<lambda>a. ucast (n a)) [''TTL_WINDOWS'', ''TTL_LINUX'', ''TTL_FREEBSD'', ''TTL_SOLARIS''],
      xWindows = map (\<lambda>a. ucast (n a)) [''WINDOW_WINDOWS'', ''WINDOW_LINUX'', ''WINDOW_FREEBSD''],
      xCritical = port_function (genHeader g) (genCritical g),
      xFake = port_function (genHeader g) (genFake g)\<rparr>)"

section \<open>Lemmas\<close>

text \<open>Grouping loses no port.\<close>

lemma add_to_category_ports:
  "(\<Union>x \<in> set (add_to_category d m). set (snd x)) = insert d (\<Union>x \<in> set m. set (snd x))"
  by (induction d m rule: add_to_category.induct) auto

lemma category_map_ports: "set (concat (map snd (category_map ds))) = set ds"
proof (induction ds rule: rev_induct)
  case (snoc d ds)
  then show ?case
    using add_to_category_ports [of d "category_map ds"] by (simp add: category_map_def)
qed (simp add: category_map_def)

lemma set_sort_ports [simp]: "set (sort_ports ds) = set ds"
  by (simp add: sort_ports_def)

lemma port_categories_ports:
  assumes "\<And>m. set (order m) = set m"
  shows "set (concat (map groupPorts (port_categories order crit))) = set crit"
  using category_map_ports [of crit] by (force simp: port_categories_def assms)

text \<open>A header in which no macro gets two values.\<close>

definition consistent :: "macro_defs \<Rightarrow> bool" where
  "consistent ds \<longleftrightarrow> (\<forall>x \<in> set ds. \<forall>y \<in> set ds. fst x = fst y \<longrightarrow> snd x = snd y)"

lemma macro_consistent:
  assumes "consistent ds"
  shows "macro ds a = Some v \<longleftrightarrow> (a, v) \<in> set ds"
proof
  assume "macro ds a = Some v"
  then show "(a, v) \<in> set ds" by (auto simp: macro_def dest: map_of_SomeD)
next
  assume av: "(a, v) \<in> set ds"
  then obtain w where w: "macro ds a = Some w"
    unfolding macro_def by (metis set_rev weak_map_of_SomeI)
  then have "(a, w) \<in> set ds" by (auto simp: macro_def dest: map_of_SomeD)
  with av assms have "w = v" by (auto simp: consistent_def)
  with w show "macro ds a = Some v" by simp
qed

lemma port_function_eq:
  assumes "consistent ds" and "set (port_defines ports) \<subseteq> set ds" and "set as = Alias ` set ports"
  shows "port_function ds as p \<longleftrightarrow> (\<exists>d \<in> set ports. sint (Port d) = int (unat p))"
proof -
  have "macro ds (Alias d) = Some (Num (Port d))" if "d \<in> set ports" for d
    using that assms(2) by (subst macro_consistent [OF assms(1)]) (auto simp: port_defines_def)
  then show ?thesis by (auto simp: port_function_def assms(3))
qed

lemma config_gen_content:
  assumes order: "\<And>m. set (order m) = set m" and gen: "config_gen order crit fake c = Inr g"
  shows "set (genHeader g) = set (constant_defines c) \<union> set (port_defines crit) \<union> set (port_defines fake)"
    and "set (genCritical g) = Alias ` set crit" and "set (genFake g) = Alias ` set fake"
proof -
  let ?cats = "port_categories order crit"
  have g: "genHeader g = generateEBPFHeader ?cats (sort_ports fake) c"
    "genCritical g = concat (map (\<lambda>g. map Alias (groupPorts g)) ?cats)"
    "genFake g = map Alias (sort_ports fake)"
    using gen by (auto simp: config_gen_def generateEBPFFunction_def Let_def split: sum.splits)
  have ports: "(\<Union>x\<in>set ?cats. set (groupPorts x)) = set crit"
    using port_categories_ports [OF order, of crit] by simp
  show "set (genHeader g) = set (constant_defines c) \<union> set (port_defines crit) \<union> set (port_defines fake)"
    by (simp add: g generateEBPFHeader_def port_defines_def ports Un_assoc)
  have "set (genCritical g) = Alias ` (\<Union>x\<in>set ?cats. set (groupPorts x))" by (auto simp: g)
  then show "set (genCritical g) = Alias ` set crit" by (simp only: ports)
  show "set (genFake g) = Alias ` set fake" by (simp add: g)
qed

lemma config_gen_functions:
  assumes "\<And>m. set (order m) = set m" and "config_gen order crit fake c = Inr g"
    and "consistent (genHeader g)"
  shows "xCritical (compiled g) p \<longleftrightarrow> (\<exists>d \<in> set crit. sint (Port d) = int (unat p))"
    and "xFake (compiled g) p \<longleftrightarrow> (\<exists>d \<in> set fake. sint (Port d) = int (unat p))"
proof -
  note content = config_gen_content [OF assms(1,2)]
  have crit: "set (port_defines crit) \<subseteq> set (genHeader g)"
    and fake: "set (port_defines fake) \<subseteq> set (genHeader g)"
    using content(1) by auto
  show "xCritical (compiled g) p \<longleftrightarrow> (\<exists>d \<in> set crit. sint (Port d) = int (unat p))"
    using port_function_eq [OF assms(3) crit content(2)] by (simp add: compiled_def Let_def)
  show "xFake (compiled g) p \<longleftrightarrow> (\<exists>d \<in> set fake. sint (Port d) = int (unat p))"
    using port_function_eq [OF assms(3) fake content(3)] by (simp add: compiled_def Let_def)
qed

text \<open>C14. The generated C functions decide the ports of the Go tables: if no macro of the generated
  header is defined with two values, \<^verbatim>\<open>is_critical_asset_port\<close> and \<^verbatim>\<open>is_fake_port\<close> hold for
  exactly the ports of the two tables, in whatever order the categories are visited.\<close>

theorem config_gen_agrees:
  assumes "\<forall>m. set (order m) = set m" and "config_gen order crit fake c = Inr g"
    and "consistent (genHeader g)"
  shows "(xCritical (compiled g) p \<longleftrightarrow> (\<exists>d \<in> set crit. sint (Port d) = int (unat p))) \<and>
    (xFake (compiled g) p \<longleftrightarrow> (\<exists>d \<in> set fake. sint (Port d) = int (unat p)))"
  using config_gen_functions [of order crit fake c g p] assms by blast

section \<open>The generated files of this repository\<close>

definition generated_config :: generated where
  "generated_config =
     (case config_gen id CriticalPortDefinitions FakePortDefinitions GetEBPFConstants of
        Inr g \<Rightarrow> g | Inl _ \<Rightarrow> \<lparr>genHeader = [], genCritical = [], genFake = []\<rparr>)"

definition phantom_consts :: xdp_consts where
  "phantom_consts = compiled generated_config"

lemma config_gen_ok: "config_gen id CriticalPortDefinitions FakePortDefinitions GetEBPFConstants = Inr generated_config"
proof -
  have "validate_ports CriticalPortDefinitions = Inr ()"
    by (simp add: validate_ports_ok CriticalPortDefinitions_def port_def_def)
  then show ?thesis by (simp add: generated_config_def config_gen_def Let_def split: prod.split)
qed

lemma generated_header_consistent: "consistent (genHeader generated_config)"
proof -
  have "set (genHeader generated_config) = set (constant_defines GetEBPFConstants)
      \<union> set (port_defines CriticalPortDefinitions) \<union> set (port_defines FakePortDefinitions)"
    by (rule config_gen_content(1) [OF _ config_gen_ok]) simp
  also have "\<dots> = set (constant_defines GetEBPFConstants @ port_defines CriticalPortDefinitions
      @ port_defines FakePortDefinitions)" by auto
  finally have eq: "consistent (genHeader generated_config) \<longleftrightarrow>
      consistent (constant_defines GetEBPFConstants @ port_defines CriticalPortDefinitions
        @ port_defines FakePortDefinitions)"
    by (simp add: consistent_def)
  show ?thesis
    unfolding eq
    by (simp add: consistent_def constant_defines_def GetEBPFConstants_def port_defines_def
        CriticalPortDefinitions_def FakePortDefinitions_def port_def_def SSHPort_def)
qed

lemma config_gen_agrees_witness:
  "xCritical phantom_consts 22 \<and> \<not> xCritical phantom_consts 3306 \<and> xFake phantom_consts 3306"
  using config_gen_agrees [OF _ config_gen_ok generated_header_consistent, of 22]
    config_gen_agrees [OF _ config_gen_ok generated_header_consistent, of 3306]
  by (simp add: phantom_consts_def CriticalPortDefinitions_def FakePortDefinitions_def port_def_def)

end
