(* ===== verification/GoText.thy ===== *)
theory GoText
  imports GoLib
begin

text \<open>
  More of Go's \<^verbatim>\<open>strings\<close> and \<^verbatim>\<open>fmt\<close> packages, for the services that talk to a peer: words,
  splitting at a string, upper and lower case, scanning a number, and text written as lines.
\<close>

section \<open>Lines of text\<close>

definition lf :: string where "lf = [char_of (10 :: nat)]"
definition crlf :: string where "crlf = [char_of (13 :: nat), char_of (10 :: nat)]"

definition crlf_lines :: "string list \<Rightarrow> string" where
  "crlf_lines ls = concat (map (\<lambda>l. l @ crlf) ls)"

definition lf_lines :: "string list \<Rightarrow> string" where
  "lf_lines ls = concat (map (\<lambda>l. l @ lf) ls)"

lemma length_crlf [simp]: "length crlf = 2"
  by (simp add: crlf_def)

section \<open>Splitting\<close>

text \<open>\<^verbatim>\<open>strings.Split\<close> at a separator that is not empty, and \<^verbatim>\<open>strings.Join\<close>, which is
  \<open>join_with\<close>.\<close>

function split_str :: "'a list \<Rightarrow> 'a list \<Rightarrow> 'a list list" where
  "split_str sep s =
     (if sep = [] then [s]
      else case str_index s sep of
             None \<Rightarrow> [s]
           | Some i \<Rightarrow> take i s # split_str sep (drop (i + length sep) s))"
  by pat_completeness auto
termination
proof (relation "measure (length \<circ> snd)", simp)
  fix sep s :: "'a list" and i
  assume "sep \<noteq> []" "str_index s sep = Some i"
  then show "((sep, drop (i + length sep) s), (sep, s)) \<in> measure (length \<circ> snd)"
    using str_index_Some [of s sep i] by (cases sep) auto
qed

declare split_str.simps [simp del]

lemma split_str_ne [simp]: "split_str sep s \<noteq> []"
  by (subst split_str.simps) (simp split: option.split)

text \<open>\<^verbatim>\<open>strings.Fields\<close>: the words between white space.\<close>

function take_word :: "string \<Rightarrow> string" where
  "take_word s = (case s of [] \<Rightarrow> [] | c # cs \<Rightarrow> if leading space_strings s = None then c # take_word cs else [])"
  by pat_completeness auto
termination
  by (relation "measure length") auto

declare take_word.simps [simp del]

lemma take_word_Nil [simp]: "take_word [] = []"
  by (subst take_word.simps) simp

lemma take_word_Cons:
  "take_word (c # cs) = (if leading space_strings (c # cs) = None then c # take_word cs else [])"
  by (subst take_word.simps) simp

lemma take_word_prefix: "take (length (take_word s)) s = take_word s"
  by (induction s) (auto simp: take_word_Cons)

lemma trim_left_Cons: "trim_left space_strings s = c # cs \<Longrightarrow> take_word (c # cs) \<noteq> []"
  using trim_left_leading [of space_strings s] by (simp add: take_word_Cons)

function str_fields :: "string \<Rightarrow> string list" where
  "str_fields s =
     (let t = trim_left space_strings s
      in if t = [] then [] else take_word t # str_fields (drop (length (take_word t)) t))"
  by pat_completeness auto
termination
proof (relation "measure length", simp)
  fix s t
  assume t: "t = trim_left space_strings s" "t \<noteq> []"
  then have "take_word t \<noteq> []"
    using trim_left_Cons [of s] by (metis neq_Nil_conv)
  then have "length (drop (length (take_word t)) t) < length t"
    using t(2) by (cases "take_word t"; cases t) simp_all
  also have "length t \<le> length s"
    using t(1) length_trim_left by simp
  finally show "(drop (length (take_word t)) t, s) \<in> measure length" by simp
qed

declare str_fields.simps [simp del]

text \<open>The white space strings, written out.\<close>

lemma space_strings_code [code]:
  "space_strings =
    [[CHR 0x09], [CHR 0x0A], [CHR 0x0B], [CHR 0x0C], [CHR 0x0D], [CHR 0x20],
     [CHR 0xC2, CHR 0x85], [CHR 0xC2, CHR 0xA0], [CHR 0xE1, CHR 0x9A, CHR 0x80],
     [CHR 0xE2, CHR 0x80, CHR 0x80], [CHR 0xE2, CHR 0x80, CHR 0x81], [CHR 0xE2, CHR 0x80, CHR 0x82], [CHR 0xE2, CHR 0x80, CHR 0x83],
     [CHR 0xE2, CHR 0x80, CHR 0x84], [CHR 0xE2, CHR 0x80, CHR 0x85], [CHR 0xE2, CHR 0x80, CHR 0x86], [CHR 0xE2, CHR 0x80, CHR 0x87],
     [CHR 0xE2, CHR 0x80, CHR 0x88], [CHR 0xE2, CHR 0x80, CHR 0x89], [CHR 0xE2, CHR 0x80, CHR 0x8A], [CHR 0xE2, CHR 0x80, CHR 0xA8],
     [CHR 0xE2, CHR 0x80, CHR 0xA9], [CHR 0xE2, CHR 0x80, CHR 0xAF], [CHR 0xE2, CHR 0x81, CHR 0x9F], [CHR 0xE3, CHR 0x80, CHR 0x80]]"
  by code_simp

section \<open>Case\<close>

text \<open>\<^verbatim>\<open>strings.ToUpper\<close> and \<^verbatim>\<open>strings.ToLower\<close> on ASCII; what they and \<^verbatim>\<open>strings.Title\<close> do
  with other text is Unicode's tables, a parameter.\<close>

record unicode =
  uni_upper :: "string \<Rightarrow> string"
  uni_lower :: "string \<Rightarrow> string"
  uni_title :: "string \<Rightarrow> string"

definition is_ascii :: "string \<Rightarrow> bool" where
  "is_ascii s \<longleftrightarrow> list_all (\<lambda>c. of_char c < (128 :: nat)) s"

definition ascii_upper :: "char \<Rightarrow> char" where
  "ascii_upper c = (let n = of_char c in if 97 \<le> n \<and> n \<le> 122 then char_of (n - 32 :: nat) else c)"

definition ascii_lower :: "char \<Rightarrow> char" where
  "ascii_lower c = (let n = of_char c in if 65 \<le> n \<and> n \<le> 90 then char_of (n + 32 :: nat) else c)"

definition to_upper :: "unicode \<Rightarrow> string \<Rightarrow> string" where
  "to_upper U s = (if is_ascii s then map ascii_upper s else uni_upper U s)"

definition to_lower :: "unicode \<Rightarrow> string \<Rightarrow> string" where
  "to_lower U s = (if is_ascii s then map ascii_lower s else uni_lower U s)"

section \<open>Numbers\<close>

definition is_digit :: "char \<Rightarrow> bool" where
  "is_digit c \<longleftrightarrow> (48 :: nat) \<le> of_char c \<and> of_char c \<le> (57 :: nat)"

definition digits_value :: "string \<Rightarrow> nat" where
  "digits_value s = foldl (\<lambda>n c. 10 * n + (of_char c - 48)) 0 s"

text \<open>\<^verbatim>\<open>%d\<close> of \<^verbatim>\<open>Sscanf\<close>: white space, but no newline, a sign, digits; nothing is stored if there are
  no digits or the number does not fit. The rest is not looked at.\<close>

definition scan_d :: "string \<Rightarrow> int option" where
  "scan_d s =
     (let t = trim_left space_strings s;
          skipped = take (length s - length t) s;
          neg = (take 1 t = ''-'');
          u = (if neg \<or> take 1 t = ''+'' then drop 1 t else t);
          ds = takeWhile is_digit u;
          v = (if neg then - int (digits_value ds) else int (digits_value ds))
      in if char_of (10 :: nat) \<in> set skipped \<or> ds = [] \<or> v < - (2 ^ 63) \<or> 2 ^ 63 \<le> v then None else Some v)"

text \<open>\<^verbatim>\<open>%4d\<close>\<close>

definition pad_left :: "nat \<Rightarrow> string \<Rightarrow> string" where
  "pad_left w s = replicate (w - length s) (CHR '' '') @ s"

section \<open>Facts about words\<close>

lemma is_digit_show_nat: "list_all is_digit (show_nat n)"
proof (induction n rule: show_nat.induct)
  case (1 n)
  have "\<forall>m \<in> set [0..<10]. is_digit (''0123456789'' ! m)" by code_simp
  then have "is_digit (''0123456789'' ! (n mod 10))" by simp
  moreover have "n < 10 \<Longrightarrow> n mod 10 = n" by simp
  ultimately show ?case using 1 by (subst show_nat.simps) (auto simp del: mod_less)
qed

lemma show_nat_ne [simp]: "show_nat n \<noteq> []"
  by (subst show_nat.simps) simp

lemma digits_value_snoc: "digits_value (s @ [c]) = 10 * digits_value s + (of_char c - 48)"
  by (simp add: digits_value_def)

lemma digits_value_show_nat: "digits_value (show_nat n) = n"
proof (induction n rule: show_nat.induct)
  case (1 n)
  have "\<forall>m \<in> set [0..<10]. of_char (''0123456789'' ! m) - 48 = m" by code_simp
  then have d: "of_char (''0123456789'' ! (n mod 10)) - 48 = n mod 10" by simp
  show ?case
  proof (cases "n < 10")
    case True
    then show ?thesis
      using d digits_value_snoc [of "[]"] by (subst show_nat.simps) (simp add: digits_value_def)
  next
    case False
    then show ?thesis
      using 1 d by (subst show_nat.simps) (simp add: digits_value_snoc)
  qed
qed

text \<open>No white space begins anywhere in a word.\<close>

definition is_word :: "string \<Rightarrow> bool" where
  "is_word w \<longleftrightarrow> w \<noteq> [] \<and> (\<forall>x p. w = x @ p \<longrightarrow> leading space_strings p = None)"

lemma leading_None_prefix: "leading sps (p @ rest) = None \<Longrightarrow> leading sps p = None"
  by (auto simp: leading_def find_None_iff)

lemma take_word_suffix: "take_word t = x @ p \<Longrightarrow> p \<noteq> [] \<Longrightarrow> leading space_strings p = None"
proof (induction t arbitrary: x)
  case (Cons c cs)
  then have w: "take_word (c # cs) = c # take_word cs" "leading space_strings (c # cs) = None"
    by (auto simp: take_word_Cons split: if_splits)
  show ?case
  proof (cases x)
    case Nil
    then have "c # cs = p @ drop (length (take_word cs)) cs"
      using w Cons.prems take_word_prefix [of cs] by (metis append_Cons append_Nil append_take_drop_id)
    then show ?thesis using w(2) leading_None_prefix by metis
  next
    case (Cons d x')
    then show ?thesis using Cons.IH [of x'] Cons.prems w by simp
  qed
qed simp

lemma leading_Nil [simp]: "leading sps [] = None"
  by (auto simp: leading_def find_None_iff)

lemma take_word_is_word: "take_word t \<noteq> [] \<Longrightarrow> is_word (take_word t)"
  unfolding is_word_def using take_word_suffix [of t] leading_Nil by metis

lemma str_fields_words: "w \<in> set (str_fields s) \<Longrightarrow> is_word w"
proof (induction s rule: str_fields.induct)
  case (1 s)
  let ?t = "trim_left space_strings s"
  have "?t \<noteq> [] \<Longrightarrow> take_word ?t \<noteq> []"
    using trim_left_Cons [of s] by (metis neq_Nil_conv)
  with 1 show ?case
    by (subst (asm) (2) str_fields.simps) (auto simp: Let_def take_word_is_word split: if_splits)
qed

lemma leading_other_head: "list_all (\<lambda>p. p = [] \<or> hd p \<noteq> c) sps \<Longrightarrow> leading sps (c # cs) = None"
  by (induction sps) (auto simp: leading_def neq_Nil_conv)

lemma slash_not_space: "leading space_strings (CHR ''/'' # cs) = None"
  by (rule leading_other_head) code_simp

lemma space_without_slash: "p \<in> set space_strings \<Longrightarrow> CHR ''/'' \<notin> set p"
proof -
  have "list_all (\<lambda>p. CHR ''/'' \<notin> set p) space_strings" by code_simp
  then show "p \<in> set space_strings \<Longrightarrow> CHR ''/'' \<notin> set p" by (simp add: list_all_iff)
qed

text \<open>Trimming leaves an absolute path that ends in a word as it is.\<close>

lemma trim_space_path:
  assumes w: "is_word w" and pre: "pre = [] \<or> last pre = CHR ''/''" and abs: "hd (pre @ w) = CHR ''/''"
  shows "strings_trim_space (pre @ w) = pre @ w"
proof -
  have "leading space_strings (pre @ w) = None"
    using slash_not_space abs w by (cases "pre @ w") (auto simp: is_word_def)
  moreover have "leading (map rev space_strings) (rev (pre @ w)) = None"
  proof (rule ccontr)
    assume "leading (map rev space_strings) (rev (pre @ w)) \<noteq> None"
    then obtain q where "q \<noteq> []" "take (length q) (rev (pre @ w)) = q" "q \<in> set (map rev space_strings)"
      by (auto dest: leading_SomeD)
    moreover from this obtain p where "q = rev p" "p \<in> set space_strings"
      by (metis (no_types, lifting) image_iff list.set_map)
    ultimately have p: "p \<in> set space_strings" "p \<noteq> []" "take (length p) (rev (pre @ w)) = rev p"
      by (simp_all only: length_rev rev_is_Nil_conv) simp
    then have suf: "suffix p (pre @ w)"
      by (metis rev_rev_ident suffix_to_prefix take_is_prefix)
    show False
    proof (cases "suffix p w")
      case True
      then obtain x where "w = x @ p" by (auto simp: suffix_def)
      then have "leading space_strings p = None" using w by (simp add: is_word_def)
      moreover have "find (\<lambda>q. q \<noteq> [] \<and> take (length q) p = q) space_strings \<noteq> None"
        using p(1,2) by (auto simp: find_None_iff)
      ultimately show False by (simp add: leading_def)
    next
      case False
      obtain z where "pre @ w = z @ p" using suf by (auto simp: suffix_def)
      then obtain y where y: "p = y @ w" "pre = z @ y" "y \<noteq> []"
        using False by (auto simp: append_eq_append_conv2 suffix_def)
      then have "last y = CHR ''/''" using pre by simp
      then have "CHR ''/'' \<in> set p" using last_in_set [OF y(3)] y(1) by simp
      then show False using space_without_slash p(1) by blast
    qed
  qed
  ultimately show ?thesis
    unfolding strings_trim_space_def by (rule trim_space_id)
qed

end
