(* ===== verification/Flags.thy ===== *)
theory Flags
  imports GoText
begin

text \<open>
  Go's \<^verbatim>\<open>flag\<close> package and the functions of \<^verbatim>\<open>strconv\<close> it calls, as the four commands of
  \<^verbatim>\<open>cmd/\<close> use them: one set of flags with string, boolean and integer values, parsed from the
  arguments of the program, which ends with status 2 on a mistake and with status 0 if help is asked for.
\<close>

section \<open>Numbers and truth values\<close>

text \<open>\<^verbatim>\<open>strconv.ParseBool\<close>\<close>

definition parse_bool :: "string \<Rightarrow> bool option" where
  "parse_bool s =
     (if s \<in> {''1'', ''t'', ''T'', ''true'', ''TRUE'', ''True''} then Some True
      else if s \<in> {''0'', ''f'', ''F'', ''false'', ''FALSE'', ''False''} then Some False
      else None)"

text \<open>\<^verbatim>\<open>strconv.ParseUint\<close> and \<^verbatim>\<open>ParseInt\<close> with base 0 and 64 bits: the base is that of the prefix,
  underscores may separate digits, and a number that does not fit is an error.\<close>

definition digit_value :: "char \<Rightarrow> nat option" where
  "digit_value c =
     (let n = of_char c; m = of_char (ascii_lower c)
      in if 48 \<le> n \<and> n \<le> 57 then Some (n - 48)
         else if 97 \<le> m \<and> m \<le> 122 then Some (m - 87) else None)"

definition number_base :: "string \<Rightarrow> nat \<times> string" where
  "number_base s =
     (if take 1 s \<noteq> ''0'' then (10, s)
      else if 3 \<le> length s \<and> ascii_lower (s ! 1) = CHR ''b'' then (2, drop 2 s)
      else if 3 \<le> length s \<and> ascii_lower (s ! 1) = CHR ''o'' then (8, drop 2 s)
      else if 3 \<le> length s \<and> ascii_lower (s ! 1) = CHR ''x'' then (16, drop 2 s)
      else (8, drop 1 s))"

fun digits_in :: "nat \<Rightarrow> string \<Rightarrow> nat \<Rightarrow> nat option" where
  "digits_in base [] n = Some n"
| "digits_in base (c # cs) n =
     (if c = CHR ''_'' then digits_in base cs n
      else case digit_value c of
             None \<Rightarrow> None
           | Some d \<Rightarrow> if base \<le> d then None else digits_in base cs (n * base + d))"

text \<open>What \<^verbatim>\<open>underscoreOK\<close> remembers of the last character: a digit, an underscore, or another.\<close>

datatype seen = SawDigit | SawUnderscore | SawOther

fun underscores :: "bool \<Rightarrow> seen \<Rightarrow> string \<Rightarrow> bool" where
  "underscores hex saw [] \<longleftrightarrow> saw \<noteq> SawUnderscore"
| "underscores hex saw (c # cs) \<longleftrightarrow>
     (case digit_value c of
        Some d \<Rightarrow>
          if d < 10 \<or> hex \<and> d < 16 then underscores hex SawDigit cs
          else saw \<noteq> SawUnderscore \<and> underscores hex SawOther cs
      | None \<Rightarrow>
          if c = CHR ''_'' then saw = SawDigit \<and> underscores hex SawUnderscore cs
          else saw \<noteq> SawUnderscore \<and> underscores hex SawOther cs)"

definition underscore_ok :: "string \<Rightarrow> bool" where
  "underscore_ok s0 =
     (let s = (if take 1 s0 \<in> {''-'', ''+''} then drop 1 s0 else s0)
      in if 2 \<le> length s \<and> hd s = CHR ''0'' \<and> ascii_lower (s ! 1) \<in> {CHR ''b'', CHR ''o'', CHR ''x''}
         then underscores (ascii_lower (s ! 1) = CHR ''x'') SawDigit (drop 2 s)
         else underscores False SawOther s)"

definition parse_uint :: "string \<Rightarrow> nat option" where
  "parse_uint s =
     (if s = [] then None
      else let (base, ds) = number_base s
           in case digits_in base ds 0 of
                None \<Rightarrow> None
              | Some n \<Rightarrow>
                  if 2 ^ 64 \<le> n \<or> CHR ''_'' \<in> set ds \<and> \<not> underscore_ok s then None else Some n)"

definition parse_int :: "string \<Rightarrow> int option" where
  "parse_int s =
     (let neg = (take 1 s = ''-'');
          u = (if neg \<or> take 1 s = ''+'' then drop 1 s else s)
      in case parse_uint u of
           None \<Rightarrow> None
         | Some n \<Rightarrow>
             if neg then (if n \<le> 2 ^ 63 then Some (- int n) else None)
             else if n < 2 ^ 63 then Some (int n) else None)"

section \<open>Flags\<close>

datatype flag_value = StringFlag string | BoolFlag bool | IntFlag int

type_synonym flag_set = "(string \<times> flag_value) list"

datatype flag_error =
    BadFlagSyntax string
  | FlagNotDefined string
  | FlagNeedsArgument string
  | InvalidFlagValue string string
  | HelpRequested

text \<open>\<^verbatim>\<open>Value.Set\<close> of the three kinds of values.\<close>

definition set_value :: "flag_value \<Rightarrow> string \<Rightarrow> flag_value option" where
  "set_value cur s =
     (case cur of
        StringFlag _ \<Rightarrow> Some (StringFlag s)
      | BoolFlag _ \<Rightarrow> map_option BoolFlag (parse_bool s)
      | IntFlag _ \<Rightarrow> map_option IntFlag (parse_int s))"

definition set_flag :: "string \<Rightarrow> flag_value \<Rightarrow> flag_set \<Rightarrow> flag_set" where
  "set_flag name v F = map (\<lambda>(n, w). (n, if n = name then v else w)) F"

text \<open>The name and the value of \<^verbatim>\<open>name=value\<close>; the sign is not the first character.\<close>

definition split_flag :: "string \<Rightarrow> string \<times> string option" where
  "split_flag name =
     (case str_index (drop 1 name) ''='' of
        None \<Rightarrow> (name, None)
      | Some i \<Rightarrow> (take (Suc i) name, Some (drop (i + 2) name)))"

datatype parse_result = ParseDone "string list" | ParseNext flag_set "string list" | ParseError flag_error

text \<open>\<^verbatim>\<open>parseOne\<close>: one flag with its value, or the end of the flags.\<close>

definition set_next :: "flag_set \<Rightarrow> string \<Rightarrow> flag_value \<Rightarrow> string \<Rightarrow> string list \<Rightarrow> parse_result" where
  "set_next F name cur s rest =
     (case set_value cur s of
        None \<Rightarrow> ParseError (InvalidFlagValue name s)
      | Some v \<Rightarrow> ParseNext (set_flag name v F) rest)"

definition parse_value :: "flag_set \<Rightarrow> string \<Rightarrow> string option \<Rightarrow> string list \<Rightarrow> parse_result" where
  "parse_value F name val rest =
     (case map_of F name of
        None \<Rightarrow> ParseError (if name = ''help'' \<or> name = ''h'' then HelpRequested else FlagNotDefined name)
      | Some (BoolFlag b) \<Rightarrow> set_next F name (BoolFlag b) (case val of None \<Rightarrow> ''true'' | Some s \<Rightarrow> s) rest
      | Some cur \<Rightarrow>
          (case val of
             Some s \<Rightarrow> set_next F name cur s rest
           | None \<Rightarrow>
               (case rest of
                  [] \<Rightarrow> ParseError (FlagNeedsArgument name)
                | s # rest' \<Rightarrow> set_next F name cur s rest')))"

definition parse_one :: "flag_set \<Rightarrow> string list \<Rightarrow> parse_result" where
  "parse_one F args =
     (case args of
        [] \<Rightarrow> ParseDone []
      | s # rest \<Rightarrow>
          if length s < 2 \<or> hd s \<noteq> CHR ''-'' then ParseDone args
          else if s = ''--'' then ParseDone rest
          else let name = drop (if s ! 1 = CHR ''-'' then 2 else 1) s
               in if name = [] \<or> hd name = CHR ''-'' \<or> hd name = CHR ''='' then ParseError (BadFlagSyntax s)
                  else case split_flag name of (n, val) \<Rightarrow> parse_value F n val rest)"

lemma set_next_shorter: "set_next F name cur s rest = ParseNext F' rest' \<Longrightarrow> rest' = rest"
  by (auto simp: set_next_def split: option.splits)

lemma parse_value_shorter: "parse_value F name val rest = ParseNext F' rest' \<Longrightarrow> length rest' \<le> length rest"
  by (auto simp: parse_value_def dest: set_next_shorter split: option.splits flag_value.splits list.splits if_splits)

lemma parse_one_shorter: "parse_one F args = ParseNext F' rest \<Longrightarrow> length rest < length args"
  by (auto simp: parse_one_def Let_def dest: parse_value_shorter split: list.splits prod.splits if_splits)

text \<open>\<^verbatim>\<open>Parse\<close>: the flags with their values, and the arguments after them.\<close>

function parse_flags :: "flag_set \<Rightarrow> string list \<Rightarrow> flag_error + flag_set \<times> string list" where
  "parse_flags F args =
     (case parse_one F args of
        ParseDone rest \<Rightarrow> Inr (F, rest)
      | ParseError e \<Rightarrow> Inl e
      | ParseNext F' rest \<Rightarrow> parse_flags F' rest)"
  by pat_completeness auto
termination
  by (relation "measure (length \<circ> snd)") (auto dest: parse_one_shorter)

declare parse_flags.simps [simp del]

text \<open>Reading a flag.\<close>

definition flag_string :: "flag_set \<Rightarrow> string \<Rightarrow> string" where
  "flag_string F n = (case map_of F n of Some (StringFlag s) \<Rightarrow> s | _ \<Rightarrow> [])"

definition flag_bool :: "flag_set \<Rightarrow> string \<Rightarrow> bool" where
  "flag_bool F n = (case map_of F n of Some (BoolFlag b) \<Rightarrow> b | _ \<Rightarrow> False)"

definition flag_int :: "flag_set \<Rightarrow> string \<Rightarrow> int" where
  "flag_int F n = (case map_of F n of Some (IntFlag k) \<Rightarrow> k | _ \<Rightarrow> 0)"

text \<open>The end of a program before its work: its status.\<close>

definition flag_status :: "flag_error \<Rightarrow> nat" where
  "flag_status e = (if e = HelpRequested then 0 else 2)"

section \<open>What parsing keeps\<close>

fun same_kind :: "flag_value \<Rightarrow> flag_value \<Rightarrow> bool" where
  "same_kind (StringFlag _) (StringFlag _) = True"
| "same_kind (BoolFlag _) (BoolFlag _) = True"
| "same_kind (IntFlag _) (IntFlag k) = int64_fits k"
| "same_kind _ _ = False"

lemma parse_int_fits: "parse_int s = Some k \<Longrightarrow> int64_fits k"
  by (auto simp: parse_int_def Let_def int64_fits_def split: option.splits if_splits)

lemma same_kind_set: "set_value cur s = Some v \<Longrightarrow> same_kind cur v"
  by (cases cur) (auto simp: set_value_def dest: parse_int_fits)

lemma same_kind_trans: "same_kind a b \<Longrightarrow> same_kind b c \<Longrightarrow> same_kind a c"
  by (cases a; cases b; cases c) simp_all

text \<open>A set of flags that parsing can make from another: the same flags, with values of their kinds.\<close>

definition flags_typed :: "flag_set \<Rightarrow> flag_set \<Rightarrow> bool" where
  "flags_typed F F' \<longleftrightarrow> map fst F' = map fst F \<and>
     (\<forall>n v v'. map_of F n = Some v \<longrightarrow> map_of F' n = Some v' \<longrightarrow> v' = v \<or> same_kind v v')"

lemma map_of_set_flag: "map_of (set_flag n v F) m = (if m = n then map_option (\<lambda>_. v) (map_of F n) else map_of F m)"
  by (induction F) (auto simp: set_flag_def)

lemma fst_set_flag [simp]: "map fst (set_flag n v F) = map fst F"
  by (simp add: set_flag_def case_prod_beta comp_def)

lemma set_next_typed:
  "map_of F name = Some cur \<Longrightarrow> set_next F name cur s rest = ParseNext F' rest' \<Longrightarrow> flags_typed F F'"
  by (auto simp: set_next_def flags_typed_def map_of_set_flag dest: same_kind_set split: option.splits if_splits)

lemma parse_one_typed:
  assumes "parse_one F args = ParseNext F' rest"
  shows "flags_typed F F'"
proof -
  obtain name val rest0 where "parse_value F name val rest0 = ParseNext F' rest"
    using assms by (auto simp: parse_one_def Let_def split: list.splits prod.splits if_splits)
  then show ?thesis
    by (auto simp: parse_value_def dest!: set_next_typed [rotated] split: option.splits flag_value.splits list.splits)
qed

lemma flags_typed_trans: "flags_typed A B \<Longrightarrow> flags_typed B C \<Longrightarrow> flags_typed A C"
  unfolding flags_typed_def
  by (metis map_of_eq_None_iff list.set_map not_None_eq same_kind_trans)

lemma parse_flags_typed: "parse_flags F args = Inr (F', rest) \<Longrightarrow> flags_typed F F'"
proof (induction F args rule: parse_flags.induct)
  case (1 F args)
  show ?case
  proof (cases "parse_one F args")
    case (ParseNext F1 rest1)
    then have "parse_flags F1 rest1 = Inr (F', rest)" using 1(2) by (subst (asm) parse_flags.simps) simp
    then show ?thesis using 1(1) [OF ParseNext] parse_one_typed [OF ParseNext] flags_typed_trans by blast
  next
    case (ParseDone r)
    then show ?thesis using 1(2) by (subst (asm) parse_flags.simps) (simp add: flags_typed_def)
  next
    case (ParseError e)
    then show ?thesis using 1(2) by (subst (asm) parse_flags.simps) simp
  qed
qed

section \<open>Arguments in pairs\<close>

text \<open>The names a flag can have, and the arguments that give a list of flags their values.\<close>

definition plain_flag_name :: "string \<Rightarrow> bool" where
  "plain_flag_name n \<longleftrightarrow> n \<noteq> [] \<and> hd n \<noteq> CHR ''-'' \<and> CHR ''='' \<notin> set n"

definition pair_args :: "(string \<times> string) list \<Rightarrow> string list" where
  "pair_args ps = concat (map (\<lambda>(n, v). [CHR ''-'' # n, v]) ps)"

lemma pair_args_simps [simp]:
  "pair_args [] = []" "pair_args ((n, v) # ps) = (CHR ''-'' # n) # v # pair_args ps"
  "pair_args (ps @ qs) = pair_args ps @ pair_args qs"
  by (simp_all add: pair_args_def)

lemma str_index_char_None: "c \<notin> set s \<Longrightarrow> str_index s [c] = None"
  by (simp add: str_index_None sublist_def) auto

lemma split_flag_plain: "plain_flag_name n \<Longrightarrow> split_flag n = (n, None)"
proof -
  assume "plain_flag_name n"
  then have "CHR ''='' \<notin> set (drop 1 n)" by (metis in_set_dropD plain_flag_name_def)
  then have "str_index (drop 1 n) ''='' = None" by (rule str_index_char_None)
  then show ?thesis by (simp only: split_flag_def option.case)
qed

lemma parse_one_plain:
  assumes "plain_flag_name n"
  shows "parse_one F ((CHR ''-'' # n) # rest) = parse_value F n None rest"
proof -
  obtain c cs where n: "n = c # cs" "c \<noteq> CHR ''-''" "c \<noteq> CHR ''=''"
    using assms by (cases n) (auto simp: plain_flag_name_def)
  then show ?thesis using split_flag_plain [OF assms] by (simp add: parse_one_def Let_def)
qed

lemma parse_flags_string:
  assumes "plain_flag_name n" and "map_of F n = Some (StringFlag d)"
  shows "parse_flags F ((CHR ''-'' # n) # v # rest) = parse_flags (set_flag n (StringFlag v) F) rest"
  using assms
  by (subst parse_flags.simps) (simp add: parse_one_plain parse_value_def set_next_def set_value_def)

lemma parse_flags_bool:
  assumes "plain_flag_name n" and "map_of F n = Some (BoolFlag d)"
  shows "parse_flags F ((CHR ''-'' # n) # rest) = parse_flags (set_flag n (BoolFlag True) F) rest"
  using assms
  by (subst parse_flags.simps) (simp add: parse_one_plain parse_value_def set_next_def set_value_def parse_bool_def)

lemma parse_flags_Nil [simp]: "parse_flags F [] = Inr (F, [])"
  by (subst parse_flags.simps) (simp add: parse_one_def)

definition set_strings :: "(string \<times> string) list \<Rightarrow> flag_set \<Rightarrow> flag_set" where
  "set_strings ps F = fold (\<lambda>(n, v). set_flag n (StringFlag v)) ps F"

lemma set_strings_simps [simp]:
  "set_strings [] F = F" "set_strings ((n, v) # ps) F = set_strings ps (set_flag n (StringFlag v) F)"
  by (simp_all add: set_strings_def)

text \<open>Whatever the values are, also if they begin with a dash or hold white space, they arrive.\<close>

lemma parse_flags_pairs:
  assumes "\<forall>(n, v) \<in> set ps. plain_flag_name n \<and> (\<exists>d. map_of F n = Some (StringFlag d))"
  shows "parse_flags F (pair_args ps @ rest) = parse_flags (set_strings ps F) rest"
  using assms
proof (induction ps arbitrary: F)
  case (Cons p ps)
  obtain n v where p: "p = (n, v)" by (cases p)
  obtain d where d: "plain_flag_name n" "map_of F n = Some (StringFlag d)" using Cons.prems p by auto
  have "\<forall>(m, w) \<in> set ps. plain_flag_name m \<and> (\<exists>e. map_of (set_flag n (StringFlag v) F) m = Some (StringFlag e))"
    using Cons.prems by (force simp: map_of_set_flag)
  from Cons.IH [OF this] show ?case by (simp add: p parse_flags_string [OF d])
qed simp

lemma map_of_set_strings:
  "map_of (set_strings ps F) m =
     (case map_of (rev ps) m of None \<Rightarrow> map_of F m | Some v \<Rightarrow> map_option (\<lambda>_. StringFlag v) (map_of F m))"
proof (induction ps arbitrary: F)
  case (Cons p ps)
  obtain n v where p: "p = (n, v)" by (cases p)
  show ?case by (cases "map_of F n") (auto simp: p Cons map_of_set_flag map_add_def split: option.splits)
qed simp

lemma flag_string_set_strings:
  "map_of F m = Some (StringFlag d) \<Longrightarrow>
   flag_string (set_strings ps F) m = (case map_of (rev ps) m of None \<Rightarrow> d | Some v \<Rightarrow> v)"
  by (simp add: flag_string_def map_of_set_strings split: option.split)

section \<open>Numbers in decimal\<close>

lemma digit_value_digit: "is_digit c \<Longrightarrow> digit_value c = Some (of_char c - 48)"
  by (simp add: digit_value_def is_digit_def Let_def)

lemma digits_in_decimal:
  "list_all is_digit s \<Longrightarrow> digits_in 10 s n = Some (foldl (\<lambda>n c. 10 * n + (of_char c - 48)) n s)"
proof (induction s arbitrary: n)
  case (Cons c cs)
  then have c: "is_digit c" by simp
  then have "c \<noteq> CHR ''_''" and "(of_char c :: nat) - 48 < 10" by (auto simp: is_digit_def)
  with c Cons show ?case by (simp add: digit_value_digit mult.commute not_le)
qed simp

lemma show_nat_head: "0 < n \<Longrightarrow> take 1 (show_nat n) \<noteq> ''0''"
proof (induction n rule: show_nat.induct)
  case (1 n)
  have "\<forall>m \<in> set [1..<10]. ''0123456789'' ! m \<noteq> CHR ''0''" by code_simp
  then have small: "n < 10 \<Longrightarrow> ''0123456789'' ! n \<noteq> CHR ''0''" using 1(2) by simp
  show ?case
  proof (cases "n < 10")
    case True
    then show ?thesis using small by (subst show_nat.simps) simp
  next
    case False
    then have "take 1 (show_nat n) = take 1 (show_nat (n div 10))"
      by (subst show_nat.simps) (cases "show_nat (n div 10)", simp_all)
    then show ?thesis using 1(1) False by simp
  qed
qed

lemma parse_int_show_nat: "n < 2 ^ 63 \<Longrightarrow> parse_int (show_nat n) = Some (int n)"
proof -
  assume n: "n < 2 ^ 63"
  have digits: "list_all is_digit (show_nat n)" by (rule is_digit_show_nat)
  then obtain c cs where s: "show_nat n = c # cs" "is_digit c" by (cases "show_nat n") auto
  then have sign: "take 1 (show_nat n) \<noteq> ''-''" "take 1 (show_nat n) \<noteq> ''+''" by (auto simp: is_digit_def)
  have plain: "CHR ''_'' \<notin> set (show_nat n)" using digits by (auto simp: list_all_iff is_digit_def)
  have "parse_uint (show_nat n) = Some n"
  proof (cases "n = 0")
    case True
    have "show_nat 0 = ''0''" by (subst show_nat.simps) simp
    moreover have "parse_uint ''0'' = Some 0" by (simp add: parse_uint_def number_base_def)
    ultimately show ?thesis using True by simp
  next
    case False
    then have "number_base (show_nat n) = (10, show_nat n)" using show_nat_head by (simp add: number_base_def)
    moreover have "digits_in 10 (show_nat n) 0 = Some n"
      using digits_in_decimal [OF digits, of 0] digits_value_show_nat [of n] by (simp add: digits_value_def)
    ultimately show ?thesis using n plain by (simp add: parse_uint_def)
  qed
  then show ?thesis using n sign by (simp add: parse_int_def)
qed

end
