(* ===== verification/Totp.thy ===== *)
theory Totp
  imports Crypto
begin

text \<open>
  \<^verbatim>\<open>internal/spa/totp.go\<close>: time-based one-time passwords. Each call of \<^verbatim>\<open>time.Now().Unix()\<close>
  is an argument. \<open>None\<close> is a call that does not return: a zero time step is a division by
  zero, and a tolerance of the largest \<^verbatim>\<open>int\<close> never ends the loop.
\<close>

text \<open>Dynamic truncation; the slice is in bounds because the digest has 20 bytes.\<close>

definition totp_truncate :: "bytes \<Rightarrow> u32" where
  "totp_truncate hash =
     (let offset = unat (hash ! 19 AND 0x0f);
          code = get_be32 (subslice offset (offset + 4) hash) AND 0x7fffffff
      in code mod 1000000)"

definition TOTP :: "bytes \<Rightarrow> i64 \<Rightarrow> i64 \<Rightarrow> u32 option" where
  "TOTP secret timeStep timestamp =
     (case go_sdiv timestamp timeStep of
        None \<Rightarrow> None
      | Some counter \<Rightarrow> Some (totp_truncate (hmac_sha1 secret (put_be64 counter))))"

definition GenerateTOTP :: "i64 \<Rightarrow> bytes \<Rightarrow> i64 \<Rightarrow> u32 option" where
  "GenerateTOTP now secret timeStep = TOTP secret timeStep now"

text \<open>The loop of \<^verbatim>\<open>ValidateTOTP\<close>: \<open>i\<close> counts up with \<^verbatim>\<open>int\<close> arithmetic.\<close>

partial_function (option) validate_loop ::
    "bytes \<Rightarrow> i64 \<Rightarrow> i64 \<Rightarrow> u32 \<Rightarrow> i64 \<Rightarrow> i64 \<Rightarrow> bool option" where
  "validate_loop secret timeStep currentStep received tolerance i =
     (if i \<le>s tolerance then
        (case TOTP secret timeStep ((currentStep + i) * timeStep) of
           None \<Rightarrow> None
         | Some expected \<Rightarrow>
             if expected = received then Some True
             else validate_loop secret timeStep currentStep received tolerance (i + 1))
      else Some False)"

definition ValidateTOTP :: "i64 \<Rightarrow> bytes \<Rightarrow> i64 \<Rightarrow> i64 \<Rightarrow> u32 \<Rightarrow> bool option" where
  "ValidateTOTP now secret timeStep tolerance received =
     (case go_sdiv now timeStep of
        None \<Rightarrow> None
      | Some currentStep \<Rightarrow>
          validate_loop secret timeStep currentStep received tolerance (- tolerance))"

definition GetTOTPTimeWindow :: "i64 \<Rightarrow> i64 \<Rightarrow> (i64 \<times> i64) option" where
  "GetTOTPTimeWindow timeStep timestamp =
     (case go_sdiv timestamp timeStep of
        None \<Rightarrow> None
      | Some step \<Rightarrow> Some (step * timeStep, step * timeStep + timeStep))"

section \<open>Codes\<close>

lemma and_0x0f_less: "unat (b AND 0x0f :: byte) < 16"
proof -
  have "b AND 0x0f = take_bit 4 b"
    by (simp add: take_bit_eq_mask mask_eq_exp_minus_1)
  then have "unat (b AND 0x0f) = unat b mod 16"
    by (simp add: take_bit_eq_mod unat_mod)
  then show ?thesis by simp
qed

text \<open>The four bytes of the truncation are inside the digest.\<close>

lemma truncate_in_bounds: "unat (sha_hash ! 19 AND 0x0f :: byte) + 4 \<le> 20"
  using and_0x0f_less [of "sha_hash ! 19"] by simp

lemma totp_truncate_less: "unat (totp_truncate h) < 1000000"
  by (simp add: totp_truncate_def Let_def unat_mod)

lemma TOTP_total: "timeStep \<noteq> 0 \<Longrightarrow> \<exists>c. TOTP secret timeStep t = Some c"
  by (simp add: TOTP_def go_sdiv_Some)

lemma TOTP_None [simp]: "TOTP secret timeStep t = None \<longleftrightarrow> timeStep = 0"
  by (simp add: TOTP_def go_sdiv_def)

lemma TOTP_less: "TOTP secret timeStep t = Some c \<Longrightarrow> unat c < 1000000"
  by (auto simp: TOTP_def totp_truncate_less split: option.splits)

text \<open>Only the step a time falls into matters.\<close>

lemma TOTP_same_step: "go_sdiv t timeStep = go_sdiv t' timeStep \<Longrightarrow> TOTP s timeStep t = TOTP s timeStep t'"
  by (simp add: TOTP_def)

section \<open>The validation loop\<close>

declare validate_loop.simps [code]

text \<open>What the loop computes, on integers: some offset in the window gives the received code.\<close>

definition offset_matches :: "bytes \<Rightarrow> i64 \<Rightarrow> i64 \<Rightarrow> u32 \<Rightarrow> int \<Rightarrow> bool" where
  "offset_matches secret timeStep currentStep received k \<longleftrightarrow>
     TOTP secret timeStep ((currentStep + word_of_int k) * timeStep) = Some received"

lemma validate_loop_eq:
  assumes step: "timeStep \<noteq> 0"
    and i: "sint i \<le> sint tolerance + 1" and fin: "sint tolerance < 2 ^ 63 - 1"
  shows "validate_loop secret timeStep currentStep received tolerance i =
     Some (\<exists>k. sint i \<le> k \<and> k \<le> sint tolerance \<and>
               offset_matches secret timeStep currentStep received k)"
  using i
proof (induction "nat (sint tolerance + 1 - sint i)" arbitrary: i)
  case 0
  then have "sint tolerance < sint i" by simp
  then show ?case
    by (subst validate_loop.simps) (auto simp: word_sle_eq)
next
  case (Suc n)
  have le: "sint i \<le> sint tolerance" using Suc.hyps(2) by simp
  then have fits: "int64_fits (sint i + sint (1 :: i64))"
    using fin sint_fits [of i] by (simp add: int64_fits_def)
  have i1: "sint (i + 1) = sint i + 1"
    using sint_add64 [OF fits] by simp
  obtain c where c: "TOTP secret timeStep ((currentStep + i) * timeStep) = Some c"
    using TOTP_total [OF step] by blast
  have here: "offset_matches secret timeStep currentStep received (sint i) \<longleftrightarrow> c = received"
    by (simp add: offset_matches_def c)
  have IH: "validate_loop secret timeStep currentStep received tolerance (i + 1) =
      Some (\<exists>k. sint (i + 1) \<le> k \<and> k \<le> sint tolerance \<and>
                offset_matches secret timeStep currentStep received k)"
    by (rule Suc.hyps(1)) (use Suc.hyps(2) i1 le in simp_all)
  have split: "(\<exists>k. sint i \<le> k \<and> k \<le> sint tolerance \<and> P k) \<longleftrightarrow>
      P (sint i) \<or> (\<exists>k. sint (i + 1) \<le> k \<and> k \<le> sint tolerance \<and> P k)" for P
    using le i1 by (metis add1_zle_eq order_le_less order_refl)
  show ?case
    using le by (subst validate_loop.simps) (simp add: c IH word_sle_eq split here)
qed

definition totp_step :: "i64 \<Rightarrow> i64 \<Rightarrow> i64" where
  "totp_step now timeStep = word_of_int (sint now sdiv sint timeStep)"

lemma ValidateTOTP_eq:
  assumes "timeStep \<noteq> 0" and "0 \<le> sint tolerance" and "sint tolerance < 2 ^ 63 - 1"
  shows "ValidateTOTP now secret timeStep tolerance received =
     Some (\<exists>k. \<bar>k\<bar> \<le> sint tolerance \<and>
               offset_matches secret timeStep (totp_step now timeStep) received k)"
proof -
  have neg: "sint (- tolerance) = - sint tolerance"
    by (rule sint_minus64) (use assms in \<open>simp add: int64_fits_def\<close>)
  have "validate_loop secret timeStep (totp_step now timeStep) received tolerance (- tolerance) =
     Some (\<exists>k. - sint tolerance \<le> k \<and> k \<le> sint tolerance \<and>
               offset_matches secret timeStep (totp_step now timeStep) received k)"
    using validate_loop_eq [of timeStep "- tolerance" tolerance] assms by (simp add: neg)
  moreover have "(- sint tolerance \<le> k \<and> k \<le> sint tolerance) \<longleftrightarrow> \<bar>k\<bar> \<le> sint tolerance" for k
    by auto
  ultimately show ?thesis
    using assms(1) by (simp add: ValidateTOTP_def go_sdiv_Some totp_step_def conj_assoc [symmetric])
qed

lemma validate_loop_past: "sint tolerance < sint i \<Longrightarrow>
    validate_loop secret timeStep currentStep received tolerance i = Some False"
  by (subst validate_loop.simps) (simp add: word_sle_eq)

lemma validation_returns:
  assumes "timeStep \<noteq> 0" and "sint tolerance \<noteq> 2 ^ 63 - 1"
  shows "\<exists>b. ValidateTOTP now secret timeStep tolerance received = Some b"
proof -
  have fin: "sint tolerance < 2 ^ 63 - 1"
    using assms(2) sint_fits [of tolerance] by (simp add: int64_fits_def)
  have "\<exists>b. validate_loop secret timeStep cs received tolerance (- tolerance) = Some b" for cs
  proof (cases "sint (- tolerance) \<le> sint tolerance + 1")
    case True
    then show ?thesis using validate_loop_eq [OF assms(1) True fin] by blast
  next
    case False
    then show ?thesis using validate_loop_past [of tolerance "- tolerance"] by auto
  qed
  then show ?thesis
    using assms(1) by (simp add: ValidateTOTP_def go_sdiv_Some)
qed

text \<open>Validation of a password terminates with a verdict for every secret, clock and received
  code, whatever the sign of the tolerance, once the time step is not zero and the tolerance is not
  the largest \<^verbatim>\<open>int\<close>.\<close>

theorem ValidateTOTP_returns:
  assumes "timeStep \<noteq> 0" and "sint tolerance \<noteq> 2 ^ 63 - 1"
  shows "\<exists>b. ValidateTOTP now secret timeStep tolerance received = Some b"
  by (rule validation_returns [OF assms])

lemma ValidateTOTP_returns_witness: "\<exists>b. ValidateTOTP 59 [] 30 1 287082 = Some b"
  by (rule ValidateTOTP_returns) simp_all

section \<open>Clocks of client and server\<close>

text \<open>Multiples of the step are mapped back to their own step.\<close>

lemma step_of_multiple:
  assumes "0 < sint timeStep" and "int64_fits (q * sint timeStep)"
  shows "go_sdiv (word_of_int q * timeStep) timeStep = Some (word_of_int q)"
proof -
  have "word_of_int q * timeStep = word_of_int (q * sint timeStep)" by simp
  then have "sint (word_of_int q * timeStep) = q * sint timeStep"
    using sint_of_int64 [OF assms(2)] by simp
  moreover have "(q * sint timeStep) sdiv sint timeStep = q"
    using assms(1) by (simp add: signed_divide_int_def sgn_mult abs_mult sgn_mult_abs)
  moreover have "timeStep \<noteq> 0" using assms(1) by auto
  ultimately show ?thesis by (simp add: go_sdiv_Some)
qed

lemma TOTP_of_step:
  assumes "0 < sint timeStep" and "0 \<le> sint t"
  shows "TOTP secret timeStep (word_of_int (sint t div sint timeStep) * timeStep) = TOTP secret timeStep t"
proof (rule TOTP_same_step)
  let ?q = "sint t div sint timeStep"
  have "?q * sint timeStep \<le> sint t"
    using assms by (metis div_mod_decomp_int le_add_same_cancel1 pos_mod_sign)
  moreover have "0 \<le> ?q * sint timeStep"
    using assms by (simp add: pos_imp_zdiv_nonneg_iff)
  ultimately have "int64_fits (?q * sint timeStep)"
    using sint_fits [of t] by (simp add: int64_fits_def)
  then have "go_sdiv (word_of_int ?q * timeStep) timeStep = Some (word_of_int ?q)"
    by (rule step_of_multiple [OF assms(1)])
  moreover have "timeStep \<noteq> 0" using assms(1) by auto
  ultimately show "go_sdiv (word_of_int ?q * timeStep) timeStep = go_sdiv t timeStep"
    using assms by (simp add: go_sdiv_Some sdiv_nonneg)
qed

lemma accepts_generated:
  assumes step: "0 < sint timeStep" and "0 \<le> sint created" and "0 \<le> sint now"
    and tol: "sint tolerance < 2 ^ 63 - 1"
    and near: "\<bar>sint created div sint timeStep - sint now div sint timeStep\<bar> \<le> sint tolerance"
    and code: "GenerateTOTP created secret timeStep = Some c"
  shows "ValidateTOTP now secret timeStep tolerance c = Some True"
proof -
  let ?k = "sint created div sint timeStep - sint now div sint timeStep"
  have nz: "timeStep \<noteq> 0" using step by auto
  have t0: "0 \<le> sint tolerance" using near by (rule order_trans [OF abs_ge_zero])
  have "totp_step now timeStep + word_of_int ?k = word_of_int (sint created div sint timeStep)"
    using assms by (simp add: totp_step_def sdiv_nonneg)
  then have "offset_matches secret timeStep (totp_step now timeStep) c ?k"
    using TOTP_of_step [OF step assms(2), of secret] code
    by (simp add: offset_matches_def GenerateTOTP_def)
  then show ?thesis
    using near ValidateTOTP_eq [OF nz t0 tol] by auto
qed

text \<open>A password generated at one time is accepted at another, by a validator with the same
  secret and step, whenever the two times are at most the tolerance apart in steps.\<close>

theorem ValidateTOTP_accepts_generated:
  assumes step: "0 < sint timeStep" and "0 \<le> sint created" and "0 \<le> sint now"
    and tol: "sint tolerance < 2 ^ 63 - 1"
    and near: "\<bar>sint created div sint timeStep - sint now div sint timeStep\<bar> \<le> sint tolerance"
    and code: "GenerateTOTP created secret timeStep = Some c"
  shows "ValidateTOTP now secret timeStep tolerance c = Some True"
  by (rule accepts_generated [OF assms])

lemma ValidateTOTP_accepts_generated_witness:
  "\<exists>c. GenerateTOTP 100 [1, 2, 3] 30 = Some c \<and> ValidateTOTP 125 [1, 2, 3] 30 1 c = Some True"
proof -
  obtain c where c: "GenerateTOTP 100 [1, 2, 3] 30 = Some c"
    using TOTP_total [of 30 "[1, 2, 3]" 100] by (auto simp: GenerateTOTP_def)
  have "ValidateTOTP 125 [1, 2, 3] 30 1 c = Some True"
    by (rule ValidateTOTP_accepts_generated [OF _ _ _ _ _ c]) simp_all
  with c show ?thesis by blast
qed

text \<open>C15. An accepted password is the one of a time step at most the tolerance away from the
  validator's own; one that no step in the window has is rejected.\<close>

theorem ValidateTOTP_window:
  assumes "0 < sint timeStep" and "0 \<le> sint now"
    and "0 \<le> sint tolerance" and "sint tolerance < 2 ^ 63 - 1"
  shows "ValidateTOTP now secret timeStep tolerance received = Some True \<longleftrightarrow>
    (\<exists>k. \<bar>k\<bar> \<le> sint tolerance \<and>
      TOTP secret timeStep (word_of_int ((sint now div sint timeStep + k) * sint timeStep)) = Some received)"
proof -
  have nz: "timeStep \<noteq> 0" using assms(1) by auto
  have "offset_matches secret timeStep (totp_step now timeStep) received k \<longleftrightarrow>
      TOTP secret timeStep (word_of_int ((sint now div sint timeStep + k) * sint timeStep)) = Some received" for k
    using assms by (simp add: offset_matches_def totp_step_def sdiv_nonneg)
  then show ?thesis
    using ValidateTOTP_eq [OF nz assms(3,4)] by simp
qed

lemma ValidateTOTP_window_witness:
  "ValidateTOTP 125 [1, 2, 3] 30 1 1000000 \<noteq> Some True"
proof
  assume "ValidateTOTP 125 [1, 2, 3] 30 1 1000000 = Some True"
  then obtain k where "TOTP [1, 2, 3] 30 (word_of_int ((sint (125 :: i64) div sint (30 :: i64) + k) * sint (30 :: i64)))
      = Some 1000000"
    using ValidateTOTP_window [of 30 125 1 "[1, 2, 3]" 1000000] by auto
  then show False by (auto dest: TOTP_less)
qed

text \<open>\<^verbatim>\<open>GetTOTPTimeWindow\<close> returns a window around the given time, and every time in it has
  the same password.\<close>

theorem GetTOTPTimeWindow_constant:
  assumes step: "0 < sint timeStep" and t: "0 \<le> sint t"
    and room: "sint t + sint timeStep < 2 ^ 63"
    and w: "GetTOTPTimeWindow timeStep t = Some (start, stop)"
  shows "sint start \<le> sint t \<and> sint t < sint stop \<and>
    (\<forall>u. sint start \<le> sint u \<and> sint u < sint stop \<longrightarrow> TOTP secret timeStep u = TOTP secret timeStep t)"
proof -
  let ?s = "sint timeStep" and ?q = "sint t div sint timeStep"
  have nz: "timeStep \<noteq> 0" using step by auto
  have lo: "?q * ?s \<le> sint t" and hi: "sint t < ?q * ?s + ?s" and q0: "0 \<le> ?q * ?s"
  proof -
    have "sint t = ?q * ?s + sint t mod ?s" by simp
    moreover have "0 \<le> sint t mod ?s" "sint t mod ?s < ?s" using step by simp_all
    ultimately show "?q * ?s \<le> sint t" "sint t < ?q * ?s + ?s" by linarith+
    show "0 \<le> ?q * ?s" using step t by (simp add: pos_imp_zdiv_nonneg_iff)
  qed
  have st: "start = word_of_int (?q * ?s)" and en: "stop = word_of_int (?q * ?s + ?s)"
    using w nz step t by (auto simp: GetTOTPTimeWindow_def go_sdiv_Some sdiv_nonneg)
  have s1: "sint start = ?q * ?s"
    unfolding st by (rule sint_of_int64) (use lo q0 room step in \<open>simp add: int64_fits_def\<close>)
  have s2: "sint stop = ?q * ?s + ?s"
    unfolding en by (rule sint_of_int64) (use lo q0 room step in \<open>simp add: int64_fits_def\<close>)
  note ss = s1 s2
  have same: "TOTP secret timeStep u = TOTP secret timeStep t"
    if "sint start \<le> sint u" "sint u < sint stop" for u
  proof (rule TOTP_same_step)
    have "sint u div ?s = ?q"
      using that ss by (intro int_div_pos_eq [of _ _ _ "sint u - ?q * ?s"]) (auto simp: mult.commute)
    moreover have "0 \<le> sint u" using that ss q0 by simp
    ultimately show "go_sdiv u timeStep = go_sdiv t timeStep"
      using nz step t by (simp add: go_sdiv_Some sdiv_nonneg)
  qed
  have "sint start \<le> sint t" "sint t < sint stop" using lo hi ss by linarith+
  with same show ?thesis by blast
qed

lemma GetTOTPTimeWindow_constant_witness:
  "GetTOTPTimeWindow 30 100 = Some (90, 120) \<and> TOTP [7] 30 119 = TOTP [7] 30 100"
proof -
  have w: "GetTOTPTimeWindow 30 100 = Some (90, 120)"
    by (simp add: GetTOTPTimeWindow_def go_sdiv_def signed_divide_int_def)
  have "TOTP [7] 30 119 = TOTP [7] 30 100"
    by (rule GetTOTPTimeWindow_constant [OF _ _ _ w, THEN conjunct2, THEN conjunct2, rule_format])
       simp_all
  with w show ?thesis by simp
qed

end
