(* ===== verification/Packet.thy ===== *)
theory Packet
  imports GoLib Totp
begin

text \<open>
  \<^verbatim>\<open>internal/spa/packet.go\<close>: the wire format of the SPA packet, its creation by the client and
  its parsing and signature check by the server. Slice expressions and index expressions are the
  checked ones, so a run-time panic would show as \<open>None\<close>.
\<close>

record spa_packet =
  pVersion :: byte
  pMode :: byte
  pTimestamp :: i64
  pTOTP :: u32
  pClientIP :: net_ip
  pSignature :: bytes
  pRandomData :: bytes

definition SPAPacketHeaderSizeV1 :: nat where "SPAPacketHeaderSizeV1 = 14"
definition SPAPacketHeaderSizeV2 :: nat where "SPAPacketHeaderSizeV2 = 30"
definition Ed25519SignatureSize :: nat where "Ed25519SignatureSize = 64"
definition HMACSignatureSize :: nat where "HMACSignatureSize = 32"
definition MinRandomPadding :: nat where "MinRandomPadding = 16"
definition MaxRandomPadding :: nat where "MaxRandomPadding = 64"

lemmas packet_sizes = SPAPacketHeaderSizeV1_def SPAPacketHeaderSizeV2_def Ed25519SignatureSize_def
  HMACSignatureSize_def MinRandomPadding_def MaxRandomPadding_def

section \<open>Creation\<close>

text \<open>
  What the environment supplies to one creation: the two readings of the clock, the byte that
  chooses the padding size, and the padding bytes or the failure of reading them.
\<close>

record packet_env =
  envTOTPTime :: i64
  envNow :: i64
  envSizeByte :: byte
  envPadding :: "nat \<Rightarrow> byte"
  envPaddingFails :: bool

datatype create_error = RandomFailed

definition ip_bytes :: "net_ip \<Rightarrow> bytes" where
  "ip_bytes clientIP = (case ip_to16 clientIP of Some b \<Rightarrow> b | None \<Rightarrow> ipv4_zero16)"

definition packet_header :: "byte \<Rightarrow> i64 \<Rightarrow> u32 \<Rightarrow> net_ip \<Rightarrow> bytes" where
  "packet_header mode timestamp totp clientIP =
     [2, mode] @ put_be64 timestamp @ put_be32 totp @ ip_bytes clientIP"

definition padding_size :: "bool \<Rightarrow> byte \<Rightarrow> nat" where
  "padding_size enableObfuscation r =
     (if enableObfuscation
      then MinRandomPadding + unat r mod (MaxRandomPadding - MinRandomPadding + 1) else 0)"

definition env_padding :: "packet_env \<Rightarrow> bool \<Rightarrow> create_error + bytes" where
  "env_padding env enableObfuscation =
     (let n = padding_size enableObfuscation (envSizeByte env)
      in if 0 < n \<and> envPaddingFails env then Inl RandomFailed
         else Inr (map (envPadding env) [0..<n]))"

definition CreateAsymmetricPacket ::
    "ed25519 \<Rightarrow> packet_env \<Rightarrow> bytes \<Rightarrow> bytes \<Rightarrow> i64 \<Rightarrow> bool \<Rightarrow> net_ip
       \<Rightarrow> (create_error + bytes) option" where
  "CreateAsymmetricPacket E env privateKey totpSecret timeStep enableObfuscation clientIP =
     (case GenerateTOTP (envTOTPTime env) totpSecret timeStep of
        None \<Rightarrow> None
      | Some totp \<Rightarrow>
          (case env_padding env enableObfuscation of
             Inl e \<Rightarrow> Some (Inl e)
           | Inr padding \<Rightarrow>
               (let packet = packet_header 2 (envNow env) totp clientIP @ padding
                in if length privateKey \<noteq> 64 then None
                   else Some (Inr (packet @ ed_sign E privateKey packet)))))"

definition CreateDynamicPacket ::
    "packet_env \<Rightarrow> bytes \<Rightarrow> bytes \<Rightarrow> i64 \<Rightarrow> bool \<Rightarrow> net_ip \<Rightarrow> (create_error + bytes) option" where
  "CreateDynamicPacket env hmacSecret totpSecret timeStep enableObfuscation clientIP =
     (case GenerateTOTP (envTOTPTime env) totpSecret timeStep of
        None \<Rightarrow> None
      | Some totp \<Rightarrow>
          (case env_padding env enableObfuscation of
             Inl e \<Rightarrow> Some (Inl e)
           | Inr padding \<Rightarrow>
               (let packet = packet_header 1 (envNow env) totp clientIP @ padding
                in Some (Inr (packet @ hmac_sha256 hmacSecret packet)))))"

section \<open>Parsing\<close>

datatype parse_error =
    PacketTooShort nat
  | V2PacketTooShort nat
  | UnsupportedVersion byte
  | UnknownMode byte
  | TooShortForSignature nat

definition go_index :: "'a list \<Rightarrow> nat \<Rightarrow> 'a option" where
  "go_index xs i = (if i < length xs then Some (xs ! i) else None)"

text \<open>The version branch: the header size, timestamp, password and client address.\<close>

definition parse_header :: "byte \<Rightarrow> bytes \<Rightarrow> (parse_error + (nat \<times> i64 \<times> u32 \<times> net_ip)) option" where
  "parse_header version d =
     (if version = 1 then
        Option.bind (go_slice 2 10 d) (\<lambda>ts. Option.bind (go_slice 10 14 d) (\<lambda>tp.
          Some (Inr (SPAPacketHeaderSizeV1, get_be64 ts, get_be32 tp, None))))
      else if version = 2 then
        (if length d < SPAPacketHeaderSizeV2 then Some (Inl (V2PacketTooShort (length d)))
         else Option.bind (go_slice 2 10 d) (\<lambda>ts. Option.bind (go_slice 10 14 d) (\<lambda>tp.
                Option.bind (go_slice 14 30 d) (\<lambda>ip.
                  Some (Inr (SPAPacketHeaderSizeV2, get_be64 ts, get_be32 tp, Some ip))))))
      else Some (Inl (UnsupportedVersion version)))"

definition signature_size :: "byte \<Rightarrow> nat option" where
  "signature_size mode =
     (if mode = 1 then Some HMACSignatureSize
      else if mode = 2 then Some Ed25519SignatureSize else None)"

definition ParseSPAPacket :: "bytes \<Rightarrow> (parse_error + spa_packet) option" where
  "ParseSPAPacket d =
     (if length d < SPAPacketHeaderSizeV1 then Some (Inl (PacketTooShort (length d)))
      else Option.bind (go_index d 0) (\<lambda>version. Option.bind (go_index d 1) (\<lambda>mode.
        Option.bind (parse_header version d) (\<lambda>r.
          case r of
            Inl e \<Rightarrow> Some (Inl e)
          | Inr (headerSize, timestamp, totp, clientIP) \<Rightarrow>
              (case signature_size mode of
                 None \<Rightarrow> Some (Inl (UnknownMode mode))
               | Some signatureSize \<Rightarrow>
                   if length d < headerSize + signatureSize
                   then Some (Inl (TooShortForSignature (length d)))
                   else
                     (let paddingSize = length d - headerSize - signatureSize
                      in Option.bind
                           (if 0 < paddingSize then go_slice headerSize (headerSize + paddingSize) d
                            else Some []) (\<lambda>padding.
                         Option.bind (go_slice (length d - signatureSize) (length d) d) (\<lambda>sig.
                           Some (Inr \<lparr>pVersion = version, pMode = mode, pTimestamp = timestamp,
                             pTOTP = totp, pClientIP = clientIP, pSignature = sig,
                             pRandomData = padding\<rparr>)))))))))"

section \<open>Signature checks\<close>

definition VerifyAsymmetricPacket ::
    "ed25519 \<Rightarrow> bytes \<Rightarrow> spa_packet \<Rightarrow> bytes \<Rightarrow> bool option" where
  "VerifyAsymmetricPacket E publicKey packet packetData =
     (if length packetData < length (pSignature packet) then None
      else Option.bind (go_slice 0 (length packetData - length (pSignature packet)) packetData)
        (\<lambda>signedData. if length publicKey \<noteq> 32 then None
                      else Some (ed_verify E publicKey signedData (pSignature packet))))"

definition VerifyDynamicPacket :: "bytes \<Rightarrow> spa_packet \<Rightarrow> bytes \<Rightarrow> bool option" where
  "VerifyDynamicPacket hmacSecret packet packetData =
     (if length packetData < length (pSignature packet) then None
      else Option.bind (go_slice 0 (length packetData - length (pSignature packet)) packetData)
        (\<lambda>signedData. Some (hmac_equal (hmac_sha256 hmacSecret signedData) (pSignature packet))))"

section \<open>The wire format\<close>

text \<open>
  The reference decoder: one pass over the guards, in the order of the code, with the fields read
  off by position.
\<close>

definition header_size :: "byte \<Rightarrow> nat" where
  "header_size version = (if version = 1 then 14 else 30)"

definition wire_packet :: "bytes \<Rightarrow> nat \<Rightarrow> spa_packet" where
  "wire_packet d n = (let h = header_size (d ! 0) in
     \<lparr>pVersion = d ! 0, pMode = d ! 1, pTimestamp = get_be64 (subslice 2 10 d),
      pTOTP = get_be32 (subslice 10 14 d),
      pClientIP = (if d ! 0 = 2 then Some (subslice 14 30 d) else None),
      pSignature = drop (length d - n) d,
      pRandomData = subslice h (length d - n) d\<rparr>)"

definition decode_packet :: "bytes \<Rightarrow> parse_error + spa_packet" where
  "decode_packet d =
     (if length d < 14 then Inl (PacketTooShort (length d))
      else if d ! 0 \<noteq> 1 \<and> d ! 0 \<noteq> 2 then Inl (UnsupportedVersion (d ! 0))
      else if d ! 0 = 2 \<and> length d < 30 then Inl (V2PacketTooShort (length d))
      else case signature_size (d ! 1) of
             None \<Rightarrow> Inl (UnknownMode (d ! 1))
           | Some n \<Rightarrow> if length d < header_size (d ! 0) + n then Inl (TooShortForSignature (length d))
                       else Inr (wire_packet d n))"

lemma go_slice_Some [simp]: "a \<le> b \<Longrightarrow> b \<le> length xs \<Longrightarrow> go_slice a b xs = Some (subslice a b xs)"
  by (simp add: go_slice_def)

lemma go_index_Some [simp]: "i < length xs \<Longrightarrow> go_index xs i = Some (xs ! i)"
  by (simp add: go_index_def)

lemma subslice_to_end: "subslice a (length xs) xs = drop a xs"
  by (simp add: subslice_def)

lemma subslice_empty [simp]: "b \<le> a \<Longrightarrow> subslice a b xs = []"
  by (simp add: subslice_def)

lemma parse_header_eq:
  assumes "14 \<le> length d"
  shows "parse_header v d = Some
    (if v \<noteq> 1 \<and> v \<noteq> 2 then Inl (UnsupportedVersion v)
     else if v = 2 \<and> length d < 30 then Inl (V2PacketTooShort (length d))
     else Inr (header_size v, get_be64 (subslice 2 10 d), get_be32 (subslice 10 14 d),
               if v = 2 then Some (subslice 14 30 d) else None))"
  using assms by (auto simp: parse_header_def packet_sizes header_size_def)

lemma ParseSPAPacket_eq: "ParseSPAPacket d = Some (decode_packet d)"
proof (cases "length d < 14")
  case True
  then show ?thesis by (simp add: ParseSPAPacket_def decode_packet_def packet_sizes)
next
  case False
  then have len: "14 \<le> length d" "0 < length d" "1 < length d" by auto
  show ?thesis
    using len
    by (auto simp: ParseSPAPacket_def decode_packet_def parse_header_eq wire_packet_def Let_def
        SPAPacketHeaderSizeV1_def subslice_to_end split: option.split)
qed

text \<open>C9. Parsing is total: whatever bytes arrive, no index or slice expression of
  \<^verbatim>\<open>ParseSPAPacket\<close> is out of range, and the result is the one of the reference decoder.\<close>

theorem ParseSPAPacket_decodes: "ParseSPAPacket d = Some (decode_packet d)"
  by (rule ParseSPAPacket_eq)

text \<open>The encoder of the wire format, and the packets it is meant for.\<close>

definition encode_packet :: "spa_packet \<Rightarrow> bytes" where
  "encode_packet p =
     [pVersion p, pMode p] @ put_be64 (pTimestamp p) @ put_be32 (pTOTP p)
       @ (case pClientIP p of None \<Rightarrow> [] | Some ip \<Rightarrow> ip)
       @ pRandomData p @ pSignature p"

definition packet_ok :: "spa_packet \<Rightarrow> bool" where
  "packet_ok p \<longleftrightarrow>
     (pVersion p = 1 \<and> pClientIP p = None
        \<or> pVersion p = 2 \<and> (\<exists>ip. pClientIP p = Some ip \<and> length ip = 16))
     \<and> signature_size (pMode p) = Some (length (pSignature p))"

lemma signature_size_cases: "signature_size m = Some n \<longleftrightarrow> m = 1 \<and> n = 32 \<or> m = 2 \<and> n = 64"
  by (auto simp: signature_size_def packet_sizes)

lemma encode_length:
  "packet_ok p \<Longrightarrow> length (encode_packet p) =
     header_size (pVersion p) + length (pRandomData p) + length (pSignature p)"
  by (auto simp: encode_packet_def packet_ok_def header_size_def)

lemma cut_2_10: "subslice 2 10 (a # b # xs) = take 8 xs"
  by (simp add: subslice_def)

lemma cut_10_14: "subslice 10 14 (a # b # xs) = take 4 (drop 8 xs)"
  by (simp add: subslice_def)

lemma cut_14_30: "subslice 14 30 (a # b # xs) = take 16 (drop 12 xs)"
  by (simp add: subslice_def)

lemma drop_header1: "drop (14 + n) (a # b # xs) = drop (12 + n) xs"
  by (simp add: drop_Cons')

lemma drop_header2: "drop (30 + n) (a # b # xs) = drop (28 + n) xs"
  by (simp add: drop_Cons')

lemmas cuts = drop_header1 drop_header2 cut_2_10 cut_10_14 cut_14_30

lemma decode_encode:
  assumes "packet_ok p"
  shows "decode_packet (encode_packet p) = Inr p"
proof -
  let ?d = "encode_packet p" and ?n = "length (pSignature p)"
  have first: "?d ! 0 = pVersion p" "?d ! 1 = pMode p"
    by (simp_all add: encode_packet_def)
  have sz: "signature_size (pMode p) = Some ?n" using assms by (simp add: packet_ok_def)
  have len: "length ?d = header_size (pVersion p) + length (pRandomData p) + ?n"
    using assms by (rule encode_length)
  have v: "pVersion p = 1 \<or> pVersion p = 2" using assms by (auto simp: packet_ok_def)
  obtain ver m t c ip sg r where p: "p = \<lparr>pVersion = ver, pMode = m, pTimestamp = t, pTOTP = c,
      pClientIP = ip, pSignature = sg, pRandomData = r\<rparr>"
    by (cases p)
  have "wire_packet ?d ?n = p"
  proof (cases "ver = 1")
    case True
    then have ip: "ip = None" using assms by (simp add: packet_ok_def p)
    show ?thesis
      by (simp add: wire_packet_def p encode_packet_def ip True header_size_def Let_def cuts)
         (simp add: subslice_def cuts)
  next
    case False
    then obtain b where b: "ver = 2" "ip = Some b" "length b = 16"
      using assms by (auto simp: packet_ok_def p)
    show ?thesis
      by (simp add: wire_packet_def p encode_packet_def b header_size_def Let_def cuts)
         (simp add: subslice_def cuts b)
  qed
  then show ?thesis
    using v len sz first(2) by (auto simp: decode_packet_def first(1) header_size_def)
qed

lemma subslice_glue:
  assumes "a \<le> b" and "b \<le> c"
  shows "subslice a b xs @ subslice b c xs = subslice a c xs"
proof -
  have "c - a = (b - a) + (c - b)" "drop b xs = drop (b - a) (drop a xs)"
    using assms by simp_all
  then show ?thesis by (simp add: subslice_def take_add)
qed

lemma subslice_glue_more:
  "a \<le> b \<Longrightarrow> b \<le> c \<Longrightarrow> subslice a b xs @ subslice b c xs @ ys = subslice a c xs @ ys"
  by (simp add: subslice_glue flip: append_assoc)

lemma first_two: "2 \<le> length d \<Longrightarrow> [d ! 0, d ! Suc 0] = subslice 0 2 d"
  by (cases d; cases "tl d") (auto simp: subslice_def)

lemma encode_decode:
  assumes "decode_packet d = Inr p"
  shows "packet_ok p \<and> encode_packet p = d"
proof -
  have len: "14 \<le> length d" and v: "d ! 0 = 1 \<or> d ! 0 = 2"
    and v2: "d ! 0 = 2 \<Longrightarrow> 30 \<le> length d"
    using assms by (auto simp: decode_packet_def split: if_splits)
  obtain n where n: "signature_size (d ! 1) = Some n" and hn: "header_size (d ! 0) + n \<le> length d"
    and p: "p = wire_packet d n"
    using assms len v v2 by (auto simp: decode_packet_def split: if_splits option.splits)
  let ?h = "header_size (d ! 0)" and ?e = "length d - n"
  have be: "put_be64 (get_be64 (subslice 2 10 d)) = subslice 2 10 d"
      "put_be32 (get_be32 (subslice 10 14 d)) = subslice 10 14 d"
    using len by (auto intro: put_get_be64 put_get_be32)
  have ip: "(case pClientIP p of None \<Rightarrow> [] | Some ip \<Rightarrow> ip) = subslice 14 ?h d"
    using v by (auto simp: p wire_packet_def header_size_def Let_def)
  have "encode_packet p = subslice 0 2 d @ subslice 2 10 d @ subslice 10 14 d @ subslice 14 ?h d
      @ subslice ?h ?e d @ subslice ?e (length d) d"
    unfolding encode_packet_def ip
    using len by (simp add: p wire_packet_def Let_def be first_two subslice_to_end)
  also have "\<dots> = subslice 0 (length d) d"
    using hn v len by (auto simp: subslice_glue subslice_glue_more header_size_def)
  also have "\<dots> = d" by (simp add: subslice_def)
  finally have "encode_packet p = d" .
  moreover have "packet_ok p"
    using v v2 n hn by (auto simp: packet_ok_def p wire_packet_def Let_def)
  ultimately show ?thesis by blast
qed

text \<open>C8. Parsing and the wire format are inverse: the bytes that parse to a packet are exactly the
  encoding of that packet, and a packet with a version, address and signature that fit is recovered
  from its encoding.\<close>

theorem ParseSPAPacket_wire_format:
  "ParseSPAPacket d = Some (Inr p) \<longleftrightarrow> packet_ok p \<and> encode_packet p = d"
  unfolding ParseSPAPacket_eq
  using decode_encode [of p] encode_decode [of d p] by auto

lemma decode_packet_ok: "ParseSPAPacket d = Some (Inr p) \<Longrightarrow> packet_ok p"
  using encode_decode [of d p] by (simp add: ParseSPAPacket_eq)

lemma parsed_signature_length:
  "ParseSPAPacket d = Some (Inr p) \<Longrightarrow> length (pSignature p) \<le> length d"
  using encode_decode [of d p] encode_length [of p] by (simp add: ParseSPAPacket_eq)

section \<open>A packet sealed by a signature scheme\<close>

text \<open>
  What creation and verification need of a signature: a mode byte, the size the parser cuts off for
  that mode, a tag of that size, and that a tag is valid for what was signed.
\<close>

locale authenticator =
  fixes mode :: byte and tag :: "bytes \<Rightarrow> bytes" and valid :: "bytes \<Rightarrow> bytes \<Rightarrow> bool"
  assumes tag_size: "signature_size mode = Some (length (tag m))"
    and tag_valid: "valid m (tag m)"
begin

definition seal :: "bytes \<Rightarrow> bytes" where
  "seal m = m @ tag m"

definition sealed :: "i64 \<Rightarrow> u32 \<Rightarrow> net_ip \<Rightarrow> bytes \<Rightarrow> spa_packet" where
  "sealed t c ip pad = \<lparr>pVersion = 2, pMode = mode, pTimestamp = t, pTOTP = c,
     pClientIP = Some (ip_bytes ip), pSignature = tag (packet_header mode t c ip @ pad),
     pRandomData = pad\<rparr>"

lemma length_ip_bytes: "length (ip_bytes ip) = 16"
  by (auto simp: ip_bytes_def dest: ip_to16_length split: option.split)

lemma sealed_ok: "packet_ok (sealed t c ip pad)"
  by (simp add: packet_ok_def sealed_def length_ip_bytes tag_size [symmetric])

lemma encode_sealed: "encode_packet (sealed t c ip pad) = seal (packet_header mode t c ip @ pad)"
  by (simp add: encode_packet_def sealed_def seal_def packet_header_def)

lemma decode_sealed:
  "decode_packet (packet_header mode t c ip @ pad @ tag (packet_header mode t c ip @ pad))
     = Inr (sealed t c ip pad)"
  using decode_encode [OF sealed_ok] by (simp add: encode_sealed seal_def)

lemma sealed_valid:
  "valid (packet_header mode t c ip @ pad) (pSignature (sealed t c ip pad))"
  by (simp add: sealed_def tag_valid)

end

interpretation hmac_auth: authenticator 1 "hmac_sha256 k" "\<lambda>m s. hmac_equal (hmac_sha256 k m) s"
  for k :: bytes
  by unfold_locales (simp_all add: signature_size_def packet_sizes hmac_equal_def)

text \<open>Ed25519 is an instance under its documented laws.\<close>

lemma ed25519_authenticator:
  "ed25519_laws E \<Longrightarrow> authenticator 2 (ed_sign E (ed_newkey E seed))
     (ed_verify E (ed_public (ed_newkey E seed)))"
  by unfold_locales (simp_all add: ed25519_laws_def signature_size_def packet_sizes)

interpretation example_auth: authenticator 2 "ed_sign ed_example (ed_newkey ed_example seed)"
    "ed_verify ed_example (ed_public (ed_newkey ed_example seed))"
  for seed :: bytes
  by (rule ed25519_authenticator [OF ed_example_laws])

text \<open>The packet without its signature, for a creation that gets its random bytes.\<close>

definition unsigned_packet :: "byte \<Rightarrow> packet_env \<Rightarrow> u32 \<Rightarrow> bool \<Rightarrow> net_ip \<Rightarrow> bytes" where
  "unsigned_packet mode env totp obf ip =
     packet_header mode (envNow env) totp ip
       @ map (envPadding env) [0..<padding_size obf (envSizeByte env)]"

lemma env_padding_Inr:
  "env_padding env obf = Inr pad \<Longrightarrow> pad = map (envPadding env) [0..<padding_size obf (envSizeByte env)]"
  by (auto simp: env_padding_def Let_def split: if_splits)

lemma CreateDynamicPacket_sealed:
  assumes "CreateDynamicPacket env k totpSecret timeStep obf ip = Some (Inr d)"
  shows "\<exists>totp pad. GenerateTOTP (envTOTPTime env) totpSecret timeStep = Some totp
    \<and> env_padding env obf = Inr pad
    \<and> d = packet_header 1 (envNow env) totp ip @ pad
            @ hmac_sha256 k (packet_header 1 (envNow env) totp ip @ pad)"
  using assms by (auto simp: CreateDynamicPacket_def Let_def split: option.splits sum.splits)

lemma CreateAsymmetricPacket_sealed:
  assumes "CreateAsymmetricPacket E env sk totpSecret timeStep obf ip = Some (Inr d)"
  shows "\<exists>totp pad. GenerateTOTP (envTOTPTime env) totpSecret timeStep = Some totp
    \<and> env_padding env obf = Inr pad
    \<and> d = packet_header 2 (envNow env) totp ip @ pad
            @ ed_sign E sk (packet_header 2 (envNow env) totp ip @ pad)"
  using assms by (auto simp: CreateAsymmetricPacket_def Let_def split: option.splits sum.splits if_splits)

lemma length_packet_header [simp]: "length (packet_header m t c ip) = 30"
  by (simp add: packet_header_def hmac_auth.length_ip_bytes)

text \<open>The bytes a signature check hashes are those before the signature.\<close>

lemma go_slice_prefix: "go_slice 0 (length xs) (xs @ ys) = Some xs"
  by (simp add: go_slice_def subslice_def)

lemma VerifyDynamicPacket_sealed:
  "pSignature p = s \<Longrightarrow> VerifyDynamicPacket k p (m @ s) = Some (hmac_equal (hmac_sha256 k m) s)"
  by (simp add: VerifyDynamicPacket_def go_slice_prefix)

lemma VerifyAsymmetricPacket_sealed:
  "pSignature p = s \<Longrightarrow> length pk = 32 \<Longrightarrow>
     VerifyAsymmetricPacket E pk p (m @ s) = Some (ed_verify E pk m s)"
  by (simp add: VerifyAsymmetricPacket_def go_slice_prefix)

section \<open>What the client builds, the server reads and finds valid\<close>

lemma CreateDynamicPacket_parsed:
  assumes "CreateDynamicPacket env k totpSecret timeStep obf ip = Some (Inr d)"
  shows "\<exists>p. ParseSPAPacket d = Some (Inr p) \<and> pVersion p = 2 \<and> pMode p = 1
    \<and> pTimestamp p = envNow env
    \<and> GenerateTOTP (envTOTPTime env) totpSecret timeStep = Some (pTOTP p)
    \<and> pClientIP p = Some (ip_bytes ip)
    \<and> length (pRandomData p) = padding_size obf (envSizeByte env)
    \<and> VerifyDynamicPacket k p d = Some True"
proof -
  obtain c pad where c: "GenerateTOTP (envTOTPTime env) totpSecret timeStep = Some c"
    and pad: "env_padding env obf = Inr pad"
    and d: "d = packet_header 1 (envNow env) c ip @ pad
              @ hmac_sha256 k (packet_header 1 (envNow env) c ip @ pad)"
    using CreateDynamicPacket_sealed [OF assms] by blast
  let ?p = "hmac_auth.sealed k (envNow env) c ip pad"
  have "VerifyDynamicPacket k ?p d = Some True"
    using VerifyDynamicPacket_sealed [of ?p _ k "packet_header 1 (envNow env) c ip @ pad"]
    by (simp add: d hmac_auth.sealed_def hmac_equal_def)
  moreover have "ParseSPAPacket d = Some (Inr ?p)"
    by (simp add: ParseSPAPacket_eq d hmac_auth.decode_sealed)
  moreover have "length pad = padding_size obf (envSizeByte env)"
    using env_padding_Inr [OF pad] by simp
  ultimately show ?thesis
    by (intro exI [of _ ?p]) (simp add: hmac_auth.sealed_def c)
qed

text \<open>Every packet \<^verbatim>\<open>CreateDynamicPacket\<close> returns parses to a version 2 packet in HMAC mode
  with the client's clock, password and address and a padding of the chosen size, and its signature
  verifies under the same secret.\<close>

theorem CreateDynamicPacket_roundtrip:
  assumes "CreateDynamicPacket env k totpSecret timeStep obf ip = Some (Inr d)"
  shows "\<exists>p. ParseSPAPacket d = Some (Inr p) \<and> pVersion p = 2 \<and> pMode p = 1
    \<and> pTimestamp p = envNow env
    \<and> GenerateTOTP (envTOTPTime env) totpSecret timeStep = Some (pTOTP p)
    \<and> pClientIP p = Some (ip_bytes ip)
    \<and> length (pRandomData p) = padding_size obf (envSizeByte env)
    \<and> VerifyDynamicPacket k p d = Some True"
  by (rule CreateDynamicPacket_parsed [OF assms])

definition example_env :: packet_env where
  "example_env = \<lparr>envTOTPTime = 1000, envNow = 1000, envSizeByte = 5,
     envPadding = (\<lambda>i. word_of_nat i), envPaddingFails = False\<rparr>"

definition example_ip :: net_ip where
  "example_ip = Some [192, 168, 1, 100]"

lemma CreateDynamicPacket_example: "\<exists>d. CreateDynamicPacket example_env [7] [1] 30 True example_ip = Some (Inr d)"
  using TOTP_total [of 30 "[1]" 1000]
  by (auto simp: CreateDynamicPacket_def GenerateTOTP_def env_padding_def example_env_def Let_def)

lemma CreateDynamicPacket_roundtrip_witness:
  "\<exists>d p. CreateDynamicPacket example_env [7] [1] 30 True example_ip = Some (Inr d)
     \<and> ParseSPAPacket d = Some (Inr p) \<and> VerifyDynamicPacket [7] p d = Some True"
proof -
  obtain d where d: "CreateDynamicPacket example_env [7] [1] 30 True example_ip = Some (Inr d)"
    using CreateDynamicPacket_example by blast
  show ?thesis using CreateDynamicPacket_roundtrip [OF d] d by blast
qed

lemma CreateAsymmetricPacket_parsed:
  assumes laws: "ed25519_laws E"
    and "CreateAsymmetricPacket E env (ed_newkey E seed) totpSecret timeStep obf ip = Some (Inr d)"
  shows "\<exists>p. ParseSPAPacket d = Some (Inr p) \<and> pVersion p = 2 \<and> pMode p = 2
    \<and> pTimestamp p = envNow env
    \<and> GenerateTOTP (envTOTPTime env) totpSecret timeStep = Some (pTOTP p)
    \<and> pClientIP p = Some (ip_bytes ip)
    \<and> length (pRandomData p) = padding_size obf (envSizeByte env)
    \<and> VerifyAsymmetricPacket E (ed_public (ed_newkey E seed)) p d = Some True"
proof -
  let ?sk = "ed_newkey E seed"
  have au: "authenticator 2 (ed_sign E ?sk) (ed_verify E (ed_public ?sk))"
    using laws by (rule ed25519_authenticator)
  obtain c pad where c: "GenerateTOTP (envTOTPTime env) totpSecret timeStep = Some c"
    and pad: "env_padding env obf = Inr pad"
    and d: "d = packet_header 2 (envNow env) c ip @ pad
              @ ed_sign E ?sk (packet_header 2 (envNow env) c ip @ pad)"
    using CreateAsymmetricPacket_sealed [OF assms(2)] by blast
  let ?p = "authenticator.sealed 2 (ed_sign E ?sk) (envNow env) c ip pad"
  have p: "?p = \<lparr>pVersion = 2, pMode = 2, pTimestamp = envNow env, pTOTP = c,
      pClientIP = Some (ip_bytes ip),
      pSignature = ed_sign E ?sk (packet_header 2 (envNow env) c ip @ pad), pRandomData = pad\<rparr>"
    by (rule authenticator.sealed_def [OF au])
  have "length (ed_public ?sk) = 32"
    using laws by (simp add: ed_public_def ed25519_laws_def)
  then have "VerifyAsymmetricPacket E (ed_public ?sk) ?p d = Some True"
    using VerifyAsymmetricPacket_sealed [of ?p _ "ed_public ?sk" E "packet_header 2 (envNow env) c ip @ pad"]
      authenticator.tag_valid [OF au]
    by (simp add: d p)
  moreover have "ParseSPAPacket d = Some (Inr ?p)"
    using authenticator.decode_sealed [OF au] by (simp add: ParseSPAPacket_eq d)
  moreover have "length pad = padding_size obf (envSizeByte env)"
    using env_padding_Inr [OF pad] by simp
  ultimately show ?thesis
    by (intro exI [of _ ?p]) (simp add: p c)
qed

text \<open>The same for \<^verbatim>\<open>CreateAsymmetricPacket\<close> with a private key made from a seed: the packet
  verifies under the public half of that key, given the documented laws of Ed25519.\<close>

theorem CreateAsymmetricPacket_roundtrip:
  assumes laws: "ed25519_laws E"
    and "CreateAsymmetricPacket E env (ed_newkey E seed) totpSecret timeStep obf ip = Some (Inr d)"
  shows "\<exists>p. ParseSPAPacket d = Some (Inr p) \<and> pVersion p = 2 \<and> pMode p = 2
    \<and> pTimestamp p = envNow env
    \<and> GenerateTOTP (envTOTPTime env) totpSecret timeStep = Some (pTOTP p)
    \<and> pClientIP p = Some (ip_bytes ip)
    \<and> length (pRandomData p) = padding_size obf (envSizeByte env)
    \<and> VerifyAsymmetricPacket E (ed_public (ed_newkey E seed)) p d = Some True"
  by (rule CreateAsymmetricPacket_parsed [OF assms])

lemma CreateAsymmetricPacket_example:
  "\<exists>d. CreateAsymmetricPacket ed_example example_env (ed_newkey ed_example [3]) [1] 30 True example_ip = Some (Inr d)"
  using TOTP_total [of 30 "[1]" 1000]
  by (auto simp: CreateAsymmetricPacket_def GenerateTOTP_def env_padding_def example_env_def Let_def
      ed_example_def)

lemma CreateAsymmetricPacket_roundtrip_witness:
  "\<exists>d p. CreateAsymmetricPacket ed_example example_env (ed_newkey ed_example [3]) [1] 30 True example_ip = Some (Inr d)
     \<and> ParseSPAPacket d = Some (Inr p)
     \<and> VerifyAsymmetricPacket ed_example (ed_public (ed_newkey ed_example [3])) p d = Some True"
proof -
  obtain d where d: "CreateAsymmetricPacket ed_example example_env (ed_newkey ed_example [3]) [1] 30
      True example_ip = Some (Inr d)"
    using CreateAsymmetricPacket_example by blast
  show ?thesis using CreateAsymmetricPacket_roundtrip [OF ed_example_laws d] d by blast
qed

end
