(* ===== verification/Client.thy ===== *)
theory Client
  imports Config Packet
begin

text \<open>
  \<^verbatim>\<open>pkg/spa\<close>: the two clients. What the network does to one call is its environment: whether
  dialing and writing succeed. The result of a successful call is the address dialed and the
  datagram written.
\<close>

section \<open>Addresses\<close>

text \<open>\<^verbatim>\<open>net.JoinHostPort\<close>.\<close>

definition join_host_port :: "string \<Rightarrow> string \<Rightarrow> string" where
  "join_host_port host port =
     (if CHR '':'' \<in> set host then ''['' @ host @ '']:'' @ port else host @ '':'' @ port)"

definition spa_addr :: "string \<Rightarrow> string" where
  "spa_addr serverIP = join_host_port serverIP (show_i64 SPAMagicPort)"

record net_env =
  dialOK :: bool
  writeOK :: bool

datatype send_error = DialFailed | CreateFailed create_error | WriteFailed | UnsupportedMode spa_mode

text \<open>\<^verbatim>\<open>net.Dial\<close> and \<^verbatim>\<open>conn.Write\<close> of one datagram.\<close>

definition send_datagram :: "net_env \<Rightarrow> string \<Rightarrow> bytes \<Rightarrow> send_error + (string \<times> bytes)" where
  "send_datagram N addr d = (if writeOK N then Inr (addr, d) else Inl WriteFailed)"

section \<open>client.go\<close>

record client =
  ServerIP :: string
  StaticToken :: string

definition NewClient :: "string \<Rightarrow> client" where
  "NewClient serverIP = \<lparr>ServerIP = serverIP, StaticToken = SPASecretToken\<rparr>"

definition NewClientWithToken :: "string \<Rightarrow> string \<Rightarrow> client" where
  "NewClientWithToken serverIP token =
     \<lparr>ServerIP = serverIP, StaticToken = (if token = [] then SPASecretToken else token)\<rparr>"

definition SendStaticPacket :: "net_env \<Rightarrow> client \<Rightarrow> send_error + (string \<times> bytes)" where
  "SendStaticPacket N c =
     (if \<not> dialOK N then Inl DialFailed
      else send_datagram N (spa_addr (ServerIP c)) (bytes_of_string (StaticToken c)))"

section \<open>client_dynamic.go\<close>

record dynamic_client =
  dcServerIP :: string
  dcPrivateKey :: bytes
  dcHMACSecret :: bytes
  dcTOTPSecret :: bytes
  dcSPAConfig :: spa_config
  dcClientIP :: net_ip

datatype client_error = PrivateKeyRequired | HMACSecretRequired | UnsupportedClientMode spa_mode

definition NewDynamicClient :: "string \<Rightarrow> spa_config \<Rightarrow> net_ip \<Rightarrow> client_error + dynamic_client" where
  "NewDynamicClient serverIP cfg clientIP =
     (let client = \<lparr>dcServerIP = serverIP, dcPrivateKey = [], dcHMACSecret = [], dcTOTPSecret = [],
                     dcSPAConfig = cfg, dcClientIP = clientIP\<rparr>
      in if Mode cfg = SPAModeAsymmetric then
           (if PrivateKey cfg = [] then Inl PrivateKeyRequired
            else Inr (client\<lparr>dcPrivateKey := PrivateKey cfg, dcTOTPSecret := TOTPSecret cfg\<rparr>))
         else if Mode cfg = SPAModeDynamic then
           (if HMACSecret cfg = [] then Inl HMACSecretRequired
            else Inr (client\<lparr>dcHMACSecret := HMACSecret cfg, dcTOTPSecret := TOTPSecret cfg\<rparr>))
         else Inl (UnsupportedClientMode (Mode cfg)))"

text \<open>The packet one call of \<^verbatim>\<open>SendMagicPacket\<close> makes; \<open>None\<close> is a panic.\<close>

definition magic_packet ::
    "ed25519 \<Rightarrow> packet_env \<Rightarrow> dynamic_client \<Rightarrow> (send_error + bytes) option" where
  "magic_packet E env c =
     (let cfg = dcSPAConfig c in
      if Mode cfg = SPAModeAsymmetric then
        map_option (map_sum CreateFailed id)
          (CreateAsymmetricPacket E env (dcPrivateKey c) (dcTOTPSecret c) (TOTPTimeStep cfg)
             (EnableObfuscation cfg) (dcClientIP c))
      else if Mode cfg = SPAModeDynamic then
        map_option (map_sum CreateFailed id)
          (CreateDynamicPacket env (dcHMACSecret c) (dcTOTPSecret c) (TOTPTimeStep cfg)
             (EnableObfuscation cfg) (dcClientIP c))
      else Some (Inl (UnsupportedMode (Mode cfg))))"

definition SendMagicPacket ::
    "ed25519 \<Rightarrow> net_env \<Rightarrow> packet_env \<Rightarrow> dynamic_client \<Rightarrow> (send_error + (string \<times> bytes)) option" where
  "SendMagicPacket E N env c =
     (if \<not> dialOK N then Some (Inl DialFailed)
      else case magic_packet E env c of
             None \<Rightarrow> None
           | Some (Inl e) \<Rightarrow> Some (Inl e)
           | Some (Inr d) \<Rightarrow> Some (send_datagram N (spa_addr (dcServerIP c)) d))"

section \<open>Lemmas\<close>

lemma SendMagicPacket_sent:
  "SendMagicPacket E N env c = Some (Inr (a, d)) \<longleftrightarrow>
     dialOK N \<and> writeOK N \<and> a = spa_addr (dcServerIP c) \<and> magic_packet E env c = Some (Inr d)"
  by (auto simp: SendMagicPacket_def send_datagram_def split: option.splits sum.splits)

lemma NewDynamicClient_asymmetric:
  "NewDynamicClient serverIP cfg ip = Inr c \<Longrightarrow> Mode cfg = SPAModeAsymmetric \<Longrightarrow>
     magic_packet E env c = map_option (map_sum CreateFailed id)
       (CreateAsymmetricPacket E env (PrivateKey cfg) (TOTPSecret cfg) (TOTPTimeStep cfg) (EnableObfuscation cfg) ip)
     \<and> dcServerIP c = serverIP"
  by (auto simp: NewDynamicClient_def magic_packet_def Let_def split: if_splits)

lemma NewDynamicClient_dynamic:
  "NewDynamicClient serverIP cfg ip = Inr c \<Longrightarrow> Mode cfg = SPAModeDynamic \<Longrightarrow>
     magic_packet E env c = map_option (map_sum CreateFailed id)
       (CreateDynamicPacket env (HMACSecret cfg) (TOTPSecret cfg) (TOTPTimeStep cfg) (EnableObfuscation cfg) ip)
     \<and> dcServerIP c = serverIP"
  by (auto simp: NewDynamicClient_def magic_packet_def Let_def spa_mode_defs split: if_splits)

lemma map_sum_Inr: "map_sum f id z = Inr x \<longleftrightarrow> z = Inr x"
  by (cases z) auto

lemma map_option_map_sum_Inr:
  "map_option (map_sum f id) x = Some (Inr d) \<longleftrightarrow> x = Some (Inr d)"
  by (cases x; cases "the x") auto

end
