(* ===== verification/Verifier.thy ===== *)
theory Verifier
  imports Config Packet "HOL-Library.Finite_Map"
begin

text \<open>
  \<^verbatim>\<open>internal/spa/verifier.go\<close>: the checks a received packet has to pass and the replay cache.
  The readings of \<^verbatim>\<open>time.Now()\<close> during one call are a sequence: reading 0 is \<^verbatim>\<open>currentTime\<close>,
  reading \<open>n + 1\<close> is the one inside the \<open>n\<close>-th call of \<^verbatim>\<open>ValidateTOTP\<close>. The part under the
  mutex is a definition of its own, \<open>replay_section\<close>; the rest does not touch the state.
\<close>

record verifier =
  spaConfig :: spa_config
  seenCache :: "(string, i64) fmap"

definition NewVerifier :: "spa_config \<Rightarrow> verifier" where
  "NewVerifier cfg = \<lparr>spaConfig = cfg, seenCache = fmempty\<rparr>"

datatype verify_error =
    ParseFailed parse_error
  | UnsupportedPacketVersion byte
  | MissingClientIP
  | InvalidIPFormat
  | IPHijacking net_ip net_ip
  | BadTimestamp i64
  | InvalidTOTP
  | NoKeyMatched
  | NoSecretMatched
  | UnsupportedSPAMode spa_mode
  | ReplayDetected

type_synonym clock = "nat \<Rightarrow> i64"

section \<open>The checks\<close>

definition check_version :: "spa_packet \<Rightarrow> verify_error + unit" where
  "check_version p =
     (if pVersion p \<noteq> 1 \<and> pVersion p \<noteq> 2 then Inl (UnsupportedPacketVersion (pVersion p)) else Inr ())"

definition check_ip :: "spa_packet \<Rightarrow> net_ip \<Rightarrow> verify_error + unit" where
  "check_ip p actual =
     (if pVersion p = 2 then
        (if pClientIP p = None \<or> actual = None then Inl MissingClientIP
         else case (ip_to16 (pClientIP p), ip_to16 actual) of
                (Some pIP, Some aIP) \<Rightarrow>
                  if pIP = aIP then Inr () else Inl (IPHijacking (pClientIP p) actual)
              | _ \<Rightarrow> Inl InvalidIPFormat)
      else Inr ())"

definition maxTimeDiff :: i64 where "maxTimeDiff = 300"

definition check_timestamp :: "i64 \<Rightarrow> spa_packet \<Rightarrow> verify_error + unit" where
  "check_timestamp currentTime p =
     (let d = currentTime - pTimestamp p;
          timeDiff = (if d <s 0 then - d else d)
      in if maxTimeDiff <s timeDiff then Inl (BadTimestamp timeDiff) else Inr ())"

fun validate_secrets :: "clock \<Rightarrow> nat \<Rightarrow> i64 \<Rightarrow> i64 \<Rightarrow> u32 \<Rightarrow> bytes list \<Rightarrow> bool option" where
  "validate_secrets clk n step tol totp [] = Some False"
| "validate_secrets clk n step tol totp (s # ss) =
     (case ValidateTOTP (clk n) s step tol totp of
        None \<Rightarrow> None
      | Some True \<Rightarrow> Some True
      | Some False \<Rightarrow> validate_secrets clk (Suc n) step tol totp ss)"

definition check_totp :: "spa_config \<Rightarrow> clock \<Rightarrow> spa_packet \<Rightarrow> bool option" where
  "check_totp cfg clk p =
     (if TOTPSecrets cfg \<noteq> [] then
        validate_secrets clk 1 (TOTPTimeStep cfg) (TOTPTolerance cfg) (pTOTP p) (TOTPSecrets cfg)
      else if TOTPSecret cfg \<noteq> [] then
        ValidateTOTP (clk 1) (TOTPSecret cfg) (TOTPTimeStep cfg) (TOTPTolerance cfg) (pTOTP p)
      else Some False)"

text \<open>The loop over the configured keys: the first that verifies ends it.\<close>

fun first_match :: "(bytes \<Rightarrow> bool option) \<Rightarrow> bytes list \<Rightarrow> bool option" where
  "first_match ok [] = Some False"
| "first_match ok (k # ks) =
     (case ok k of None \<Rightarrow> None | Some True \<Rightarrow> Some True | Some False \<Rightarrow> first_match ok ks)"

definition check_keys :: "(bytes \<Rightarrow> bool option) \<Rightarrow> bytes list \<Rightarrow> bytes \<Rightarrow> bool option" where
  "check_keys ok keys single =
     (if keys \<noteq> [] then first_match ok keys
      else if single \<noteq> [] then ok single else Some False)"

definition check_signature ::
    "ed25519 \<Rightarrow> spa_config \<Rightarrow> spa_packet \<Rightarrow> bytes \<Rightarrow> (verify_error + unit) option" where
  "check_signature E cfg p d =
     (if Mode cfg = SPAModeAsymmetric then
        map_option (\<lambda>ok. if ok then Inr () else Inl NoKeyMatched)
          (check_keys (\<lambda>pk. VerifyAsymmetricPacket E pk p d) (PublicKeys cfg) (PublicKey cfg))
      else if Mode cfg = SPAModeDynamic then
        map_option (\<lambda>ok. if ok then Inr () else Inl NoSecretMatched)
          (check_keys (\<lambda>k. VerifyDynamicPacket k p d) (HMACSecrets cfg) (HMACSecret cfg))
      else Some (Inl (UnsupportedSPAMode (Mode cfg))))"

text \<open>Everything \<^verbatim>\<open>VerifyPacket\<close> does before it takes the mutex.\<close>

definition verify_checks ::
    "ed25519 \<Rightarrow> spa_config \<Rightarrow> clock \<Rightarrow> bytes \<Rightarrow> net_ip \<Rightarrow> (verify_error + unit) option" where
  "verify_checks E cfg clk d actual =
     (case ParseSPAPacket d of
        None \<Rightarrow> None
      | Some (Inl e) \<Rightarrow> Some (Inl (ParseFailed e))
      | Some (Inr p) \<Rightarrow>
          (case check_version p of Inl e \<Rightarrow> Some (Inl e) | Inr _ \<Rightarrow>
          (case check_ip p actual of Inl e \<Rightarrow> Some (Inl e) | Inr _ \<Rightarrow>
          (case check_timestamp (clk 0) p of Inl e \<Rightarrow> Some (Inl e) | Inr _ \<Rightarrow>
          (case check_totp cfg clk p of
             None \<Rightarrow> None
           | Some False \<Rightarrow> Some (Inl InvalidTOTP)
           | Some True \<Rightarrow> check_signature E cfg p d)))))"

section \<open>The replay cache\<close>

definition packet_hash :: "bytes \<Rightarrow> string" where
  "packet_hash d = hex_encode (sha256 d)"

definition entry_expired :: "i64 \<Rightarrow> i64 \<Rightarrow> bool" where
  "entry_expired currentTime t \<longleftrightarrow> maxTimeDiff <s currentTime - t"

definition cleanup_cache :: "i64 \<Rightarrow> (string, i64) fmap \<Rightarrow> (string, i64) fmap" where
  "cleanup_cache currentTime m =
     (if 1000 < fcard (fmdom m)
      then fmfilter (\<lambda>k. \<forall>t. fmlookup m k = Some t \<longrightarrow> \<not> entry_expired currentTime t) m else m)"

definition replay_section :: "i64 \<Rightarrow> bytes \<Rightarrow> (string, i64) fmap
    \<Rightarrow> (string, i64) fmap \<times> (verify_error + unit)" where
  "replay_section currentTime d m =
     (let m1 = cleanup_cache currentTime m
      in case fmlookup m1 (packet_hash d) of
           Some _ \<Rightarrow> (m1, Inl ReplayDetected)
         | None \<Rightarrow> (fmupd (packet_hash d) currentTime m1, Inr ()))"

definition VerifyPacket ::
    "ed25519 \<Rightarrow> verifier \<Rightarrow> clock \<Rightarrow> bytes \<Rightarrow> net_ip \<Rightarrow> (verifier \<times> (verify_error + unit)) option" where
  "VerifyPacket E v clk d actual =
     (case verify_checks E (spaConfig v) clk d actual of
        None \<Rightarrow> None
      | Some (Inl e) \<Rightarrow> Some (v, Inl e)
      | Some (Inr _) \<Rightarrow>
          (case replay_section (clk 0) d (seenCache v) of
             (m, r) \<Rightarrow> Some (v\<lparr>seenCache := m\<rparr>, r)))"

definition VerifyTOTPOnly :: "verifier \<Rightarrow> i64 \<Rightarrow> u32 \<Rightarrow> bool option" where
  "VerifyTOTPOnly v now totp =
     ValidateTOTP now (TOTPSecret (spaConfig v)) (TOTPTimeStep (spaConfig v))
       (TOTPTolerance (spaConfig v)) totp"

section \<open>A store that admits an item once\<close>

text \<open>
  The contract of the replay cache, as its users rely on it: admitting an item records the time,
  and as long as the recorded time has not expired the item is refused and its record kept,
  whatever else is tried.
\<close>

locale replay_store =
  fixes admit :: "'t \<Rightarrow> 'd \<Rightarrow> 's \<Rightarrow> 's \<times> bool"
    and record_of :: "'s \<Rightarrow> 'd \<Rightarrow> 't option"
    and expired :: "'t \<Rightarrow> 't \<Rightarrow> bool"
  assumes admitted: "admit t d s = (s', True) \<Longrightarrow> record_of s' d = Some t"
    and refused: "record_of s d = Some u \<Longrightarrow> \<not> expired t u \<Longrightarrow> \<not> snd (admit t d s)"
    and kept: "record_of s d = Some u \<Longrightarrow> \<not> expired t u \<Longrightarrow> record_of (fst (admit t e s)) d = Some u"
begin

fun admit_all :: "('t \<times> 'd) list \<Rightarrow> 's \<Rightarrow> 's \<times> bool list" where
  "admit_all [] s = (s, [])"
| "admit_all ((t, d) # xs) s =
     (case admit t d s of (s1, r) \<Rightarrow> case admit_all xs s1 of (s2, rs) \<Rightarrow> (s2, r # rs))"

lemma length_admit_all: "length (snd (admit_all xs s)) = length xs"
  by (induction xs s rule: admit_all.induct) (auto split: prod.split)

lemma recorded_refused:
  assumes "record_of s d = Some u" and "\<forall>(t, e) \<in> set xs. \<not> expired t u"
    and "i < length xs" and "snd (xs ! i) = d"
  shows "\<not> snd (admit_all xs s) ! i"
  using assms
proof (induction xs arbitrary: s i)
  case Nil
  then show ?case by simp
next
  case (Cons x xs)
  obtain t e where x: "x = (t, e)" by (cases x)
  obtain s1 r where a: "admit t e s = (s1, r)" by (cases "admit t e s")
  have rec: "record_of s1 d = Some u"
    using kept [of s d u t e] Cons.prems a by (auto simp: x)
  show ?case
  proof (cases i)
    case 0
    then show ?thesis
      using refused [of s d u t] Cons.prems a by (auto simp: x split: prod.split)
  next
    case (Suc j)
    then have "\<not> snd (admit_all xs s1) ! j"
      using Cons.IH [OF rec, of j] Cons.prems by auto
    then show ?thesis by (cases "admit_all xs s1") (simp add: x a Suc)
  qed
qed

text \<open>An item admitted once is refused at every later attempt until its record expires.\<close>

lemma admitted_once:
  assumes "admit t d s = (s1, True)" and "\<forall>(t', e) \<in> set xs. \<not> expired t' t"
    and "i < length xs" and "snd (xs ! i) = d"
  shows "\<not> snd (admit_all xs s1) ! i"
  using recorded_refused [OF admitted [OF assms(1)] assms(2-4)] .

end

text \<open>The replay section of the verifier is such a store.\<close>

definition replay_admit :: "i64 \<Rightarrow> bytes \<Rightarrow> (string, i64) fmap \<Rightarrow> (string, i64) fmap \<times> bool" where
  "replay_admit now d m = (case replay_section now d m of (m', r) \<Rightarrow> (m', r = Inr ()))"

lemma cleanup_lookup:
  "fmlookup (cleanup_cache now m) k =
     (if 1000 < fcard (fmdom m) \<and> (\<exists>t. fmlookup m k = Some t \<and> entry_expired now t) then None
      else fmlookup m k)"
  by (auto simp: cleanup_cache_def)

lemma cleanup_keeps: "fmlookup m k = Some t \<Longrightarrow> \<not> entry_expired now t \<Longrightarrow>
    fmlookup (cleanup_cache now m) k = Some t"
  by (simp add: cleanup_lookup)

interpretation replay: replay_store replay_admit "\<lambda>m d. fmlookup m (packet_hash d)" entry_expired
proof (unfold_locales, goal_cases)
  case (1 t d s s')
  then show ?case
    by (auto simp: replay_admit_def replay_section_def Let_def split: option.splits)
next
  case (2 s d u t)
  then show ?case
    by (simp add: replay_admit_def replay_section_def Let_def cleanup_keeps)
next
  case (3 s d u t e)
  then show ?case
    by (auto simp: replay_admit_def replay_section_def Let_def cleanup_keeps split: option.splits)
qed

section \<open>Runs of the verifier\<close>

text \<open>One call after the other, as the handler's goroutines make them when they do not overlap;
  a panic ends the run.\<close>

type_synonym verify_call = "clock \<times> bytes \<times> net_ip"

fun verify_run :: "ed25519 \<Rightarrow> verifier \<Rightarrow> verify_call list \<Rightarrow> (verifier \<times> (verify_error + unit) list) option" where
  "verify_run E v [] = Some (v, [])"
| "verify_run E v ((clk, d, ip) # cs) =
     (case VerifyPacket E v clk d ip of
        None \<Rightarrow> None
      | Some (v1, r) \<Rightarrow> map_option (\<lambda>(v2, rs). (v2, r # rs)) (verify_run E v1 cs))"

lemma VerifyPacket_config: "VerifyPacket E v clk d ip = Some (v', r) \<Longrightarrow> spaConfig v' = spaConfig v"
  by (auto simp: VerifyPacket_def split: option.splits sum.splits prod.splits)

lemma VerifyPacket_accepts:
  "VerifyPacket E v clk d ip = Some (v', Inr ()) \<longleftrightarrow>
     verify_checks E (spaConfig v) clk d ip = Some (Inr ()) \<and>
     replay_section (clk 0) d (seenCache v) = (seenCache v', Inr ()) \<and> spaConfig v' = spaConfig v"
  by (cases v; cases v') (auto simp: VerifyPacket_def split: option.splits sum.splits prod.splits)

lemma VerifyPacket_records:
  assumes "VerifyPacket E v clk d ip = Some (v', Inr ())"
  shows "fmlookup (seenCache v') (packet_hash d) = Some (clk 0)"
  using assms replay.admitted [of "clk 0" d "seenCache v" "seenCache v'"]
  by (simp add: VerifyPacket_accepts replay_admit_def)

lemma VerifyPacket_refuses:
  assumes "VerifyPacket E v clk d ip = Some (v', r)"
    and "fmlookup (seenCache v) (packet_hash d) = Some u" and "\<not> entry_expired (clk 0) u"
  shows "r \<noteq> Inr ()"
proof
  assume "r = Inr ()"
  then have "snd (replay_admit (clk 0) d (seenCache v))"
    using assms(1) VerifyPacket_accepts [of E v clk d ip v'] by (simp add: replay_admit_def)
  then show False using replay.refused [OF assms(2,3)] by simp
qed

lemma VerifyPacket_keeps:
  assumes "VerifyPacket E v clk e ip = Some (v', r)"
    and "fmlookup (seenCache v) (packet_hash d) = Some u" and "\<not> entry_expired (clk 0) u"
  shows "fmlookup (seenCache v') (packet_hash d) = Some u"
proof -
  have "seenCache v' = seenCache v \<or> seenCache v' = fst (replay_admit (clk 0) e (seenCache v))"
    using assms(1)
    by (auto simp: VerifyPacket_def replay_admit_def split: option.splits sum.splits prod.splits)
  then show ?thesis using assms(2) replay.kept [OF assms(2,3)] by auto
qed

lemma verify_run_length: "verify_run E v cs = Some (v', rs) \<Longrightarrow> length rs = length cs"
  by (induction E v cs arbitrary: v' rs rule: verify_run.induct) (auto split: option.splits)

lemma verify_run_refuses:
  assumes "fmlookup (seenCache v) (packet_hash d) = Some u"
    and "\<forall>(clk, e, ip) \<in> set cs. \<not> entry_expired (clk 0) u"
    and "verify_run E v cs = Some (v', rs)" and "i < length cs" and "fst (snd (cs ! i)) = d"
  shows "rs ! i \<noteq> Inr ()"
  using assms
proof (induction cs arbitrary: v i rs)
  case Nil
  then show ?case by simp
next
  case (Cons c cs)
  obtain clk e ip where c: "c = (clk, e, ip)" by (cases c)
  obtain v1 r rs1 where v1: "VerifyPacket E v clk e ip = Some (v1, r)"
    and rs1: "verify_run E v1 cs = Some (v', rs1)" "rs = r # rs1"
    using Cons.prems(3) by (auto simp: c split: option.splits)
  have ne: "\<not> entry_expired (clk 0) u" using Cons.prems(2) by (auto simp: c)
  show ?case
  proof (cases i)
    case 0
    then have "e = d" using Cons.prems(5) by (simp add: c)
    then have "r \<noteq> Inr ()"
      using Cons.prems(1) by (intro VerifyPacket_refuses [OF v1 _ ne]) simp
    then show ?thesis by (simp add: 0 rs1)
  next
    case (Suc j)
    then show ?thesis
      using Cons.IH [OF VerifyPacket_keeps [OF v1 Cons.prems(1) ne] _ rs1(1), of j] Cons.prems rs1
      by auto
  qed
qed

section \<open>What the checks mean\<close>

text \<open>The keys a signature, and the secrets a password, is tried with.\<close>

definition keys_in_use :: "bytes list \<Rightarrow> bytes \<Rightarrow> bytes list" where
  "keys_in_use keys single = (if keys \<noteq> [] then keys else if single \<noteq> [] then [single] else [])"

lemma first_match_True: "first_match ok ks = Some True \<Longrightarrow> \<exists>k \<in> set ks. ok k = Some True"
  by (induction ok ks rule: first_match.induct) (auto split: option.splits bool.splits)

lemma check_keys_True:
  "check_keys ok ks single = Some True \<Longrightarrow> \<exists>k \<in> set (keys_in_use ks single). ok k = Some True"
  by (auto simp: check_keys_def keys_in_use_def dest: first_match_True split: if_splits)

lemma first_match_complete:
  "\<forall>k \<in> set ks. ok k \<noteq> None \<Longrightarrow> k \<in> set ks \<Longrightarrow> ok k = Some True \<Longrightarrow> first_match ok ks = Some True"
  by (induction ok ks rule: first_match.induct) (auto split: option.splits bool.splits)

lemma check_keys_complete:
  "\<forall>k \<in> set (keys_in_use ks single). ok k \<noteq> None \<Longrightarrow> k \<in> set (keys_in_use ks single)
     \<Longrightarrow> ok k = Some True \<Longrightarrow> check_keys ok ks single = Some True"
  by (auto simp: check_keys_def keys_in_use_def intro: first_match_complete split: if_splits)

lemma validate_secrets_True:
  "validate_secrets clk n step tol c ss = Some True \<Longrightarrow>
     \<exists>i < length ss. ValidateTOTP (clk (n + i)) (ss ! i) step tol c = Some True"
proof (induction clk n step tol c ss rule: validate_secrets.induct)
  case (2 clk n step tol totp s ss)
  show ?case
  proof (cases "ValidateTOTP (clk n) s step tol totp = Some True")
    case True
    then show ?thesis by (intro exI [of _ 0]) simp
  next
    case False
    then have "ValidateTOTP (clk n) s step tol totp = Some False"
      and "validate_secrets clk (Suc n) step tol totp ss = Some True"
      using 2(2) by (auto split: option.splits bool.splits)
    then obtain i where "i < length ss"
      and "ValidateTOTP (clk (Suc n + i)) (ss ! i) step tol totp = Some True"
      using 2(1) by blast
    then show ?thesis by (intro exI [of _ "Suc i"]) simp
  qed
qed simp

lemma check_totp_True:
  assumes "check_totp cfg clk p = Some True"
  shows "\<exists>i < length (keys_in_use (TOTPSecrets cfg) (TOTPSecret cfg)).
    ValidateTOTP (clk (Suc i)) (keys_in_use (TOTPSecrets cfg) (TOTPSecret cfg) ! i)
      (TOTPTimeStep cfg) (TOTPTolerance cfg) (pTOTP p) = Some True"
  using assms validate_secrets_True [of clk 1 "TOTPTimeStep cfg" "TOTPTolerance cfg" "pTOTP p" "TOTPSecrets cfg"]
  by (auto simp: check_totp_def keys_in_use_def split: if_splits)

lemma validate_secrets_complete:
  assumes "\<forall>i. \<forall>s. ValidateTOTP (clk i) s step tol c \<noteq> None"
    and "s \<in> set ss" and "\<forall>i. ValidateTOTP (clk i) s step tol c = Some True"
  shows "validate_secrets clk n step tol c ss = Some True"
  using assms
  by (induction clk n step tol c ss rule: validate_secrets.induct)
     (auto split: option.splits bool.splits)

lemma check_totp_complete:
  assumes "\<forall>i. \<forall>s. ValidateTOTP (clk i) s (TOTPTimeStep cfg) (TOTPTolerance cfg) (pTOTP p) \<noteq> None"
    and "s \<in> set (keys_in_use (TOTPSecrets cfg) (TOTPSecret cfg))"
    and "\<forall>i. ValidateTOTP (clk i) s (TOTPTimeStep cfg) (TOTPTolerance cfg) (pTOTP p) = Some True"
  shows "check_totp cfg clk p = Some True"
  using assms validate_secrets_complete [OF assms(1)]
  by (auto simp: check_totp_def keys_in_use_def split: if_splits)

text \<open>The address check on version 2, as equality of the 16-byte forms.\<close>

lemma check_ip_ok:
  "check_ip p actual = Inr () \<longleftrightarrow>
     pVersion p \<noteq> 2 \<or> ip_to16 (pClientIP p) \<noteq> None \<and> ip_to16 (pClientIP p) = ip_to16 actual"
  by (auto simp: check_ip_def ip_to16_def split: option.splits)

lemma check_version_ok: "check_version p = Inr () \<longleftrightarrow> pVersion p = 1 \<or> pVersion p = 2"
  by (simp add: check_version_def)

lemma verify_checks_ok:
  "verify_checks E cfg clk d actual = Some (Inr ()) \<longleftrightarrow>
     (\<exists>p. ParseSPAPacket d = Some (Inr p) \<and> check_version p = Inr () \<and> check_ip p actual = Inr ()
        \<and> check_timestamp (clk 0) p = Inr () \<and> check_totp cfg clk p = Some True
        \<and> check_signature E cfg p d = Some (Inr ()))"
  by (auto simp: verify_checks_def split: option.splits sum.splits bool.splits)

text \<open>The age of a packet in 64-bit arithmetic: the clock is between 1970 and the year 10^11.\<close>

lemma sint_minus_min64:
  fixes d :: i64
  assumes "sint d = - (2 ^ 63)"
  shows "sint (- d) = - (2 ^ 63)"
proof -
  have "word_of_int (sint d) = d" by simp
  then have "d = word_of_int (- (2 ^ 63))" unfolding assms by (rule sym)
  then show ?thesis by simp
qed

lemma check_timestamp_diff:
  "check_timestamp now p = Inr () \<longleftrightarrow>
     \<bar>sint (now - pTimestamp p)\<bar> \<le> 300 \<or> sint (now - pTimestamp p) = - (2 ^ 63)"
proof (cases "sint (now - pTimestamp p) = - (2 ^ 63)")
  case True
  then show ?thesis
    using sint_minus_min64 [OF True]
    by (simp add: check_timestamp_def Let_def maxTimeDiff_def word_sless_alt)
next
  case False
  let ?d = "now - pTimestamp p"
  have "int64_fits (- sint ?d)"
    using False sint_fits [of ?d] by (simp add: int64_fits_def)
  then have "sint (- ?d) = - sint ?d" by (rule sint_minus64)
  then show ?thesis
    using False by (simp add: check_timestamp_def Let_def maxTimeDiff_def word_sless_alt abs_le_iff not_less del: minus_diff_eq)
qed

lemma sint_sub_wrap:
  fixes a b :: i64
  assumes "\<not> int64_fits (sint a - sint b)" and "0 \<le> sint a"
  shows "sint (a - b) = sint a - sint b - 2 ^ 64"
proof -
  have "int64_fits (sint a - sint b - 2 ^ 64)"
    using assms sint_fits [of a] sint_fits [of b] by (auto simp: int64_fits_def)
  moreover have "a - b = word_of_int (sint a - sint b - 2 ^ 64)"
  proof -
    have "(word_of_int (sint a - sint b - 2 ^ 64) :: i64)
        = word_of_int (sint a - sint b) - word_of_int (2 ^ 64)" by simp
    also have "(word_of_int (2 ^ 64) :: i64) = 0" by simp
    finally show ?thesis by simp
  qed
  ultimately show ?thesis using sint_of_int64 by metis
qed

lemma timestamp_window:
  assumes "0 \<le> sint now" and "sint now < 2 ^ 62"
  shows "check_timestamp now p = Inr () \<longleftrightarrow>
    \<bar>sint now - sint (pTimestamp p)\<bar> \<le> 300 \<or> sint now - sint (pTimestamp p) = 2 ^ 63"
proof (cases "int64_fits (sint now - sint (pTimestamp p))")
  case True
  then show ?thesis
    using assms sint_diff64 [OF True] sint_fits [of "pTimestamp p"]
    by (auto simp: check_timestamp_diff int64_fits_def)
next
  case False
  then show ?thesis
    using assms sint_sub_wrap [OF False assms(1)] sint_fits [of "pTimestamp p"]
    by (auto simp: check_timestamp_diff int64_fits_def)
qed

text \<open>C16. The age check passes exactly when clock and timestamp are at most 300 seconds apart, and
  for one more timestamp: the one whose difference to the clock is the smallest 64-bit integer, which
  negation leaves negative.\<close>

theorem check_timestamp_window:
  assumes "0 \<le> sint now" and "sint now < 2 ^ 62"
  shows "check_timestamp now p = Inr () \<longleftrightarrow>
    \<bar>sint now - sint (pTimestamp p)\<bar> \<le> 300 \<or> sint now - sint (pTimestamp p) = 2 ^ 63"
  by (rule timestamp_window [OF assms])

definition ancient_packet :: spa_packet where
  "ancient_packet = \<lparr>pVersion = 2, pMode = 1, pTimestamp = - 9223372035154775808, pTOTP = 0,
     pClientIP = None, pSignature = [], pRandomData = []\<rparr>"

lemma check_timestamp_window_witness: "check_timestamp 1700000000 ancient_packet = Inr ()"
  by (rule check_timestamp_window [THEN iffD2]) (simp_all add: ancient_packet_def)

section \<open>What an accepted packet is\<close>

text \<open>The signature check of the configured mode, under one of the configured keys.\<close>

definition signed_for :: "ed25519 \<Rightarrow> spa_config \<Rightarrow> spa_packet \<Rightarrow> bytes \<Rightarrow> bool" where
  "signed_for E cfg p d \<longleftrightarrow>
     Mode cfg = SPAModeAsymmetric \<and>
       (\<exists>pk \<in> set (keys_in_use (PublicKeys cfg) (PublicKey cfg)). VerifyAsymmetricPacket E pk p d = Some True)
     \<or> Mode cfg = SPAModeDynamic \<and>
       (\<exists>k \<in> set (keys_in_use (HMACSecrets cfg) (HMACSecret cfg)). VerifyDynamicPacket k p d = Some True)"

lemma check_signature_ok:
  assumes "check_signature E cfg p d = Some (Inr ())"
  shows "signed_for E cfg p d"
proof (cases "Mode cfg = SPAModeAsymmetric")
  case True
  then have "check_keys (\<lambda>pk. VerifyAsymmetricPacket E pk p d) (PublicKeys cfg) (PublicKey cfg) = Some True"
    using assms by (auto simp: check_signature_def split: if_splits)
  from check_keys_True [OF this] show ?thesis by (simp add: signed_for_def True)
next
  case False
  then have dyn: "Mode cfg = SPAModeDynamic"
    and "check_keys (\<lambda>k. VerifyDynamicPacket k p d) (HMACSecrets cfg) (HMACSecret cfg) = Some True"
    using assms by (auto simp: check_signature_def split: if_splits)
  from check_keys_True [OF this(2)] show ?thesis by (simp add: signed_for_def dyn)
qed

text \<open>Conversely, the check passes when no key makes the library panic.\<close>

lemma VerifyDynamicPacket_total:
  "ParseSPAPacket d = Some (Inr p) \<Longrightarrow> VerifyDynamicPacket k p d \<noteq> None"
  by (drule parsed_signature_length) (simp add: VerifyDynamicPacket_def)

lemma VerifyAsymmetricPacket_total:
  "ParseSPAPacket d = Some (Inr p) \<Longrightarrow> length pk = 32 \<Longrightarrow> VerifyAsymmetricPacket E pk p d \<noteq> None"
  by (drule parsed_signature_length) (simp add: VerifyAsymmetricPacket_def)

definition keys_well_sized :: "spa_config \<Rightarrow> bool" where
  "keys_well_sized cfg \<longleftrightarrow>
     (\<forall>pk \<in> set (keys_in_use (PublicKeys cfg) (PublicKey cfg)). length pk = 32)"

lemma check_signature_complete:
  assumes p: "ParseSPAPacket d = Some (Inr p)" and "signed_for E cfg p d"
    and sizes: "Mode cfg = SPAModeDynamic \<or> keys_well_sized cfg"
  shows "check_signature E cfg p d = Some (Inr ())"
proof (cases "Mode cfg = SPAModeAsymmetric")
  case True
  then have "Mode cfg \<noteq> SPAModeDynamic" by (simp add: spa_mode_defs)
  then obtain pk where "pk \<in> set (keys_in_use (PublicKeys cfg) (PublicKey cfg))"
    and "VerifyAsymmetricPacket E pk p d = Some True" and "keys_well_sized cfg"
    using assms True by (auto simp: signed_for_def)
  then have "check_keys (\<lambda>pk. VerifyAsymmetricPacket E pk p d) (PublicKeys cfg) (PublicKey cfg) = Some True"
    using VerifyAsymmetricPacket_total [OF p]
    by (intro check_keys_complete [of _ _ _ pk]) (auto simp: keys_well_sized_def)
  then show ?thesis by (simp add: check_signature_def True)
next
  case False
  then obtain k where "k \<in> set (keys_in_use (HMACSecrets cfg) (HMACSecret cfg))"
    and "VerifyDynamicPacket k p d = Some True" and dyn: "Mode cfg = SPAModeDynamic"
    using assms by (auto simp: signed_for_def)
  then have "check_keys (\<lambda>k. VerifyDynamicPacket k p d) (HMACSecrets cfg) (HMACSecret cfg) = Some True"
    using VerifyDynamicPacket_total [OF p] by (intro check_keys_complete [of _ _ _ k]) auto
  then show ?thesis using False by (simp add: check_signature_def dyn)
qed

text \<open>The server's clock during one call stays near the time a client made its packet.\<close>

definition clock_near :: "spa_config \<Rightarrow> packet_env \<Rightarrow> clock \<Rightarrow> bool" where
  "clock_near cfg env clk \<longleftrightarrow>
     0 \<le> sint (envTOTPTime env) \<and> sint (clk 0) < 2 ^ 62 \<and>
     \<bar>sint (clk 0) - sint (envNow env)\<bar> \<le> 300 \<and>
     (\<forall>n. 0 \<le> sint (clk n) \<and>
        \<bar>sint (envTOTPTime env) div sint (TOTPTimeStep cfg) - sint (clk n) div sint (TOTPTimeStep cfg)\<bar>
          \<le> sint (TOTPTolerance cfg))"

definition totp_settings_ok :: "spa_config \<Rightarrow> bool" where
  "totp_settings_ok cfg \<longleftrightarrow>
     0 < sint (TOTPTimeStep cfg) \<and> 0 \<le> sint (TOTPTolerance cfg) \<and> sint (TOTPTolerance cfg) < 2 ^ 63 - 1"

lemma verify_checks_complete:
  assumes p: "ParseSPAPacket d = Some (Inr p)" and "pVersion p = 2"
    and "pTimestamp p = envNow env"
    and totp: "GenerateTOTP (envTOTPTime env) s (TOTPTimeStep cfg) = Some (pTOTP p)"
    and s: "s \<in> set (keys_in_use (TOTPSecrets cfg) (TOTPSecret cfg))"
    and ip: "pClientIP p = ip_to16 ip" "ip_to16 ip \<noteq> None"
    and clk: "clock_near cfg env clk" and ok: "totp_settings_ok cfg"
    and sig: "signed_for E cfg p d" "Mode cfg = SPAModeDynamic \<or> keys_well_sized cfg"
  shows "verify_checks E cfg clk d ip = Some (Inr ())"
proof -
  have accept: "ValidateTOTP (clk n) s (TOTPTimeStep cfg) (TOTPTolerance cfg) (pTOTP p) = Some True" for n
    using clk ok by (intro accepts_generated [OF _ _ _ _ _ totp]) (auto simp: clock_near_def totp_settings_ok_def)
  have nz: "TOTPTimeStep cfg \<noteq> 0" using ok by (auto simp: totp_settings_ok_def)
  have "ValidateTOTP (clk n) s' (TOTPTimeStep cfg) (TOTPTolerance cfg) (pTOTP p) \<noteq> None" for n s'
    using ok by (subst ValidateTOTP_eq [OF nz]) (auto simp: totp_settings_ok_def)
  then have "check_totp cfg clk p = Some True"
    using s accept by (intro check_totp_complete) auto
  moreover have "check_timestamp (clk 0) p = Inr ()"
    using clk by (subst timestamp_window) (auto simp: clock_near_def assms(3))
  moreover have "check_ip p ip = Inr ()"
    using ip ip_to16_idem by (auto simp: check_ip_ok)
  ultimately show ?thesis
    using p check_signature_complete [OF p sig] assms(2) by (auto simp: verify_checks_ok check_version_ok)
qed

lemma VerifyPacket_unseen:
  assumes "verify_checks E (spaConfig v) clk d ip = Some (Inr ())"
    and "fmlookup (seenCache v) (packet_hash d) = None"
  shows "\<exists>v'. VerifyPacket E v clk d ip = Some (v', Inr ())"
  using assms by (auto simp: VerifyPacket_def replay_section_def Let_def cleanup_lookup)

text \<open>With such settings a call always returns.\<close>

lemma check_keys_total:
  "\<forall>k \<in> set (keys_in_use ks single). ok k \<noteq> None \<Longrightarrow> check_keys ok ks single \<noteq> None"
proof -
  have "\<forall>k \<in> set ks'. ok k \<noteq> None \<Longrightarrow> first_match ok ks' \<noteq> None" for ks'
    by (induction ok ks' rule: first_match.induct) (auto split: option.splits bool.splits)
  then show "\<forall>k \<in> set (keys_in_use ks single). ok k \<noteq> None \<Longrightarrow> check_keys ok ks single \<noteq> None"
    by (auto simp: check_keys_def keys_in_use_def simp del: not_None_eq split: if_splits)
qed

lemma check_signature_total:
  assumes "ParseSPAPacket d = Some (Inr p)" and "Mode cfg = SPAModeAsymmetric \<longrightarrow> keys_well_sized cfg"
  shows "check_signature E cfg p d \<noteq> None"
proof -
  have "check_keys (\<lambda>k. VerifyDynamicPacket k p d) (HMACSecrets cfg) (HMACSecret cfg) \<noteq> None"
    using VerifyDynamicPacket_total [OF assms(1)] by (intro check_keys_total) simp
  moreover have "check_keys (\<lambda>pk. VerifyAsymmetricPacket E pk p d) (PublicKeys cfg) (PublicKey cfg) \<noteq> None"
    if "keys_well_sized cfg"
    using that VerifyAsymmetricPacket_total [OF assms(1)]
    by (intro check_keys_total) (simp add: keys_well_sized_def)
  ultimately show ?thesis using assms(2) by (auto simp: check_signature_def)
qed

lemma validate_secrets_total:
  "\<forall>i s. ValidateTOTP (clk i) s step tol c \<noteq> None \<Longrightarrow> validate_secrets clk n step tol c ss \<noteq> None"
  by (induction clk n step tol c ss rule: validate_secrets.induct)
     (auto split: option.splits bool.splits)

lemma check_totp_total:
  assumes "TOTPTimeStep cfg \<noteq> 0" and "sint (TOTPTolerance cfg) \<noteq> 2 ^ 63 - 1"
  shows "check_totp cfg clk p \<noteq> None"
proof -
  have "ValidateTOTP now s (TOTPTimeStep cfg) (TOTPTolerance cfg) c \<noteq> None" for now s c
    using validation_returns [OF assms, of now s c] by auto
  then show ?thesis by (simp add: check_totp_def validate_secrets_total del: not_None_eq)
qed

lemma VerifyPacket_total:
  assumes "TOTPTimeStep (spaConfig v) \<noteq> 0" and "sint (TOTPTolerance (spaConfig v)) \<noteq> 2 ^ 63 - 1"
    and "Mode (spaConfig v) = SPAModeAsymmetric \<longrightarrow> keys_well_sized (spaConfig v)"
  shows "\<exists>v' r. VerifyPacket E v clk d ip = Some (v', r)"
proof -
  have "verify_checks E (spaConfig v) clk d ip \<noteq> None"
    using check_totp_total [OF assms(1,2)] check_signature_total [OF _ assms(3)] ParseSPAPacket_eq [of d]
    by (auto simp: verify_checks_def simp del: not_None_eq split: sum.splits option.splits bool.splits)
  then show ?thesis
    by (auto simp: VerifyPacket_def split: option.splits sum.splits prod.splits)
qed

text \<open>C11. No packet makes the verifier panic or loop: with a nonzero time step, a tolerance below the
  largest \<^verbatim>\<open>int\<close> and, in Ed25519 mode, configured public keys of 32 bytes, \<^verbatim>\<open>VerifyPacket\<close>
  returns for every input.\<close>

theorem VerifyPacket_returns:
  assumes "TOTPTimeStep (spaConfig v) \<noteq> 0" and "sint (TOTPTolerance (spaConfig v)) \<noteq> 2 ^ 63 - 1"
    and "Mode (spaConfig v) = SPAModeAsymmetric \<longrightarrow> keys_well_sized (spaConfig v)"
  shows "\<exists>v' r. VerifyPacket E v clk d ip = Some (v', r)"
  using assms by (rule VerifyPacket_total)

lemma VerifyPacket_returns_witness:
  "\<exists>v' r. VerifyPacket ed_example (NewVerifier (DefaultDynamicSPAConfig None)) (\<lambda>n. 5) [1, 2, 3] None
     = Some (v', r)"
  by (rule VerifyPacket_returns)
     (simp_all add: NewVerifier_def DefaultDynamicSPAConfig_def keys_well_sized_def keys_in_use_def)

section \<open>The client's packet is accepted\<close>

text \<open>End to end in HMAC mode: a packet the client makes with one of the server's HMAC secrets
  and one of its TOTP secrets is accepted from the address it names, whenever the two clocks are
  near enough and the packet has not been seen.\<close>

theorem VerifyPacket_accepts_dynamic:
  assumes "CreateDynamicPacket env k s (TOTPTimeStep (spaConfig v)) obf cip = Some (Inr d)"
    and "Mode (spaConfig v) = SPAModeDynamic"
    and "k \<in> set (keys_in_use (HMACSecrets (spaConfig v)) (HMACSecret (spaConfig v)))"
    and "s \<in> set (keys_in_use (TOTPSecrets (spaConfig v)) (TOTPSecret (spaConfig v)))"
    and "ip_to16 cip = ip_to16 ip" and "ip_to16 ip \<noteq> None"
    and "clock_near (spaConfig v) env clk" and "totp_settings_ok (spaConfig v)"
    and "fmlookup (seenCache v) (packet_hash d) = None"
  shows "\<exists>v'. VerifyPacket E v clk d ip = Some (v', Inr ())"
proof -
  obtain p where p: "ParseSPAPacket d = Some (Inr p)" "pVersion p = 2" "pTimestamp p = envNow env"
    "GenerateTOTP (envTOTPTime env) s (TOTPTimeStep (spaConfig v)) = Some (pTOTP p)"
    "pClientIP p = Some (ip_bytes cip)" "VerifyDynamicPacket k p d = Some True"
    using CreateDynamicPacket_parsed [OF assms(1)] by blast
  have "pClientIP p = ip_to16 ip"
    using p(5) assms(5,6) by (auto simp: ip_bytes_def split: option.splits)
  moreover have "signed_for E (spaConfig v) p d"
    using p(6) assms(2,3) by (auto simp: signed_for_def)
  ultimately have "verify_checks E (spaConfig v) clk d ip = Some (Inr ())"
    using assms(2) verify_checks_complete [OF p(1-4) assms(4) _ assms(6-8)] by blast
  then show ?thesis using assms(9) by (rule VerifyPacket_unseen)
qed

definition example_dynamic_config :: spa_config where
  "example_dynamic_config = (DefaultDynamicSPAConfig None)
     \<lparr>Mode := SPAModeDynamic, TOTPSecrets := [[1]], HMACSecrets := [[9], [7]]\<rparr>"

definition example_asymmetric_config :: spa_config where
  "example_asymmetric_config = (DefaultDynamicSPAConfig None)
     \<lparr>TOTPSecrets := [[1]], PublicKeys := [ed_public (ed_newkey ed_example [3])]\<rparr>"

lemma example_clock_near:
  "clock_near example_dynamic_config example_env (\<lambda>n. 1010)"
  "clock_near example_asymmetric_config example_env (\<lambda>n. 1010)"
  by (simp_all add: clock_near_def example_dynamic_config_def example_asymmetric_config_def
      example_env_def DefaultDynamicSPAConfig_def)

lemma example_totp_settings:
  "totp_settings_ok example_dynamic_config" "totp_settings_ok example_asymmetric_config"
  by (simp_all add: totp_settings_ok_def example_dynamic_config_def example_asymmetric_config_def
      DefaultDynamicSPAConfig_def)

lemma VerifyPacket_accepts_dynamic_witness:
  "\<exists>d v'. VerifyPacket ed_example (NewVerifier example_dynamic_config) (\<lambda>n. 1010) d example_ip
     = Some (v', Inr ())"
proof -
  obtain d where d: "CreateDynamicPacket example_env [7] [1] 30 True example_ip = Some (Inr d)"
    using CreateDynamicPacket_example by blast
  have "\<exists>v'. VerifyPacket ed_example (NewVerifier example_dynamic_config) (\<lambda>n. 1010) d example_ip
      = Some (v', Inr ())"
    by (rule VerifyPacket_accepts_dynamic [where env = example_env and k = "[7]" and s = "[1]"
          and obf = True and cip = example_ip])
       (use d example_clock_near example_totp_settings in \<open>simp_all add: NewVerifier_def
          example_dynamic_config_def DefaultDynamicSPAConfig_def keys_in_use_def example_ip_def
          ip_to16_def\<close>)
  then show ?thesis by blast
qed

lemma accepts_asymmetric:
  assumes "ed25519_laws E"
    and "CreateAsymmetricPacket E env (ed_newkey E seed) s (TOTPTimeStep (spaConfig v)) obf cip = Some (Inr d)"
    and "Mode (spaConfig v) = SPAModeAsymmetric" and "keys_well_sized (spaConfig v)"
    and "ed_public (ed_newkey E seed) \<in> set (keys_in_use (PublicKeys (spaConfig v)) (PublicKey (spaConfig v)))"
    and "s \<in> set (keys_in_use (TOTPSecrets (spaConfig v)) (TOTPSecret (spaConfig v)))"
    and "ip_to16 cip = ip_to16 ip" and "ip_to16 ip \<noteq> None"
    and "clock_near (spaConfig v) env clk" and "totp_settings_ok (spaConfig v)"
    and "fmlookup (seenCache v) (packet_hash d) = None"
  shows "\<exists>v'. VerifyPacket E v clk d ip = Some (v', Inr ())"
proof -
  obtain p where p: "ParseSPAPacket d = Some (Inr p)" "pVersion p = 2" "pTimestamp p = envNow env"
    "GenerateTOTP (envTOTPTime env) s (TOTPTimeStep (spaConfig v)) = Some (pTOTP p)"
    "pClientIP p = Some (ip_bytes cip)"
    "VerifyAsymmetricPacket E (ed_public (ed_newkey E seed)) p d = Some True"
    using CreateAsymmetricPacket_parsed [OF assms(1,2)] by blast
  have "pClientIP p = ip_to16 ip"
    using p(5) assms(7,8) by (auto simp: ip_bytes_def split: option.splits)
  moreover have "signed_for E (spaConfig v) p d"
    using p(6) assms(3,5) by (auto simp: signed_for_def)
  ultimately have "verify_checks E (spaConfig v) clk d ip = Some (Inr ())"
    using assms(4) verify_checks_complete [OF p(1-4) assms(6) _ assms(8-10)] by blast
  then show ?thesis using assms(11) by (rule VerifyPacket_unseen)
qed

text \<open>End to end in Ed25519 mode, for a key pair made from a seed whose public half is configured,
  when no configured public key has a wrong size.\<close>

theorem VerifyPacket_accepts_asymmetric:
  assumes "ed25519_laws E"
    and "CreateAsymmetricPacket E env (ed_newkey E seed) s (TOTPTimeStep (spaConfig v)) obf cip = Some (Inr d)"
    and "Mode (spaConfig v) = SPAModeAsymmetric" and "keys_well_sized (spaConfig v)"
    and "ed_public (ed_newkey E seed) \<in> set (keys_in_use (PublicKeys (spaConfig v)) (PublicKey (spaConfig v)))"
    and "s \<in> set (keys_in_use (TOTPSecrets (spaConfig v)) (TOTPSecret (spaConfig v)))"
    and "ip_to16 cip = ip_to16 ip" and "ip_to16 ip \<noteq> None"
    and "clock_near (spaConfig v) env clk" and "totp_settings_ok (spaConfig v)"
    and "fmlookup (seenCache v) (packet_hash d) = None"
  shows "\<exists>v'. VerifyPacket E v clk d ip = Some (v', Inr ())"
  by (rule accepts_asymmetric [OF assms])

lemma VerifyPacket_accepts_asymmetric_witness:
  "\<exists>d v'. VerifyPacket ed_example (NewVerifier example_asymmetric_config) (\<lambda>n. 1010) d example_ip
     = Some (v', Inr ())"
proof -
  obtain d where d: "CreateAsymmetricPacket ed_example example_env (ed_newkey ed_example [3]) [1] 30
      True example_ip = Some (Inr d)"
    using CreateAsymmetricPacket_example by blast
  have "length (ed_public (ed_newkey ed_example [3])) = 32"
    using ed_example_laws by (simp add: ed25519_laws_def ed_public_def)
  then have "\<exists>v'. VerifyPacket ed_example (NewVerifier example_asymmetric_config) (\<lambda>n. 1010) d example_ip
      = Some (v', Inr ())"
    by (intro VerifyPacket_accepts_asymmetric [where env = example_env and seed = "[3]" and s = "[1]"
          and obf = True and cip = example_ip, OF ed_example_laws])
       (use d example_clock_near example_totp_settings in \<open>simp_all add: NewVerifier_def
          example_asymmetric_config_def DefaultDynamicSPAConfig_def keys_in_use_def example_ip_def
          ip_to16_def keys_well_sized_def\<close>)
  then show ?thesis by blast
qed

text \<open>An accepted call, for the witnesses below.\<close>

lemma example_accepted:
  "\<exists>d v'. VerifyPacket ed_example (NewVerifier example_dynamic_config) (\<lambda>n. 1010) d example_ip
     = Some (v', Inr ())"
proof -
  obtain d where d: "CreateDynamicPacket example_env [7] [1] 30 True example_ip = Some (Inr d)"
    using CreateDynamicPacket_example by blast
  obtain p where p: "ParseSPAPacket d = Some (Inr p)" "pVersion p = 2" "pTimestamp p = envNow example_env"
    "GenerateTOTP (envTOTPTime example_env) [1] 30 = Some (pTOTP p)"
    "pClientIP p = Some (ip_bytes example_ip)" "VerifyDynamicPacket [7] p d = Some True"
    using CreateDynamicPacket_parsed [OF d] by blast
  have "signed_for ed_example example_dynamic_config p d"
    using p(6) by (simp add: signed_for_def example_dynamic_config_def keys_in_use_def)
  then have "verify_checks ed_example example_dynamic_config (\<lambda>n. 1010) d example_ip = Some (Inr ())"
    by (intro verify_checks_complete [where env = example_env and s = "[1]" and p = p])
       (use p example_clock_near example_totp_settings in \<open>simp_all add: example_ip_def ip_to16_def
          ip_bytes_def example_dynamic_config_def DefaultDynamicSPAConfig_def keys_in_use_def\<close>)
  then show ?thesis
    using VerifyPacket_unseen [of ed_example "NewVerifier example_dynamic_config" _ d]
    by (simp add: NewVerifier_def) blast
qed

text \<open>C3. Soundness of \<^verbatim>\<open>VerifyPacket\<close>: what it accepts parses, has a known version, comes from
  the address it names if it is a version 2 packet, is at most 300 seconds off the clock (up to the
  one wrapping timestamp), carries a password one of the configured secrets gives at that clock, is
  signed under a configured key of the configured mode, had not been recorded or its record had
  expired, and is recorded now.\<close>

theorem VerifyPacket_sound:
  assumes "VerifyPacket E v clk d ip = Some (v', Inr ())"
    and "0 \<le> sint (clk 0)" and "sint (clk 0) < 2 ^ 62"
  shows "\<exists>p. ParseSPAPacket d = Some (Inr p)
    \<and> (pVersion p = 1 \<or> pVersion p = 2 \<and> ip_to16 ip = pClientIP p)
    \<and> (\<bar>sint (clk 0) - sint (pTimestamp p)\<bar> \<le> 300 \<or> sint (clk 0) - sint (pTimestamp p) = 2 ^ 63)
    \<and> (\<exists>i < length (keys_in_use (TOTPSecrets (spaConfig v)) (TOTPSecret (spaConfig v))).
         ValidateTOTP (clk (Suc i)) (keys_in_use (TOTPSecrets (spaConfig v)) (TOTPSecret (spaConfig v)) ! i)
           (TOTPTimeStep (spaConfig v)) (TOTPTolerance (spaConfig v)) (pTOTP p) = Some True)
    \<and> signed_for E (spaConfig v) p d
    \<and> (\<forall>t. fmlookup (seenCache v) (packet_hash d) = Some t \<longrightarrow> entry_expired (clk 0) t)
    \<and> fmlookup (seenCache v') (packet_hash d) = Some (clk 0)"
proof -
  have "verify_checks E (spaConfig v) clk d ip = Some (Inr ())"
    using assms(1) by (simp add: VerifyPacket_accepts)
  then obtain p where p: "ParseSPAPacket d = Some (Inr p)" "check_version p = Inr ()" "check_ip p ip = Inr ()"
    "check_timestamp (clk 0) p = Inr ()" "check_totp (spaConfig v) clk p = Some True"
    "check_signature E (spaConfig v) p d = Some (Inr ())"
    unfolding verify_checks_ok by blast
  have "packet_ok p" using decode_packet_ok [OF p(1)] .
  then have "pVersion p = 1 \<or> pVersion p = 2 \<and> ip_to16 ip = pClientIP p"
    using p(2,3) by (auto simp: check_version_ok check_ip_ok packet_ok_def ip_to16_def)
  moreover have "\<forall>t. fmlookup (seenCache v) (packet_hash d) = Some t \<longrightarrow> entry_expired (clk 0) t"
    using VerifyPacket_refuses [OF assms(1)] by blast
  ultimately show ?thesis
    using p timestamp_window [OF assms(2,3), of p] check_totp_True [OF p(5)]
      check_signature_ok [OF p(6)] VerifyPacket_records [OF assms(1)]
    by blast
qed

lemma VerifyPacket_sound_witness:
  "\<exists>d p. ParseSPAPacket d = Some (Inr p) \<and> signed_for ed_example example_dynamic_config p d"
proof -
  obtain d v' where d: "VerifyPacket ed_example (NewVerifier example_dynamic_config) (\<lambda>n. 1010) d example_ip
      = Some (v', Inr ())"
    using example_accepted by blast
  have "\<exists>p. ParseSPAPacket d = Some (Inr p) \<and> signed_for ed_example (spaConfig (NewVerifier example_dynamic_config)) p d"
    using VerifyPacket_sound [OF d] by auto
  then show ?thesis by (auto simp: NewVerifier_def)
qed

text \<open>The mode byte of an accepted packet is that of the configured mode: a server in HMAC mode
  accepts only HMAC packets and one in Ed25519 mode only Ed25519 packets.\<close>

theorem VerifyPacket_mode:
  assumes "VerifyPacket E v clk d ip = Some (v', Inr ())" and "ed25519_laws E"
  shows "\<exists>p. ParseSPAPacket d = Some (Inr p) \<and>
    (Mode (spaConfig v) = SPAModeDynamic \<and> pMode p = 1 \<or> Mode (spaConfig v) = SPAModeAsymmetric \<and> pMode p = 2)"
proof -
  have "verify_checks E (spaConfig v) clk d ip = Some (Inr ())"
    using assms(1) by (simp add: VerifyPacket_accepts)
  then obtain p where p: "ParseSPAPacket d = Some (Inr p)" "signed_for E (spaConfig v) p d"
    unfolding verify_checks_ok using check_signature_ok by blast
  have size: "signature_size (pMode p) = Some (length (pSignature p))"
    using decode_packet_ok [OF p(1)] by (simp add: packet_ok_def)
  have asym: "length (pSignature p) = 64" if "VerifyAsymmetricPacket E pk p d = Some True" for pk
    using that assms(2) by (auto simp: VerifyAsymmetricPacket_def ed25519_laws_def bind_eq_Some_conv split: if_splits)
  have dyn: "length (pSignature p) = 32" if "VerifyDynamicPacket k p d = Some True" for k
    using that
    by (auto simp: VerifyDynamicPacket_def hmac_equal_def bind_eq_Some_conv split: if_splits
        dest: arg_cong [where f = length])
  have "pMode p = 2" if "VerifyAsymmetricPacket E pk p d = Some True" for pk
    using size asym [OF that] by (simp add: signature_size_cases)
  moreover have "pMode p = 1" if "VerifyDynamicPacket k p d = Some True" for k
    using size dyn [OF that] by (simp add: signature_size_cases)
  ultimately show ?thesis using p unfolding signed_for_def by blast
qed

lemma VerifyPacket_mode_witness:
  "\<exists>d p. ParseSPAPacket d = Some (Inr p) \<and> pMode p = 1"
proof -
  obtain d v' where d: "VerifyPacket ed_example (NewVerifier example_dynamic_config) (\<lambda>n. 1010) d example_ip
      = Some (v', Inr ())"
    using example_accepted by blast
  have "Mode (spaConfig (NewVerifier example_dynamic_config)) = SPAModeDynamic"
    by (simp add: NewVerifier_def example_dynamic_config_def)
  then show ?thesis
    using VerifyPacket_mode [OF d ed_example_laws] by (auto simp: spa_mode_defs)
qed

text \<open>A packet accepted once is refused in every later run of the verifier, whatever else is
  received and from whatever address it comes, for as long as the clock is at most 300 seconds past
  its acceptance.\<close>

theorem VerifyPacket_no_replay:
  assumes "VerifyPacket E v clk d ip = Some (v1, Inr ())"
    and "verify_run E v1 cs = Some (v2, rs)"
    and "\<forall>(clk', e, ip') \<in> set cs. \<not> entry_expired (clk' 0) (clk 0)"
    and "i < length cs" and "fst (snd (cs ! i)) = d"
  shows "rs ! i \<noteq> Inr ()"
  using verify_run_refuses [OF VerifyPacket_records [OF assms(1)] assms(3,2,4,5)] .

lemma VerifyPacket_no_replay_witness:
  "\<exists>d v1 v2 r. VerifyPacket ed_example (NewVerifier example_dynamic_config) (\<lambda>n. 1010) d example_ip
      = Some (v1, Inr ())
     \<and> VerifyPacket ed_example v1 (\<lambda>n. 1012) d example_ip = Some (v2, r) \<and> r \<noteq> Inr ()"
proof -
  obtain d v1 where d: "VerifyPacket ed_example (NewVerifier example_dynamic_config) (\<lambda>n. 1010) d example_ip
      = Some (v1, Inr ())"
    using example_accepted by blast
  obtain v2 r where r: "VerifyPacket ed_example v1 (\<lambda>n. 1012) d example_ip = Some (v2, r)"
    using VerifyPacket_total [of v1 ed_example "\<lambda>n. 1012" d example_ip] VerifyPacket_config [OF d]
    by (auto simp: NewVerifier_def example_dynamic_config_def DefaultDynamicSPAConfig_def spa_mode_defs)
  have "[r] ! 0 \<noteq> Inr ()"
    by (rule VerifyPacket_no_replay [OF d, where cs = "[(\<lambda>n. 1012, d, example_ip)]" and i = 0])
       (simp_all add: r entry_expired_def maxTimeDiff_def word_sless_alt)
  with d r show ?thesis by auto
qed

section \<open>Overlapping calls\<close>

text \<open>
  The handler starts a goroutine per packet, so calls of one verifier overlap. What a call does
  before the mutex reads no state that changes, and the section under the mutex is one step; a call
  is waiting, through its checks, or finished. Any call may take the next step.
\<close>

datatype verify_task =
    Arrived clock bytes net_ip
  | Checked i64 bytes
  | Finished i64 bytes "verify_error + unit"

fun task_time :: "verify_task \<Rightarrow> i64" where
  "task_time (Arrived clk d ip) = clk 0"
| "task_time (Checked t d) = t"
| "task_time (Finished t d r) = t"

type_synonym verify_state = "(string, i64) fmap \<times> verify_task list"

inductive verify_step :: "ed25519 \<Rightarrow> spa_config \<Rightarrow> verify_state \<Rightarrow> verify_state \<Rightarrow> bool"
  for E cfg where
    arrive: "verify_step E cfg (m, ts) (m, ts @ [Arrived clk d ip])"
  | reject: "i < length ts \<Longrightarrow> ts ! i = Arrived clk d ip \<Longrightarrow>
      verify_checks E cfg clk d ip = Some (Inl e) \<Longrightarrow>
      verify_step E cfg (m, ts) (m, ts[i := Finished (clk 0) d (Inl e)])"
  | pass: "i < length ts \<Longrightarrow> ts ! i = Arrived clk d ip \<Longrightarrow>
      verify_checks E cfg clk d ip = Some (Inr ()) \<Longrightarrow>
      verify_step E cfg (m, ts) (m, ts[i := Checked (clk 0) d])"
  | locked: "i < length ts \<Longrightarrow> ts ! i = Checked t d \<Longrightarrow> replay_section t d m = (m', r) \<Longrightarrow>
      verify_step E cfg (m, ts) (m', ts[i := Finished t d r])"

inductive_cases verify_stepE: "verify_step E cfg (m, ts) (m', ts')"

lemmas verify_step_cases = verify_stepE [consumes 1, case_names arrive reject pass locked]

lemma list_update_image:
  "i < length xs \<Longrightarrow> f y = f (xs ! i) \<Longrightarrow> f ` set (xs[i := y]) = f ` set xs"
  by (metis list.set_map list_update_id map_update nth_map)

lemma verify_step_times: "verify_step E cfg (m, ts) (m', ts') \<Longrightarrow> task_time ` set ts \<subseteq> task_time ` set ts'"
  by (erule verify_stepE) (auto simp: list_update_image)

text \<open>The invariant: every accepted packet is recorded under its time, and no packet is accepted
  by two calls.\<close>

definition accepted :: "verify_task list \<Rightarrow> nat \<Rightarrow> i64 \<Rightarrow> bytes \<Rightarrow> bool" where
  "accepted ts i t d \<longleftrightarrow> i < length ts \<and> ts ! i = Finished t d (Inr ())"

definition replay_inv :: "verify_state \<Rightarrow> bool" where
  "replay_inv s \<longleftrightarrow> (case s of (m, ts) \<Rightarrow>
     (\<forall>i t d. accepted ts i t d \<longrightarrow> fmlookup m (packet_hash d) = Some t) \<and>
     (\<forall>i j t u d. accepted ts i t d \<longrightarrow> accepted ts j u d \<longrightarrow> i = j))"

lemma accepted_other:
  assumes "\<forall>t d. y \<noteq> Finished t d (Inr ())" and "ts ! i = x" and "\<forall>t d. x \<noteq> Finished t d (Inr ())"
  shows "accepted (ts[i := y]) j t d \<longleftrightarrow> accepted ts j t d"
  using assms by (cases "i = j") (auto simp: accepted_def)

lemma accepted_append: "accepted (ts @ [Arrived clk d' ip]) j t d \<longleftrightarrow> accepted ts j t d"
  by (auto simp: accepted_def nth_append)

lemma accepted_new:
  assumes "i < length ts" and "ts ! i = Checked u e"
  shows "accepted (ts[i := Finished u e (Inr ())]) j t d \<longleftrightarrow>
    accepted ts j t d \<or> j = i \<and> t = u \<and> d = e"
  using assms by (cases "i = j") (auto simp: accepted_def)

lemma accepted_time: "accepted ts i t d \<Longrightarrow> t \<in> task_time ` set ts"
  by (force simp: accepted_def in_set_conv_nth image_iff)

lemma verify_step_inv:
  assumes step: "verify_step E cfg (m, ts) (m', ts')" and inv: "replay_inv (m, ts)"
    and live: "\<forall>t \<in> task_time ` set ts. \<forall>u \<in> task_time ` set ts. \<not> entry_expired t u"
  shows "replay_inv (m', ts')"
  using step
proof (cases rule: verify_step_cases)
  case (locked i t d r)
  have m': "replay_admit t d m = (m', r = Inr ())" using locked by (simp add: replay_admit_def)
  have t: "t \<in> task_time ` set ts" using nth_mem [OF locked(2)] locked(3) by force
  have kept: "fmlookup m' (packet_hash e) = Some u" if "accepted ts j u e" for j u e
    using that inv live t accepted_time [OF that] replay.kept [of m e u t d] m'
    by (auto simp: replay_inv_def)
  show ?thesis
  proof (cases "r = Inr ()")
    case True
    have rec: "fmlookup m' (packet_hash d) = Some t" using replay.admitted m' True by simp
    have fresh: "\<not> accepted ts j u d" for j u
      using inv live t accepted_time [of ts j u d] replay.refused [of m d u t] m' True
      by (auto simp: replay_inv_def)
    show ?thesis
      using kept rec fresh inv
      by (auto simp: replay_inv_def locked(1) True accepted_new [OF locked(2,3)])
  next
    case False
    then obtain x where "r = Inl x" by (cases r) auto
    then have "accepted ts' j u e \<longleftrightarrow> accepted ts j u e" for j u e
      using locked by (auto simp: accepted_other [where x = "Checked t d"])
    then show ?thesis using kept inv by (simp add: replay_inv_def)
  qed
qed (use inv in \<open>auto simp: replay_inv_def accepted_append accepted_other\<close>)

lemma verify_steps_inv:
  assumes "(verify_step E cfg)\<^sup>*\<^sup>* (fmempty, []) (m, ts)"
    and "\<forall>t \<in> task_time ` set ts. \<forall>u \<in> task_time ` set ts. \<not> entry_expired t u"
  shows "replay_inv (m, ts)"
  using assms
proof (induction "(m, ts)" arbitrary: m ts rule: rtranclp_induct)
  case base
  then show ?case by (simp add: replay_inv_def accepted_def)
next
  case (step s)
  obtain m0 ts0 where s: "s = (m0, ts0)" by (cases s)
  have "task_time ` set ts0 \<subseteq> task_time ` set ts"
    using step.hyps(2) by (simp add: s verify_step_times)
  then have live: "\<forall>t \<in> task_time ` set ts0. \<forall>u \<in> task_time ` set ts0. \<not> entry_expired t u"
    using step.prems by blast
  show ?case
    using verify_step_inv [OF step.hyps(2) [unfolded s]] step.hyps(3) [OF s live] live by blast
qed

text \<open>C5. However the goroutines of a server interleave, no packet is accepted by two of them, as
  long as none of the clock readings involved is more than 300 seconds past another.\<close>

theorem verify_step_once:
  assumes "(verify_step E cfg)\<^sup>*\<^sup>* (fmempty, []) (m, ts)"
    and "\<forall>x \<in> set ts. \<forall>y \<in> set ts. \<not> entry_expired (task_time x) (task_time y)"
    and "i < length ts" and "ts ! i = Finished t d (Inr ())"
    and "j < length ts" and "ts ! j = Finished u d (Inr ())"
  shows "i = j"
proof -
  have "replay_inv (m, ts)" using assms(2) by (intro verify_steps_inv [OF assms(1)]) simp
  then show ?thesis using assms(3-6) unfolding replay_inv_def accepted_def by blast
qed

lemma verify_step_once_witness:
  "\<exists>d m ts. (verify_step ed_example example_dynamic_config)\<^sup>*\<^sup>* (fmempty, []) (m, ts)
     \<and> length ts = 2 \<and> ts ! 0 = Finished 1010 d (Inr ()) \<and> ts ! 1 \<noteq> Finished 1010 d (Inr ())"
proof -
  let ?E = ed_example and ?c = example_dynamic_config and ?k = "(\<lambda>n. 1010) :: clock"
  obtain d v' where "VerifyPacket ?E (NewVerifier ?c) ?k d example_ip = Some (v', Inr ())"
    using example_accepted by blast
  then have ok: "verify_checks ?E ?c ?k d example_ip = Some (Inr ())"
    and fresh: "replay_section 1010 d fmempty = (seenCache v', Inr ())"
    by (simp_all add: VerifyPacket_accepts) (simp_all add: NewVerifier_def)
  let ?A = "Arrived ?k d example_ip" and ?C = "Checked 1010 d"
  obtain m r where second: "replay_section 1010 d (seenCache v') = (m, r)" by fastforce
  let ?ts = "[Finished 1010 d (Inr ()), Finished 1010 d r]"
  have "verify_step ?E ?c (fmempty, []) (fmempty, [?A])"
    using arrive [of ?E ?c fmempty "[]" ?k d example_ip] by simp
  moreover have "verify_step ?E ?c (fmempty, [?A]) (fmempty, [?A, ?A])"
    using arrive [of ?E ?c fmempty "[?A]" ?k d example_ip] by simp
  moreover have "verify_step ?E ?c (fmempty, [?A, ?A]) (fmempty, [?C, ?A])"
    using pass [of 0 "[?A, ?A]" ?k d example_ip ?E ?c] ok by simp
  moreover have "verify_step ?E ?c (fmempty, [?C, ?A]) (fmempty, [?C, ?C])"
    using pass [of 1 "[?C, ?A]" ?k d example_ip ?E ?c] ok by simp
  moreover have "verify_step ?E ?c (fmempty, [?C, ?C]) (seenCache v', [Finished 1010 d (Inr ()), ?C])"
    using locked [of 0 "[?C, ?C]" 1010 d fmempty] fresh by simp
  moreover have "verify_step ?E ?c (seenCache v', [Finished 1010 d (Inr ()), ?C]) (m, ?ts)"
    using locked [of 1 "[Finished 1010 d (Inr ()), ?C]" 1010 d "seenCache v'"] second by simp
  ultimately have run: "(verify_step ?E ?c)\<^sup>*\<^sup>* (fmempty, []) (m, ?ts)"
    by (meson converse_rtranclp_into_rtranclp rtranclp.rtrancl_refl)
  have "?ts ! 1 \<noteq> Finished 1010 d (Inr ())"
    using verify_step_once [OF run, of 0 1010 d 1 1010]
    by (auto simp: entry_expired_def maxTimeDiff_def word_sless_alt)
  then show ?thesis using run by (intro exI [of _ d] exI [of _ m] exI [of _ ?ts]) simp
qed

end
