(* ===== verification/Cli.thy ===== *)
theory Cli
  imports Client Verifier
begin

text \<open>
  The commands that set the SPA parts up: \<^verbatim>\<open>cmd/agent/main.go\<close> (the server's configuration),
  \<^verbatim>\<open>cmd/spa-client/main.go\<close> (one request of the client) and \<^verbatim>\<open>cmd/spa-keygen/main.go\<close>.
  The file system is the map of \<^verbatim>\<open>Config\<close>; \<^verbatim>\<open>os.Stat\<close> succeeds on the files it holds. Flags,
  environment variables and the clock are arguments.
\<close>

section \<open>cmd/agent\<close>

text \<open>\<^verbatim>\<open>bytes.TrimRight(data, "\n\r\x00")\<close>\<close>

definition trim_right_set :: "byte set \<Rightarrow> bytes \<Rightarrow> bytes" where
  "trim_right_set S bs = rev (dropWhile (\<lambda>b. b \<in> S) (rev bs))"

definition server_trim :: "bytes \<Rightarrow> bytes" where
  "server_trim bs = trim_right_set {0x0a, 0x0d, 0x00} bs"

datatype agent_error = InvalidSPAMode string | PublicKeyLoadFailed key_error

record agent_flags =
  fSpaMode :: string
  fKeyDir :: string
  fTOTPSecret :: string

text \<open>The block that configures dynamic SPA; a fatal error is \<open>Inl\<close>, \<open>Inr None\<close> is static mode.
  \<open>rnd\<close> is what the random generator gives the default configuration.\<close>

definition load_totp :: "file_system \<Rightarrow> agent_flags \<Rightarrow> spa_config \<Rightarrow> spa_config" where
  "load_totp fs fl cfg =
     (if fTOTPSecret fl \<noteq> []
      then cfg\<lparr>TOTPSecret := server_trim (bytes_of_string (fTOTPSecret fl))\<rparr>
      else case fs (fKeyDir fl @ ''/totp_secret.txt'') of
             Some d \<Rightarrow> cfg\<lparr>TOTPSecrets := [server_trim d]\<rparr>
           | None \<Rightarrow> cfg)"

definition configure_spa ::
    "bytes option \<Rightarrow> file_system \<Rightarrow> agent_flags \<Rightarrow> agent_error + spa_config option" where
  "configure_spa rnd fs fl =
     (if fSpaMode fl = ''static'' then Inr None
      else if fSpaMode fl = ''dynamic'' then
        Inr (Some (load_totp fs fl ((DefaultDynamicSPAConfig rnd)\<lparr>Mode := SPAModeDynamic\<rparr>)))
      else if fSpaMode fl = ''asymmetric'' then
        (case LoadKeysFromFile fs (fKeyDir fl @ ''/spa_public.key'') [] of
           Inl e \<Rightarrow> Inl (PublicKeyLoadFailed e)
         | Inr (pub, _) \<Rightarrow>
             Inr (Some (load_totp fs fl
               ((DefaultDynamicSPAConfig rnd)
                  \<lparr>Mode := SPAModeAsymmetric, PublicKeys := [case pub of None \<Rightarrow> [] | Some k \<Rightarrow> k]\<rparr>))))
      else Inl (InvalidSPAMode (fSpaMode fl)))"

definition static_token :: "string \<Rightarrow> string \<Rightarrow> string \<Rightarrow> string" where
  "static_token mode tokenFlag input =
     (if mode = ''static'' then
        (if tokenFlag \<noteq> [] then tokenFlag else if input \<noteq> [] then input else SPASecretToken)
      else [])"

section \<open>cmd/spa-client\<close>

record client_request =
  rqServer :: string
  rqMode :: string
  rqKeyPath :: string
  rqTotpPath :: string
  rqStaticToken :: string
  rqClientIP :: string

text \<open>What the request depends on: files, the two home directories, the result of
  \<^verbatim>\<open>net.ParseIP\<close>, and the local address of a socket to the server (\<open>None\<close> if dialing fails).\<close>

record client_env =
  ceFiles :: file_system
  ceHome :: string
  ceUserProfile :: string
  ceParseIP :: "string \<Rightarrow> net_ip"
  ceLocalIP :: "net_ip option"
  ceRandom :: "bytes option"
  ceNet :: net_env
  cePacket :: packet_env

datatype request_error =
    InvalidMode string
  | NoPrivateKey
  | KeyLoadFailed key_error
  | InvalidClientIP
  | ClientFailed client_error
  | SendFailed send_error

text \<open>\<^verbatim>\<open>filepath.Join\<close> of three elements.\<close>

definition path_join3 :: "string \<Rightarrow> string \<Rightarrow> string \<Rightarrow> string" where
  "path_join3 a b c =
     (let ne = filter (\<lambda>s. s \<noteq> []) [a, b, c]
      in if ne = [] then [] else path_clean (join_with ''/'' ne))"

definition default_paths :: "client_env \<Rightarrow> string \<Rightarrow> string list" where
  "default_paths ce name =
     [''./keys/'' @ name, path_join3 (ceHome ce) ''.phantom-grid'' name,
      path_join3 (ceUserProfile ce) ''.phantom-grid'' name]"

text \<open>The given path, or else the first default path that exists.\<close>

definition choose_path :: "client_env \<Rightarrow> string \<Rightarrow> string \<Rightarrow> string" where
  "choose_path ce given name =
     (if given \<noteq> [] then given
      else case find (\<lambda>p. ceFiles ce p \<noteq> None) (default_paths ce name) of
             Some p \<Rightarrow> p | None \<Rightarrow> [])"

definition client_trim :: "bytes \<Rightarrow> bytes" where
  "client_trim bs = (if bs \<noteq> [] \<and> last bs = 0x0a then butlast bs else bs)"

definition load_client_totp :: "client_env \<Rightarrow> string \<Rightarrow> spa_config \<Rightarrow> spa_config" where
  "load_client_totp ce path cfg =
     (if path = [] then cfg
      else case ceFiles ce path of
             Some d \<Rightarrow> cfg\<lparr>TOTPSecret := client_trim d\<rparr>
           | None \<Rightarrow> cfg)"

definition client_ip :: "client_env \<Rightarrow> client_request \<Rightarrow> request_error + net_ip" where
  "client_ip ce rq =
     (if rqClientIP rq \<noteq> [] then
        (case ceParseIP ce (rqClientIP rq) of
           None \<Rightarrow> Inl InvalidClientIP | Some b \<Rightarrow> Inr (Some b))
      else Inr (case ceLocalIP ce of Some ip \<Rightarrow> ip | None \<Rightarrow> Some (v4_in_v6_prefix @ [127, 0, 0, 1])))"

definition client_key :: "client_env \<Rightarrow> client_request \<Rightarrow> request_error + bytes" where
  "client_key ce rq =
     (let path = choose_path ce (rqKeyPath rq) ''spa_private.key''
      in if path = [] then Inl NoPrivateKey
         else case LoadKeysFromFile (ceFiles ce) [] path of
                Inl e \<Rightarrow> Inl (KeyLoadFailed e)
              | Inr (_, sk) \<Rightarrow> Inr (case sk of None \<Rightarrow> [] | Some k \<Rightarrow> k))"

definition client_config :: "client_env \<Rightarrow> client_request \<Rightarrow> request_error + spa_config" where
  "client_config ce rq =
     (let cfg = DefaultDynamicSPAConfig (ceRandom ce);
          totp = load_client_totp ce (choose_path ce (rqTotpPath rq) ''totp_secret.txt'')
      in if rqMode rq = ''dynamic'' then Inr (totp (cfg\<lparr>Mode := SPAModeDynamic\<rparr>))
         else if rqMode rq = ''asymmetric'' then
           (case client_key ce rq of
              Inl e \<Rightarrow> Inl e
            | Inr sk \<Rightarrow> Inr (totp (cfg\<lparr>Mode := SPAModeAsymmetric, PrivateKey := sk\<rparr>)))
         else Inl (InvalidMode (rqMode rq)))"

definition processSPARequest ::
    "ed25519 \<Rightarrow> client_env \<Rightarrow> client_request \<Rightarrow> (request_error + (string \<times> bytes)) option" where
  "processSPARequest E ce rq =
     (if rqMode rq = ''static'' then
        Some (map_sum SendFailed id
          (SendStaticPacket (ceNet ce) (NewClientWithToken (rqServer rq) (rqStaticToken rq))))
      else case client_config ce rq of
             Inl e \<Rightarrow> Some (Inl e)
           | Inr cfg \<Rightarrow>
               (case client_ip ce rq of
                  Inl e \<Rightarrow> Some (Inl e)
                | Inr ip \<Rightarrow>
                    (case NewDynamicClient (rqServer rq) cfg ip of
                       Inl e \<Rightarrow> Some (Inl (ClientFailed e))
                     | Inr c \<Rightarrow>
                         map_option (map_sum SendFailed id) (SendMagicPacket E (ceNet ce) (cePacket ce) c))))"

section \<open>cmd/spa-keygen\<close>

datatype keygen_error = KeysExist | KeygenFailed | SaveFailed save_error

text \<open>\<open>keys\<close> is the pair \<^verbatim>\<open>ed25519.GenerateKey\<close> returns, \<open>None\<close> if it fails.\<close>

definition spa_keygen ::
    "bool \<Rightarrow> (string \<Rightarrow> bool) \<Rightarrow> (bytes \<times> bytes) option \<Rightarrow> string \<Rightarrow> bool \<Rightarrow> file_system
       \<Rightarrow> file_system \<times> (keygen_error + unit)" where
  "spa_keygen mkdir_ok write_ok keys keyDir force fs =
     (if \<not> force \<and> fs (path_join keyDir ''spa_public.key'') \<noteq> None then (fs, Inl KeysExist)
      else case keys of
             None \<Rightarrow> (fs, Inl KeygenFailed)
           | Some (pub, priv) \<Rightarrow>
               (case SaveKeysToFile mkdir_ok write_ok pub priv keyDir fs of
                  (fs', r) \<Rightarrow> (fs', map_sum SaveFailed id r)))"

section \<open>The secrets of the two sides\<close>

lemma trim_right_set_append:
  "trim_right_set S (xs @ [b]) = (if b \<in> S then trim_right_set S xs else xs @ [b])"
  by (simp add: trim_right_set_def)

lemma trim_right_set_Nil [simp]: "trim_right_set S [] = []"
  by (simp add: trim_right_set_def)

lemma trim_right_set_shorter: "length (trim_right_set S xs) \<le> length xs"
  by (induction xs rule: rev_induct) (auto simp: trim_right_set_append)

lemma trim_right_set_id: "trim_right_set S xs = xs \<longleftrightarrow> xs = [] \<or> last xs \<notin> S"
proof (cases xs rule: rev_cases)
  case (snoc ys b)
  then show ?thesis
    using trim_right_set_shorter [of S ys] by (auto simp: trim_right_set_append dest: arg_cong [where f = length])
qed simp

text \<open>Client and server read different TOTP secrets from the same file exactly when what is left
  after the client has removed one newline still ends in a newline, a carriage return or a zero
  byte: the server removes all of these, the client one newline.\<close>

theorem totp_secret_agreement:
  "client_trim t \<noteq> server_trim t \<longleftrightarrow> client_trim t \<noteq> [] \<and> last (client_trim t) \<in> {0x0a, 0x0d, 0x00}"
proof -
  have "server_trim t = server_trim (client_trim t)"
    by (cases t rule: rev_cases) (auto simp: client_trim_def server_trim_def trim_right_set_append)
  then show ?thesis
    using trim_right_set_id [of "{0x0a, 0x0d, 0x00}" "client_trim t"] by (metis server_trim_def)
qed

text \<open>The client program cannot send in HMAC mode: no configuration it builds has an HMAC secret, so
  every request with mode \<^verbatim>\<open>dynamic\<close> ends in an error before anything is sent.\<close>

theorem processSPARequest_dynamic:
  assumes "rqMode rq = ''dynamic''"
  shows "processSPARequest E ce rq = Some (Inl InvalidClientIP) \<or>
    processSPARequest E ce rq = Some (Inl (ClientFailed HMACSecretRequired))"
proof -
  obtain cfg where cfg: "client_config ce rq = Inr cfg" "Mode cfg = SPAModeDynamic" "HMACSecret cfg = []"
    using assms
    by (auto simp: client_config_def Let_def load_client_totp_def DefaultDynamicSPAConfig_def split: option.split)
  have "NewDynamicClient (rqServer rq) cfg ip = Inl HMACSecretRequired" for ip
    using cfg by (simp add: NewDynamicClient_def Let_def spa_mode_defs)
  then show ?thesis
    using assms cfg(1)
    by (auto simp: processSPARequest_def client_ip_def split: option.split)
qed

definition example_client_env :: client_env where
  "example_client_env = \<lparr>
     ceFiles = (\<lambda>p. if p = ''k'' then Some (ed_newkey ed_example [3]) else if p = ''t'' then Some [1, 0x0a] else None),
     ceHome = [], ceUserProfile = [], ceParseIP = (\<lambda>_. example_ip), ceLocalIP = Some example_ip,
     ceRandom = None, ceNet = \<lparr>dialOK = True, writeOK = True\<rparr>, cePacket = example_env\<rparr>"

definition example_request :: "string \<Rightarrow> client_request" where
  "example_request mode = \<lparr>rqServer = ''10.0.0.1'', rqMode = mode, rqKeyPath = ''k'', rqTotpPath = ''t'',
     rqStaticToken = [], rqClientIP = []\<rparr>"

lemma processSPARequest_dynamic_witness:
  "\<exists>e. processSPARequest ed_example example_client_env (example_request ''dynamic'') = Some (Inl e)"
  using processSPARequest_dynamic [of "example_request ''dynamic''" ed_example example_client_env]
  by (auto simp: example_request_def)

text \<open>The agent cannot accept in HMAC mode: the configuration it builds for mode \<^verbatim>\<open>dynamic\<close> has no
  HMAC secret, so a verifier that runs with it refuses every packet.\<close>

theorem configure_spa_dynamic:
  assumes "configure_spa rnd fs fl = Inr (Some (spaConfig v))" and "fSpaMode fl = ''dynamic''"
  shows "VerifyPacket E v clk d ip \<noteq> Some (v', Inr ())"
proof -
  have "spaConfig v = load_totp fs fl ((DefaultDynamicSPAConfig rnd)\<lparr>Mode := SPAModeDynamic\<rparr>)"
    using assms by (simp add: configure_spa_def)
  then have "Mode (spaConfig v) = SPAModeDynamic" and "HMACSecrets (spaConfig v) = []" and "HMACSecret (spaConfig v) = []"
    by (simp_all add: load_totp_def DefaultDynamicSPAConfig_def split: option.split)
  then have "check_signature E (spaConfig v) p d \<noteq> Some (Inr ())" for p
    by (simp add: check_signature_def check_keys_def spa_mode_defs)
  then show ?thesis by (auto simp: VerifyPacket_accepts verify_checks_ok)
qed

lemma configure_spa_dynamic_witness:
  "\<forall>v'. VerifyPacket ed_example (NewVerifier ((DefaultDynamicSPAConfig None)\<lparr>Mode := SPAModeDynamic\<rparr>))
     (\<lambda>n. 0) [1, 2] None \<noteq> Some (v', Inr ())"
  by (rule allI, rule configure_spa_dynamic [of None "\<lambda>_. None" "\<lparr>fSpaMode = ''dynamic'', fKeyDir = [], fTOTPSecret = []\<rparr>"])
     (simp_all add: configure_spa_def load_totp_def NewVerifier_def)

section \<open>From key files to an accepted packet\<close>

text \<open>A key that was read is the contents of its file.\<close>

lemma load_public_ok: "load_public fs path = Inr (Some k) \<Longrightarrow> fs path = Some raw \<Longrightarrow> length raw = 32 \<Longrightarrow> k = raw"
  using trim_key_length [of raw] trim_key [of raw]
  by (auto simp: load_public_def Let_def split: if_splits)

lemma load_private_ok: "load_private fs path = Inr (Some k) \<Longrightarrow> fs path = Some raw \<Longrightarrow> length raw = 64 \<Longrightarrow> k = raw"
  using trim_key_length [of raw] trim_key [of raw]
  by (auto simp: load_private_def Let_def split: if_splits)

lemma configure_spa_asymmetric:
  assumes "configure_spa rnd fs fl = Inr (Some cfg)" and "fSpaMode fl = ''asymmetric''"
    and "fTOTPSecret fl = []" and "fs (fKeyDir fl @ ''/spa_public.key'') = Some pk" and "length pk = 32"
    and "fs (fKeyDir fl @ ''/totp_secret.txt'') = Some t"
  shows "Mode cfg = SPAModeAsymmetric \<and> PublicKeys cfg = [pk] \<and> TOTPSecrets cfg = [server_trim t]
    \<and> TOTPTimeStep cfg = 30 \<and> TOTPTolerance cfg = 1"
proof -
  obtain k where k: "load_public fs (fKeyDir fl @ ''/spa_public.key'') = Inr (Some k)"
    and cfg: "cfg = load_totp fs fl ((DefaultDynamicSPAConfig rnd)\<lparr>Mode := SPAModeAsymmetric, PublicKeys := [k]\<rparr>)"
    using assms(1,2)
    by (auto simp: configure_spa_def LoadKeysFromFile_def load_private_def Let_def
        split: sum.splits option.splits if_splits)
  have "k = pk" using load_public_ok [OF k assms(4,5)] .
  then show ?thesis
    using assms(3,6) by (simp add: cfg load_totp_def DefaultDynamicSPAConfig_def)
qed

lemma processSPARequest_asymmetric:
  assumes "processSPARequest E ce rq = Some (Inr (addr, d))" and "rqMode rq = ''asymmetric''"
    and "rqKeyPath rq \<noteq> []" and "ceFiles ce (rqKeyPath rq) = Some sk" and "length sk = 64"
    and "rqTotpPath rq \<noteq> []" and "ceFiles ce (rqTotpPath rq) = Some t"
    and "client_ip ce rq = Inr cip"
  shows "\<exists>obf. CreateAsymmetricPacket E (cePacket ce) sk (client_trim t) 30 obf cip = Some (Inr d)"
proof -
  obtain cfg where cfg: "client_config ce rq = Inr cfg"
    using assms(1,2) by (auto simp: processSPARequest_def split: sum.splits)
  obtain k where k: "load_private (ceFiles ce) (rqKeyPath rq) = Inr (Some k)"
    and cfg_eq: "cfg = load_client_totp ce (rqTotpPath rq)
      ((DefaultDynamicSPAConfig (ceRandom ce))\<lparr>Mode := SPAModeAsymmetric, PrivateKey := k\<rparr>)"
    using cfg assms(2,3,6)
    by (auto simp: client_config_def client_key_def choose_path_def LoadKeysFromFile_def load_public_def
        load_private_def Let_def split: sum.splits option.splits if_splits)
  have "k = sk" using load_private_ok [OF k assms(4,5)] .
  then have f: "Mode cfg = SPAModeAsymmetric" "PrivateKey cfg = sk" "TOTPSecret cfg = client_trim t" "TOTPTimeStep cfg = 30"
    using assms(6,7) by (simp_all add: cfg_eq load_client_totp_def DefaultDynamicSPAConfig_def)
  obtain c where c: "NewDynamicClient (rqServer rq) cfg cip = Inr c"
    and "SendMagicPacket E (ceNet ce) (cePacket ce) c = Some (Inr (addr, d))"
    using assms(1,2,8) cfg
    by (auto simp: processSPARequest_def map_sum_Inr split: sum.splits)
  then have "magic_packet E (cePacket ce) c = Some (Inr d)" by (simp add: SendMagicPacket_sent)
  then show ?thesis
    using NewDynamicClient_asymmetric [OF c f(1), of E "cePacket ce"] f
    by (auto simp: map_sum_Inr)
qed

text \<open>C4. The whole path in Ed25519 mode: the server runs with the public key file and the TOTP file, the
  client sends with the private key file and the same TOTP file. Whatever datagram the client writes
  is accepted from the address it names, if the two sides trim the TOTP file alike, the clocks are near
  and the packet is new.\<close>

theorem spa_client_accepted_by_agent:
  assumes laws: "ed25519_laws E"
    and server: "configure_spa rnd fs fl = Inr (Some (spaConfig v))" "fSpaMode fl = ''asymmetric''"
      "fTOTPSecret fl = []" "fs (fKeyDir fl @ ''/spa_public.key'') = Some (ed_public (ed_newkey E seed))"
      "fs (fKeyDir fl @ ''/totp_secret.txt'') = Some t"
    and client: "processSPARequest E ce rq = Some (Inr (addr, d))" "rqMode rq = ''asymmetric''"
      "rqKeyPath rq \<noteq> []" "ceFiles ce (rqKeyPath rq) = Some (ed_newkey E seed)"
      "rqTotpPath rq \<noteq> []" "ceFiles ce (rqTotpPath rq) = Some t" "client_ip ce rq = Inr cip"
    and "client_trim t = server_trim t"
    and "ip_to16 cip = ip_to16 ip" and "ip_to16 ip \<noteq> None"
    and "clock_near (spaConfig v) (cePacket ce) clk"
    and "fmlookup (seenCache v) (packet_hash d) = None"
  shows "\<exists>v'. VerifyPacket E v clk d ip = Some (v', Inr ())"
proof -
  have len: "length (ed_newkey E seed) = 64" "length (ed_public (ed_newkey E seed)) = 32"
    using laws by (simp_all add: ed25519_laws_def ed_public_def)
  have cfg: "Mode (spaConfig v) = SPAModeAsymmetric" "PublicKeys (spaConfig v) = [ed_public (ed_newkey E seed)]"
    "TOTPSecrets (spaConfig v) = [server_trim t]" "TOTPTimeStep (spaConfig v) = 30" "TOTPTolerance (spaConfig v) = 1"
    using configure_spa_asymmetric [OF server(1-4) len(2) server(5)] by auto
  obtain obf where d: "CreateAsymmetricPacket E (cePacket ce) (ed_newkey E seed) (client_trim t) 30 obf cip = Some (Inr d)"
    using processSPARequest_asymmetric [OF client(1-4) len(1) client(5-7)] by blast
  show ?thesis
    by (rule accepts_asymmetric [OF laws d [folded cfg(4)]])
       (use assms(14-) cfg len in \<open>simp_all add: keys_in_use_def keys_well_sized_def totp_settings_ok_def\<close>)
qed

definition example_server_files :: file_system where
  "example_server_files =
     (\<lambda>p. if p = ''d/spa_public.key'' then Some (ed_public (ed_newkey ed_example [3]))
          else if p = ''d/totp_secret.txt'' then Some [1, 0x0a] else None)"

lemma example_key: "ed_newkey ed_example [3] = 3 # replicate 31 1 @ 3 # replicate 31 1"
  "ed_public (ed_newkey ed_example [3]) = 3 # replicate 31 1"
  by (simp_all add: ed_example_def ed_public_def)

lemma example_key_trim:
  "bytes_trim_space (ed_newkey ed_example [3]) = ed_newkey ed_example [3]"
  "bytes_trim_space (ed_public (ed_newkey ed_example [3])) = ed_public (ed_newkey ed_example [3])"
  by (rule trim_key, simp add: example_key(1) ed_public_def key_file_ok_def leading_def space_encodings_def)+

lemma example_request_sent:
  "\<exists>addr d. processSPARequest ed_example example_client_env (example_request ''asymmetric'') = Some (Inr (addr, d))"
proof -
  let ?ce = example_client_env and ?rq = "example_request ''asymmetric''" and ?sk = "ed_newkey ed_example [3]"
  have len: "length ?sk = 64" using ed_example_laws by (simp add: ed25519_laws_def)
  let ?cfg = "(DefaultDynamicSPAConfig None)\<lparr>Mode := SPAModeAsymmetric, PrivateKey := ?sk, TOTPSecret := [1]\<rparr>"
  have cfg: "client_config ?ce ?rq = Inr ?cfg"
    using len
    by (simp add: client_config_def example_request_def client_key_def choose_path_def example_client_env_def
        LoadKeysFromFile_def load_public_def load_private_def example_key_trim load_client_totp_def
        client_trim_def Let_def)
  have ip: "client_ip ?ce ?rq = Inr example_ip"
    by (simp add: client_ip_def example_request_def example_client_env_def)
  obtain c where c: "NewDynamicClient (rqServer ?rq) ?cfg example_ip = Inr c"
    using len by (cases "?sk = []") (auto simp: NewDynamicClient_def Let_def)
  obtain d where "CreateAsymmetricPacket ed_example example_env ?sk [1] 30 True example_ip = Some (Inr d)"
    using CreateAsymmetricPacket_example by blast
  then have "magic_packet ed_example (cePacket ?ce) c = Some (Inr d)"
    using NewDynamicClient_asymmetric [OF c, of ed_example "cePacket ?ce"]
    by (simp add: example_client_env_def DefaultDynamicSPAConfig_def)
  then have "SendMagicPacket ed_example (ceNet ?ce) (cePacket ?ce) c = Some (Inr (spa_addr (dcServerIP c), d))"
    by (simp add: SendMagicPacket_sent) (simp add: example_client_env_def)
  then show ?thesis
    using cfg ip c by (simp add: processSPARequest_def example_request_def)
qed

lemma spa_client_accepted_by_agent_witness:
  "\<exists>addr d v'. processSPARequest ed_example example_client_env (example_request ''asymmetric'') = Some (Inr (addr, d))
     \<and> VerifyPacket ed_example (NewVerifier example_asymmetric_config) (\<lambda>n. 1010) d example_ip = Some (v', Inr ())"
proof -
  let ?fl = "\<lparr>fSpaMode = ''asymmetric'', fKeyDir = ''d'', fTOTPSecret = []\<rparr>"
  have len: "length (ed_public (ed_newkey ed_example [3])) = 32"
    using ed_example_laws by (simp add: ed25519_laws_def ed_public_def)
  have server: "configure_spa None example_server_files ?fl = Inr (Some (spaConfig (NewVerifier example_asymmetric_config)))"
    using len
    by (simp add: configure_spa_def LoadKeysFromFile_def load_public_def load_private_def example_server_files_def
        example_key_trim load_totp_def server_trim_def trim_right_set_def NewVerifier_def Let_def
        example_asymmetric_config_def DefaultDynamicSPAConfig_def)
  obtain addr d where client: "processSPARequest ed_example example_client_env (example_request ''asymmetric'')
      = Some (Inr (addr, d))"
    using example_request_sent by blast
  have "\<exists>v'. VerifyPacket ed_example (NewVerifier example_asymmetric_config) (\<lambda>n. 1010) d example_ip = Some (v', Inr ())"
    by (rule spa_client_accepted_by_agent [OF ed_example_laws server _ _ _ _ client,
          where t = "[1, 0x0a]" and cip = example_ip])
       (simp_all add: example_server_files_def example_request_def example_client_env_def client_ip_def
          example_ip_def ip_to16_def client_trim_def server_trim_def trim_right_set_def NewVerifier_def
          example_clock_near(2))
  with client show ?thesis by blast
qed

end
