(* ===== verification/Service.thy ===== *)
theory Service
  imports GoText
begin

text \<open>
  What the services of the honeypot share. A service sees a connection as the strings its reads give,
  until one fails or is empty, and acts on it by writing, by logging, and by adding to the attack log
  (\<^verbatim>\<open>internal/logger/logger.go\<close>). Delays and deadlines are left out.
\<close>

datatype action = Send string | Log string | Attack string string

text \<open>What a handler takes for the address of its peer.\<close>

definition peer_ip :: "string \<Rightarrow> string" where
  "peer_ip remote = hd (split_on (CHR '':'') remote)"

text \<open>\<^verbatim>\<open>fmt.Sprintf("[%s] ...", t, ...)\<close>\<close>

definition log_at :: "string \<Rightarrow> string \<Rightarrow> action" where
  "log_at t msg = Log (''['' @ t @ ''] '' @ msg)"

definition quoted :: "string \<Rightarrow> string" where
  "quoted s = [CHR 0x27] @ s @ [CHR 0x27]"

section \<open>Loops over reads\<close>

text \<open>A service without a state of its own, and one with.\<close>

fun read_loop :: "(string \<Rightarrow> action list \<times> bool) \<Rightarrow> string list \<Rightarrow> action list" where
  "read_loop f [] = []"
| "read_loop f (chunk # chunks) =
     (if chunk = [] then []
      else case f chunk of (acts, go_on) \<Rightarrow> acts @ (if go_on then read_loop f chunks else []))"

fun session_loop :: "('s \<Rightarrow> string \<Rightarrow> 's \<times> action list \<times> bool) \<Rightarrow> 's \<Rightarrow> string list \<Rightarrow> 's \<times> action list" where
  "session_loop f s [] = (s, [])"
| "session_loop f s (chunk # chunks) =
     (if chunk = [] then (s, [])
      else case f s chunk of
             (s1, acts, go_on) \<Rightarrow> if go_on then apsnd ((@) acts) (session_loop f s1 chunks) else (s1, acts))"

section \<open>The attack log\<close>

record attack_log =
  alTimestamp :: string
  alAttackerIP :: string
  alCommand :: string
  alRiskLevel :: string

text \<open>Nothing is written when the file could not be opened.\<close>

definition LogAttack :: "bool \<Rightarrow> string \<Rightarrow> string \<Rightarrow> string \<Rightarrow> attack_log list" where
  "LogAttack opened now ip cmd =
     (if opened
      then [\<lparr>alTimestamp = now, alAttackerIP = ip, alCommand = cmd, alRiskLevel = ''HIGH''\<rparr>] else [])"

text \<open>What the actions of a service leave in the log.\<close>

fun attack_trail :: "bool \<Rightarrow> string \<Rightarrow> action list \<Rightarrow> attack_log list" where
  "attack_trail opened now [] = []"
| "attack_trail opened now (Attack ip cmd # acts) = LogAttack opened now ip cmd @ attack_trail opened now acts"
| "attack_trail opened now (_ # acts) = attack_trail opened now acts"

end
