(* ===== verification/FakeShell.thy ===== *)
theory FakeShell
  imports Service
begin

text \<open>
  The fake shell: the files it pretends to have (\<^verbatim>\<open>internal/honeypot/filesystem.go\<close>) and its
  commands (\<^verbatim>\<open>ssh_handler.go\<close>).
\<close>

section \<open>Files\<close>

definition file_etc_passwd :: string where
  \<open>file_etc_passwd =
     lf_lines
       [''root:x:0:0:root:/root:/bin/bash'',
        ''daemon:x:1:1:daemon:/usr/sbin:/usr/sbin/nologin'',
        ''bin:x:2:2:bin:/bin:/usr/sbin/nologin'',
        ''sys:x:3:3:sys:/dev:/usr/sbin/nologin'',
        ''sync:x:4:65534:sync:/bin:/bin/sync'',
        ''games:x:5:60:games:/usr/games:/usr/sbin/nologin'',
        ''man:x:6:12:man:/var/cache/man:/usr/sbin/nologin'',
        ''lp:x:7:7:lp:/var/spool/lpd:/usr/sbin/nologin'',
        ''mail:x:8:8:mail:/var/mail:/usr/sbin/nologin'',
        ''news:x:9:9:news:/var/spool/news:/usr/sbin/nologin'',
        ''uucp:x:10:10:uucp:/var/spool/uucp:/usr/sbin/nologin'',
        ''proxy:x:13:13:proxy:/bin:/usr/sbin/nologin'',
        ''www-data:x:33:33:www-data:/var/www:/usr/sbin/nologin'',
        ''backup:x:34:34:backup:/var/backups:/usr/sbin/nologin'',
        ''list:x:38:38:Mailing List Manager:/var/list:/usr/sbin/nologin'',
        ''irc:x:39:39:ircd:/var/run/ircd:/usr/sbin/nologin'',
        ''gnats:x:41:41:Gnats Bug-Reporting System (admin):/var/lib/gnats:/usr/sbin/nologin'',
        ''nobody:x:65534:65534:nobody:/nonexistent:/usr/sbin/nologin'',
        ''systemd-network:x:100:102:systemd Network Management,,,:/run/systemd:/usr/sbin/nologin'',
        ''systemd-resolve:x:101:103:systemd Resolver,,,:/run/systemd:/usr/sbin/nologin'',
        ''systemd-timesync:x:102:104:systemd Time Synchronization,,,:/run/systemd:/usr/sbin/nologin'',
        ''messagebus:x:103:106::/nonexistent:/usr/sbin/nologin'',
        ''syslog:x:104:110::/home/syslog:/usr/sbin/nologin'',
        ''_apt:x:105:65534::/nonexistent:/usr/sbin/nologin'',
        ''tss:x:106:111:TPM software stack,,,:/var/lib/tpm:/bin/false'',
        ''uuidd:x:107:112::/run/uuidd:/usr/sbin/nologin'',
        ''tcpdump:x:108:113::/nonexistent:/usr/sbin/nologin'',
        ''tcpdump:x:109:114::/nonexistent:/usr/sbin/nologin'',
        ''sshd:x:110:65534::/run/sshd:/usr/sbin/nologin'',
        ''landscape:x:111:115::/var/lib/landscape:/usr/sbin/nologin'',
        ''pollinate:x:112:1::/var/cache/pollinate:/bin/false'',
        ''ubuntu:x:1000:1000:Ubuntu:/home/ubuntu:/bin/bash'',
        ''lxd:x:999:100::/var/snap/lxd/common/lxd:/bin/false'']\<close>

definition file_etc_hosts :: string where
  \<open>file_etc_hosts =
     lf_lines
       [''127.0.0.1'' @ [CHR 0x09] @ ''localhost'',
        ''127.0.1.1'' @ [CHR 0x09] @ ''server'',
        ''::1'' @ [CHR 0x09, CHR 0x09] @ ''localhost ip6-localhost ip6-loopback'',
        ''ff02::1'' @ [CHR 0x09, CHR 0x09] @ ''ip6-allnodes'',
        ''ff02::2'' @ [CHR 0x09, CHR 0x09] @ ''ip6-allrouters'']\<close>

definition file_var_log_auth_log :: string where
  \<open>file_var_log_auth_log =
     lf_lines
       [''Dec 15 10:23:15 server sshd[1234]: Accepted publickey for root from 192.168.1.100 port 54321 ssh2'',
        ''Dec 15 10:25:30 server sshd[1235]: Failed password for invalid user admin from 192.168.1.101 port 54322 ssh2'',
        ''Dec 15 10:26:45 server sshd[1236]: Accepted publickey for ubuntu from 192.168.1.102 port 54323 ssh2'',
        ''Dec 15 10:28:12 server sudo:     root : TTY=pts/0 ; PWD=/root ; USER=root ; COMMAND=/usr/bin/apt update'',
        ''Dec 15 10:30:22 server sshd[1237]: Invalid user test from 192.168.1.103 port 54324 ssh2'']\<close>

definition file_var_log_syslog :: string where
  \<open>file_var_log_syslog =
     lf_lines
       [''Dec 15 10:20:01 server systemd[1]: Started Daily apt upgrade and clean activities.'',
        ''Dec 15 10:20:15 server systemd[1]: Starting Cleanup of Temporary Directories...'',
        ''Dec 15 10:20:15 server systemd[1]: Started Cleanup of Temporary Directories.'',
        ''Dec 15 10:23:15 server sshd[1234]: Server listening on 0.0.0.0 port 22.'',
        ''Dec 15 10:23:15 server sshd[1234]: Server listening on :: port 22.'',
        ''Dec 15 10:25:30 server kernel: [12345.678901] audit: type=1106 audit(1639561530.123:456): pid=1235 uid=0 auid=4294967295 ses=4294967295 msg='op=PAM:authentication acct="admin" exe="/usr/sbin/sshd" hostname=? addr=192.168.1.101 terminal=ssh res=failed'' @ [CHR 0x27]]\<close>

definition file_root_bash_history :: string where
  \<open>file_root_bash_history =
     lf_lines
       [''cd /var/www'',
        ''ls -la'',
        ''cat config.php'',
        ''mysql -u root -p'',
        ''exit'']\<close>

definition file_root_config_txt :: string where
  \<open>file_root_config_txt =
     lf_lines
       [''# Database Configuration'',
        ''DB_HOST=localhost'',
        ''DB_USER=admin'',
        ''DB_PASS=********'',
        ''DB_NAME=production'',
        [],
        ''# API Keys'',
        ''API_KEY=sk_live_51H3ll0W0rld'',
        ''SECRET_KEY=sk_test_4BcDeFgHiJkLmNoPqRsTuVwXyZ'']\<close>

definition file_var_www_config_php :: string where
  \<open>file_var_www_config_php =
     lf_lines
       [''<?php'',
        ''define('DB_HOST', 'localhost');'',
        ''define('DB_USER', 'admin');'',
        ''define('DB_PASS', 'P@ssw0rd123');'',
        ''define('DB_NAME', 'wordpress');'',
        ''define('WP_DEBUG', false);''] @ ''?>''\<close>

definition file_etc_nginx_nginx_conf :: string where
  \<open>file_etc_nginx_nginx_conf =
     lf_lines
       [''user www-data;'',
        ''worker_processes auto;'',
        ''pid /run/nginx.pid;'',
        [],
        ''events {'',
        [CHR 0x09] @ ''worker_connections 768;'',
        ''}'',
        [],
        ''http {'',
        [CHR 0x09] @ ''sendfile on;'',
        [CHR 0x09] @ ''tcp_nopush on;'',
        [CHR 0x09] @ ''tcp_nodelay on;'',
        [CHR 0x09] @ ''keepalive_timeout 65;'',
        [CHR 0x09] @ ''types_hash_max_size 2048;'',
        [],
        [CHR 0x09] @ ''include /etc/nginx/mime.types;'',
        [CHR 0x09] @ ''default_type application/octet-stream;'',
        [],
        [CHR 0x09] @ ''access_log /var/log/nginx/access.log;'',
        [CHR 0x09] @ ''error_log /var/log/nginx/error.log;'',
        [],
        [CHR 0x09] @ ''server {'',
        [CHR 0x09, CHR 0x09] @ ''listen 80 default_server;'',
        [CHR 0x09, CHR 0x09] @ ''listen [::]:80 default_server;'',
        [CHR 0x09, CHR 0x09] @ ''root /var/www/html;'',
        [CHR 0x09, CHR 0x09] @ ''index index.html index.htm index.nginx-debian.html;'',
        [CHR 0x09, CHR 0x09] @ ''server_name _;'',
        [CHR 0x09, CHR 0x09] @ ''location / {'',
        [CHR 0x09, CHR 0x09, CHR 0x09] @ ''try_files $uri $uri/ =404;'',
        [CHR 0x09, CHR 0x09] @ ''}'',
        [CHR 0x09] @ ''}'',
        ''}'']\<close>

record vfs =
  vfsFiles :: "(string \<times> string) list"
  vfsDirs :: "(string \<times> string list) list"

definition NewVirtualFileSystem :: vfs where
  "NewVirtualFileSystem = \<lparr>
   vfsFiles =
    [(''/etc/passwd'', file_etc_passwd),
     (''/etc/hosts'', file_etc_hosts),
     (''/var/log/auth.log'', file_var_log_auth_log),
     (''/var/log/syslog'', file_var_log_syslog),
     (''/root/.bash_history'', file_root_bash_history),
     (''/root/config.txt'', file_root_config_txt),
     (''/var/www/config.php'', file_var_www_config_php),
     (''/etc/nginx/nginx.conf'', file_etc_nginx_nginx_conf)],
   vfsDirs =
    [(''/'', [''root'', ''home'', ''etc'', ''var'', ''tmp'', ''usr'', ''opt'', ''boot'']),
     (''/root'', [''.bashrc'', ''.bash_history'', ''.ssh'', ''backup.tar.gz'', ''config.txt'', ''logs'']),
     (''/home'', [''user'', ''admin'', ''www'']),
     (''/etc'', [''passwd'', ''shadow'', ''hosts'', ''nginx'', ''apache2'', ''mysql'']),
     (''/var'', [''log'', ''www'', ''backup'', ''tmp'']),
     (''/var/log'', [''auth.log'', ''syslog'', ''nginx'', ''apache2'']),
     (''/var/www'', [''html'', ''uploads'', ''config.php'']),
     (''/tmp'', [''session.tmp'', ''cache.tmp''])]\<rparr>"

definition normalizePath :: "string \<Rightarrow> string" where
  "normalizePath path =
     (let p = strings_trim_space path
      in if p = [] \<or> p = ''.'' then ''/root''
         else if \<not> has_prefix p ''/'' then ''/root/'' @ p
         else p)"

definition list_entry :: "string \<Rightarrow> string" where
  "list_entry name =
     (if has_prefix name ''.'' then ''-rw-r--r-- 1 root root  1024 Dec 15 10:23 '' @ name @ crlf
      else if str_contains name ''.'' then ''-rw-r--r-- 1 root root  2048 Dec 15 10:23 '' @ name @ crlf
      else ''drwxr-xr-x 2 root root  4096 Dec 15 10:23 '' @ name @ crlf)"

definition ListFiles :: "vfs \<Rightarrow> string \<Rightarrow> string" where
  "ListFiles v path0 =
     (let path = normalizePath path0
      in case map_of (vfsDirs v) path of
           Some names \<Rightarrow> ''total '' @ show_nat (length names) @ crlf @ concat (map list_entry names)
         | None \<Rightarrow> ''ls: cannot access '' @ quoted path @ '': No such file or directory'' @ crlf)"

definition ReadFile :: "vfs \<Rightarrow> string \<Rightarrow> string option" where
  "ReadFile v path = map_of (vfsFiles v) (normalizePath path)"

definition FileExists :: "vfs \<Rightarrow> string \<Rightarrow> bool" where
  "FileExists v path \<longleftrightarrow>
     (let p = normalizePath path in map_of (vfsFiles v) p \<noteq> None \<or> map_of (vfsDirs v) p \<noteq> None)"

section \<open>Fixed answers\<close>

definition ps_plain :: string where
  \<open>ps_plain =
     crlf_lines
       [''  PID TTY          TIME CMD'',
        ''    1 ?        00:00:01 systemd'',
        ''  456 ?        00:00:02 sshd'',
        ''  789 ?        00:00:00 nginx'',
        ''  890 ?        00:00:01 mysqld'',
        ''  901 ?        00:00:00 redis-server'',
        '' 1234 ?        00:00:00 apache2'']\<close>

definition ps_aux :: string where
  \<open>ps_aux =
     crlf_lines
       [''USER       PID %CPU %MEM    VSZ   RSS TTY      STAT START   TIME COMMAND'',
        ''root         1  0.0  0.1  22536  3824 ?        Ss   Dec10   0:01 /sbin/init'',
        ''root       456  0.0  0.2  47864  8960 ?        Ss   Dec10   0:02 /usr/sbin/sshd'',
        ''root       789  0.0  0.1  23456  5120 ?        S    Dec10   0:00 /usr/sbin/nginx'',
        ''mysql      890  0.1  2.5 123456 25600 ?        Sl   Dec10   0:15 /usr/sbin/mysqld'',
        ''redis      901  0.0  0.3  12345  3072 ?        Ssl  Dec10   0:01 /usr/bin/redis-server'',
        ''www-data  1234  0.0  0.2  34567  2048 ?        S    Dec10   0:00 /usr/sbin/apache2'']\<close>

definition netstat_plain :: string where
  \<open>netstat_plain =
     crlf_lines
       [''Active Internet connections (w/o servers)'',
        ''Proto Recv-Q Send-Q Local Address           Foreign Address         State'',
        ''tcp        0      0 0.0.0.0:22              0.0.0.0:*               LISTEN'',
        ''tcp        0      0 0.0.0.0:80              0.0.0.0:*               LISTEN'',
        ''tcp        0      0 0.0.0.0:443             0.0.0.0:*               LISTEN'',
        ''tcp        0      0 0.0.0.0:3306            0.0.0.0:*               LISTEN'']\<close>

definition netstat_an :: string where
  \<open>netstat_an =
     crlf_lines
       [''Active Internet connections (servers and established)'',
        ''Proto Recv-Q Send-Q Local Address           Foreign Address         State'',
        ''tcp        0      0 0.0.0.0:22              0.0.0.0:*               LISTEN'',
        ''tcp        0      0 0.0.0.0:80              0.0.0.0:*               LISTEN'',
        ''tcp        0      0 127.0.0.1:3306          0.0.0.0:*               LISTEN'']\<close>

definition ip_addr :: string where
  \<open>ip_addr =
     crlf_lines
       [''1: lo: <LOOPBACK,UP,LOWER_UP> mtu 65536 qdisc noqueue state UNKNOWN group default qlen 1000'',
        ''    link/loopback 00:00:00:00:00:00 brd 00:00:00:00:00:00'',
        ''    inet 127.0.0.1/8 scope host lo'',
        ''       valid_lft forever preferred_lft forever'',
        ''2: eth0: <BROADCAST,MULTICAST,UP,LOWER_UP> mtu 1500 qdisc pfifo_fast state UP group default qlen 1000'',
        ''    link/ether 00:0c:29:12:34:56 brd ff:ff:ff:ff:ff:ff'',
        ''    inet 192.168.1.100/24 brd 192.168.1.255 scope global eth0'',
        ''       valid_lft forever preferred_lft forever'']\<close>

definition ifconfig_text :: string where
  \<open>ifconfig_text =
     crlf_lines
       [''eth0: flags=4163<UP,BROADCAST,RUNNING,MULTICAST>  mtu 1500'',
        ''        inet 192.168.1.100  netmask 255.255.255.0  broadcast 192.168.1.255'',
        ''        ether 00:0c:29:12:34:56  txqueuelen 1000  (Ethernet)'',
        ''        RX packets 12345  bytes 1234567 (1.2 MB)'',
        ''        RX errors 0  dropped 0  overruns 0  frame 0'',
        ''        TX packets 9876  bytes 987654 (987.6 KB)'',
        ''        TX errors 0  dropped 0 overruns 0  carrier 0  collisions 0'']\<close>

definition df_text :: string where
  \<open>df_text =
     crlf_lines
       [''Filesystem     1K-blocks    Used Available Use% Mounted on'',
        ''/dev/sda1       20971520 8388608  12582912  40% /'',
        ''tmpfs             524288       0    524288   0% /dev/shm'',
        ''/dev/sda2       52428800 10485760  41943040  20% /home'']\<close>

definition free_text :: string where
  \<open>free_text =
     crlf_lines
       [''              total        used        free      shared  buff/cache   available'',
        ''Mem:         8192000     4096000     2048000      512000     2048000     3584000'',
        ''Swap:        2097152           0     2097152'']\<close>

definition top_text :: string where
  \<open>top_text =
     crlf_lines
       [''top - 10:30:15 up 5 days,  2:15,  1 user,  load average: 0.45, 0.52, 0.48'',
        ''Tasks: 125 total,   1 running, 124 sleeping,   0 stopped,   0 zombie'',
        ''%Cpu(s):  2.5 us,  1.2 sy,  0.0 ni, 96.3 id,  0.0 wa,  0.0 hi,  0.0 si,  0.0 st'',
        ''MiB Mem :   8000.0 total,   4000.0 free,   2000.0 used,   2000.0 buff/cache'',
        ''MiB Swap:   2048.0 total,   2048.0 free,      0.0 used.   5500.0 avail Mem'',
        [],
        ''  PID USER      PR  NI    VIRT    RES    SHR S  %CPU  %MEM     TIME+ COMMAND'',
        ''  890 mysql     20   0  123456  25600   5120 S   1.2   0.3   0:15.23 mysqld'',
        ''  456 root      20   0   47864   8960   2048 S   0.3   0.1   0:02.45 sshd'',
        ''    1 root      20   0   22536   3824   2048 S   0.0   0.0   0:01.23 systemd'']\<close>

definition uname_text :: string where
  "uname_text =
     ''Linux server 5.4.0-74-generic #83-Ubuntu SMP Sat May 8 02:35:04 UTC 2021 x86_64 x86_64 x86_64 GNU/Linux'' @ crlf"

section \<open>The shell\<close>

record shell =
  shDir :: string
  shPrompt :: string
  shHistory :: "string list"

definition prompt_for :: "string \<Rightarrow> string" where
  "prompt_for dir = ''root@server:'' @ dir @ ''# ''"

definition new_shell :: shell where
  "new_shell = \<lparr>shDir = ''/root'', shPrompt = prompt_for ''/root'', shHistory = []\<rparr>"

text \<open>\<^verbatim>\<open>cd ..\<close> cuts the last component off.\<close>

definition parent_dir :: "string \<Rightarrow> string" where
  "parent_dir dir =
     (if dir = ''/'' then dir
      else (let parts = split_on (CHR ''/'') (trim_left [''/''] (trim_right [''/''] dir))
            in if 1 < length parts then ''/'' @ join_with ''/'' (butlast parts) else ''/''))"

text \<open>The new directory, or the one that does not exist.\<close>

definition change_dir :: "vfs \<Rightarrow> string \<Rightarrow> string list \<Rightarrow> string + string" where
  "change_dir v cur args =
     (case args of
        [] \<Rightarrow> Inr ''/root''
      | dir # _ \<Rightarrow>
          (if dir = ''..'' then Inr (parent_dir cur)
           else if dir = ''/'' then Inr ''/''
           else if has_prefix dir ''/'' then (if FileExists v dir then Inr dir else Inl dir)
           else (let newDir = cur @ ''/'' @ dir in if FileExists v newDir then Inr newDir else Inl dir)))"

definition absolute :: "string \<Rightarrow> string \<Rightarrow> string" where
  "absolute cur name = (if has_prefix name ''/'' then name else cur @ ''/'' @ name)"

definition missing :: "string \<Rightarrow> string \<Rightarrow> string" where
  "missing cmd name = cmd @ '': '' @ name @ '': No such file or directory'' @ crlf"

definition shell_cat :: "vfs \<Rightarrow> string \<Rightarrow> string \<Rightarrow> string list \<Rightarrow> string" where
  "shell_cat v cur cmd args =
     (case args of
        [] \<Rightarrow> cmd @ '': missing file operand'' @ crlf
      | a # _ \<Rightarrow>
          (let filename = absolute cur a
           in case ReadFile v filename of
                Some content \<Rightarrow> content
              | None \<Rightarrow> if filename = ''/etc/shadow'' then ''cat: /etc/shadow: Permission denied'' @ crlf
                        else missing ''cat'' a))"

text \<open>The numbered commands but for the one that asks.\<close>

definition shell_history :: "string list \<Rightarrow> string" where
  "shell_history h =
     concat (map (\<lambda>(i, c). '' '' @ pad_left 4 (show_nat (i + 1)) @ ''  '' @ c @ crlf)
       (enumerate 0 (butlast h)))"

definition shell_grep :: "vfs \<Rightarrow> string list \<Rightarrow> string" where
  "shell_grep v args =
     (case args of
        [] \<Rightarrow> ''grep: missing pattern'' @ crlf
      | [_] \<Rightarrow> ''grep: missing file operand'' @ crlf
      | pattern # file # _ \<Rightarrow>
          (case ReadFile v file of
             Some content \<Rightarrow> if str_contains content pattern then file @ '': '' @ pattern @ crlf else []
           | None \<Rightarrow> missing ''grep'' file))"

definition last_lines :: "'a list \<Rightarrow> 'a list" where
  "last_lines ls = (if 10 < length ls then drop (length ls - 10) ls else ls)"

definition first_lines :: "'a list \<Rightarrow> 'a list" where
  "first_lines ls = (if 10 < length ls then take 10 ls else ls)"

definition shell_tail :: "vfs \<Rightarrow> string \<Rightarrow> string \<Rightarrow> string list \<Rightarrow> string" where
  "shell_tail v cur cmd args =
     (case args of
        [] \<Rightarrow> cmd @ '': missing file operand'' @ crlf
      | a # _ \<Rightarrow>
          (case ReadFile v (absolute cur a) of
             Some content \<Rightarrow>
               (let lines = split_on (char_of (10 :: nat)) content
                in join_with lf (if cmd = ''tail'' then last_lines lines else first_lines lines) @ crlf)
           | None \<Rightarrow> missing cmd a))"

definition shell_fetch :: "string \<Rightarrow> string \<Rightarrow> string \<Rightarrow> string list \<Rightarrow> string list" where
  "shell_fetch now prompt cmd args =
     (case args of
        [] \<Rightarrow> [cmd @ '': missing URL'' @ crlf @ prompt]
      | url # _ \<Rightarrow>
          [''--'' @ now @ ''--  '' @ url @ crlf,
           ''Connecting to '' @ trim_prefix (trim_prefix url ''http://'') ''https://'' @ ''...'' @ crlf,
           ''HTTP request sent, awaiting response... 200 OK'' @ crlf,
           ''Length: 1024 (1.0K) [text/html]'' @ crlf,
           ''Saving to: '' @ quoted ''index.html'' @ crlf,
           ''100%[======================================>] 1,024      --.-K/s   in 0s'' @ crlf,
           quoted ''index.html'' @ '' saved [1024/1024]'' @ crlf @ prompt])"

definition shell_service :: "unicode \<Rightarrow> string \<Rightarrow> string \<Rightarrow> string list \<Rightarrow> string list" where
  "shell_service U prompt cmd args =
     (case args of
        [] \<Rightarrow> [cmd @ '': missing argument'' @ crlf @ prompt]
      | act # rest \<Rightarrow>
          (let service = (case rest of [] \<Rightarrow> [] | s # _ \<Rightarrow> s)
           in if act = ''status'' \<and> service \<noteq> [] then
                [[CHR 0xE2, CHR 0x97, CHR 0x8F] @ '' '' @ service @ ''.service - '' @ uni_title U service @ '' Service'' @ crlf,
                 ''   Loaded: loaded (/etc/systemd/system/'' @ service @ ''.service; enabled; vendor preset: enabled)'' @ crlf,
                 ''   Active: active (running) since Wed 2021-12-15 10:00:00 UTC; 30min ago'' @ crlf, prompt]
              else if act \<in> {''start'', ''stop'', ''restart''} then
                [''Service '' @ service @ '' '' @ act @ ''ed successfully'' @ crlf @ prompt]
              else [''Unknown action: '' @ act @ crlf @ prompt]))"

definition python_hello :: "string list" where
  \<open>python_hello =
     [''Python 3.8.10 (default, Nov 26 2021, 20:14:08)'' @ crlf, ''[GCC 9.4.0] on linux'' @ crlf,
      ''Type "help", "copyright", "credits" or "license" for more information.'' @ crlf]\<close>

definition shell_find :: "string \<Rightarrow> string list \<Rightarrow> string list" where
  "shell_find prompt args =
     (if 0 < length args
      then [(if args ! 0 = ''/'' \<or> args ! 0 = ''.''
             then crlf_lines [''/root/.bashrc'', ''/root/.bash_history'', ''/etc/passwd'', ''/etc/hosts'']
             else []) @ prompt]
      else [''find: missing path'' @ crlf @ prompt])"

text \<open>The programs that only pretend to run, and what is not a program.\<close>

definition shell_pretend :: "string \<Rightarrow> string \<Rightarrow> string list \<Rightarrow> string list" where
  "shell_pretend prompt cmd args =
     (if cmd = ''sudo'' then
        (if 0 < length args
         then [''[sudo] password for root: '', crlf, ''Executing: '' @ join_with '' '' args @ crlf @ prompt]
         else [''sudo: missing command'' @ crlf @ prompt])
      else if cmd = ''passwd'' then
        [''Changing password for root.'' @ crlf, ''Current password: '', crlf, ''New password: '', crlf,
         ''Retype new password: '', crlf, ''passwd: password updated successfully'' @ crlf @ prompt]
      else if cmd = ''su'' then
        (if 0 < length args then [''Password: '', crlf, ''su: Authentication failure'' @ crlf @ prompt]
         else [''su: must be run from a terminal'' @ crlf @ prompt])
      else if cmd \<in> {''vi'', ''vim'', ''nano''} then
        (if 0 < length args
         then [''Opening '' @ args ! 0 @ '' in '' @ cmd @ ''...'' @ crlf, ''Press '' @ quoted ''q'' @ '' to quit'' @ crlf,
               ''File saved: '' @ args ! 0 @ crlf @ prompt]
         else [cmd @ '': missing file operand'' @ crlf @ prompt])
      else if cmd = ''mysql'' then
        [''Welcome to the MySQL monitor.  Commands end with ; or '' @ [CHR 0x5C] @ ''g.'' @ crlf,
         ''Your MySQL connection id is 12345'' @ crlf,
         ''Server version: 8.0.27 MySQL Community Server - GPL'' @ crlf @ crlf, ''mysql> '',
         crlf @ ''ERROR 1045 (28000): Access denied for user '' @ quoted ''root'' @ ''@'' @ quoted ''localhost'' @
           '' (using password: YES)'' @ crlf @ prompt]
      else if cmd = ''python'' \<or> cmd = ''python3'' then
        python_hello @ (if 0 < length args \<and> args ! 0 = ''-c'' then [] else [''>>> '', crlf @ prompt])
      else if cmd = ''clear'' \<or> cmd = ''reset'' then [[CHR 0x1B] @ ''[2J'' @ [CHR 0x1B] @ ''[H'' @ prompt]
      else [''bash: '' @ cmd @ '': command not found'' @ crlf @ prompt])"

text \<open>The commands that only write.\<close>

definition shell_output :: "unicode \<Rightarrow> vfs \<Rightarrow> string \<Rightarrow> shell \<Rightarrow> string \<Rightarrow> string list \<Rightarrow> string list" where
  "shell_output U v now s cmd args =
     (let prompt = shPrompt s; cur = shDir s
      in if cmd \<in> {''ls'', ''ls -la'', ''ls -l'', ''ls -a''} then [ListFiles v cur @ prompt]
         else if cmd = ''pwd'' then [cur @ crlf @ prompt]
         else if cmd = ''whoami'' then [''root'' @ crlf @ prompt]
         else if cmd = ''id'' then [''uid=0(root) gid=0(root) groups=0(root)'' @ crlf @ prompt]
         else if cmd = ''uname'' then
           [(if 0 < length args \<and> args ! 0 = ''-a'' then uname_text else ''Linux'' @ crlf) @ prompt]
         else if cmd \<in> {''cat'', ''less'', ''more''} then [shell_cat v cur cmd args @ prompt]
         else if cmd = ''history'' then [shell_history (shHistory s) @ prompt]
         else if cmd = ''ps'' then
           [(if 0 < length args \<and> args ! 0 = ''aux'' then ps_aux else ps_plain) @ prompt]
         else if cmd = ''netstat'' then
           [(if 0 < length args \<and> args ! 0 = ''-an'' then netstat_an else netstat_plain) @ prompt]
         else if cmd = ''ifconfig'' \<or> cmd = ''ip'' then
           [(if cmd = ''ip'' \<and> 0 < length args \<and> args ! 0 = ''addr'' then ip_addr else ifconfig_text) @ prompt]
         else if cmd = ''df'' then [df_text @ prompt]
         else if cmd = ''free'' then [free_text @ prompt]
         else if cmd = ''top'' \<or> cmd = ''htop'' then [top_text @ prompt]
         else if cmd = ''grep'' then [shell_grep v args @ prompt]
         else if cmd = ''find'' then shell_find prompt args
         else if cmd = ''tail'' \<or> cmd = ''head'' then [shell_tail v cur cmd args @ prompt]
         else if cmd = ''wget'' \<or> cmd = ''curl'' then shell_fetch now prompt cmd args
         else if cmd = ''systemctl'' \<or> cmd = ''service'' then shell_service U prompt cmd args
         else shell_pretend prompt cmd args)"

definition shell_command ::
    "unicode \<Rightarrow> vfs \<Rightarrow> string \<Rightarrow> shell \<Rightarrow> string \<Rightarrow> string list \<Rightarrow> shell \<times> string list \<times> bool" where
  "shell_command U v now s cmd args =
     (if cmd \<in> {''exit'', ''logout'', ''quit''} then (s, [''Connection closed by foreign host.'' @ crlf], False)
      else if cmd = ''cd'' then
        (case change_dir v (shDir s) args of
           Inl dir \<Rightarrow> (s, [''bash: cd: '' @ dir @ '': No such file or directory'' @ crlf @ shPrompt s], True)
         | Inr dir \<Rightarrow> (s\<lparr>shDir := dir, shPrompt := prompt_for dir\<rparr>, [prompt_for dir], True))
      else (s, shell_output U v now s cmd args, True))"

definition shell_read ::
    "unicode \<Rightarrow> vfs \<Rightarrow> string \<Rightarrow> string \<Rightarrow> string \<Rightarrow> shell \<Rightarrow> string \<Rightarrow> shell \<times> action list \<times> bool" where
  "shell_read U v ip t now s chunk =
     (let input = strings_trim_space chunk
      in if input = [] then (s, [Send (shPrompt s)], True)
         else
           (let s1 = s\<lparr>shHistory := shHistory s @ [input]\<rparr>;
                seen = [log_at t (''SSH COMMAND: '' @ input), Attack ip (''SSH: '' @ input)]
            in case str_fields input of
                 [] \<Rightarrow> (s1, seen @ [Send (shPrompt s)], True)
               | cmd # args \<Rightarrow>
                   (case shell_command U v now s1 cmd args of
                      (s2, outs, go_on) \<Rightarrow> (s2, seen @ map Send outs, go_on))))"

text \<open>\<open>now\<close> is the time a download shows.\<close>

definition handleSSH :: "unicode \<Rightarrow> string \<Rightarrow> string \<Rightarrow> string \<Rightarrow> string list \<Rightarrow> shell \<times> action list" where
  "handleSSH U remote t now reads =
     apsnd ((#) (Send (shPrompt new_shell)))
       (session_loop (shell_read U NewVirtualFileSystem (peer_ip remote) t now) new_shell reads)"

section \<open>Where the shell can be\<close>

text \<open>The paths of the file system, and the one directory that has a file but no entry of its own.\<close>

definition known_paths :: "vfs \<Rightarrow> string list" where
  "known_paths v = map fst (vfsFiles v) @ map fst (vfsDirs v)"

definition shell_places :: "string list" where
  "shell_places = known_paths NewVirtualFileSystem @ [''/etc/nginx'']"

lemma FileExists_known: "FileExists v p \<longleftrightarrow> normalizePath p \<in> set (known_paths v)"
  by (auto simp: FileExists_def known_paths_def Let_def map_of_eq_None_iff)

lemma normalizePath_word:
  "is_word w \<Longrightarrow> pre = [] \<or> last pre = CHR ''/'' \<Longrightarrow> hd (pre @ w) = CHR ''/'' \<Longrightarrow> normalizePath (pre @ w) = pre @ w"
  using trim_space_path [of w pre]
  by (cases "pre @ w") (auto simp: normalizePath_def Let_def has_prefix_def is_word_def)

text \<open>The shell's directories, as lists of characters that the evaluator handles.\<close>

lemma known_paths_NewVirtualFileSystem:
  "known_paths NewVirtualFileSystem =
     [''/etc/passwd'', ''/etc/hosts'', ''/var/log/auth.log'', ''/var/log/syslog'', ''/root/.bash_history'',
      ''/root/config.txt'', ''/var/www/config.php'', ''/etc/nginx/nginx.conf'',
      ''/'', ''/root'', ''/home'', ''/etc'', ''/var'', ''/var/log'', ''/var/www'', ''/tmp'']"
  by (simp add: known_paths_def NewVirtualFileSystem_def)

lemma parent_dir_places: "list_all (\<lambda>d. parent_dir d \<in> set shell_places) shell_places"
  unfolding shell_places_def known_paths_NewVirtualFileSystem by code_simp

lemma places_absolute: "list_all (\<lambda>d. hd d = CHR ''/'') shell_places"
  unfolding shell_places_def known_paths_NewVirtualFileSystem by code_simp

lemma change_dir_places:
  assumes "cur \<in> set shell_places" "list_all is_word args" "change_dir NewVirtualFileSystem cur args = Inr dir"
  shows "dir \<in> set shell_places"
proof (cases args)
  case Nil
  then show ?thesis using assms(3) by (auto simp: change_dir_def shell_places_def known_paths_NewVirtualFileSystem)
next
  case (Cons a rest)
  then have a: "is_word a" using assms(2) by simp
  have cur: "hd cur = CHR ''/''" "cur \<noteq> []"
    using assms(1) places_absolute by (auto simp: list_all_iff shell_places_def known_paths_NewVirtualFileSystem)
  have "normalizePath (cur @ ''/'' @ a) = cur @ ''/'' @ a"
    using normalizePath_word [OF a, of "cur @ ''/''"] cur by simp
  moreover have "has_prefix a ''/'' \<Longrightarrow> normalizePath a = a"
    using normalizePath_word [OF a, of "[]"] by (cases a) (auto simp: has_prefix_def)
  ultimately have new: "dir \<in> set (known_paths NewVirtualFileSystem)"
    if "a \<noteq> ''..''" "a \<noteq> ''/''"
    using assms(3) Cons that unfolding change_dir_def FileExists_known Let_def
    by (cases "has_prefix a ''/''") (simp_all split: if_splits)
  consider "a = ''..''" | "a = ''/''" | "a \<noteq> ''..''" "a \<noteq> ''/''" by blast
  then show ?thesis
  proof cases
    case 1
    then have "dir = parent_dir cur" using assms(3) Cons by (simp add: change_dir_def)
    then show ?thesis using parent_dir_places assms(1) by (simp only: list_all_iff)
  next
    case 2
    then have "dir = ''/''" using assms(3) Cons by (simp add: change_dir_def)
    then show ?thesis by (simp add: shell_places_def known_paths_NewVirtualFileSystem)
  next
    case 3
    then show ?thesis using new unfolding shell_places_def set_append by blast
  qed
qed

definition shell_ok :: "shell \<Rightarrow> bool" where
  "shell_ok s \<longleftrightarrow> shDir s \<in> set shell_places \<and> shPrompt s = prompt_for (shDir s)"

lemma shell_command_ok:
  assumes "shell_ok s" "list_all is_word args"
  shows "shell_ok (fst (shell_command U NewVirtualFileSystem now s cmd args))"
proof (cases "cmd = ''cd'' \<and> cmd \<notin> {''exit'', ''logout'', ''quit''}")
  case True
  then show ?thesis
    using assms change_dir_places [of "shDir s" args]
    by (auto simp: shell_command_def shell_ok_def split: sum.split)
next
  case False
  then show ?thesis using assms(1) by (auto simp: shell_command_def)
qed

lemma shell_read_ok:
  assumes "shell_ok s"
  shows "shell_ok (fst (shell_read U NewVirtualFileSystem ip t now s chunk))"
proof (cases "strings_trim_space chunk = [] \<or> str_fields (strings_trim_space chunk) = []")
  case True
  then show ?thesis using assms by (auto simp: shell_read_def shell_ok_def Let_def)
next
  case False
  then obtain cmd args where f: "str_fields (strings_trim_space chunk) = cmd # args"
    by (meson neq_Nil_conv)
  have "list_all is_word args"
    using str_fields_words [of _ "strings_trim_space chunk"] f by (simp add: list_all_iff)
  moreover have "shell_ok (s\<lparr>shHistory := shHistory s @ [strings_trim_space chunk]\<rparr>)"
    using assms by (simp add: shell_ok_def)
  ultimately show ?thesis
    using shell_command_ok False f by (auto simp: shell_read_def Let_def split: prod.split) (metis fst_conv)
qed

lemma session_loop_invariant:
  assumes "\<And>s chunk. P s \<Longrightarrow> P (fst (f s chunk))" "P s"
  shows "P (fst (session_loop f s chunks))"
  using assms(2)
proof (induction chunks arbitrary: s)
  case (Cons c cs)
  then show ?case
    using assms(1) [of s c] Cons.IH [of "fst (f s c)"] by (auto split: prod.split)
qed simp

text \<open>C30. Whatever the peer of the fake shell types, its directory stays one of the file system's paths or
  the parent of one of them, and the prompt shows that directory.\<close>

theorem shell_stays_in_places:
  "shDir (fst (handleSSH U remote t now reads)) \<in> set shell_places \<and>
   shPrompt (fst (handleSSH U remote t now reads)) = prompt_for (shDir (fst (handleSSH U remote t now reads)))"
proof -
  have "shell_ok new_shell"
    by (simp add: shell_ok_def new_shell_def shell_places_def known_paths_NewVirtualFileSystem)
  then have "shell_ok (fst (session_loop (shell_read U NewVirtualFileSystem (peer_ip remote) t now) new_shell reads))"
    using session_loop_invariant [of shell_ok] shell_read_ok by blast
  then show ?thesis by (simp add: handleSSH_def shell_ok_def)
qed

text \<open>From the root directory the fake shell enters no directory by its name, not even one that it
  lists there: the path it looks up begins with two slashes.\<close>

theorem no_cd_from_root:
  assumes "dir \<in> set (str_fields line)" "dir \<noteq> ''..''" "hd dir \<noteq> CHR ''/''"
  shows "change_dir NewVirtualFileSystem ''/'' (dir # rest) = Inl dir"
proof -
  have w: "is_word dir" using assms(1) by (rule str_fields_words)
  then have "normalizePath (''//'' @ dir) = ''//'' @ dir"
    using normalizePath_word [of dir "''//''"] by simp
  then have "\<not> FileExists NewVirtualFileSystem (''//'' @ dir)"
    by (simp add: FileExists_known known_paths_NewVirtualFileSystem)
  moreover have "\<not> has_prefix dir ''/''"
    using assms(3) w by (cases dir) (auto simp: has_prefix_def is_word_def)
  moreover from this have "dir \<noteq> ''/''"
    by (auto simp: has_prefix_def)
  ultimately show ?thesis
    using assms(2) by (simp add: change_dir_def Let_def)
qed

theorem no_cd_from_root_witness:
  "map_of (vfsDirs NewVirtualFileSystem) ''/etc'' \<noteq> None \<and>
   change_dir NewVirtualFileSystem ''/'' [''etc''] = Inl ''etc''"
proof
  show "map_of (vfsDirs NewVirtualFileSystem) ''/etc'' \<noteq> None" by (simp add: NewVirtualFileSystem_def)
  have "list_ex (\<lambda>w. w = ''etc'') (str_fields ''cd etc'')" by code_simp
  then have "''etc'' \<in> set (str_fields ''cd etc'')" by (simp add: list_ex_iff)
  then show "change_dir NewVirtualFileSystem ''/'' [''etc''] = Inl ''etc''"
    by (rule no_cd_from_root) simp_all
qed

end
