(* ===== verification/FakeHTTP.thy ===== *)
theory FakeHTTP
  imports Service
begin

text \<open>
  \<^verbatim>\<open>internal/honeypot/http_handler.go\<close>: one request, read once, and its answer. \<open>clock\<close> is the
  time as the page shows it.
\<close>

section \<open>Pages\<close>

definition http_index :: "string \<Rightarrow> string" where
  \<open>http_index clock =
     crlf_lines
       [''HTTP/1.1 200 OK'',
        ''Server: nginx/1.18.0 (Ubuntu)'',
        ''Content-Type: text/html; charset=UTF-8'',
        ''Connection: keep-alive'',
        ''X-Powered-By: PHP/7.4.3'',
        []] @
     lf_lines
       [''<!DOCTYPE html>'',
        ''<html lang="en">'',
        ''<head>'',
        ''    <meta charset="UTF-8">'',
        ''    <meta name="viewport" content="width=device-width, initial-scale=1.0">'',
        ''    <title>Welcome - Server Management</title>'',
        ''    <style>'',
        ''        body { font-family: Arial, sans-serif; margin: 40px; background: #f5f5f5; }'',
        ''        .container { background: white; padding: 30px; border-radius: 8px; box-shadow: 0 2px 4px rgba(0,0,0,0.1); }'',
        ''        h1 { color: #333; }'',
        ''        .nav { margin: 20px 0; }'',
        ''        .nav a { margin-right: 15px; color: #0066cc; text-decoration: none; }'',
        ''        .nav a:hover { text-decoration: underline; }'',
        ''    </style>'',
        ''</head>'',
        ''<body>'',
        ''    <div class="container">'',
        ''        <h1>Welcome to Server Management Portal</h1>'',
        ''        <p>System is running normally. All services are operational.</p>'',
        ''        <div class="nav">'',
        ''            <a href="/admin">Admin Panel</a>'',
        ''            <a href="/login">Login</a>'',
        ''            <a href="/dashboard">Dashboard</a>'',
        ''            <a href="/api">API</a>'',
        ''        </div>''] @ ''        <p>Server Time: '' @
     clock @
     lf_lines
       [''</p>'',
        ''    </div>'',
        ''</body>''] @ ''</html>''\<close>

definition http_admin :: "string" where
  \<open>http_admin =
     crlf_lines
       [''HTTP/1.1 200 OK'',
        ''Server: nginx/1.18.0 (Ubuntu)'',
        ''Content-Type: text/html; charset=UTF-8'',
        ''Set-Cookie: session_id=abc123xyz; Path=/; HttpOnly'',
        []] @
     lf_lines
       [''<!DOCTYPE html>'',
        ''<html>'',
        ''<head>'',
        ''    <title>Administration Panel</title>'',
        ''    <style>'',
        ''        body { font-family: Arial, sans-serif; margin: 40px; background: #2c3e50; color: white; }'',
        ''        .login-box { background: #34495e; padding: 30px; border-radius: 8px; max-width: 400px; margin: 100px auto; }'',
        ''        input { width: 100%; padding: 10px; margin: 10px 0; border: none; border-radius: 4px; }'',
        ''        button { width: 100%; padding: 12px; background: #3498db; color: white; border: none; border-radius: 4px; cursor: pointer; }'',
        ''        button:hover { background: #2980b9; }'',
        ''    </style>'',
        ''</head>'',
        ''<body>'',
        ''    <div class="login-box">'',
        ''        <h2>Administration Panel</h2>'',
        ''        <form method="POST" action="/admin/login">'',
        ''            <input type="text" name="username" placeholder="Username" required>'',
        ''            <input type="password" name="password" placeholder="Password" required>'',
        ''            <button type="submit">Login</button>'',
        ''        </form>'',
        ''        <p style="font-size: 12px; color: #95a5a6;">Forgot password? <a href="/admin/reset" style="color: #3498db;">Reset here</a></p>'',
        ''    </div>'',
        ''</body>''] @ ''</html>''\<close>

definition http_login :: "string" where
  \<open>http_login =
     crlf_lines
       [''HTTP/1.1 200 OK'',
        ''Server: Apache/2.4.41 (Debian)'',
        ''Content-Type: text/html; charset=UTF-8'',
        []] @
     lf_lines
       [''<!DOCTYPE html>'',
        ''<html>'',
        ''<head>'',
        ''    <title>User Login</title>'',
        ''    <style>'',
        ''        body { font-family: Arial, sans-serif; margin: 40px; background: #ecf0f1; }'',
        ''        .form-container { background: white; padding: 30px; border-radius: 8px; max-width: 350px; margin: 50px auto; box-shadow: 0 2px 4px rgba(0,0,0,0.1); }'',
        ''        input { width: 100%; padding: 10px; margin: 10px 0; border: 1px solid #ddd; border-radius: 4px; box-sizing: border-box; }'',
        ''        button { width: 100%; padding: 12px; background: #27ae60; color: white; border: none; border-radius: 4px; cursor: pointer; }'',
        ''    </style>'',
        ''</head>'',
        ''<body>'',
        ''    <div class="form-container">'',
        ''        <h2>User Login</h2>'',
        ''        <form method="POST" action="/login/check">'',
        ''            <input type="text" name="user" placeholder="Username" required>'',
        ''            <input type="password" name="pass" placeholder="Password" required>'',
        ''            <button type="submit">Sign In</button>'',
        ''        </form>'',
        ''    </div>'',
        ''</body>''] @ ''</html>''\<close>

definition http_api :: "string \<Rightarrow> string" where
  \<open>http_api clock =
     crlf_lines
       [''HTTP/1.1 200 OK'',
        ''Content-Type: application/json'',
        ''Access-Control-Allow-Origin: *'',
        []] @
     ''{"status":"ok","data":[{"id":1,"username":"admin","email":"admin@server.com","role":"administrator"},{"id":2,"username":"user","email":"user@server.com","role":"user"}],"timestamp":"'' @
     clock @
     ''"}''\<close>

definition http_api_config :: "string" where
  \<open>http_api_config =
     crlf_lines
       [''HTTP/1.1 200 OK'',
        ''Content-Type: application/json'',
        []] @
     ''{"database":{"host":"localhost","port":3306,"name":"production"},"api_key":"sk_live_51H3ll0W0rld","version":"1.2.3"}''\<close>

definition http_robots :: "string" where
  \<open>http_robots =
     crlf_lines
       [''HTTP/1.1 200 OK'',
        ''Content-Type: text/plain'',
        []] @
     lf_lines
       [''User-agent: *'',
        ''Disallow: /admin/'',
        ''Disallow: /private/'',
        ''Disallow: /config/''] @ ''Allow: /public/''\<close>

definition http_git :: "string" where
  \<open>http_git =
     crlf_lines
       [''HTTP/1.1 403 Forbidden'',
        ''Server: nginx/1.18.0 (Ubuntu)'',
        ''Content-Type: text/html'',
        []] @
     ''<h1>403 Forbidden</h1><p>You don't have permission to access this resource.</p>''\<close>

definition http_phpinfo :: "string" where
  \<open>http_phpinfo =
     crlf_lines
       [''HTTP/1.1 200 OK'',
        ''Server: Apache/2.4.41 (Debian)'',
        ''Content-Type: text/html'',
        []] @
     lf_lines
       [''<html><head><title>phpinfo()</title></head><body>'',
        ''<h1>PHP Version 7.4.3</h1>'',
        ''<p>System: Linux server 5.4.0-74-generic</p>'',
        ''<p>Server API: Apache 2.0 Handler</p>'',
        ''<p>Document Root: /var/www/html</p>''] @ ''</body></html>''\<close>

definition http_wordpress :: "string" where
  \<open>http_wordpress =
     crlf_lines
       [''HTTP/1.1 200 OK'',
        ''Server: nginx/1.18.0 (Ubuntu)'',
        ''Content-Type: text/html; charset=UTF-8'',
        []] @
     lf_lines
       [''<!DOCTYPE html>'',
        ''<html>'',
        ''<head>'',
        ''    <title>WordPress Login</title>'',
        ''    <style>'',
        ''        body { font-family: Arial, sans-serif; margin: 40px; background: #f0f0f1; }'',
        ''        .login { background: white; padding: 30px; border-radius: 4px; max-width: 320px; margin: 50px auto; }'',
        ''        input { width: 100%; padding: 10px; margin: 10px 0; border: 1px solid #ddd; }'',
        ''        button { width: 100%; padding: 12px; background: #0073aa; color: white; border: none; }'',
        ''    </style>'',
        ''</head>'',
        ''<body>'',
        ''    <div class="login">'',
        ''        <h1>WordPress</h1>'',
        ''        <form method="POST">'',
        ''            <input type="text" name="log" placeholder="Username or Email">'',
        ''            <input type="password" name="pwd" placeholder="Password">'',
        ''            <button type="submit">Log In</button>'',
        ''        </form>'',
        ''    </div>'',
        ''</body>''] @ ''</html>''\<close>

definition http_dashboard :: "string" where
  \<open>http_dashboard =
     crlf_lines
       [''HTTP/1.1 302 Found'',
        ''Location: /login'',
        []]\<close>

definition http_post_redirect :: "string" where
  \<open>http_post_redirect =
     crlf_lines
       [''HTTP/1.1 302 Found'',
        ''Location: /admin/dashboard'',
        ''Set-Cookie: auth_token=invalid; Path=/'',
        []]\<close>

definition http_script :: "string" where
  \<open>http_script =
     crlf_lines
       [''HTTP/1.1 200 OK'',
        ''Server: Apache/2.4.41 (Debian)'',
        ''Content-Type: text/html'',
        []] @
     ''<html><body><h1>Page Not Found</h1><p>The requested page could not be found.</p></body></html>''\<close>

definition http_not_found :: "string \<Rightarrow> string" where
  \<open>http_not_found path =
     crlf_lines
       [''HTTP/1.1 404 Not Found'',
        ''Server: nginx/1.18.0 (Ubuntu)'',
        ''Content-Type: text/html; charset=UTF-8'',
        []] @
     lf_lines
       [''<!DOCTYPE html>'',
        ''<html>'',
        ''<head>'',
        ''    <title>404 Not Found</title>'',
        ''    <style>'',
        ''        body { font-family: Arial, sans-serif; margin: 40px; text-align: center; }'',
        ''        h1 { color: #e74c3c; }'',
        ''    </style>'',
        ''</head>'',
        ''<body>'',
        ''    <h1>404 Not Found</h1>''] @ ''    <p>The requested URL '' @
     path @
     lf_lines
       ['' was not found on this server.</p>'',
        ''    <p><a href="/">Return to homepage</a></p>'',
        ''</body>''] @ ''</html>''\<close>

section \<open>The request\<close>

definition http_path :: "string \<Rightarrow> string" where
  "http_path p = hd (split_on (CHR ''?'') p)"

fun user_agent :: "unicode \<Rightarrow> string list \<Rightarrow> string" where
  "user_agent U [] = ''Unknown''"
| "user_agent U (line # rest) =
     (if has_prefix (to_lower U line) ''user-agent:'' then strings_trim_space (trim_prefix line ''User-Agent:'')
      else user_agent U rest)"

definition credential_actions :: "unicode \<Rightarrow> string \<Rightarrow> string \<Rightarrow> string \<Rightarrow> string list \<Rightarrow> action list" where
  "credential_actions U ip t request lines =
     (case str_index request (crlf @ crlf) of
        None \<Rightarrow> []
      | Some bodyStart \<Rightarrow>
          (let body = drop (bodyStart + 4) request
           in if 0 < bodyStart \<and> (str_contains body ''password'' \<or> str_contains body ''pass'')
              then [log_at t (''HTTP POST with credentials detected! User-Agent: '' @ user_agent U lines),
                    Attack ip (''HTTP_POST_CREDENTIALS: '' @ body)]
              else []))"

text \<open>The page for a path, with what is logged about it.\<close>

definition http_response :: "string \<Rightarrow> string \<Rightarrow> string \<Rightarrow> string \<Rightarrow> action list \<times> string" where
  "http_response t clock meth path =
     (if path \<in> {''/'', ''/index.html'', ''/index.php''} then ([], http_index clock)
      else if path \<in> {''/admin'', ''/admin.php'', ''/admin.html'', ''/administrator'', ''/wp-admin''} then ([], http_admin)
      else if path \<in> {''/login'', ''/login.php'', ''/signin''} then ([], http_login)
      else if path \<in> {''/api'', ''/api/v1'', ''/api/v1/users'', ''/api/users''} then ([], http_api clock)
      else if path \<in> {''/api/v1/config'', ''/api/config''} then ([], http_api_config)
      else if path \<in> {''/robots.txt''} then ([], http_robots)
      else if path \<in> {''/.git/config'', ''/.git/HEAD'', ''/.git''} then ([], http_git)
      else if path \<in> {''/phpinfo.php'', ''/info.php''} then ([], http_phpinfo)
      else if path \<in> {''/wp-login.php'', ''/wordpress/wp-admin''} then ([], http_wordpress)
      else if path \<in> {''/dashboard'', ''/panel''} then ([], http_dashboard)
      else if meth = ''POST'' then
        ([log_at t (''HTTP POST to '' @ path @ '' - credentials may be present'')], http_post_redirect)
      else if str_contains path ''.php'' \<or> str_contains path ''.jsp'' \<or> str_contains path ''.asp''
        then ([], http_script)
      else ([], http_not_found path))"

text \<open>A read that fails is \<open>None\<close>.\<close>

definition handleHTTP :: "unicode \<Rightarrow> string \<Rightarrow> string \<Rightarrow> string \<Rightarrow> string option \<Rightarrow> action list" where
  "handleHTTP U remote t clock read =
     (case read of
        None \<Rightarrow> []
      | Some request \<Rightarrow>
          (let ip = peer_ip remote;
               lines = split_str crlf request;
               requestLine = hd lines;
               parts = str_fields requestLine;
               seen = [log_at t (''HTTP REQUEST: '' @ requestLine), Attack ip (''HTTP: '' @ requestLine)]
           in if length parts < 2 then seen
              else
                (let meth = parts ! 0; path = http_path (parts ! 1);
                     creds = (if meth = ''POST'' then credential_actions U ip t request lines else []);
                     (logged, response) = http_response t clock meth path
                 in seen @ creds @ logged @ [Send response])))"

end
