(* ===== verification/FakeMySQL.thy ===== *)
theory FakeMySQL
  imports Service
begin

text \<open>
  \<^verbatim>\<open>internal/honeypot/mysql_handler.go\<close>: the handshake, the login that is always refused and then
  treated as accepted, and the queries. A byte of a packet is a character.
\<close>

definition packet :: "nat list \<Rightarrow> string" where
  "packet ns = map char_of ns"

text \<open>\<^verbatim>\<open>%c\<close> of a number below 65536: its UTF-8 encoding. (Surrogates, which would be replaced, are out
  of reach of the lengths it is used for.)\<close>

definition rune :: "nat \<Rightarrow> string" where
  "rune n =
     (if n < 0x80 then [char_of n]
      else if n < 0x800 then [char_of (0xC0 + n div 64), char_of (0x80 + n mod 64)]
      else [char_of (0xE0 + n div 4096), char_of (0x80 + n div 64 mod 64), char_of (0x80 + n mod 64)])"

definition with_length :: "string \<Rightarrow> string" where
  "with_length s = rune (length s) @ s"

section \<open>Packets\<close>

definition handshake :: string where
  "handshake =
     packet [0x4a, 0x00, 0x00, 0x00, 0x0a] @ ''8.0.27'' @ packet [0x00] @
     packet [0x01, 0x00, 0x00, 0x00, 0x40, 0x41, 0x51, 0x27, 0x4a, 0x4b, 0x5c, 0x5d] @
     ''mysql_native_password'' @ packet [0x00]"

definition ok_packet :: string where
  "ok_packet = packet [0x07, 0x00, 0x00, 0x02, 0x00, 0x00, 0x00, 0x02, 0x00, 0x00, 0x00]"

definition quit_packet :: string where
  "quit_packet = packet [0x07, 0x00, 0x00, 0x01, 0x00, 0x00, 0x00, 0x02, 0x00, 0x00, 0x00]"

definition row_packet :: string where
  "row_packet = packet [0x07, 0x00, 0x00, 0x02, 0x00, 0x00, 0x00, 0x01, 0x00, 0x00, 0x00]"

definition error_packet :: "string \<Rightarrow> string" where
  "error_packet msg =
     packet [0xff, 0x15, 0x04, 0x23, 0x28, 0x30, 0x30, 0x30, 0x30, 0x34] @ msg @ packet [0x00]"

definition access_denied :: "string \<Rightarrow> string \<Rightarrow> string" where
  "access_denied username ip =
     error_packet (''Access denied for user '' @ quoted username @ ''@'' @ quoted ip @ '' (using password: YES)'')"

section \<open>Queries\<close>

definition show_databases :: string where
  "show_databases =
     packet [0x01, 0x00, 0x00, 0x01, 0x01] @ packet [0x27, 0x00, 0x00, 0x02, 0x03, 0x64, 0x65, 0x66] @
     ''Database'' @ packet [0x00] @
     concat (map with_length
       [''information_schema'', ''mysql'', ''performance_schema'', ''sys'', ''wordpress'', ''production'', ''test''])"

definition show_tables :: string where
  "show_tables =
     packet [0x01, 0x00, 0x00, 0x01, 0x01] @ ''Tables_in_database'' @ packet [0x00] @
     concat (map with_length [''users'', ''posts'', ''comments'', ''settings'', ''logs''])"

definition user_rows :: string where
  "user_rows =
     packet [0x01, 0x00, 0x00, 0x01, 0x03] @ ''id'' @ packet [0x00] @ ''username'' @ packet [0x00] @
     ''password'' @ packet [0x00] @
     packet [0x01, 0x00, 0x00, 0x02, 0x31, 0x61, 0x64, 0x6d, 0x69, 0x6e, 0x2a, 0x2a, 0x2a]"

definition create_sql :: "string \<Rightarrow> string" where
  "create_sql tableName =
     ''CREATE TABLE `'' @ tableName @ ''` (`id` int(11) NOT NULL AUTO_INCREMENT, PRIMARY KEY (`id`))''"

definition show_create :: "string \<Rightarrow> string" where
  "show_create tableName =
     packet [0x01, 0x00, 0x00, 0x01, 0x02] @ ''Table'' @ packet [0x00] @ ''Create Table'' @ packet [0x00] @
     with_length (create_sql tableName)"

definition handleMySQLQuery :: "unicode \<Rightarrow> string \<Rightarrow> string \<Rightarrow> string \<Rightarrow> action list \<times> string" where
  "handleMySQLQuery U query0 ip t =
     (let query = to_upper U (strings_trim_space query0)
      in if has_prefix query ''SHOW DATABASES'' then ([], show_databases)
         else if has_prefix query ''USE '' then
           ([log_at t (''MySQL USE DATABASE: '' @ strings_trim_space (trim_prefix query ''USE''))], ok_packet)
         else if has_prefix query ''SELECT'' then
           (if str_contains query ''FROM USERS'' \<or> str_contains query ''FROM USER'' then ([], user_rows)
            else if str_contains query ''VERSION()'' then
              ([], packet [0x01, 0x00, 0x00, 0x01, 0x01, 0x07, 0x00, 0x00, 0x02, 0x38, 0x2e, 0x30, 0x2e, 0x32, 0x37])
            else ([], packet [0x01, 0x00, 0x00, 0x01, 0x00]))
         else if has_prefix query ''SHOW TABLES'' then ([], show_tables)
         else if has_prefix query ''SHOW CREATE TABLE'' then
           (let tableName = strings_trim_space (trim_prefix query ''SHOW CREATE TABLE'')
            in ([log_at t (''MySQL SHOW CREATE TABLE: '' @ tableName)], show_create tableName))
         else if has_prefix query ''INSERT'' \<or> has_prefix query ''UPDATE'' \<or> has_prefix query ''DELETE'' then
           ([log_at t (''MySQL MODIFY QUERY: '' @ query), Attack ip (''MySQL_MODIFY: '' @ query)], row_packet)
         else ([], error_packet ''You have an error in your SQL syntax''))"

section \<open>The connection\<close>

text \<open>The password is a slice of the read buffer, which is large enough; only its length is used.\<close>

definition mysql_password :: "string \<Rightarrow> string \<Rightarrow> nat \<Rightarrow> string \<Rightarrow> action list" where
  "mysql_password ip t passwordStart chunk =
     (if passwordStart < length chunk then
        (let passwordLen = of_char (chunk ! passwordStart)
         in if 0 < passwordLen \<and> passwordLen < 255 \<and> passwordStart + 1 < length chunk
            then [log_at t (''MySQL PASSWORD attempt (length: '' @ show_nat passwordLen @ '')''),
                  Attack ip (''MySQL_PASSWORD: length='' @ show_nat passwordLen)]
            else [])
      else [])"

text \<open>A login packet, if the read is one.\<close>

definition mysql_login :: "string \<Rightarrow> string \<Rightarrow> string \<Rightarrow> action list option" where
  "mysql_login ip t chunk =
     (if 4 < length chunk then
        (let usernameLen = of_char (chunk ! 4)
         in if 0 < usernameLen \<and> usernameLen < 32 \<and> 5 + usernameLen < length chunk then
              (let username = take usernameLen (drop 5 chunk)
               in Some ([log_at t (''MySQL LOGIN: username='' @ quoted username),
                         Attack ip (''MySQL_LOGIN: user='' @ username)] @
                        mysql_password ip t (5 + usernameLen + 1) chunk @
                        [Send (access_denied username ip), Send ok_packet]))
            else None)
      else None)"

definition mysql_command :: "unicode \<Rightarrow> string \<Rightarrow> string \<Rightarrow> string \<Rightarrow> action list \<times> bool" where
  "mysql_command U ip t chunk =
     (let commandStr = drop 5 chunk;
          seen = [log_at t (''MySQL COMMAND: '' @ commandStr), Attack ip (''MySQL: '' @ commandStr)]
      in if of_char (chunk ! 4) = (0x03 :: nat) then
           (case handleMySQLQuery U (to_upper U (strings_trim_space commandStr)) ip t of
              (logged, response) \<Rightarrow> (seen @ logged @ [Send response], True))
         else if of_char (chunk ! 4) = (0x01 :: nat) then (seen @ [Send quit_packet], False)
         else (seen @ [Send (error_packet ''Unknown command'')], True))"

text \<open>The state is whether a login has been seen.\<close>

definition mysql_read :: "unicode \<Rightarrow> string \<Rightarrow> string \<Rightarrow> bool \<Rightarrow> string \<Rightarrow> bool \<times> action list \<times> bool" where
  "mysql_read U ip t authenticated chunk =
     (if \<not> authenticated then
        (case mysql_login ip t chunk of
           Some acts \<Rightarrow> (True, acts, True)
         | None \<Rightarrow> (False, [], True))
      else if 4 < length chunk then (True, mysql_command U ip t chunk)
      else (True, [], True))"

definition handleMySQL :: "unicode \<Rightarrow> string \<Rightarrow> string \<Rightarrow> string list \<Rightarrow> action list" where
  "handleMySQL U remote t reads =
     (let ip = peer_ip remote
      in [log_at t (''MySQL connection attempt from '' @ ip), Attack ip ''MySQL_CONNECTION'', Send handshake] @
         snd (session_loop (mysql_read U ip t) False reads))"

section \<open>Facts\<close>

text \<open>The length a packet announces in its first three bytes, and the bytes that follow its header.\<close>

definition announced_length :: "string \<Rightarrow> nat" where
  "announced_length p = of_char (p ! 0) + 256 * of_char (p ! 1) + 65536 * of_char (p ! 2)"

lemma handshake_length: "announced_length handshake = 74" "length (drop 4 handshake) = 42"
  by (simp_all add: announced_length_def handshake_def packet_def)

lemma ok_packet_length: "announced_length ok_packet = length (drop 4 ok_packet)"
  by (simp add: announced_length_def ok_packet_def packet_def)

end
