(* ===== verification/FakeLogin.thy ===== *)
theory FakeLogin
  imports Service
begin

text \<open>
  \<^verbatim>\<open>internal/honeypot/handlers.go\<close>: the Telnet login that fails twice, and the FTP server that never
  lets anybody in.
\<close>

section \<open>Telnet\<close>

text \<open>The first two reads must give something, the last two only must not fail.\<close>

definition handleTelnet :: "string \<Rightarrow> string \<Rightarrow> string list \<Rightarrow> action list" where
  "handleTelnet remote t reads =
     (let ip = peer_ip remote;
          hello = [Send (crlf @ ''Ubuntu 20.04.3 LTS'' @ crlf @ crlf), Send ''server login: '']
      in hello @
         (case reads of
            [] \<Rightarrow> []
          | first # reads1 \<Rightarrow>
              (if first = [] then []
               else
                 (let username = strings_trim_space first
                  in [log_at t (''TELNET LOGIN ATTEMPT: username='' @ quoted username), Send (crlf @ ''Password: '')] @
                     (case reads1 of
                        [] \<Rightarrow> []
                      | second # reads2 \<Rightarrow>
                          (if second = [] then []
                           else
                             (let password = strings_trim_space second
                              in [log_at t (''TELNET PASSWORD ATTEMPT #1 from '' @ ip @
                                            '' (password length: '' @ show_nat (length password) @ '')''),
                                  Attack ip (''TELNET_LOGIN: user='' @ username @ '', pass=***''),
                                  Send (crlf @ ''Login incorrect'' @ crlf @ crlf), Send ''server login: ''] @
                                 (case reads2 of
                                    [] \<Rightarrow> []
                                  | _ # reads3 \<Rightarrow>
                                      Send (crlf @ ''Password: '') #
                                      (case reads3 of
                                         [] \<Rightarrow> []
                                       | _ # _ \<Rightarrow>
                                           [log_at t (''TELNET PASSWORD ATTEMPT #2 from '' @ ip),
                                            Send (crlf @ ''Too many login attempts. Connection closed.'' @ crlf)])))))))))"

section \<open>FTP\<close>

definition syntax_error :: action where
  "syntax_error = Send (''501 Syntax error in parameters'' @ crlf)"

definition ftp_command :: "bool \<Rightarrow> string \<Rightarrow> string \<Rightarrow> string \<Rightarrow> string list \<Rightarrow> action list \<times> bool" where
  "ftp_command authenticated ip t cmd args =
     (if cmd = ''USER'' then
        (if 0 < length args
         then ([log_at t (''FTP USER: '' @ args ! 0), Send (''331 Password required'' @ crlf)], True)
         else ([syntax_error], True))
      else if cmd = ''PASS'' then
        (if 0 < length args
         then ([log_at t (''FTP PASS attempt (password length: '' @ show_nat (length (args ! 0)) @ '')''),
                Attack ip ''FTP_LOGIN: pass=***'', Send (''530 Login incorrect'' @ crlf)], True)
         else ([syntax_error], True))
      else if cmd = ''SYST'' then ([Send (''215 UNIX Type: L8'' @ crlf)], True)
      else if cmd = ''PWD'' then ([Send (''257 '' @ [CHR 0x22] @ ''/'' @ [CHR 0x22] @ '' is current directory'' @ crlf)], True)
      else if cmd = ''LIST'' \<or> cmd = ''LS'' then
        (if authenticated
         then ([Send (''150 Opening ASCII mode data connection'' @ crlf), Send (''226 Transfer complete'' @ crlf)], True)
         else ([Send (''530 Please login with USER and PASS'' @ crlf)], True))
      else if cmd = ''CWD'' then
        (if 0 < length args then ([Send (''250 CWD command successful: '' @ args ! 0 @ crlf)], True)
         else ([syntax_error], True))
      else if cmd = ''RETR'' \<or> cmd = ''GET'' then
        (if 0 < length args then ([Send (''550 File not found'' @ crlf)], True) else ([syntax_error], True))
      else if cmd = ''STOR'' \<or> cmd = ''PUT'' then
        (if 0 < length args then ([Send (''553 Requested action not taken'' @ crlf)], True) else ([syntax_error], True))
      else if cmd = ''QUIT'' \<or> cmd = ''BYE'' then ([Send (''221 Goodbye'' @ crlf)], False)
      else if cmd = ''HELP'' then
        ([Send (''214-The following commands are recognized:'' @ crlf),
          Send ('' USER PASS SYST PWD LIST CWD RETR STOR QUIT'' @ crlf), Send (''214 Help OK'' @ crlf)], True)
      else ([Send (''502 Command not implemented'' @ crlf)], True))"

text \<open>Nothing sets the variable \<^verbatim>\<open>authenticated\<close>.\<close>

definition ftp_read :: "unicode \<Rightarrow> string \<Rightarrow> string \<Rightarrow> string \<Rightarrow> action list \<times> bool" where
  "ftp_read U ip t chunk =
     (let command = strings_trim_space chunk
      in apfst ((@) [log_at t (''FTP COMMAND: '' @ command), Attack ip (''FTP: '' @ command)])
           (case str_fields command of
              [] \<Rightarrow> ([Send (''500 Syntax error'' @ crlf)], True)
            | p # args \<Rightarrow> ftp_command False ip t (to_upper U p) args))"

definition handleFTP :: "unicode \<Rightarrow> string \<Rightarrow> string \<Rightarrow> string list \<Rightarrow> action list" where
  "handleFTP U remote t reads =
     (let ip = peer_ip remote
      in [log_at t (''FTP connection from '' @ ip), Attack ip ''FTP_CONNECTION'',
          Send (''220 Welcome to FTP Server'' @ crlf)] @
         read_loop (ftp_read U ip t) reads)"

end
