(* ===== verification/Redis.thy ===== *)
theory Redis
  imports Service
begin

text \<open>
  \<^verbatim>\<open>internal/honeypot/redis_handler.go\<close>: the parser of the protocol, the commands, and that the
  parser reads back what a client writes.
\<close>

section \<open>The protocol\<close>

text \<open>The array loop: up to \<open>count\<close> elements are looked for in the lines that remain. A length line
  takes the next line as its value, whatever length it gives.\<close>

fun resp_array :: "int \<Rightarrow> string list \<Rightarrow> string list \<times> string list" where
  "resp_array count [] = ([], [])"
| "resp_array count (l # rest) =
     (if count \<le> 0 then ([], l # rest)
      else if take 1 l = ''$'' then
        (case rest of
           [] \<Rightarrow> ([], [])
         | v # rest' \<Rightarrow> apfst ((#) v) (resp_array (count - 1) rest'))
      else resp_array (count - 1) rest)"

lemma length_resp_array: "length (snd (resp_array n ls)) \<le> length ls"
proof (induction n ls rule: resp_array.induct)
  case (2 count l rest)
  show ?case
  proof (cases rest)
    case Nil
    then show ?thesis by simp
  next
    case (Cons v rest')
    have "length (snd (resp_array (count - 1) rest')) \<le> length rest'" if "0 < count" "take 1 l = ''$''"
      using 2(1) that Cons by simp
    moreover have "length (snd (resp_array (count - 1) rest)) \<le> length rest" if "0 < count" "take 1 l \<noteq> ''$''"
      using 2(2) that by simp
    ultimately show ?thesis
      unfolding resp_array.simps using Cons by (simp del: resp_array.simps take_Suc add: le_SucI)
  qed
qed simp

function resp_lines :: "string list \<Rightarrow> string list" where
  "resp_lines [] = []"
| "resp_lines (line # rest) =
     (if line = [] then resp_lines rest
      else if hd line = CHR ''*'' then
        (let r = resp_array (case scan_d (tl line) of None \<Rightarrow> 0 | Some n \<Rightarrow> n) rest
         in fst r @ resp_lines (snd r))
      else if hd line = CHR ''$'' then
        (case rest of [] \<Rightarrow> [] | v # rest' \<Rightarrow> v # resp_lines rest')
      else if hd line = CHR ''+'' \<or> hd line = CHR ''-'' then tl line # resp_lines rest
      else str_fields line @ resp_lines rest)"
  by pat_completeness auto
termination
  by (relation "measure length") (auto simp: le_imp_less_Suc length_resp_array)

definition parseRESP :: "string \<Rightarrow> string list" where
  "parseRESP input =
     (let parts = resp_lines (split_str crlf input) in if parts = [] then str_fields input else parts)"

section \<open>Commands\<close>

definition wrong_number :: "string \<Rightarrow> action" where
  "wrong_number c = Send (''-ERR wrong number of arguments for '' @ quoted c @ '' command'' @ crlf)"

definition redis_info :: string where
  "redis_info = crlf_lines
     [''# Server'', ''redis_version:6.2.6'', ''redis_mode:standalone'', ''os:Linux 5.4.0 x86_64'',
      ''arch_bits:64'', ''multiplexing_api:epoll'', ''process_id:1234'', ''run_id:abc123def456'',
      ''tcp_port:6379'', ''uptime_in_seconds:86400'', ''uptime_in_days:1'', ''connected_clients:1'',
      ''used_memory:1048576'', ''used_memory_human:1.00M'']"

text \<open>One command with its arguments: what is done, and whether the connection goes on.\<close>

text \<open>The second half of the commands, and those it does not know.\<close>

definition redis_command_rest :: "unicode \<Rightarrow> string \<Rightarrow> string \<Rightarrow> string \<Rightarrow> string list \<Rightarrow> action list \<times> bool" where
  "redis_command_rest U ip t cmd args =
     (if cmd = ''HSET'' then
        (if 3 \<le> length args
         then ([log_at t (''REDIS HSET: key='' @ quoted (args ! 0) @ '', field='' @ quoted (args ! 1) @
                          '', value_length='' @ show_nat (length (args ! 2))),
                Attack ip (''REDIS_HSET: key='' @ args ! 0 @ '', field='' @ args ! 1 @
                           '', value_len='' @ show_nat (length (args ! 2))),
                Send ('':1'' @ crlf)], True)
         else ([wrong_number ''hset''], True))
      else if cmd = ''HGETALL'' then
        (if 0 < length args
         then ([log_at t (''REDIS HGETALL: key='' @ quoted (args ! 0)), Send (''*0'' @ crlf)], True)
         else ([wrong_number ''hgetall''], True))
      else if cmd = ''LPUSH'' \<or> cmd = ''RPUSH'' then
        (if 2 \<le> length args
         then ([log_at t (''REDIS '' @ cmd @ '': key='' @ quoted (args ! 0)),
                Attack ip (''REDIS_'' @ cmd @ '': key='' @ args ! 0), Send ('':1'' @ crlf)], True)
         else ([wrong_number (to_lower U cmd)], True))
      else if cmd = ''LRANGE'' then
        (if 3 \<le> length args
         then ([log_at t (''REDIS LRANGE: key='' @ quoted (args ! 0) @ '', start='' @ args ! 1 @ '', stop='' @ args ! 2),
                Send (''*0'' @ crlf)], True)
         else ([wrong_number ''lrange''], True))
      else if cmd = ''FLUSHALL'' \<or> cmd = ''FLUSHDB'' then
        ([log_at t (''REDIS '' @ cmd @ '': DANGEROUS COMMAND!''), Attack ip (''REDIS_'' @ cmd @ '': DANGEROUS''),
          Send (''+OK'' @ crlf)], True)
      else if cmd = ''EVAL'' \<or> cmd = ''EVALSHA'' then
        (if 0 < length args
         then ([log_at t (''REDIS '' @ cmd @ '': script execution attempt (length: '' @ show_nat (length (args ! 0)) @ '')''),
                Attack ip (''REDIS_'' @ cmd @ '': script_length='' @ show_nat (length (args ! 0))),
                Send (''-ERR script execution not allowed'' @ crlf)], True)
         else ([Send (''-ERR wrong number of arguments'' @ crlf)], True))
      else if cmd = ''SAVE'' \<or> cmd = ''BGSAVE'' then
        ([log_at t (''REDIS '' @ cmd @ '': backup command''), Send (''+OK'' @ crlf)], True)
      else if cmd = ''DBSIZE'' then ([Send ('':0'' @ crlf)], True)
      else if cmd = ''SELECT'' then
        (if 0 < length args
         then ([log_at t (''REDIS SELECT: database='' @ args ! 0), Send (''+OK'' @ crlf)], True)
         else ([wrong_number ''select''], True))
      else if cmd = ''QUIT'' \<or> cmd = ''EXIT'' then ([Send (''+OK'' @ crlf)], False)
      else ([Send (''-ERR unknown command '' @ quoted (to_lower U cmd) @ crlf)], True))"

definition redis_command :: "unicode \<Rightarrow> string \<Rightarrow> string \<Rightarrow> string \<Rightarrow> string list \<Rightarrow> action list \<times> bool" where
  "redis_command U ip t cmd args =
     (if cmd = ''PING'' then ([Send (''+PONG'' @ crlf)], True)
      else if cmd = ''INFO'' then
        ([Send (''$'' @ show_nat (length redis_info) @ crlf @ redis_info @ crlf)], True)
      else if cmd = ''GET'' then
        (if 0 < length args
         then ([log_at t (''REDIS GET: key='' @ quoted (args ! 0)), Send (''$-1'' @ crlf)], True)
         else ([wrong_number ''get''], True))
      else if cmd = ''SET'' then
        (if 2 \<le> length args
         then ([log_at t (''REDIS SET: key='' @ quoted (args ! 0) @ '', value_length='' @ show_nat (length (args ! 1))),
                Attack ip (''REDIS_SET: key='' @ args ! 0 @ '', value_len='' @ show_nat (length (args ! 1))),
                Send (''+OK'' @ crlf)], True)
         else ([wrong_number ''set''], True))
      else if cmd = ''KEYS'' then
        ([log_at t (''REDIS KEYS: pattern='' @ quoted (if 0 < length args then args ! 0 else ''*'')),
          Send (''*0'' @ crlf)], True)
      else if cmd = ''AUTH'' then
        (if 0 < length args
         then ([log_at t (''REDIS AUTH attempt (password length: '' @ show_nat (length (args ! 0)) @ '')''),
                Attack ip ''REDIS_AUTH: password=***'', Send (''-ERR invalid password'' @ crlf)], True)
         else ([wrong_number ''auth''], True))
      else if cmd = ''CONFIG'' then
        (if 0 < length args \<and> to_upper U (args ! 0) = ''GET''
         then (let configKey = (if 1 < length args then args ! 1 else ''*'')
               in ([log_at t (''REDIS CONFIG GET: '' @ configKey), Attack ip (''REDIS_CONFIG: '' @ configKey),
                    Send (crlf_lines [''*2'', ''$7'', ''requirepass'', ''$0'', []])], True))
         else ([Send (''-ERR unknown subcommand or wrong number of arguments'' @ crlf)], True))
      else if cmd = ''HGET'' then
        (if 2 \<le> length args
         then ([log_at t (''REDIS HGET: key='' @ quoted (args ! 0) @ '', field='' @ quoted (args ! 1)),
                Send (''$-1'' @ crlf)], True)
         else ([wrong_number ''hget''], True))
      else redis_command_rest U ip t cmd args)"

text \<open>One read.\<close>

definition redis_read :: "unicode \<Rightarrow> string \<Rightarrow> string \<Rightarrow> string \<Rightarrow> action list \<times> bool" where
  "redis_read U ip t chunk =
     (let command = strings_trim_space chunk;
          parts = parseRESP command
      in apfst ((@) [log_at t (''REDIS COMMAND: '' @ command), Attack ip (''REDIS: '' @ command)])
           (case parts of
              [] \<Rightarrow> ([Send (''-ERR unknown command'' @ crlf)], True)
            | p # args \<Rightarrow> redis_command U ip t (to_upper U p) args))"

definition handleRedis :: "unicode \<Rightarrow> string \<Rightarrow> string \<Rightarrow> string list \<Rightarrow> action list" where
  "handleRedis U remote t reads =
     (let ip = peer_ip remote
      in [log_at t (''Redis connection from '' @ ip), Attack ip ''REDIS_CONNECTION''] @
         read_loop (redis_read U ip t) reads)"

section \<open>What a client writes\<close>

text \<open>A command as a client of the protocol writes it: an array of strings with their lengths.\<close>

definition resp_string :: "string \<Rightarrow> string" where
  "resp_string a = ''$'' @ show_nat (length a) @ crlf @ a @ crlf"

definition resp_encode :: "string list \<Rightarrow> string" where
  "resp_encode args = ''*'' @ show_nat (length args) @ crlf @ concat (map resp_string args)"

section \<open>Reading it back\<close>

lemma crlf_eq: "crlf = [char_of (13 :: nat), char_of (10 :: nat)]" "crlf \<noteq> []"
  by (simp_all add: crlf_def)

lemma cr_lf_neq: "char_of (13 :: nat) \<noteq> (char_of (10 :: nat) :: char)"
  by code_simp

lemma str_index_crlf: "\<not> sublist crlf a \<Longrightarrow> str_index (a @ crlf @ s) crlf = Some (length a)"
proof (induction a)
  case Nil
  then show ?case by (simp add: crlf_def has_prefix_def)
next
  case (Cons x xs)
  have "\<not> has_prefix (x # xs @ crlf @ s) crlf"
  proof (cases xs)
    case Nil
    then show ?thesis using cr_lf_neq by (auto simp: has_prefix_def crlf_def)
  next
    case (Cons y ys)
    have "\<not> prefix crlf (x # y # ys)"
      using Cons.prems prefix_imp_sublist Cons by blast
    then show ?thesis
      using Cons by (auto simp: has_prefix_def crlf_def)
  qed
  moreover have "\<not> sublist crlf xs"
    using Cons.prems by (auto simp: sublist_Cons_right)
  ultimately show ?case using Cons.IH by simp
qed

lemma split_str_crlf: "\<not> sublist crlf a \<Longrightarrow> split_str crlf (a @ crlf @ s) = a # split_str crlf s"
  by (subst split_str.simps) (simp add: str_index_crlf crlf_eq(2))

lemma split_str_last: "\<not> sublist crlf a \<Longrightarrow> split_str crlf a = [a]"
  by (subst split_str.simps) (simp add: str_index_None [THEN iffD2] crlf_eq(2))

lemma no_crlf: "char_of (13 :: nat) \<notin> set a \<Longrightarrow> \<not> sublist crlf a"
  by (auto simp: crlf_def dest: set_mono_sublist)

lemma digits_chars: "set (show_nat n) \<subseteq> {c. is_digit c}"
  using is_digit_show_nat [of n] by (auto simp: list_all_iff)

lemma no_crlf_number: "c \<noteq> char_of (13 :: nat) \<Longrightarrow> \<not> sublist crlf (c # show_nat n)"
  using digits_chars [of n] by (intro no_crlf) (auto simp: is_digit_def)

lemma resp_chars: "CHR ''$'' \<noteq> char_of (13 :: nat)" "CHR ''*'' \<noteq> char_of (13 :: nat)"
  by code_simp+

lemma digit_not_space: "is_digit c \<Longrightarrow> leading space_strings (c # cs) = None"
proof (rule leading_other_head)
  have "list_all (\<lambda>p. p = [] \<or> \<not> is_digit (hd p)) space_strings" by code_simp
  then show "is_digit c \<Longrightarrow> list_all (\<lambda>p. p = [] \<or> hd p \<noteq> c) space_strings"
    by (auto simp: list_all_iff)
qed

lemma star_not_space: "leading space_strings (CHR ''*'' # cs) = None"
  by (rule leading_other_head) code_simp

lemma scan_d_show_nat:
  assumes "n < 2 ^ 63"
  shows "scan_d (show_nat n) = Some (int n)"
proof -
  obtain c cs where c: "show_nat n = c # cs" "is_digit c"
    using is_digit_show_nat [of n] by (cases "show_nat n") auto
  then have "trim_left space_strings (show_nat n) = show_nat n"
    using digit_not_space by simp
  moreover have "takeWhile is_digit (show_nat n) = show_nat n"
    using is_digit_show_nat [of n] by (simp add: list_all_iff)
  moreover have "c \<noteq> CHR ''-''" "c \<noteq> CHR ''+''"
    using c(2) by (auto simp: is_digit_def)
  moreover have "int n < 2 ^ 63"
    using assms by (metis of_nat_less_iff of_nat_numeral of_nat_power)
  ultimately show ?thesis
    using c(1) digits_value_show_nat [of n] by (simp add: scan_d_def Let_def)
qed

definition resp_line_pair :: "string \<Rightarrow> string list" where
  "resp_line_pair a = [''$'' @ show_nat (length a), a]"

lemma split_str_resp_string:
  assumes "\<not> sublist crlf a"
  shows "split_str crlf (resp_string a @ s) = resp_line_pair a @ split_str crlf s"
proof -
  have "split_str crlf ((''$'' @ show_nat (length a)) @ crlf @ a @ crlf @ s) = resp_line_pair a @ split_str crlf s"
    using assms no_crlf_number [OF resp_chars(1), of "length a"]
    unfolding resp_line_pair_def by (subst split_str_crlf) (simp_all add: split_str_crlf)
  then show ?thesis by (simp add: resp_string_def)
qed

lemma split_str_resp:
  "\<forall>a \<in> set as. \<not> sublist crlf a \<Longrightarrow>
   split_str crlf (concat (map resp_string as) @ s) = concat (map resp_line_pair as) @ split_str crlf s"
  by (induction as) (simp_all add: split_str_resp_string)

lemma resp_array_pairs: "resp_array (int (length as)) (concat (map resp_line_pair as)) = (as, [])"
  by (induction as) (simp_all add: resp_line_pair_def)

lemma space_last: "p \<in> set (map rev space_strings) \<Longrightarrow> char_of (10 :: nat) \<in> set p \<Longrightarrow> length p = 1"
proof -
  have "\<forall>p \<in> set (map rev space_strings). char_of (10 :: nat) \<in> set p \<longrightarrow> length p = 1" by code_simp
  then show "p \<in> set (map rev space_strings) \<Longrightarrow> char_of (10 :: nat) \<in> set p \<Longrightarrow> length p = 1" by blast
qed

text \<open>White space at the end of a line does not reach over the line break before it.\<close>

lemma leading_rev_line:
  assumes "a \<noteq> []" "leading (map rev space_strings) (rev a) = None"
  shows "leading (map rev space_strings) (rev a @ char_of (10 :: nat) # z) = None"
proof (rule ccontr)
  assume "leading (map rev space_strings) (rev a @ char_of (10 :: nat) # z) \<noteq> None"
  then obtain p where p: "p \<noteq> []" "take (length p) (rev a @ char_of (10 :: nat) # z) = p"
    "p \<in> set (map rev space_strings)"
    by (auto dest: leading_SomeD)
  show False
  proof (cases "length p \<le> length a")
    case True
    then have "take (length p) (rev a) = p" using p(2) by simp
    then show False
      using p assms(2) unfolding leading_def find_None_iff by blast
  next
    case False
    then have "p = rev a @ char_of (10 :: nat) # take (length p - Suc (length a)) z"
      using p(2) by (simp add: take_Cons' split: if_splits)
    then have "char_of (10 :: nat) \<in> set p" "1 < length p"
      using assms(1) by (metis in_set_conv_decomp) (metis False assms(1) length_greater_0_conv less_one linorder_neqE_nat not_le order.strict_trans1)
    then show False using space_last [OF p(3)] by simp
  qed
qed

lemma leading_line_break:
  "leading (map rev space_strings) (char_of (10 :: nat) # z) = Some [char_of (10 :: nat)]"
  "leading (map rev space_strings) (char_of (13 :: nat) # z) = Some [char_of (13 :: nat)]"
proof -
  have "take 5 (map rev space_strings) = map (\<lambda>n :: nat. [char_of n]) [9, 10, 11, 12, 13]" by code_simp
  then obtain rest where sps: "map rev space_strings = map (\<lambda>n :: nat. [char_of n]) [9, 10, 11, 12, 13] @ rest"
    by (metis append_take_drop_id)
  have "distinct (map (char_of :: nat \<Rightarrow> char) [9, 10, 11, 12, 13])" by code_simp
  then show "leading (map rev space_strings) (char_of (10 :: nat) # z) = Some [char_of (10 :: nat)]"
    "leading (map rev space_strings) (char_of (13 :: nat) # z) = Some [char_of (13 :: nat)]"
    unfolding leading_def sps by simp_all
qed

lemma trim_right_crlf:
  assumes "leading (map rev space_strings) (rev y) = None"
  shows "trim_right space_strings (y @ crlf) = y"
  unfolding trim_right_def crlf_def
  by (simp add: trim_left.simps [of _ "_ # _"] leading_line_break assms)

text \<open>C29. The parser gives back the arguments of a command a client has written, if none of them has a
  line break in it and the last one is not empty and does not end in white space. The lengths the
  protocol has for these cases are not used.\<close>

theorem parseRESP_encode:
  assumes args: "args \<noteq> []" "\<forall>a \<in> set args. \<not> sublist crlf a" "length args < 2 ^ 63"
    and last: "last args \<noteq> []" "leading (map rev space_strings) (rev (last args)) = None"
  shows "parseRESP (strings_trim_space (resp_encode args)) = args"
proof -
  obtain as z where as: "args = as @ [z]"
    using args(1) by (cases args rule: rev_cases) auto
  let ?head = "CHR ''*'' # show_nat (length args)" and ?len = "CHR ''$'' # show_nat (length z)"
  define y where "y = ?head @ crlf @ concat (map resp_string as) @ ?len @ crlf @ z"
  have enc: "resp_encode args = y @ crlf"
    by (simp add: resp_encode_def y_def as resp_string_def [of z])
  have "trim_left space_strings (y @ crlf) = y @ crlf"
    by (simp add: y_def star_not_space)
  moreover have "leading (map rev space_strings) (rev y) = None"
    using leading_rev_line [of z] last by (simp add: y_def crlf_def as)
  ultimately have trim: "strings_trim_space (resp_encode args) = y"
    unfolding strings_trim_space_def trim_space_with_def enc by (simp add: trim_right_crlf)
  have "split_str crlf y = ?head # split_str crlf (concat (map resp_string as) @ ?len @ crlf @ z)"
    using split_str_crlf [OF no_crlf_number [OF resp_chars(2)]] by (simp add: y_def)
  also have "\<dots> = ?head # concat (map resp_line_pair as) @ split_str crlf (?len @ crlf @ z)"
    using args(2) by (simp add: as split_str_resp)
  also have "split_str crlf (?len @ crlf @ z) = ?len # split_str crlf z"
    using split_str_crlf [OF no_crlf_number [OF resp_chars(1)]] by simp
  also have "split_str crlf z = [z]"
    using args(2) by (simp add: as split_str_last)
  finally have "split_str crlf y = ?head # concat (map resp_line_pair args)"
    by (simp add: as resp_line_pair_def [of z])
  then show ?thesis
    using args(1,3) trim by (simp add: parseRESP_def scan_d_show_nat resp_array_pairs)
qed

theorem parseRESP_encode_witness:
  "parseRESP (strings_trim_space (resp_encode [''SET'', ''key'', ''a value''])) = [''SET'', ''key'', ''a value'']"
proof (rule parseRESP_encode)
  have "\<forall>a \<in> set [''SET'', ''key'', ''a value'']. char_of (13 :: nat) \<notin> set a" by code_simp
  then show "\<forall>a \<in> set [''SET'', ''key'', ''a value'']. \<not> sublist crlf a" using no_crlf by blast
  show "leading (map rev space_strings) (rev (last [''SET'', ''key'', ''a value''])) = None" by code_simp
qed simp_all

end
