(* ===== verification/Mirage.thy ===== *)
theory Mirage
  imports GoText Redis
begin

text \<open>
  \<^verbatim>\<open>internal/mirage\<close>: the banners of the fake services and how one is chosen. The random source
  gives a number below its bound, or fails.
\<close>

definition SSHBanners :: "string list" where
  "SSHBanners =
    [''SSH-2.0-OpenSSH_8.2p1 Ubuntu-4ubuntu0.5'' @ crlf,
     ''SSH-2.0-OpenSSH_7.4 Debian-10+deb9u7'' @ crlf,
     ''SSH-2.0-OpenSSH_8.0 FreeBSD-20200214'' @ crlf,
     ''SSH-2.0-OpenSSH_7.9 CentOS-7.9'' @ crlf,
     ''SSH-2.0-OpenSSH_8.1 RedHat-8.1'' @ crlf,
     ''SSH-2.0-OpenSSH_6.7p1 Debian-5+deb8u4'' @ crlf,
     ''SSH-2.0-OpenSSH_7.6p1 Ubuntu-4ubuntu0.3'' @ crlf,
     ''SSH-2.0-OpenSSH_8.4p1 Arch Linux'' @ crlf]"

definition HTTPBanners :: "string list" where
  "HTTPBanners =
    [crlf_lines
      [''HTTP/1.1 200 OK'',
       ''Server: nginx/1.18.0 (Ubuntu)'',
       []],
     crlf_lines
      [''HTTP/1.1 200 OK'',
       ''Server: Apache/2.4.41 (Debian)'',
       []],
     crlf_lines
      [''HTTP/1.1 200 OK'',
       ''Server: Microsoft-IIS/10.0'',
       []],
     crlf_lines
      [''HTTP/1.1 200 OK'',
       ''Server: nginx/1.20.1'',
       []]]"

definition MySQLBanners :: "string list" where
  "MySQLBanners =
    [[CHR 0x0A] @ ''5.7.35-0ubuntu0.18.04.1'' @ replicate 24 (CHR 0x00),
     [CHR 0x0A] @ ''8.0.27-0ubuntu0.20.04.1'' @ replicate 24 (CHR 0x00),
     [CHR 0x0A] @ ''10.3.34-MariaDB-1:10.3.34+maria~focal'' @ replicate 24 (CHR 0x00)]"

definition RedisBanners :: "string list" where
  "RedisBanners =
    [crlf_lines
      [''$6'',
       ''Redis''],
     crlf_lines
      [''$7'',
       ''Redis 6.2.6''],
     crlf_lines
      [''$7'',
       ''Redis 5.0.7'']]"

definition FTPBanners :: "string list" where
  "FTPBanners =
    [''220 ProFTPD 1.3.6 Server (ProFTPD Default Installation) [::ffff:192.168.1.1]'' @ crlf,
     ''220 (vsFTPd 3.0.3)'' @ crlf,
     ''220 Microsoft FTP Service'' @ crlf]"

definition TelnetBanners :: "string list" where
  "TelnetBanners =
    [crlf_lines
      [''Welcome to Ubuntu 20.04.3 LTS (GNU/Linux 5.4.0-74-generic x86_64)'',
       [],
       ''* Documentation:  https://help.ubuntu.com'',
       ''* Management:     https://landscape.canonical.com'',
       ''* Support:        https://ubuntu.com/advantage'',
       []] @ ''  System information as of '',
     crlf_lines
      [''Red Hat Enterprise Linux Server release 7.9 (Maipo)'',
       ''Kernel 3.10.0-1160.el7.x86_64 on an x86_64'',
       []] @ ''login: '',
     crlf_lines
      [''CentOS Linux 7 (Core)'',
       ''Kernel 3.10.0-1160.el7.x86_64 on an x86_64'',
       []] @ ''localhost login: '',
     crlf_lines
      [''Debian GNU/Linux 10'',
       []] @ ''localhost login: '']"

definition ServiceTypes :: "string list" where
  "ServiceTypes = [''ssh'', ''http'', ''mysql'', ''redis'', ''ftp'', ''telnet'']"

type_synonym random_source = "nat \<Rightarrow> nat option"

definition random_below :: "random_source \<Rightarrow> bool" where
  "random_below rnd \<longleftrightarrow> (\<forall>bound n. rnd bound = Some n \<longrightarrow> n < bound)"

definition secureRandomInt :: "random_source \<Rightarrow> nat \<Rightarrow> nat" where
  "secureRandomInt rnd bound = (if bound = 0 then 0 else case rnd bound of None \<Rightarrow> 0 | Some n \<Rightarrow> n)"

text \<open>Indexing panics out of range.\<close>

definition pick :: "random_source \<Rightarrow> 'a list \<Rightarrow> 'a option" where
  "pick rnd xs = (let i = secureRandomInt rnd (length xs) in if i < length xs then Some (xs ! i) else None)"

definition banners :: "string \<Rightarrow> string list" where
  "banners serviceType =
     (if serviceType = ''ssh'' then SSHBanners
      else if serviceType = ''http'' then HTTPBanners
      else if serviceType = ''mysql'' then MySQLBanners
      else if serviceType = ''redis'' then RedisBanners
      else if serviceType = ''ftp'' then FTPBanners
      else if serviceType = ''telnet'' then TelnetBanners
      else SSHBanners)"

definition GetRandomBanner :: "random_source \<Rightarrow> string \<Rightarrow> string option" where
  "GetRandomBanner rnd serviceType = pick rnd (banners serviceType)"

definition SelectRandomService :: "random_source \<Rightarrow> string option" where
  "SelectRandomService rnd = pick rnd ServiceTypes"

definition SelectServiceByPort :: "random_source \<Rightarrow> i64 \<Rightarrow> string option" where
  "SelectServiceByPort rnd port =
     (if port \<in> {80, 443, 8080, 8443, 8000, 8888} then Some ''http''
      else if port \<in> {3306, 5432, 1433, 1521} then Some ''mysql''
      else if port \<in> {6379, 11211} then Some ''redis''
      else if port \<in> {27017, 27018} then Some ''mysql''
      else if port = 21 then Some ''ftp''
      else if port = 23 then Some ''telnet''
      else if port \<in> {3389, 5900} then Some ''ssh''
      else if port \<in> {9200, 5601} then Some ''http''
      else if port \<in> {3000, 5000} then Some ''http''
      else SelectRandomService rnd)"

section \<open>Choices\<close>

lemma pick_in:
  assumes "random_below rnd" "xs \<noteq> []"
  obtains x where "pick rnd xs = Some x" "x \<in> set xs"
proof -
  have "secureRandomInt rnd (length xs) < length xs"
    using assms by (auto simp: secureRandomInt_def random_below_def split: option.split)
  then show ?thesis using that by (auto simp: pick_def Let_def)
qed

lemma banners_ne: "banners s \<noteq> []"
  by (simp add: banners_def SSHBanners_def HTTPBanners_def MySQLBanners_def RedisBanners_def FTPBanners_def
      TelnetBanners_def)

lemma GetRandomBanner_returns:
  assumes "random_below rnd"
  obtains b where "GetRandomBanner rnd s = Some b" "b \<in> set (banners s)"
  using pick_in [OF assms banners_ne] unfolding GetRandomBanner_def .

lemma SelectServiceByPort_returns:
  assumes "random_below rnd"
  obtains s where "SelectServiceByPort rnd port = Some s" "s \<in> set ServiceTypes"
proof (cases "SelectServiceByPort rnd port = SelectRandomService rnd")
  case True
  then show ?thesis
    using pick_in [OF assms, of ServiceTypes] that by (auto simp: SelectRandomService_def ServiceTypes_def)
next
  case False
  then show ?thesis
    using that by (auto simp: SelectServiceByPort_def ServiceTypes_def split: if_splits)
qed

text \<open>A string that says its own length the way the protocol of Redis does.\<close>

definition well_formed_bulk :: "string \<Rightarrow> bool" where
  "well_formed_bulk b \<longleftrightarrow> (case split_str crlf b of
     [len, body, end] \<Rightarrow> len = ''$'' @ show_nat (length body) \<and> end = [] | _ \<Rightarrow> False)"

lemma split_str_resp_line:
  assumes "\<not> sublist crlf a" "\<not> sublist crlf b"
  shows "split_str crlf (a @ crlf @ b @ crlf) = [a, b, []]"
  using split_str_crlf [OF assms(1)] split_str_crlf [OF assms(2), of "[]"] split_str_last [of "[]"]
  by (simp add: crlf_def)

lemma resp_string_well_formed: "\<not> sublist crlf a \<Longrightarrow> well_formed_bulk (resp_string a)"
  using split_str_resp_line [OF no_crlf_number [OF resp_chars(1)]]
  by (simp add: well_formed_bulk_def resp_string_def)

text \<open>None of the banners of the fake Redis server is a string of its protocol: each announces a
  length that its text does not have, so a client that reads it sees that the server is not one.\<close>

theorem redis_banners_malformed: "list_all (\<lambda>b. \<not> well_formed_bulk b) RedisBanners"
proof -
  have mal: "\<not> well_formed_bulk (a @ crlf @ b @ crlf)"
    if "a \<noteq> ''$'' @ show_nat (length b)" "list_all (\<lambda>c. c \<noteq> char_of (13 :: nat)) a" "list_all (\<lambda>c. c \<noteq> char_of (13 :: nat)) b" for a b
  proof -
    have "split_str crlf (a @ crlf @ b @ crlf) = [a, b, []]"
      by (rule split_str_resp_line; rule no_crlf; use that in \<open>auto simp: list_all_iff\<close>)
    then show ?thesis using that(1) by (simp add: well_formed_bulk_def)
  qed
  have "\<not> well_formed_bulk (''$6'' @ crlf @ ''Redis'' @ crlf)"
    "\<not> well_formed_bulk (''$7'' @ crlf @ ''Redis 6.2.6'' @ crlf)"
    "\<not> well_formed_bulk (''$7'' @ crlf @ ''Redis 5.0.7'' @ crlf)"
    by (rule mal; code_simp)+
  then show ?thesis by (simp add: RedisBanners_def crlf_lines_def)
qed

end
