(* ===== verification/Honeypot.thy ===== *)
theory Honeypot
  imports FakeShell FakeHTTP FakeMySQL FakeLogin Mirage Config
begin

text \<open>
  \<^verbatim>\<open>internal/honeypot/honeypot.go\<close> and \<^verbatim>\<open>handler.go\<close>: the listeners of the honeypot, what it does with
  a connection, and its shutdown as a step relation over the accept loops and \<^verbatim>\<open>Close\<close>. Whether a
  port can be listened on, and what each accept gives, are inputs.
\<close>

section \<open>Start\<close>

text \<open>\<open>hLoops\<close> is what the wait group counts: the ports whose accept loop has not returned.\<close>

record honeypot =
  hListeners :: "i64 list"
  hLoops :: "i64 list"

definition New :: honeypot where
  "New = \<lparr>hListeners = [], hLoops = []\<rparr>"

definition add_listener :: "i64 \<Rightarrow> honeypot \<Rightarrow> honeypot" where
  "add_listener port h = h\<lparr>hListeners := hListeners h @ [port], hLoops := hLoops h @ [port]\<rparr>"

text \<open>Listening on a port gives no error, or one with its text.\<close>

type_synonym listen = "i64 \<Rightarrow> string option"

fun bind_ports :: "listen \<Rightarrow> i64 list \<Rightarrow> honeypot \<times> i64 list \<times> string list \<Rightarrow> honeypot \<times> i64 list \<times> string list" where
  "bind_ports listen [] (h, bound, logs) = (h, bound, logs)"
| "bind_ports listen (port # ports) (h, bound, logs) =
     (case listen port of
        Some err \<Rightarrow> bind_ports listen ports (h, bound, logs @
          [''[WARN] Cannot bind port '' @ show_i64 port @ '': '' @ err @ '' (XDP will redirect to 9999)''])
      | None \<Rightarrow> bind_ports listen ports (add_listener port h, bound @ [port],
          logs @ [''[SYSTEM] Honeypot listening on port '' @ show_i64 port]))"

definition bindFallback :: "listen \<Rightarrow> honeypot \<Rightarrow> honeypot \<times> string list \<times> string option" where
  "bindFallback listen h =
     (let port = show_i64 HoneypotPort;
          attempt = ''[SYSTEM] Attempting to bind honeypot fallback port '' @ port @ ''...''
      in case listen HoneypotPort of
           Some err \<Rightarrow>
             (h, [attempt,
                  ''[ERROR] Cannot bind port '' @ port @ '': '' @ err,
                  ''[ERROR] Port '' @ port @ '' is REQUIRED for XDP redirect fallback!'',
                  ''[ERROR] The eBPF program (internal/ebpf/programs/phantom.c) hardcodes redirect to port '' @ port,
                  ''[ERROR] To free port '' @ port @ '', run: sudo lsof -i :'' @ port @ '' && sudo kill -9 <PID>'',
                  ''[ERROR] Or change HONEYPOT_PORT in internal/ebpf/programs/phantom.c and rebuild'',
                  ''[ERROR] FAILING FAST: Cannot use alternative ports due to eBPF hardcoded redirect''],
              Some (''failed to bind honeypot fallback port '' @ port @ '' (required for XDP redirect): '' @ err))
         | None \<Rightarrow>
             (add_listener HoneypotPort h,
              [attempt, ''[SYSTEM] Honeypot listening on port '' @ port @ '' (fallback for redirected ports)''], None))"

definition Start :: "listen \<Rightarrow> honeypot \<Rightarrow> honeypot \<times> string list \<times> string option" where
  "Start listen h =
     (case bind_ports listen FakePorts (h, [], []) of
        (h1, bound, logs) \<Rightarrow>
          (case bindFallback listen h1 of
             (h2, more_logs, Some err) \<Rightarrow> (h2, logs @ more_logs, Some err)
           | (h2, more_logs, None) \<Rightarrow>
               (h2, logs @ more_logs @
                  [''[SYSTEM] Honeypot bound to '' @ show_nat (length (hListeners h2)) @ '' ports ('' @
                     show_nat (length bound) @ '' direct, 1 fallback) - The Mirage active'',
                   ''[SYSTEM] Honeypot is now ACCEPTING connections on port 9999'',
                   ''[SYSTEM] Ready to receive traffic from external hosts''], None)))"

section \<open>A connection\<close>

definition extractIP :: "string \<Rightarrow> string" where
  "extractIP remote =
     (if has_prefix remote ''['' then
        (case str_index remote '']'' of
           Some endBracket \<Rightarrow> if 0 < endBracket then subslice 1 endBracket remote else hd (split_on (CHR '':'') remote)
         | None \<Rightarrow> hd (split_on (CHR '':'') remote))
      else hd (split_on (CHR '':'') remote))"

text \<open>What the standard library does with letters, and the times the services show.\<close>

record surroundings =
  suUnicode :: unicode
  suTime :: string
  suClock :: string
  suNow :: string

definition Handle :: "surroundings \<Rightarrow> string \<Rightarrow> string \<Rightarrow> string list \<Rightarrow> action list" where
  "Handle E remote serviceType reads =
     (let U = suUnicode E; t = suTime E
      in if serviceType = ''http'' then
           handleHTTP U remote t (suClock E) (case reads of [] \<Rightarrow> None | chunk # _ \<Rightarrow> Some chunk)
         else if serviceType = ''telnet'' then handleTelnet remote t reads
         else if serviceType = ''mysql'' then handleMySQL U remote t reads
         else if serviceType = ''redis'' then handleRedis U remote t reads
         else if serviceType = ''ftp'' then handleFTP U remote t reads
         else snd (handleSSH U remote t (suNow E) reads))"

text \<open>\<open>None\<close>: an index out of range, which panics.\<close>

definition handleConnection ::
    "surroundings \<Rightarrow> random_source \<Rightarrow> string option \<Rightarrow> i64 \<Rightarrow> string option \<Rightarrow> string list \<Rightarrow> action list option" where
  "handleConnection E rnd write_error originalPort remoteAddr reads =
     (case remoteAddr of
        None \<Rightarrow> Some []
      | Some remote \<Rightarrow>
          (let ip = extractIP remote; t = suTime E
           in case (if originalPort = HoneypotPort then SelectRandomService rnd
                    else SelectServiceByPort rnd originalPort) of
                None \<Rightarrow> None
              | Some serviceType \<Rightarrow>
                  (case GetRandomBanner rnd serviceType of
                     None \<Rightarrow> None
                   | Some banner \<Rightarrow>
                       (let seen =
                          [log_at t (''TRAP HIT! IP: '' @ ip @ '' | Port: '' @ show_i64 originalPort @
                             '' | Service: '' @ to_upper (suUnicode E) serviceType),
                           Attack ip (''TRAP_HIT_PORT_'' @ show_i64 originalPort)]
                        in case write_error of
                             Some err \<Rightarrow> Some (seen @ [log_at t (''Error sending banner to '' @ ip @ '': '' @ err)])
                           | None \<Rightarrow> Some (seen @ [Send banner] @ Handle E remote serviceType reads)))))"

section \<open>Accept loops and shutdown\<close>

datatype accept_result = AcceptError string | Accepted "string option"

datatype loop_next = Continue | Return

text \<open>One turn of \<^verbatim>\<open>acceptLoop\<close>: what it logs, the connection it starts to handle, and how it goes on.\<close>

definition accept_once :: "i64 \<Rightarrow> accept_result \<Rightarrow> string list \<times> (i64 \<times> string option) list \<times> loop_next" where
  "accept_once port r =
     (case r of
        AcceptError err \<Rightarrow>
          ([''[ERROR] Honeypot accept error on port '' @ show_i64 port @ '': '' @ err], [], Continue)
      | Accepted remoteAddr \<Rightarrow>
          (case remoteAddr of
             None \<Rightarrow> []
           | Some remote \<Rightarrow>
               [''[DEBUG] Honeypot accepted connection on port '' @ show_i64 port @ '' from '' @ remote],
           [(port, remoteAddr)], Continue))"

datatype close_phase = NotClosing | Closing "i64 list" | Returned "string option"

record running =
  rHoneypot :: honeypot
  rClosed :: "i64 list"
  rPhase :: close_phase
  rLog :: "string list"
  rConnections :: "(i64 \<times> string option) list"

definition run_honeypot :: "honeypot \<Rightarrow> running" where
  "run_honeypot h = \<lparr>rHoneypot = h, rClosed = [], rPhase = NotClosing, rLog = [], rConnections = []\<rparr>"

definition turn :: "i64 \<Rightarrow> accept_result \<Rightarrow> running \<Rightarrow> running" where
  "turn port r s =
     (case accept_once port r of
        (logs, conns, go_on) \<Rightarrow>
          s\<lparr>rLog := rLog s @ logs, rConnections := rConnections s @ conns,
            rHoneypot := (case go_on of
               Continue \<Rightarrow> rHoneypot s
             | Return \<Rightarrow> (rHoneypot s)\<lparr>hLoops := remove1 port (hLoops (rHoneypot s))\<rparr>)\<rparr>)"

text \<open>A listener that is closed gives errors. \<^verbatim>\<open>Close\<close> closes them in turn, gives up at the first
  that fails, and waits for the loops in the end.\<close>

inductive honeypot_step :: "(i64 \<Rightarrow> string option) \<Rightarrow> running \<Rightarrow> running \<Rightarrow> bool" for close_error where
  accept: "port \<in> set (hLoops (rHoneypot s)) \<Longrightarrow> port \<notin> set (rClosed s) \<or> (\<exists>e. r = AcceptError e)
    \<Longrightarrow> honeypot_step close_error s (turn port r s)"
| close: "rPhase s = NotClosing
    \<Longrightarrow> honeypot_step close_error s (s\<lparr>rPhase := Closing (hListeners (rHoneypot s))\<rparr>)"
| close_listener: "rPhase s = Closing (p # ps) \<Longrightarrow> close_error p = None
    \<Longrightarrow> honeypot_step close_error s (s\<lparr>rPhase := Closing ps, rClosed := p # rClosed s\<rparr>)"
| close_fails: "rPhase s = Closing (p # ps) \<Longrightarrow> close_error p = Some e
    \<Longrightarrow> honeypot_step close_error s (s\<lparr>rPhase := Returned (Some e)\<rparr>)"
| waited: "rPhase s = Closing [] \<Longrightarrow> hLoops (rHoneypot s) = []
    \<Longrightarrow> honeypot_step close_error s (s\<lparr>rPhase := Returned None\<rparr>)"

inductive_cases honeypot_stepE: "honeypot_step close_error s s'"

section \<open>Which ports are bound\<close>

lemma bind_ports_binds:
  "bind_ports listen ports (h, bound, logs) = (h', bound', logs')
    \<Longrightarrow> hListeners h' = hListeners h @ filter (\<lambda>p. listen p = None) ports
      \<and> hLoops h' = hLoops h @ filter (\<lambda>p. listen p = None) ports"
proof (induction ports arbitrary: h bound logs)
  case (Cons p ports)
  show ?case
  proof (cases "listen p")
    case None
    then show ?thesis using Cons.prems Cons.IH [of "add_listener p h"] by (simp add: add_listener_def)
  next
    case (Some e)
    then show ?thesis using Cons.prems Cons.IH [of h] by simp
  qed
qed simp

definition bound_ports :: "listen \<Rightarrow> i64 list" where
  "bound_ports listen = filter (\<lambda>p. listen p = None) FakePorts"

lemma bind_fake_ports:
  obtains bound logs where
    "bind_ports listen FakePorts (New, [], []) = (\<lparr>hListeners = bound_ports listen, hLoops = bound_ports listen\<rparr>, bound, logs)"
proof -
  obtain h bound logs where b: "bind_ports listen FakePorts (New, [], []) = (h, bound, logs)"
    by (metis prod_cases3)
  then have "h = \<lparr>hListeners = bound_ports listen, hLoops = bound_ports listen\<rparr>"
    using bind_ports_binds [OF b] by (cases h) (simp add: New_def bound_ports_def)
  with b that show ?thesis by simp
qed

lemma Start_binds:
  assumes "listen HoneypotPort = None"
  obtains logs where
    "Start listen New =
       (\<lparr>hListeners = bound_ports listen @ [HoneypotPort], hLoops = bound_ports listen @ [HoneypotPort]\<rparr>, logs, None)"
  using assms by (rule_tac bind_fake_ports [of listen]) (simp add: Start_def bindFallback_def Let_def add_listener_def)

lemma Start_fails:
  assumes "listen HoneypotPort = Some e"
  obtains logs err where
    "Start listen New = (\<lparr>hListeners = bound_ports listen, hLoops = bound_ports listen\<rparr>, logs, Some err)"
  using assms by (rule_tac bind_fake_ports [of listen]) (simp add: Start_def bindFallback_def Let_def)

lemma Start_ok:
  assumes "Start listen New = (h, logs, None)"
  shows "listen HoneypotPort = None" "hListeners h = bound_ports listen @ [HoneypotPort]" "hLoops h = hListeners h"
proof -
  show free: "listen HoneypotPort = None"
  proof (rule ccontr)
    assume "listen HoneypotPort \<noteq> None"
    then obtain e where "listen HoneypotPort = Some e" by blast
    then obtain logs' err where "Start listen New =
        (\<lparr>hListeners = bound_ports listen, hLoops = bound_ports listen\<rparr>, logs', Some err)"
      by (rule Start_fails)
    with assms show False by simp
  qed
  obtain logs' where "Start listen New =
      (\<lparr>hListeners = bound_ports listen @ [HoneypotPort], hLoops = bound_ports listen @ [HoneypotPort]\<rparr>, logs', None)"
    using free by (rule Start_binds)
  with assms show "hListeners h = bound_ports listen @ [HoneypotPort]" "hLoops h = hListeners h" by auto
qed

lemma bind_ports_warns:
  assumes "listen p = Some err" "p \<in> set ports"
  shows "(''[WARN] Cannot bind port '' @ show_i64 p @ '': '' @ err @ '' (XDP will redirect to 9999)'')
    \<in> set (snd (snd (bind_ports listen ports (h, bound, logs))))"
proof -
  have keep: "set logs \<subseteq> set (snd (snd (bind_ports listen ports (h, bound, logs))))" for ports h bound logs
  proof (induction ports arbitrary: h bound logs)
    case (Cons q qs)
    show ?case
    proof (cases "listen q")
      case None
      show ?thesis by (simp add: None, rule subset_trans [OF _ Cons.IH]) auto
    next
      case (Some e)
      show ?thesis by (simp add: Some, rule subset_trans [OF _ Cons.IH]) auto
    qed
  qed simp
  show ?thesis
    using assms(2)
  proof (induction ports arbitrary: h bound logs)
    case (Cons q qs)
    show ?case
    proof (cases "q = p")
      case True
      show ?thesis
        using keep [of "logs @ [''[WARN] Cannot bind port '' @ show_i64 p @ '': '' @ err @ '' (XDP will redirect to 9999)'']" qs h bound]
        by (auto simp: True assms(1))
    next
      case False
      then show ?thesis using Cons by (simp split: option.split)
    qed
  qed simp
qed

section \<open>Shutdown\<close>

lemma accept_once_continues: "snd (snd (accept_once port r)) = Continue"
  by (simp add: accept_once_def split: accept_result.split)

lemma turn_keeps [simp]: "rHoneypot (turn port r s) = rHoneypot s" "rPhase (turn port r s) = rPhase s"
  "rClosed (turn port r s) = rClosed s"
  using accept_once_continues [of port r] by (auto simp: turn_def split: prod.split)

lemma honeypot_step_keeps:
  assumes "honeypot_step ce s s'"
  shows "rHoneypot s' = rHoneypot s"
    and "rPhase s' = Returned None \<Longrightarrow> rPhase s = Returned None \<or> hLoops (rHoneypot s) = []"
  using assms by (cases rule: honeypot_stepE; simp)+

lemma honeypot_step_error:
  "honeypot_step ce s s' \<Longrightarrow> rPhase s' = Returned (Some e) \<longrightarrow> rPhase s = Returned (Some e) \<or> (\<exists>p. ce p = Some e)"
  by (induction rule: honeypot_step.induct) (simp_all, blast)

lemma honeypot_steps_keep:
  assumes "(honeypot_step ce)\<^sup>*\<^sup>* s s'"
  shows "rHoneypot s' = rHoneypot s \<and> (rPhase s' = Returned None \<longrightarrow> rPhase s = Returned None \<or> hLoops (rHoneypot s) = [])"
  using assms
proof (induction rule: rtranclp_induct)
  case (step t u)
  then show ?case using honeypot_step_keeps [OF step.hyps(2)] by auto
qed simp

text \<open>A honeypot that has started cannot be shut down: an accept loop goes on after every error, those
  of its closed listener included, so the wait group never empties and \<^verbatim>\<open>Close\<close> does not return
  unless closing a listener fails; while it waits, each loop can add another line to the log.\<close>

theorem Close_waits_forever:
  assumes start: "Start listen New = (h, logs, None)"
    and run: "(honeypot_step close_error)\<^sup>*\<^sup>* (run_honeypot h) s"
  shows "rPhase s \<noteq> Returned None \<and>
    (\<exists>s'. honeypot_step close_error s s' \<and> rPhase s' = rPhase s \<and> length (rLog s') = Suc (length (rLog s)))"
proof -
  have loops: "rHoneypot s = h" "HoneypotPort \<in> set (hLoops h)" "hLoops h \<noteq> []"
    using honeypot_steps_keep [OF run] Start_ok [OF start] by (simp_all add: run_honeypot_def)
  have "rPhase s \<noteq> Returned None"
    using honeypot_steps_keep [OF run] loops(3) by (auto simp: run_honeypot_def)
  moreover have "honeypot_step close_error s (turn HoneypotPort (AcceptError []) s)"
    by (rule honeypot_step.accept) (use loops in auto)
  moreover have "length (rLog (turn HoneypotPort (AcceptError []) s)) = Suc (length (rLog s))"
    by (simp add: turn_def accept_once_def)
  ultimately show ?thesis using turn_keeps(2) by metis
qed

lemma Close_does_not_return:
  assumes start: "Start listen New = (h, logs, None)"
    and run: "(honeypot_step close_error)\<^sup>*\<^sup>* (run_honeypot h) s"
    and no_error: "\<And>p. close_error p = None"
  shows "rPhase s \<noteq> Returned r"
proof -
  have "rPhase s \<noteq> Returned (Some e)" for e
    using run
  proof (induction rule: rtranclp_induct)
    case (step y z)
    then show ?case using honeypot_step_error [OF step.hyps(2)] no_error by fastforce
  qed (simp add: run_honeypot_def)
  moreover have "rPhase s \<noteq> Returned None"
    using honeypot_steps_keep [OF run] Start_ok [OF start] by (auto simp: run_honeypot_def)
  ultimately show ?thesis by (cases r) auto
qed

text \<open>A host where only the fallback port is free, after \<^verbatim>\<open>Close\<close> has closed its listener.\<close>

definition only_fallback :: listen where
  "only_fallback port = (if port = HoneypotPort then None else Some ''in use'')"

definition closed_fallback :: running where
  "closed_fallback = \<lparr>rHoneypot = \<lparr>hListeners = [9999], hLoops = [9999]\<rparr>, rClosed = [9999], rPhase = Closing [],
     rLog = [], rConnections = []\<rparr>"

lemma closed_fallback_reachable:
  "(honeypot_step (\<lambda>p. None))\<^sup>*\<^sup>* (run_honeypot \<lparr>hListeners = [9999], hLoops = [9999]\<rparr>) closed_fallback"
proof -
  let ?h = "run_honeypot \<lparr>hListeners = [9999], hLoops = [9999]\<rparr>"
  have "honeypot_step (\<lambda>p. None) ?h (?h\<lparr>rPhase := Closing [9999]\<rparr>)"
    using honeypot_step.close [of ?h "\<lambda>p. None"] by (simp add: run_honeypot_def)
  moreover have "honeypot_step (\<lambda>p. None) (?h\<lparr>rPhase := Closing [9999]\<rparr>) closed_fallback"
    using honeypot_step.close_listener [of "?h\<lparr>rPhase := Closing [9999]\<rparr>" 9999 "[]" "\<lambda>p. None"]
    by (simp add: run_honeypot_def closed_fallback_def)
  ultimately show ?thesis by (blast intro: rtranclp.intros)
qed

lemma only_fallback_starts:
  obtains logs where "Start only_fallback New = (\<lparr>hListeners = [9999], hLoops = [9999]\<rparr>, logs, None)"
proof -
  have "bound_ports only_fallback = []" by code_simp
  then show ?thesis using Start_binds [of only_fallback] that by (auto simp: only_fallback_def HoneypotPort_def)
qed

lemma Close_waits_forever_witness:
  "rPhase closed_fallback = Closing [] \<and> rPhase closed_fallback \<noteq> Returned None"
proof -
  obtain logs where "Start only_fallback New = (\<lparr>hListeners = [9999], hLoops = [9999]\<rparr>, logs, None)"
    by (rule only_fallback_starts)
  from Close_waits_forever [OF this closed_fallback_reachable] show ?thesis
    by (simp add: closed_fallback_def)
qed

section \<open>Sources of attacks\<close>

lemma str_index_char: "c \<notin> set a \<Longrightarrow> str_index (a @ c # r) [c] = Some (length a)"
  by (induction a) (auto simp: has_prefix_def)

lemma hd_split_on: "hd (split_on c s) = takeWhile (\<lambda>x. x \<noteq> c) s"
proof (induction s)
  case (Cons x s)
  obtain q qs where "split_on c s = q # qs" by (cases "split_on c s") auto
  with Cons show ?case by auto
qed simp

lemma extractIP_bracket:
  assumes "CHR '']'' \<notin> set a"
  shows "extractIP (''['' @ a @ '']'' @ rest) = a"
  using str_index_char [of "CHR '']''" "CHR ''['' # a" rest] assms
  by (simp add: extractIP_def has_prefix_def subslice_def)

lemma peer_ip_eq: "peer_ip remote = takeWhile (\<lambda>c. c \<noteq> CHR '':'') remote"
  by (simp add: peer_ip_def hd_split_on)

fun attack_sources :: "action list \<Rightarrow> string list" where
  "attack_sources [] = []"
| "attack_sources (Attack ip cmd # acts) = ip # attack_sources acts"
| "attack_sources (_ # acts) = attack_sources acts"

lemma attack_trail_sources: "alAttackerIP ` set (attack_trail True now acts) = set (attack_sources acts)"
  by (induction acts rule: attack_sources.induct) (simp_all add: LogAttack_def)

lemma attack_sources_append [simp]: "attack_sources (xs @ ys) = attack_sources xs @ attack_sources ys"
  by (induction xs rule: attack_sources.induct) auto

lemma attack_sources_log_at [simp]: "attack_sources (log_at t m # acts) = attack_sources acts"
  by (simp add: log_at_def)

text \<open>Every connection with a known peer is recorded before anything else, under the address of its
  peer and the port it came to, then gets a banner of its service, and then the dialogue of that
  service; a banner that cannot be sent ends it. No choice is out of range.\<close>

theorem handleConnection_records:
  assumes "random_below rnd"
  shows "\<exists>service banner. service \<in> set ServiceTypes \<and> banner \<in> set (banners service) \<and>
    handleConnection E rnd write_error port (Some remote) reads =
      Some ([log_at (suTime E) (''TRAP HIT! IP: '' @ extractIP remote @ '' | Port: '' @ show_i64 port @
               '' | Service: '' @ to_upper (suUnicode E) service),
             Attack (extractIP remote) (''TRAP_HIT_PORT_'' @ show_i64 port)] @
        (case write_error of
           Some err \<Rightarrow> [log_at (suTime E) (''Error sending banner to '' @ extractIP remote @ '': '' @ err)]
         | None \<Rightarrow> Send banner # Handle E remote service reads))"
proof -
  obtain service where s: "service \<in> set ServiceTypes"
    "(if port = HoneypotPort then SelectRandomService rnd else SelectServiceByPort rnd port) = Some service"
  proof (cases "port = HoneypotPort")
    case True
    then show ?thesis
      using pick_in [OF assms, of ServiceTypes] that by (auto simp: SelectRandomService_def ServiceTypes_def)
  next
    case False
    then show ?thesis using SelectServiceByPort_returns [OF assms, of port] that by auto
  qed
  obtain banner where b: "banner \<in> set (banners service)" "GetRandomBanner rnd service = Some banner"
    using GetRandomBanner_returns [OF assms] by blast
  have "handleConnection E rnd write_error port (Some remote) reads =
      Some ([log_at (suTime E) (''TRAP HIT! IP: '' @ extractIP remote @ '' | Port: '' @ show_i64 port @
               '' | Service: '' @ to_upper (suUnicode E) service),
             Attack (extractIP remote) (''TRAP_HIT_PORT_'' @ show_i64 port)] @
        (case write_error of
           Some err \<Rightarrow> [log_at (suTime E) (''Error sending banner to '' @ extractIP remote @ '': '' @ err)]
         | None \<Rightarrow> Send banner # Handle E remote service reads))"
    by (simp only: handleConnection_def Let_def option.case s(2) b(2)) (simp split: option.split)
  with s b show ?thesis by blast
qed

definition example_surroundings :: surroundings where
  "example_surroundings = \<lparr>suUnicode = \<lparr>uni_upper = id, uni_lower = id, uni_title = id\<rparr>, suTime = ''12:00:00'',
     suClock = ''Mon, 02 Jan 2006 15:04:05 GMT'', suNow = ''2006-01-02 15:04:05''\<rparr>"

definition first_choice :: random_source where
  "first_choice bound = (if bound = 0 then None else Some 0)"

lemma random_below_first_choice: "random_below first_choice"
  by (simp add: random_below_def first_choice_def)

lemma handleConnection_records_witness:
  "\<exists>rest. handleConnection example_surroundings first_choice (Some ''broken pipe'') 23 (Some ''10.0.0.9:4711'') [] =
     Some (rest @ [log_at ''12:00:00'' ''Error sending banner to 10.0.0.9: broken pipe''])"
proof -
  have ip: "extractIP ''10.0.0.9:4711'' = ''10.0.0.9''" by code_simp
  show ?thesis
    using handleConnection_records [OF random_below_first_choice,
        of example_surroundings "Some ''broken pipe''" 23 "''10.0.0.9:4711''" "[]"]
    unfolding ip by (auto simp: example_surroundings_def)
qed

lemma http_response_attacks: "attack_sources (fst (http_response t clock meth path)) = []"
  by (simp add: http_response_def)

lemma credential_attacks: "set (attack_sources (credential_actions U ip t request lines)) \<subseteq> {ip}"
  by (simp add: credential_actions_def Let_def split: option.split)

lemma http_attacks:
  "set (attack_sources (handleHTTP U remote t clock (Some request))) = {peer_ip remote}"
proof -
  let ?lines = "split_str crlf request"
  let ?parts = "str_fields (hd ?lines)"
  let ?response = "http_response t clock (?parts ! 0) (http_path (?parts ! 1))"
  let ?creds = "if ?parts ! 0 = ''POST'' then credential_actions U (peer_ip remote) t request ?lines else []"
  have "set (attack_sources ?creds) \<subseteq> {peer_ip remote}" using credential_attacks by simp
  moreover have "attack_sources (handleHTTP U remote t clock (Some request)) =
      peer_ip remote # (if length ?parts < 2 then []
        else attack_sources ?creds @ attack_sources (fst ?response))"
    by (cases ?response) (simp add: handleHTTP_def Let_def)
  ultimately show ?thesis by (simp add: http_response_attacks)
qed

text \<open>The handlers do not find the address of an IPv6 peer: a web request that comes over IPv6 is
  recorded under two sources, the address and what stands before its first colon.\<close>

theorem ipv6_attacks_misattributed:
  assumes "random_below rnd" and "CHR '']'' \<notin> set a"
  shows "\<exists>acts. handleConnection E rnd None 80 (Some (''['' @ a @ '']:'' @ p)) [request] = Some acts \<and>
    alAttackerIP ` set (attack_trail True now acts) = {a, CHR ''['' # takeWhile (\<lambda>c. c \<noteq> CHR '':'') (a @ '']'')}"
proof -
  let ?r = "''['' @ a @ '']:'' @ p"
  have ip: "extractIP ?r = a" using extractIP_bracket [OF assms(2), of "'':'' @ p"] by simp
  have peer: "peer_ip ?r = CHR ''['' # takeWhile (\<lambda>c. c \<noteq> CHR '':'') (a @ '']'')"
    by (cases "CHR '':'' \<in> set a") (auto simp: peer_ip_eq takeWhile_append)
  obtain banner where b: "GetRandomBanner rnd ''http'' = Some banner"
    using GetRandomBanner_returns [OF assms(1)] by blast
  have service: "(if (80 :: i64) = HoneypotPort then SelectRandomService rnd else SelectServiceByPort rnd 80) = Some ''http''"
    by (simp add: HoneypotPort_def SelectServiceByPort_def)
  have http: "Handle E ?r ''http'' [request] = handleHTTP (suUnicode E) ?r (suTime E) (suClock E) (Some request)"
    unfolding Handle_def Let_def by (simp only: simp_thms if_True list.case)
  obtain acts where acts: "handleConnection E rnd None 80 (Some ?r) [request] = Some acts"
    "attack_sources acts = a # attack_sources (Handle E ?r ''http'' [request])"
    unfolding handleConnection_def Let_def option.case service b ip by simp
  have "set (attack_sources acts) = {a, CHR ''['' # takeWhile (\<lambda>c. c \<noteq> CHR '':'') (a @ '']'')}"
    unfolding acts(2) http list.set http_attacks peer by (rule refl)
  with acts(1) show ?thesis by (simp only: attack_trail_sources) blast
qed

lemma ipv6_attacks_misattributed_witness:
  "\<exists>acts. handleConnection example_surroundings first_choice None 80 (Some ''[2001:db8::7]:4711'') [''GET''] = Some acts \<and>
    alAttackerIP ` set (attack_trail True ''2026-01-01T00:00:00Z'' acts) = {''2001:db8::7'', ''[2001''}"
  using ipv6_attacks_misattributed [OF random_below_first_choice, of "''2001:db8::7''" example_surroundings "''4711''" "''GET''" "''2026-01-01T00:00:00Z''"]
  by simp

end
