(* ===== verification/Handler.thy ===== *)
theory Handler
  imports Verifier MapLoader
begin

text \<open>
  \<^verbatim>\<open>internal/spa/handler.go\<close>: the user-space server of the SPA port. \<open>processPacket\<close> is what a
  goroutine does with one datagram; \<open>handler_step\<close> is the read loop with the goroutines it starts,
  which all look at the one buffer of the loop.
\<close>

record 'm handler =
  hVerifier :: verifier
  hLoader :: "'m map_loader"
  hConfig :: spa_config
  hToken :: string

definition NewHandler :: "verifier \<Rightarrow> 'm map_loader \<Rightarrow> spa_config \<Rightarrow> string \<Rightarrow> 'm handler" where
  "NewHandler v ml cfg staticToken =
     \<lparr>hVerifier = v, hLoader = ml, hConfig = cfg,
      hToken = (if staticToken = [] then SPASecretToken else staticToken)\<rparr>"

text \<open>What a call prints.\<close>

datatype handler_event =
    NonMatchingPacket net_ip nat bytes nat
  | ParseFailure net_ip parse_error
  | InvalidPacket net_ip verify_error
  | WhitelistFailure net_ip map_error
  | Authenticated net_ip
  | PacketDetails u32 i64

definition isStaticPacket :: "'m handler \<Rightarrow> bytes \<Rightarrow> bool" where
  "isStaticPacket h d =
     (let token = bytes_of_string (hToken h)
      in if length d \<noteq> length token then False
         else if 0 < length d \<and> (d ! 0 = 1 \<or> d ! 0 = 2) then False
         else constant_time_compare d token)"

text \<open>One call: the clock readings of \<^verbatim>\<open>VerifyPacket\<close> are \<open>clk\<close>, the uptime read by
  \<^verbatim>\<open>WhitelistIP\<close> is \<open>up\<close>; \<open>None\<close> is a panic, which ends the program.\<close>

definition processPacket ::
    "'m bpf_ops \<Rightarrow> bool \<Rightarrow> ed25519 \<Rightarrow> 'm handler \<Rightarrow> clock \<Rightarrow> u64 option \<Rightarrow> bytes \<Rightarrow> net_ip
       \<Rightarrow> ('m handler \<times> handler_event list) option" where
  "processPacket ops le E h clk up d ip =
     (if isStaticPacket h d then Some (h, [])
      else
        (let ev0 = (if 0 < length d
                    then [NonMatchingPacket ip (length d) (take (min 8 (length d)) d) (length (hToken h))]
                    else [])
         in case ParseSPAPacket d of
              None \<Rightarrow> None
            | Some (Inl e) \<Rightarrow> Some (h, ev0 @ [ParseFailure ip e])
            | Some (Inr packet) \<Rightarrow>
                (case VerifyPacket E (hVerifier h) clk d ip of
                   None \<Rightarrow> None
                 | Some (v, Inl e) \<Rightarrow> Some (h\<lparr>hVerifier := v\<rparr>, ev0 @ [InvalidPacket ip e])
                 | Some (v, Inr _) \<Rightarrow>
                     (case WhitelistIP ops le (hLoader h) ip (ReplayWindowSeconds (hConfig h)) up of
                        (ml, Inl e) \<Rightarrow>
                          Some (h\<lparr>hVerifier := v, hLoader := ml\<rparr>, ev0 @ [WhitelistFailure ip e])
                      | (ml, Inr _) \<Rightarrow>
                          Some (h\<lparr>hVerifier := v, hLoader := ml\<rparr>,
                                ev0 @ [Authenticated ip,
                                       PacketDetails (pTOTP packet) (pTimestamp packet)])))))"

datatype client_ip_error = PacketShort | IPFromConnection

definition GetClientIPFromPacket :: "bytes \<Rightarrow> client_ip_error" where
  "GetClientIPFromPacket d = (if length d < 14 then PacketShort else IPFromConnection)"

section \<open>The read loop\<close>

text \<open>
  The loop reads every datagram into the same buffer and starts a goroutine on the slice
  \<^verbatim>\<open>buffer[:n]\<close>, which shares the buffer. A goroutine that has not run yet is its \<open>n\<close> and the
  sender; a step may run any of them, on what the buffer holds then. A datagram longer than the
  buffer is cut.
\<close>

record 'm server =
  sHandler :: "'m handler"
  sBuffer :: bytes
  sPending :: "(nat \<times> net_ip) list"
  sEvents :: "handler_event list"
  sStopped :: bool

definition buffer_size :: nat where "buffer_size = 1500"

definition server_start :: "'m handler \<Rightarrow> 'm server" where
  "server_start h = \<lparr>sHandler = h, sBuffer = replicate buffer_size 0, sPending = [], sEvents = [],
     sStopped = False\<rparr>"

definition receive :: "bytes \<Rightarrow> net_ip \<Rightarrow> 'm server \<Rightarrow> 'm server" where
  "receive d ip s =
     (let n = min (length d) buffer_size
      in s\<lparr>sBuffer := take n d @ drop n (sBuffer s), sPending := sPending s @ [(n, ip)]\<rparr>)"

definition run_task ::
    "'m bpf_ops \<Rightarrow> bool \<Rightarrow> ed25519 \<Rightarrow> clock \<Rightarrow> u64 option \<Rightarrow> nat \<Rightarrow> 'm server \<Rightarrow> 'm server option" where
  "run_task ops le E clk up i s =
     (if i < length (sPending s) then
        (case sPending s ! i of
           (n, ip) \<Rightarrow>
             map_option (\<lambda>(h, ev). s\<lparr>sHandler := h, sEvents := sEvents s @ ev,
                           sPending := take i (sPending s) @ drop (Suc i) (sPending s)\<rparr>)
               (processPacket ops le E (sHandler s) clk up (take n (sBuffer s)) ip))
      else None)"

text \<open>A read that times out or fails changes nothing and is no step. After \<^verbatim>\<open>Stop\<close> the loop returns
  but goroutines that have been started still run.\<close>

inductive handler_step :: "'m bpf_ops \<Rightarrow> bool \<Rightarrow> ed25519 \<Rightarrow> 'm server \<Rightarrow> 'm server \<Rightarrow> bool"
  for ops le E where
    datagram: "\<not> sStopped s \<Longrightarrow> handler_step ops le E s (receive d ip s)"
  | goroutine: "run_task ops le E clk up i s = Some s' \<Longrightarrow> handler_step ops le E s s'"
  | stop: "handler_step ops le E s (s\<lparr>sStopped := True\<rparr>)"

inductive_cases handler_stepE: "handler_step ops le E s s'"

section \<open>One datagram\<close>

lemma isStaticPacket_eq:
  "isStaticPacket h d \<longleftrightarrow> d = bytes_of_string (hToken h) \<and> (d = [] \<or> hd d \<noteq> 1 \<and> hd d \<noteq> 2)"
proof -
  have "Suc (length ds) = length t" if "b # ds = bytes_of_string t" for b ds t
    using arg_cong [OF that, of length] by simp
  then show ?thesis
    by (cases d) (auto simp: isStaticPacket_def Let_def constant_time_compare_eq)
qed

text \<open>A call that gets as far as the verifier, by its outcome.\<close>

lemma processPacket_cases:
  assumes "processPacket ops le E h clk up d ip = Some (h', ev)" and "\<not> isStaticPacket h d"
  obtains (unparsed) e where "ParseSPAPacket d = Some (Inl e)" and "h' = h"
  | (refused) v e where "VerifyPacket E (hVerifier h) clk d ip = Some (v, Inl e)"
      and "h' = h\<lparr>hVerifier := v\<rparr>"
  | (accepted) v ml r where "VerifyPacket E (hVerifier h) clk d ip = Some (v, Inr ())"
      and "WhitelistIP ops le (hLoader h) ip (ReplayWindowSeconds (hConfig h)) up = (ml, r)"
      and "h' = h\<lparr>hVerifier := v, hLoader := ml\<rparr>"
      and "Authenticated ip \<in> set ev \<longleftrightarrow> r = Inr ()"
proof (cases "decode_packet d")
  case (Inl e)
  then show ?thesis using assms by (intro unparsed) (auto simp: processPacket_def ParseSPAPacket_eq)
next
  case (Inr p)
  then have p: "ParseSPAPacket d = Some (Inr p)" by (simp add: ParseSPAPacket_eq)
  obtain v r where v: "VerifyPacket E (hVerifier h) clk d ip = Some (v, r)"
    using assms p by (cases "VerifyPacket E (hVerifier h) clk d ip") (auto simp: processPacket_def Let_def)
  show ?thesis
  proof (cases r)
    case (Inl e)
    then show ?thesis using assms p v by (intro refused [of v e]) (auto simp: processPacket_def Let_def)
  next
    case (Inr u)
    obtain ml w where w: "WhitelistIP ops le (hLoader h) ip (ReplayWindowSeconds (hConfig h)) up = (ml, w)"
      by fastforce
    show ?thesis
      by (rule accepted [of v ml w])
         (use assms p v w Inr in \<open>cases w; auto simp: processPacket_def Let_def\<close>)+
  qed
qed

text \<open>A packet that parses begins with a version byte, so it is never taken for the static token.\<close>

lemma parsed_not_static:
  assumes "ParseSPAPacket d = Some (Inr p)"
  shows "\<not> isStaticPacket h d"
proof -
  have "pVersion p = 1 \<or> pVersion p = 2" using decode_packet_ok [OF assms] by (auto simp: packet_ok_def)
  moreover have "encode_packet p = d" using encode_decode [of d p] assms by (simp add: ParseSPAPacket_eq)
  then have "hd d = pVersion p" and "d \<noteq> []" by (auto simp: encode_packet_def)
  ultimately show ?thesis by (auto simp: isStaticPacket_eq)
qed

lemma processPacket_accepted:
  assumes "VerifyPacket E (hVerifier h) clk d ip = Some (v, Inr ())"
    and "WhitelistIP ops le (hLoader h) ip (ReplayWindowSeconds (hConfig h)) up = (ml, Inr ())"
  shows "\<exists>ev. processPacket ops le E h clk up d ip = Some (h\<lparr>hVerifier := v, hLoader := ml\<rparr>, ev)
    \<and> Authenticated ip \<in> set ev"
proof -
  obtain p where "ParseSPAPacket d = Some (Inr p)"
    using assms(1) by (auto simp: VerifyPacket_accepts verify_checks_ok)
  then show ?thesis using assms parsed_not_static [of d p h] by (simp add: processPacket_def Let_def)
qed

lemma WhitelistIP_error: "WhitelistIP ops le ml ip dur up = (ml', Inl e) \<Longrightarrow> ml' = ml"
  by (auto simp: WhitelistIP_def split: option.splits)

text \<open>C12. The handler's whitelist entry is always backed by an accepted packet: if a call changes the
  kernel's whitelist, the verifier accepted these bytes from this address, and the change is the one
  \<^verbatim>\<open>WhitelistIP\<close> makes for this address and the configured duration.\<close>

theorem processPacket_whitelists_verified:
  assumes "processPacket ops le E h clk up d ip = Some (h', ev)"
    and "whitelistMap (hLoader h') \<noteq> whitelistMap (hLoader h)"
  shows "VerifyPacket E (hVerifier h) clk d ip = Some (hVerifier h', Inr ()) \<and>
    WhitelistIP ops le (hLoader h) ip (ReplayWindowSeconds (hConfig h)) up = (hLoader h', Inr ()) \<and>
    Authenticated ip \<in> set ev"
proof -
  have "\<not> isStaticPacket h d" using assms by (auto simp: processPacket_def)
  from assms(1) this show ?thesis
  proof (cases rule: processPacket_cases)
    case (accepted v ml r)
    then obtain u where "r = Inr u" using assms(2) WhitelistIP_error by (cases r) fastforce+
    then show ?thesis using accepted by simp
  qed (use assms(2) in simp_all)
qed

definition example_handler :: "(bytes \<Rightarrow> bytes option) handler" where
  "example_handler = NewHandler (NewVerifier example_dynamic_config)
     (NewMapLoader (Some Map.empty) None None None None) example_dynamic_config []"

lemma example_whitelist:
  "\<exists>ml. WhitelistIP plain_map le (hLoader example_handler) (Some [a, b, c, d]) dur up = (ml, Inr ())
     \<and> whitelistMap ml \<noteq> whitelistMap (hLoader example_handler)"
  by (simp add: WhitelistIP_def example_handler_def NewHandler_def NewMapLoader_def ip_to4_def plain_map_def)

lemma processPacket_whitelists_verified_witness:
  "\<exists>d h ev. processPacket plain_map True ed_example example_handler (\<lambda>n. 1010) (Some 5) d example_ip = Some (h, ev)
     \<and> Authenticated example_ip \<in> set ev"
proof -
  obtain d v where v: "VerifyPacket ed_example (hVerifier example_handler) (\<lambda>n. 1010) d example_ip = Some (v, Inr ())"
    using example_accepted by (auto simp: example_handler_def NewHandler_def)
  obtain ml where ml: "WhitelistIP plain_map True (hLoader example_handler) example_ip
      (ReplayWindowSeconds (hConfig example_handler)) (Some 5) = (ml, Inr ())"
    and ch: "whitelistMap ml \<noteq> whitelistMap (hLoader example_handler)"
    using example_whitelist by (force simp: example_ip_def)
  obtain ev where r: "processPacket plain_map True ed_example example_handler (\<lambda>n. 1010) (Some 5) d example_ip
      = Some (example_handler\<lparr>hVerifier := v, hLoader := ml\<rparr>, ev)"
    using processPacket_accepted [OF v ml] by blast
  have "Authenticated example_ip \<in> set ev"
    using processPacket_whitelists_verified [OF r] ch by simp
  with r show ?thesis by blast
qed

text \<open>A custom static token opens nothing: the handler leaves a datagram that is its static token
  to the kernel program, and in static mode it accepts no other datagram either, so user space never
  changes the whitelist.\<close>

theorem processPacket_static:
  assumes "isStaticPacket h d \<or> Mode (spaConfig (hVerifier h)) = SPAModeStatic"
    and "processPacket ops le E h clk up d ip = Some (h', ev)"
  shows "whitelistMap (hLoader h') = whitelistMap (hLoader h) \<and> Authenticated ip \<notin> set ev"
proof (cases "isStaticPacket h d")
  case True
  then show ?thesis using assms(2) by (auto simp: processPacket_def)
next
  case False
  have refused: "VerifyPacket E (hVerifier h) clk d ip \<noteq> Some (v, Inr ())" for v
    using False assms(1)
    by (auto simp: VerifyPacket_accepts verify_checks_ok check_signature_def spa_mode_defs)
  from assms(2) False show ?thesis
  proof (cases rule: processPacket_cases)
    case (unparsed e)
    then show ?thesis using assms(2) False by (auto simp: processPacket_def Let_def)
  next
    case (refused v e)
    then show ?thesis using assms(2) False
      by (auto simp: processPacket_def Let_def split: option.splits sum.splits)
  qed (use refused in simp)
qed

lemma processPacket_static_witness:
  "\<exists>h ev. processPacket plain_map True ed_example
       (NewHandler (NewVerifier example_dynamic_config) (NewMapLoader (Some Map.empty) None None None None)
          example_dynamic_config ''secret'')
       (\<lambda>n. 0) None (bytes_of_string ''secret'') example_ip = Some (h, ev)
     \<and> whitelistMap (hLoader h) = Some Map.empty"
proof -
  let ?h = "NewHandler (NewVerifier example_dynamic_config) (NewMapLoader (Some Map.empty) None None None None)
      example_dynamic_config ''secret'' :: (bytes \<Rightarrow> bytes option) handler"
  have st: "isStaticPacket ?h (bytes_of_string ''secret'')"
    by (simp add: isStaticPacket_eq NewHandler_def bytes_of_string_def)
  then have "processPacket plain_map True ed_example ?h (\<lambda>n. 0) None (bytes_of_string ''secret'') example_ip = Some (?h, [])"
    by (simp add: processPacket_def)
  moreover from processPacket_static [OF disjI1 [OF st] this]
  have "whitelistMap (hLoader ?h) = Some Map.empty" by (simp add: NewHandler_def NewMapLoader_def)
  ultimately show ?thesis by blast
qed

section \<open>The shared buffer\<close>

text \<open>The buffer keeps its size, and a pending goroutine's slice lies inside it.\<close>

definition server_inv :: "'m server \<Rightarrow> bool" where
  "server_inv s \<longleftrightarrow> length (sBuffer s) = buffer_size \<and> (\<forall>p \<in> set (sPending s). fst p \<le> buffer_size)"

lemma server_inv_start: "server_inv (server_start h)"
  by (simp add: server_inv_def server_start_def)

lemma server_inv_step: "handler_step ops le E s s' \<Longrightarrow> server_inv s \<Longrightarrow> server_inv s'"
proof (erule handler_stepE, goal_cases)
  case (1 d ip)
  then show ?case by (auto simp: server_inv_def receive_def Let_def)
next
  case (2 clk up i)
  then show ?case
    by (auto simp: server_inv_def run_task_def split: if_splits prod.splits dest!: in_set_takeD in_set_dropD)
next
  case 3
  then show ?case by (simp add: server_inv_def)
qed

lemma server_inv_steps: "(handler_step ops le E)\<^sup>*\<^sup>* s s' \<Longrightarrow> server_inv s \<Longrightarrow> server_inv s'"
  by (induction rule: rtranclp_induct) (auto intro: server_inv_step)

text \<open>What a pending goroutine sees once another datagram has arrived.\<close>

lemma buffer_after_receive:
  "n \<le> min (length d) buffer_size \<Longrightarrow> take n (sBuffer (receive d ip s)) = take n d"
  by (simp add: receive_def Let_def min_def split: if_splits)

lemma run_task_after_receive:
  assumes "i < length (sPending s)" and "sPending s ! i = (n, ip)" and "n \<le> min (length d) buffer_size"
  shows "run_task ops le E clk up i (receive d ip' s) =
    map_option (\<lambda>(h, ev). (receive d ip' s)\<lparr>sHandler := h, sEvents := sEvents s @ ev,
        sPending := take i (sPending s) @ drop (Suc i) (sPending s) @ [(min (length d) buffer_size, ip')]\<rparr>)
      (processPacket ops le E (sHandler s) clk up (take n d) ip)"
  using assms buffer_after_receive [OF assms(3), of ip' s]
  by (simp add: run_task_def nth_append receive_def Let_def)

text \<open>A goroutine that runs before the next datagram arrives processes the datagram it was started
  for (up to the size of the buffer), with that datagram's sender.\<close>

theorem server_serial:
  assumes "sPending s = []"
  shows "run_task ops le E clk up 0 (receive d ip s) =
    map_option (\<lambda>(h, ev). (receive d ip s)\<lparr>sHandler := h, sEvents := sEvents s @ ev, sPending := []\<rparr>)
      (processPacket ops le E (sHandler s) clk up (take buffer_size d) ip)"
proof -
  have "take (min (length d) buffer_size) d = take buffer_size d"
    by (metis min.commute take_all_iff take_take nle_le)
  then have "take (min (length d) buffer_size) (sBuffer (receive d ip s)) = take buffer_size d"
    by (simp add: buffer_after_receive)
  then show ?thesis using assms by (simp add: run_task_def receive_def Let_def)
qed

lemma server_serial_witness:
  "run_task plain_map True ed_example (\<lambda>n. 0) None 0 (receive [] None (server_start example_handler))
     \<noteq> None"
  using server_serial [of "server_start example_handler" plain_map True ed_example "\<lambda>n. 0" None "[]" None]
  by (simp add: server_start_def processPacket_def isStaticPacket_eq example_handler_def NewHandler_def
      SPASecretToken_def bytes_of_string_def ParseSPAPacket_eq decode_packet_def)

text \<open>C7. The goroutines share the buffer: there is a run in which the goroutine of one sender processes
  another sender's datagram under its own address. Here \<open>x\<close> sends \<open>e\<close>, \<open>y\<close> then sends a datagram at
  least as long, and the first goroutine runs after that: it treats the bytes of \<open>y\<close> as sent by
  \<open>x\<close>, and the packet of \<open>x\<close> is never looked at.\<close>

theorem server_shares_buffer:
  assumes "\<not> sStopped s" and "sPending s = []"
    and "length e \<le> length d" and "length d \<le> buffer_size"
    and "processPacket ops le E (sHandler s) clk up (take (length e) d) x = Some (h', ev)"
  shows "\<exists>s'. (handler_step ops le E)\<^sup>*\<^sup>* s s' \<and> handler_step ops le E s (receive e x s)
    \<and> handler_step ops le E (receive e x s) (receive d y (receive e x s))
    \<and> run_task ops le E clk up 0 (receive d y (receive e x s)) = Some s'
    \<and> sHandler s' = h' \<and> sEvents s' = sEvents s @ ev \<and> sPending s' = [(length d, y)]"
proof -
  let ?s1 = "receive e x s" and ?s2 = "receive d y (receive e x s)"
  have pend: "sPending ?s1 = [(length e, x)]" and run: "\<not> sStopped ?s1"
    and same: "sHandler ?s1 = sHandler s" "sEvents ?s1 = sEvents s"
    using assms by (simp_all add: receive_def Let_def min_def)
  let ?s' = "?s2\<lparr>sHandler := h', sEvents := sEvents s @ ev, sPending := [(length d, y)]\<rparr>"
  have task: "run_task ops le E clk up 0 ?s2 = Some ?s'"
    using run_task_after_receive [of 0 ?s1 "length e" x d ops le E clk up y] pend assms(3-5) same
    by (simp add: min_def)
  have s1: "handler_step ops le E s ?s1" using assms(1) by (rule datagram)
  have s2: "handler_step ops le E ?s1 ?s2" using run by (rule datagram)
  have "handler_step ops le E ?s2 ?s'" using task by (rule goroutine)
  with s1 s2 have "(handler_step ops le E)\<^sup>*\<^sup>* s ?s'"
    by (meson converse_rtranclp_into_rtranclp r_into_rtranclp)
  then show ?thesis using s1 s2 task by (intro exI [of _ ?s']) simp
qed

text \<open>A version 1 packet names no address, so it authenticates whoever it is attributed to.\<close>

definition example_v1 :: "u32 \<Rightarrow> bytes" where
  "example_v1 c = (let m = [1, 1] @ put_be64 1000 @ put_be32 c in m @ hmac_sha256 [7] m)"

lemma example_v1_accepted:
  "\<exists>c v. VerifyPacket ed_example (NewVerifier example_dynamic_config) (\<lambda>n. 1010) (example_v1 c) ip = Some (v, Inr ())"
proof -
  obtain c where c: "GenerateTOTP 1000 [1] 30 = Some c"
    using TOTP_total [of 30 "[1]" 1000] by (auto simp: GenerateTOTP_def)
  let ?m = "[1, 1] @ put_be64 1000 @ put_be32 c"
  let ?p = "\<lparr>pVersion = 1, pMode = 1, pTimestamp = 1000, pTOTP = c, pClientIP = None,
      pSignature = hmac_sha256 [7] ?m, pRandomData = []\<rparr>"
  have "packet_ok ?p" by (simp add: packet_ok_def signature_size_def packet_sizes)
  moreover have enc: "encode_packet ?p = example_v1 c" by (simp add: encode_packet_def example_v1_def Let_def)
  ultimately have p: "ParseSPAPacket (example_v1 c) = Some (Inr ?p)"
    using decode_encode [of ?p] by (simp add: ParseSPAPacket_eq)
  have ok: "ValidateTOTP 1010 [1] 30 1 c = Some True"
    by (rule accepts_generated [OF _ _ _ _ _ c]) simp_all
  have sig: "signed_for ed_example example_dynamic_config ?p (example_v1 c)"
    using VerifyDynamicPacket_sealed [of ?p _ "[7]" ?m]
    by (simp add: signed_for_def example_dynamic_config_def keys_in_use_def example_v1_def Let_def hmac_equal_def)
  have "check_signature ed_example example_dynamic_config ?p (example_v1 c) = Some (Inr ())"
    by (rule check_signature_complete [OF p sig]) (simp add: example_dynamic_config_def)
  moreover have "check_totp example_dynamic_config (\<lambda>n. 1010) ?p = Some True"
    by (simp add: check_totp_def example_dynamic_config_def DefaultDynamicSPAConfig_def ok)
  moreover have "check_timestamp 1010 ?p = Inr ()" by (subst timestamp_window) simp_all
  ultimately have "verify_checks ed_example example_dynamic_config (\<lambda>n. 1010) (example_v1 c) ip = Some (Inr ())"
    using p by (auto simp: verify_checks_ok check_version_ok check_ip_ok)
  then show ?thesis
    using VerifyPacket_unseen [of ed_example "NewVerifier example_dynamic_config" "\<lambda>n. 1010" "example_v1 c" ip]
    by (auto simp: NewVerifier_def)
qed

lemma server_shares_buffer_witness:
  "\<exists>d s'. (handler_step plain_map True ed_example)\<^sup>*\<^sup>* (server_start example_handler) s'
     \<and> run_task plain_map True ed_example (\<lambda>n. 1010) (Some 5) 0
         (receive d (Some [10, 0, 0, 2])
           (receive (replicate 46 0) (Some [10, 0, 0, 1]) (server_start example_handler))) = Some s'
     \<and> Authenticated (Some [10, 0, 0, 1]) \<in> set (sEvents s')"
proof -
  let ?x = "Some [10, 0, 0, 1] :: net_ip" and ?s = "server_start example_handler"
  obtain c v where v: "VerifyPacket ed_example (hVerifier example_handler) (\<lambda>n. 1010) (example_v1 c) ?x = Some (v, Inr ())"
    using example_v1_accepted [of ?x] by (auto simp: example_handler_def NewHandler_def)
  obtain ml where ml: "WhitelistIP plain_map True (hLoader example_handler) ?x
      (ReplayWindowSeconds (hConfig example_handler)) (Some 5) = (ml, Inr ())"
    using example_whitelist by blast
  obtain ev where r: "processPacket plain_map True ed_example example_handler (\<lambda>n. 1010) (Some 5) (example_v1 c) ?x
      = Some (example_handler\<lparr>hVerifier := v, hLoader := ml\<rparr>, ev)" and au: "Authenticated ?x \<in> set ev"
    using processPacket_accepted [OF v ml] by blast
  have len: "length (example_v1 c) = 46" by (simp add: example_v1_def Let_def)
  have "processPacket plain_map True ed_example (sHandler ?s) (\<lambda>n. 1010) (Some 5)
      (take (length (replicate 46 (0 :: byte))) (example_v1 c)) ?x
      = Some (example_handler\<lparr>hVerifier := v, hLoader := ml\<rparr>, ev)"
    using r len by (simp add: server_start_def)
  from server_shares_buffer [OF _ _ _ _ this, of "Some [10, 0, 0, 2]"]
  obtain s' where "(handler_step plain_map True ed_example)\<^sup>*\<^sup>* ?s s'"
    and "run_task plain_map True ed_example (\<lambda>n. 1010) (Some 5) 0
         (receive (example_v1 c) (Some [10, 0, 0, 2]) (receive (replicate 46 0) ?x ?s)) = Some s'"
    and "sEvents s' = sEvents ?s @ ev"
    by (auto simp: len buffer_size_def server_start_def)
  then show ?thesis using au by (intro exI [of _ "example_v1 c"] exI [of _ s']) simp
qed

end
