(* ===== verification/Json.thy ===== *)
theory Json
  imports GoLib "HOL-Library.Finite_Map" "HOL-Library.List_Lexorder" "HOL-Library.Char_ord"
begin

text \<open>
  What the program uses of \<^verbatim>\<open>encoding/json\<close>: the compact encoding of strings, integers and
  string-keyed maps. Strings are bytes; a byte that starts no valid UTF-8 sequence is written as the
  replacement character. The characters that are special in HTML, and U+2028 and U+2029, are escaped.
\<close>

section \<open>UTF-8\<close>

definition cont_byte :: "char \<Rightarrow> bool" where
  "cont_byte c \<longleftrightarrow> of_char c div 64 = (2 :: nat)"

definition byte_in :: "nat \<Rightarrow> nat \<Rightarrow> char \<Rightarrow> bool" where
  "byte_in lo hi c \<longleftrightarrow> lo \<le> of_char c \<and> of_char c \<le> hi"

text \<open>The length of the multi-byte sequence a string starts with, 0 if there is no valid one.\<close>

definition utf8_len :: "string \<Rightarrow> nat" where
  "utf8_len s =
     (case s of
        a # b # rest \<Rightarrow>
          if byte_in 0xC2 0xDF a \<and> cont_byte b then 2
          else (case rest of
                  c # rest' \<Rightarrow>
                    if cont_byte c \<and>
                       (of_char a = (0xE0 :: nat) \<and> byte_in 0xA0 0xBF b \<or>
                        of_char a = (0xED :: nat) \<and> byte_in 0x80 0x9F b \<or>
                        (byte_in 0xE1 0xEC a \<or> byte_in 0xEE 0xEF a) \<and> cont_byte b) then 3
                    else (case rest' of
                            d # _ \<Rightarrow>
                              if cont_byte c \<and> cont_byte d \<and>
                                 (of_char a = (0xF0 :: nat) \<and> byte_in 0x90 0xBF b \<or>
                                  of_char a = (0xF4 :: nat) \<and> byte_in 0x80 0x8F b \<or>
                                  byte_in 0xF1 0xF3 a \<and> cont_byte b) then 4
                              else 0
                          | [] \<Rightarrow> 0)
                | [] \<Rightarrow> 0)
      | _ \<Rightarrow> 0)"

section \<open>Strings\<close>

definition ch_quote :: char where "ch_quote = char_of (0x22 :: nat)"
definition ch_backslash :: char where "ch_backslash = char_of (0x5C :: nat)"
definition ch_newline :: char where "ch_newline = char_of (0x0A :: nat)"

definition hex_char :: "nat \<Rightarrow> char" where
  "hex_char n = ''0123456789abcdef'' ! (n mod 16)"

definition u_escape :: "nat \<Rightarrow> string" where
  "u_escape n = [ch_backslash, CHR ''u'', CHR ''0'', CHR ''0'', hex_char (n div 16), hex_char n]"

definition html_safe :: "char \<Rightarrow> bool" where
  "html_safe c \<longleftrightarrow> byte_in 0x20 0x7F c \<and> c \<notin> {ch_quote, ch_backslash, CHR ''<'', CHR ''>'', CHR ''&''}"

definition escape_ascii :: "char \<Rightarrow> string" where
  "escape_ascii c =
     (if html_safe c then [c]
      else if c = ch_backslash \<or> c = ch_quote then [ch_backslash, c]
      else if c = ch_newline then [ch_backslash, CHR ''n'']
      else if of_char c = (0x0D :: nat) then [ch_backslash, CHR ''r'']
      else if of_char c = (0x09 :: nat) then [ch_backslash, CHR ''t'']
      else u_escape (of_char c))"

definition escape_seq :: "string \<Rightarrow> string" where
  "escape_seq s =
     (if map of_char s = [0xE2, 0x80, 0xA8 :: nat] then ch_backslash # ''u2028''
      else if map of_char s = [0xE2, 0x80, 0xA9 :: nat] then ch_backslash # ''u2029''
      else s)"

function escape_string :: "string \<Rightarrow> string" where
  "escape_string [] = []"
| "escape_string (c # cs) =
     (if of_char c < (0x80 :: nat) then escape_ascii c @ escape_string cs
      else if utf8_len (c # cs) = 0 then ch_backslash # ''ufffd'' @ escape_string cs
      else escape_seq (take (utf8_len (c # cs)) (c # cs)) @ escape_string (drop (utf8_len (c # cs)) (c # cs)))"
  by pat_completeness auto
termination
  by (relation "measure length") auto

declare escape_string.simps(2) [simp del]

definition json_quote :: "string \<Rightarrow> string" where
  "json_quote s = ch_quote # escape_string s @ [ch_quote]"

section \<open>Values and documents\<close>

datatype json = JStr string | JInt i64 | JObj "(string \<times> json) list"

fun marshal :: "json \<Rightarrow> string" where
  "marshal (JStr s) = json_quote s"
| "marshal (JInt n) = show_i64 n"
| "marshal (JObj kvs) =
     ''{'' @ join_with '','' (map (\<lambda>kv. json_quote (fst kv) @ '':'' @ marshal (snd kv)) kvs) @ ''}''"

text \<open>A map from strings, marshalled in the order of its keys.\<close>

type_synonym document = "(string, json) fmap"

definition json_of_map :: "document \<Rightarrow> json" where
  "json_of_map d = JObj (map (\<lambda>k. (k, the (fmlookup d k))) (sorted_list_of_fset (fmdom d)))"

section \<open>No line breaks\<close>

lemma of_char_newline [simp]: "of_char ch_newline = (10 :: nat)"
  by (simp add: ch_newline_def)

lemma cont_byte_high: "cont_byte c \<Longrightarrow> 0x80 \<le> (of_char c :: nat)"
  unfolding cont_byte_def by (metis div_mult_mod_eq le_add1 mult.commute mult_2 numeral_Bit0 numeral_times_numeral semiring_norm(12,13))

lemma byte_in_high: "byte_in lo hi c \<Longrightarrow> lo \<le> of_char c"
  by (simp add: byte_in_def)

lemma utf8_len_high: "x \<in> set (take (utf8_len s) s) \<Longrightarrow> 0x80 \<le> (of_char x :: nat)"
  by (auto simp: utf8_len_def split: list.splits if_splits dest!: cont_byte_high byte_in_high)

lemma newline_hex_char: "ch_newline \<noteq> hex_char n"
proof -
  have "\<forall>m \<in> set [0..<16]. ch_newline \<noteq> ''0123456789abcdef'' ! m" by code_simp
  then show ?thesis by (simp add: hex_char_def)
qed

lemma newline_consts: "ch_backslash \<noteq> ch_newline" "ch_quote \<noteq> ch_newline"
  "ch_newline \<notin> set ''u2028''" "ch_newline \<notin> set ''u2029''" "ch_newline \<notin> set ''ufffd''"
  "ch_newline \<notin> set ''rtnu0{},:-''"
  by code_simp+

lemma newline_escape_ascii: "ch_newline \<notin> set (escape_ascii c)"
  using newline_consts newline_hex_char
  by (auto simp: escape_ascii_def html_safe_def byte_in_def u_escape_def)

lemma newline_escape_seq: "ch_newline \<notin> set (escape_seq (take (utf8_len s) s))"
  using newline_consts utf8_len_high [of ch_newline s] by (auto simp: escape_seq_def)

lemma newline_escape_string: "ch_newline \<notin> set (escape_string s)"
proof (induction s rule: escape_string.induct)
  case (2 c cs)
  then show ?case
    using newline_escape_ascii [of c] newline_escape_seq [of "c # cs"] newline_consts
    by (auto simp: escape_string.simps(2))
qed simp

lemma newline_json_quote: "ch_newline \<notin> set (json_quote s)"
  using newline_escape_string newline_consts by (auto simp: json_quote_def)

lemma newline_show_nat: "ch_newline \<notin> set (show_nat n)"
proof (induction n rule: show_nat.induct)
  case (1 n)
  have "\<forall>m \<in> set [0..<10]. ''0123456789'' ! m \<noteq> ch_newline" by code_simp
  then have "''0123456789'' ! (n mod 10) \<noteq> ch_newline" by simp
  with 1 show ?case by (subst show_nat.simps) auto
qed

lemma newline_show_i64: "ch_newline \<notin> set (show_i64 n)"
  using newline_show_nat newline_consts by (auto simp: show_i64_def)

lemma set_join_with: "set (join_with sep ps) \<subseteq> set sep \<union> \<Union> (set ` set ps)"
  by (cases ps) (auto simp: join_with_def)

text \<open>An encoded value is one line, whatever bytes it is made of.\<close>

lemma newline_marshal: "ch_newline \<notin> set (marshal v)"
proof (induction v)
  case (JObj kvs)
  then have "ch_newline \<notin> set (join_with '','' (map (\<lambda>kv. json_quote (fst kv) @ '':'' @ marshal (snd kv)) kvs))"
    using newline_consts newline_json_quote
    by (auto dest!: subsetD [OF set_join_with])
  then show ?case using newline_consts by auto
qed (use newline_json_quote newline_show_i64 in auto)

end
