(* ===== verification/Exporter.thy ===== *)
theory Exporter
  imports Config Json "HOL-Library.Multiset"
begin

text \<open>
  \<^verbatim>\<open>internal/exporter/elk.go\<close>: the buffer of documents for Elasticsearch, filled by \<^verbatim>\<open>Export\<close>,
  emptied by \<^verbatim>\<open>Flush\<close>, and the bulk request that sends a batch. The mutex is free while a batch is
  on its way, so an operation is split where the code unlocks; \<open>others\<close> is what other goroutines do
  meanwhile. Time stamps are the strings the code formats. Network and servers are parameters.
\<close>

section \<open>The buffer\<close>

record exporter =
  eConfig :: elk_config
  eBuffer :: "document list"

datatype exporter_error = ExporterDisabled

text \<open>A negative batch size panics when the buffer is made.\<close>

definition NewELKExporter :: "elk_config \<Rightarrow> (exporter_error + exporter) option" where
  "NewELKExporter cfg =
     (if \<not> elkEnabled cfg then Some (Inl ExporterDisabled)
      else if elkBatchSize cfg <s 0 then None
      else Some (Inr \<lparr>eConfig = cfg, eBuffer = []\<rparr>))"

definition stamp :: "string \<Rightarrow> document \<Rightarrow> document" where
  "stamp now ev = (if fmlookup ev ''@timestamp'' = None then fmupd ''@timestamp'' (JStr now) ev else ev)"

text \<open>\<^verbatim>\<open>flushLocked\<close> up to the unlock, with the batch to send, and after the lock is taken again.\<close>

definition flush_begin :: "exporter \<Rightarrow> exporter \<times> document list option" where
  "flush_begin e = (if eBuffer e = [] then (e, None) else (e\<lparr>eBuffer := []\<rparr>, Some (eBuffer e)))"

definition flush_end :: "document list \<Rightarrow> bool \<Rightarrow> exporter \<Rightarrow> exporter" where
  "flush_end toSend ok e = (if ok then e else e\<lparr>eBuffer := toSend @ eBuffer e\<rparr>)"

definition flushLocked ::
    "(document list \<Rightarrow> bool) \<Rightarrow> (exporter \<Rightarrow> exporter) \<Rightarrow> exporter \<Rightarrow> exporter \<times> bool" where
  "flushLocked send others e =
     (case flush_begin e of
        (e1, None) \<Rightarrow> (e1, True)
      | (e1, Some toSend) \<Rightarrow> (flush_end toSend (send toSend) (others e1), send toSend))"

definition Flush :: "(document list \<Rightarrow> bool) \<Rightarrow> (exporter \<Rightarrow> exporter) \<Rightarrow> exporter \<Rightarrow> exporter \<times> bool" where
  "Flush send others e = flushLocked send others e"

definition buffer_full :: "exporter \<Rightarrow> bool" where
  "buffer_full e \<longleftrightarrow> sint (elkBatchSize (eConfig e)) \<le> int (length (eBuffer e))"

definition add_event :: "string \<Rightarrow> document \<Rightarrow> exporter \<Rightarrow> exporter" where
  "add_event now ev e = e\<lparr>eBuffer := eBuffer e @ [stamp now ev]\<rparr>"

definition Export ::
    "(document list \<Rightarrow> bool) \<Rightarrow> (exporter \<Rightarrow> exporter) \<Rightarrow> string \<Rightarrow> document \<Rightarrow> exporter \<Rightarrow> exporter \<times> bool" where
  "Export send others now ev e =
     (if \<not> elkEnabled (eConfig e) then (e, True)
      else (let e1 = add_event now ev e
            in if buffer_full e1 then flushLocked send others e1 else (e1, True)))"

text \<open>\<^verbatim>\<open>Close\<close> waits for the flush loop, which flushes a last time, and flushes again. Its error is
  always nil. The client is asked once by each flush.\<close>

definition Close ::
    "(document list \<Rightarrow> bool) \<Rightarrow> (document list \<Rightarrow> bool) \<Rightarrow> (exporter \<Rightarrow> exporter) \<Rightarrow> exporter \<Rightarrow> exporter" where
  "Close send1 send2 others e = fst (Flush send2 others (fst (Flush send1 others e)))"

section \<open>The bulk request\<close>

definition bulk_action :: "string \<Rightarrow> string" where
  "bulk_action index = marshal (JObj [(''index'', JObj [(''_index'', JStr index)])])"

definition bulk_body :: "string \<Rightarrow> document list \<Rightarrow> string" where
  "bulk_body index docs =
     concat (map (\<lambda>d. bulk_action index @ [ch_newline] @ marshal (json_of_map d) @ [ch_newline]) docs)"

text \<open>One attempt: no request can be made for the address, the transport fails after it has read some
  of the body, or there is an answer after some of the body has been read.\<close>

datatype reply = NoRequest | TransportError nat | Answer nat nat

definition success :: "nat \<Rightarrow> bool" where
  "success status \<longleftrightarrow> 200 \<le> status \<and> status < 300"

text \<open>The attempts share one buffer: what one has read is gone for the next. The result has the
  requests made, with their bodies.\<close>

fun try_addresses ::
    "(nat \<Rightarrow> string \<Rightarrow> string \<Rightarrow> reply) \<Rightarrow> nat \<Rightarrow> string list \<Rightarrow> string \<Rightarrow> bool \<times> (string \<times> string) list" where
  "try_addresses http i [] body = (False, [])"
| "try_addresses http i (a # as) body =
     (case http i a body of
        NoRequest \<Rightarrow> try_addresses http (Suc i) as body
      | TransportError n \<Rightarrow> apsnd ((#) (a, body)) (try_addresses http (Suc i) as (drop n body))
      | Answer n status \<Rightarrow>
          (if success status then (True, [(a, body)])
           else apsnd ((#) (a, body)) (try_addresses http (Suc i) as (drop n body))))"

definition BulkIndex ::
    "(nat \<Rightarrow> string \<Rightarrow> string \<Rightarrow> reply) \<Rightarrow> elk_config \<Rightarrow> string \<Rightarrow> document list
       \<Rightarrow> bool \<times> (string \<times> string) list" where
  "BulkIndex http cfg index documents =
     (if documents = [] then (True, [])
      else try_addresses http 0 (elkAddresses cfg) (bulk_body index documents))"

section \<open>Goroutines\<close>

text \<open>The exporter with the batches on their way. The last two components record what was taken in
  and what the client reported as sent.\<close>

record export_system =
  sysExporter :: exporter
  sysFlying :: "document list list"
  sysAccepted :: "document list"
  sysDelivered :: "document list"

definition launch :: "document list option \<Rightarrow> document list list \<Rightarrow> document list list" where
  "launch b fs = (case b of None \<Rightarrow> fs | Some batch \<Rightarrow> fs @ [batch])"

inductive export_step :: "export_system \<Rightarrow> export_system \<Rightarrow> bool" where
  exported:
    "elkEnabled (eConfig (sysExporter s)) \<Longrightarrow> e1 = add_event now ev (sysExporter s) \<Longrightarrow>
     (e, b) = (if buffer_full e1 then flush_begin e1 else (e1, None)) \<Longrightarrow>
     export_step s (s\<lparr>sysExporter := e, sysFlying := launch b (sysFlying s),
                      sysAccepted := sysAccepted s @ [stamp now ev]\<rparr>)"
| flushing:
    "(e, b) = flush_begin (sysExporter s) \<Longrightarrow>
     export_step s (s\<lparr>sysExporter := e, sysFlying := launch b (sysFlying s)\<rparr>)"
| sent:
    "sysFlying s = fs @ b # gs \<Longrightarrow>
     export_step s (s\<lparr>sysExporter := flush_end b True (sysExporter s), sysFlying := fs @ gs,
                      sysDelivered := sysDelivered s @ b\<rparr>)"
| failed:
    "sysFlying s = fs @ b # gs \<Longrightarrow>
     export_step s (s\<lparr>sysExporter := flush_end b False (sysExporter s), sysFlying := fs @ gs\<rparr>)"

section \<open>What an outbox promises\<close>

text \<open>An outbox with its account: a document that is taken in is entered in the account and is pending;
  pending documents are delivered, and are pending no more. A document becomes pending in no other way, so
  none can be delivered more often than it was taken in.\<close>

record 'x outbox =
  taken :: "'x multiset"
  pending :: "'x multiset"
  delivered :: "'x multiset"

definition empty_outbox :: "'x outbox" where
  "empty_outbox = \<lparr>taken = {#}, pending = {#}, delivered = {#}\<rparr>"

inductive outbox_step :: "'x outbox \<Rightarrow> 'x outbox \<Rightarrow> bool" where
  idle: "outbox_step o1 o1"
| accept: "outbox_step o1 (o1\<lparr>taken := add_mset d (taken o1), pending := add_mset d (pending o1)\<rparr>)"
| deliver: "B \<subseteq># pending o1 \<Longrightarrow> outbox_step o1 (o1\<lparr>pending := pending o1 - B, delivered := delivered o1 + B\<rparr>)"

text \<open>A system each of whose steps is a step of an outbox.\<close>

locale accounted_outbox =
  fixes step :: "'s \<Rightarrow> 's \<Rightarrow> bool"
    and outbox_of :: "'s \<Rightarrow> 'x outbox"
  assumes outbox: "step s s' \<Longrightarrow> outbox_step (outbox_of s) (outbox_of s')"
begin

lemma runs: "step\<^sup>*\<^sup>* s s' \<Longrightarrow> outbox_step\<^sup>*\<^sup>* (outbox_of s) (outbox_of s')"
  by (induction rule: rtranclp_induct) (auto dest: outbox intro: rtranclp.rtrancl_into_rtrancl)

lemma account:
  assumes "step s s'" "taken (outbox_of s) = pending (outbox_of s) + delivered (outbox_of s)"
  shows "taken (outbox_of s') = pending (outbox_of s') + delivered (outbox_of s')"
  using outbox [OF assms(1)] assms(2) by cases auto

lemma delivered_mono: "step\<^sup>*\<^sup>* s s' \<Longrightarrow> delivered (outbox_of s) \<subseteq># delivered (outbox_of s')"
proof (induction rule: rtranclp_induct)
  case (step y z)
  from outbox [OF step(2)] have "delivered (outbox_of y) \<subseteq># delivered (outbox_of z)"
    by cases auto
  with step(3) show ?case by (rule subset_mset.order_trans)
qed simp

lemma conserved:
  "step\<^sup>*\<^sup>* s s' \<Longrightarrow> taken (outbox_of s) = pending (outbox_of s) + delivered (outbox_of s) \<Longrightarrow>
   taken (outbox_of s') = pending (outbox_of s') + delivered (outbox_of s')"
  by (induction rule: rtranclp_induct) (auto dest: account)

end

text \<open>The account is of the documents \<^verbatim>\<open>Export\<close> took in; pending is what is in the buffer or on its way.\<close>

definition exporter_outbox :: "export_system \<Rightarrow> document outbox" where
  "exporter_outbox s =
     \<lparr>taken = mset (sysAccepted s),
      pending = mset (eBuffer (sysExporter s)) + mset (concat (sysFlying s)),
      delivered = mset (sysDelivered s)\<rparr>"

lemmas exporter_outbox_defs = exporter_outbox_def add_event_def flush_begin_def flush_end_def launch_def

interpretation elk: accounted_outbox export_step exporter_outbox
proof (unfold_locales, goal_cases)
  case (1 s s')
  then show ?case
  proof cases
    case (exported e1 now ev e b)
    then have "exporter_outbox s' =
        (exporter_outbox s)\<lparr>taken := add_mset (stamp now ev) (taken (exporter_outbox s)),
          pending := add_mset (stamp now ev) (pending (exporter_outbox s))\<rparr>"
      by (auto simp: exporter_outbox_defs split: if_splits)
    then show ?thesis by (simp add: outbox_step.accept)
  next
    case (flushing e b)
    then have "exporter_outbox s' = exporter_outbox s"
      by (auto simp: exporter_outbox_defs split: if_splits)
    then show ?thesis by (simp add: outbox_step.idle)
  next
    case (sent fs b gs)
    then have "exporter_outbox s' =
        (exporter_outbox s)\<lparr>pending := pending (exporter_outbox s) - mset b,
                            delivered := delivered (exporter_outbox s) + mset b\<rparr>"
      "mset b \<subseteq># pending (exporter_outbox s)"
      by (auto simp: exporter_outbox_defs)
    then show ?thesis by (simp add: outbox_step.deliver)
  next
    case (failed fs b gs)
    then have "exporter_outbox s' = exporter_outbox s"
      by (auto simp: exporter_outbox_defs)
    then show ?thesis by (simp add: outbox_step.idle)
  qed
qed

definition fresh_system :: "elk_config \<Rightarrow> export_system" where
  "fresh_system cfg = \<lparr>
     sysExporter = \<lparr>eConfig = cfg, eBuffer = []\<rparr>, sysFlying = [], sysAccepted = [], sysDelivered = []\<rparr>"

text \<open>An exporter with a batch size of 2 takes in two documents, fails to send them, and sends them.\<close>

definition elk_example :: elk_config where
  "elk_example = DefaultELKConfig\<lparr>elkEnabled := True, elkBatchSize := 2, elkAddresses := [''http://a'', ''http://b'']\<rparr>"

definition doc_example :: "string \<Rightarrow> document" where
  "doc_example m = fmupd ''message'' (JStr m) (fmupd ''@timestamp'' (JStr ''t'') fmempty)"

lemma stamp_example: "stamp now (doc_example m) = doc_example m"
  by (simp add: stamp_def doc_example_def)

lemma example_run:
  "export_step\<^sup>*\<^sup>* (fresh_system elk_example)
     \<lparr>sysExporter = \<lparr>eConfig = elk_example, eBuffer = []\<rparr>, sysFlying = [],
      sysAccepted = [doc_example ''a'', doc_example ''b''], sysDelivered = [doc_example ''a'', doc_example ''b'']\<rparr>"
proof -
  let ?a = "doc_example ''a''" and ?b = "doc_example ''b''"
  let ?s0 = "fresh_system elk_example"
  let ?s1 = "?s0\<lparr>sysExporter := \<lparr>eConfig = elk_example, eBuffer = [?a]\<rparr>, sysAccepted := [?a]\<rparr>"
  let ?s2 = "?s0\<lparr>sysFlying := [[?a, ?b]], sysAccepted := [?a, ?b]\<rparr>"
  let ?s3 = "?s0\<lparr>sysExporter := \<lparr>eConfig = elk_example, eBuffer = [?a, ?b]\<rparr>, sysAccepted := [?a, ?b]\<rparr>"
  let ?s5 = "?s0\<lparr>sysAccepted := [?a, ?b], sysDelivered := [?a, ?b]\<rparr>"
  have "export_step ?s0 ?s1"
    using export_step.exported [of ?s0 _ "''t''" ?a]
    by (simp add: fresh_system_def elk_example_def stamp_example add_event_def buffer_full_def launch_def)
  moreover have "export_step ?s1 ?s2"
    using export_step.exported [of ?s1 _ "''t''" ?b]
    by (simp add: fresh_system_def elk_example_def stamp_example add_event_def buffer_full_def launch_def flush_begin_def)
  moreover have "export_step ?s2 ?s3"
    using export_step.failed [of ?s2 "[]" "[?a, ?b]" "[]"]
    by (simp add: fresh_system_def flush_end_def)
  moreover have "export_step ?s3 ?s2"
    using export_step.flushing [of "sysExporter ?s0" "Some [?a, ?b]" ?s3]
    by (simp add: fresh_system_def flush_begin_def launch_def)
  moreover have "export_step ?s2 ?s5"
    using export_step.sent [of ?s2 "[]" "[?a, ?b]" "[]"]
    by (simp add: fresh_system_def flush_end_def)
  ultimately have "export_step\<^sup>*\<^sup>* ?s0 ?s5"
    by (meson rtranclp.rtrancl_into_rtrancl rtranclp.rtrancl_refl)
  then show ?thesis by (simp add: fresh_system_def)
qed

section \<open>Properties\<close>

text \<open>C24. However the goroutines interleave and whatever the client answers, every document taken in
  is, as often as it was taken in, in the buffer, on its way, or reported as sent: none is lost and none
  is sent again after a reported success.\<close>

theorem exporter_conserves:
  assumes "export_step\<^sup>*\<^sup>* (fresh_system cfg) s"
  shows "mset (sysAccepted s) =
     mset (eBuffer (sysExporter s)) + mset (concat (sysFlying s)) + mset (sysDelivered s)"
  using elk.conserved [OF assms]
  by (simp add: exporter_outbox_def fresh_system_def)

theorem exporter_conserves_witness:
  "mset [doc_example ''a'', doc_example ''b''] = {#} + {#} + mset [doc_example ''a'', doc_example ''b'']"
  using exporter_conserves [OF example_run] by simp

text \<open>C25. The exporter with its goroutines implements an outbox with an account: from the empty outbox on,
  every single step of it is one step of the outbox. It leaves the account, what is pending and what is
  delivered as they are, or takes in one document, which is entered in the account and pending, or delivers
  a batch of pending documents, which are pending no more. A failed batch is pending as before, and no
  document becomes pending again after a reported success.\<close>

theorem exporter_refines_outbox:
  assumes "export_step\<^sup>*\<^sup>* (fresh_system cfg) s" and "export_step s s'"
  shows "outbox_step\<^sup>*\<^sup>* empty_outbox (exporter_outbox s) \<and> outbox_step (exporter_outbox s) (exporter_outbox s')"
proof
  have "exporter_outbox (fresh_system cfg) = empty_outbox"
    by (simp add: exporter_outbox_def fresh_system_def empty_outbox_def)
  then show "outbox_step\<^sup>*\<^sup>* empty_outbox (exporter_outbox s)" using elk.runs [OF assms(1)] by simp
qed (rule elk.outbox [OF assms(2)])

lemma exporter_refines_outbox_witness:
  "outbox_step\<^sup>*\<^sup>* empty_outbox
     \<lparr>taken = {#doc_example ''a'', doc_example ''b''#}, pending = {#},
      delivered = {#doc_example ''a'', doc_example ''b''#}\<rparr> \<and>
   (\<exists>o'. outbox_step \<lparr>taken = {#doc_example ''a'', doc_example ''b''#}, pending = {#},
      delivered = {#doc_example ''a'', doc_example ''b''#}\<rparr> o' \<and> pending o' = {#doc_example ''c''#})"
proof -
  let ?s = "\<lparr>sysExporter = \<lparr>eConfig = elk_example, eBuffer = []\<rparr>, sysFlying = [],
    sysAccepted = [doc_example ''a'', doc_example ''b''], sysDelivered = [doc_example ''a'', doc_example ''b'']\<rparr>"
  have "export_step ?s (?s\<lparr>sysExporter := \<lparr>eConfig = elk_example, eBuffer = [doc_example ''c'']\<rparr>,
      sysAccepted := sysAccepted ?s @ [doc_example ''c'']\<rparr>)"
    using export_step.exported [of ?s _ "''t''" "doc_example ''c''"]
    by (simp add: elk_example_def stamp_example add_event_def buffer_full_def launch_def)
  from exporter_refines_outbox [OF example_run this] show ?thesis by (auto simp: exporter_outbox_def)
qed

lemma newline_bulk_action: "ch_newline \<notin> set (bulk_action index)"
  unfolding bulk_action_def by (rule newline_marshal)

text \<open>The body of a bulk request is two lines for each document, the action and the document,
  whatever the strings in them: nothing in a logged message can add a line.\<close>

theorem bulk_body_lines:
  "split_on ch_newline (bulk_body index docs) =
     concat (map (\<lambda>d. [bulk_action index, marshal (json_of_map d)]) docs) @ [[]]"
proof (induction docs)
  case (Cons d docs)
  have "split_on ch_newline (bulk_body index (d # docs)) =
      split_on ch_newline (bulk_action index) @ split_on ch_newline (marshal (json_of_map d)) @
      split_on ch_newline (bulk_body index docs)"
    by (simp add: bulk_body_def split_on_append)
  then show ?case
    using Cons newline_marshal newline_bulk_action by (simp add: split_on_notin)
qed (simp add: bulk_body_def)

lemma try_addresses_empty: "(a, y) \<in> set (snd (try_addresses http i as [])) \<Longrightarrow> y = []"
  by (induction as arbitrary: i) (auto split: reply.splits if_splits)

lemma try_addresses_accepted:
  "fst (try_addresses http i as []) \<Longrightarrow>
   \<exists>j b k st. last (snd (try_addresses http i as [])) = (b, []) \<and> snd (try_addresses http i as []) \<noteq> [] \<and>
     http j b [] = Answer k st \<and> success st"
proof (induction as arbitrary: i)
  case (Cons a as)
  show ?case
  proof (cases "fst (try_addresses http (Suc i) as [])")
    case True
    obtain j b k st where "last (snd (try_addresses http (Suc i) as [])) = (b, [])"
      "snd (try_addresses http (Suc i) as []) \<noteq> []" "http j b [] = Answer k st" "success st"
      using Cons.IH [OF True] by blast
    then show ?thesis using Cons.prems by (cases "http i a []") auto
  qed (use Cons.prems in \<open>auto split: reply.splits if_splits\<close>)
qed simp

lemma try_addresses_last:
  "fst (try_addresses http i as body) \<Longrightarrow>
   \<forall>j a. case http j a body of NoRequest \<Rightarrow> True | TransportError n \<Rightarrow> n = 0 | Answer n st \<Rightarrow> success st \<Longrightarrow>
   snd (last (snd (try_addresses http i as body))) = body \<and> snd (try_addresses http i as body) \<noteq> []"
proof (induction as arbitrary: i)
  case (Cons a as)
  have "case http i a body of NoRequest \<Rightarrow> True | TransportError n \<Rightarrow> n = 0 | Answer n st \<Rightarrow> success st"
    using Cons.prems(2) by blast
  then show ?case
    using Cons.prems Cons.IH [of "Suc i"] by (cases "http i a body") auto
qed simp

text \<open>C26. When the first address has read the whole request and refuses it, with an answer that is not
  2xx, every later address is sent an empty body: the fail-over offers the documents to none of them. So
  when the bulk request still reports success, because a later address accepts the empty body, no address
  has accepted a document. An address that cannot be connected to is another case, see
  \<^verbatim>\<open>BulkIndex_delivers\<close>.\<close>

theorem BulkIndex_failover_empty:
  assumes "documents \<noteq> []" "elkAddresses cfg = a # as"
    and "http 0 a (bulk_body index documents) = Answer n status" "\<not> success status"
    and "length (bulk_body index documents) \<le> n"
  shows "\<exists>later. snd (BulkIndex http cfg index documents) = (a, bulk_body index documents) # later \<and>
     (\<forall>r \<in> set later. snd r = []) \<and>
     (fst (BulkIndex http cfg index documents) \<longrightarrow>
        (\<exists>j b k st. last later = (b, []) \<and> later \<noteq> [] \<and> http j b [] = Answer k st \<and> success st))"
proof -
  let ?t = "try_addresses http (Suc 0) as []"
  have "BulkIndex http cfg index documents = apsnd ((#) (a, bulk_body index documents)) ?t"
    using assms by (simp add: BulkIndex_def)
  moreover have "\<forall>r \<in> set (snd ?t). snd r = []" using try_addresses_empty [of _ _ http "Suc 0" as] by auto
  ultimately show ?thesis
    using try_addresses_accepted [of http "Suc 0" as] by (intro exI [of _ "snd ?t"]) simp
qed

text \<open>The first server is read only; the second one accepts whatever it is sent, and the bulk request
  succeeds without a document.\<close>

definition servers_example :: "nat \<Rightarrow> string \<Rightarrow> string \<Rightarrow> reply" where
  "servers_example i a body = Answer (length body) (if a = ''http://a'' then 403 else 200)"

lemma BulkIndex_failover_empty_witness:
  "\<exists>later. BulkIndex servers_example elk_example ''phantom-grid'' [doc_example ''a'']
       = (True, (''http://a'', bulk_body ''phantom-grid'' [doc_example ''a'']) # later) \<and>
     later \<noteq> [] \<and> (\<forall>r \<in> set later. snd r = [])"
proof -
  have "fst (BulkIndex servers_example elk_example ''phantom-grid'' [doc_example ''a''])"
    by (simp add: BulkIndex_def elk_example_def servers_example_def success_def)
  with BulkIndex_failover_empty [of "[doc_example ''a'']" elk_example "''http://a''" "[''http://b'']" servers_example
      "''phantom-grid''" "length (bulk_body ''phantom-grid'' [doc_example ''a''])" 403]
  show ?thesis by (force simp: elk_example_def servers_example_def success_def prod_eq_iff)
qed

text \<open>When no attempt before the last one consumes the body, a bulk request that succeeds has
  delivered all the documents to the last address it tried.\<close>

theorem BulkIndex_delivers:
  assumes "documents \<noteq> []" "fst (BulkIndex http cfg index documents)"
    and "\<forall>j a. case http j a (bulk_body index documents) of
           NoRequest \<Rightarrow> True | TransportError n \<Rightarrow> n = 0 | Answer n st \<Rightarrow> success st"
  shows "snd (last (snd (BulkIndex http cfg index documents))) = bulk_body index documents"
  using assms try_addresses_last by (simp add: BulkIndex_def)

text \<open>The first server is down.\<close>

definition down_example :: "nat \<Rightarrow> string \<Rightarrow> string \<Rightarrow> reply" where
  "down_example i a body = (if a = ''http://a'' then TransportError 0 else Answer (length body) 200)"

theorem BulkIndex_delivers_witness:
  "snd (last (snd (BulkIndex down_example elk_example ''phantom-grid'' [doc_example ''a''])))
     = bulk_body ''phantom-grid'' [doc_example ''a'']"
  by (rule BulkIndex_delivers) (simp_all add: BulkIndex_def elk_example_def down_example_def success_def)

end
