(* ===== verification/Logger.thy ===== *)
theory Logger
  imports Exporter
begin

text \<open>
  \<^verbatim>\<open>internal/logger\<close>: structured events (\<^verbatim>\<open>event.go\<close>), and the manager that routes each message
  of its channel to the dashboard and the exporter (\<^verbatim>\<open>manager.go\<close>); and the monitor of the kernel's
  authentication counters, which writes into that channel (\<^verbatim>\<open>internal/spa/manager.go\<close>).
\<close>

section \<open>Events\<close>

type_synonym event_type = string

definition EventTypeTrapHit :: event_type where "EventTypeTrapHit = ''trap_hit''"
definition EventTypeCommand :: event_type where "EventTypeCommand = ''command''"
definition EventTypeSPAAuth :: event_type where "EventTypeSPAAuth = ''spa_auth''"
definition EventTypeSPAFailed :: event_type where "EventTypeSPAFailed = ''spa_failed''"
definition EventTypeStealthDrop :: event_type where "EventTypeStealthDrop = ''stealth_drop''"
definition EventTypeOSMutation :: event_type where "EventTypeOSMutation = ''os_mutation''"
definition EventTypeEgressBlock :: event_type where "EventTypeEgressBlock = ''egress_block''"
definition EventTypeConnection :: event_type where "EventTypeConnection = ''connection''"
definition EventTypeSystem :: event_type where "EventTypeSystem = ''system''"

lemmas event_type_defs = EventTypeTrapHit_def EventTypeCommand_def EventTypeSPAAuth_def EventTypeSPAFailed_def
  EventTypeStealthDrop_def EventTypeOSMutation_def EventTypeEgressBlock_def EventTypeConnection_def EventTypeSystem_def

text \<open>The metadata is a map that may be nil.\<close>

record security_event =
  seTimestamp :: string
  seEventType :: event_type
  seSourceIP :: string
  seDestinationIP :: string
  sePort :: i64
  seCommand :: string
  seService :: string
  seMessage :: string
  seRiskLevel :: string
  seMetadata :: "document option"

definition NewSecurityEvent :: "string \<Rightarrow> event_type \<Rightarrow> string \<Rightarrow> security_event" where
  "NewSecurityEvent now eventType message = \<lparr>
     seTimestamp = now, seEventType = eventType, seSourceIP = [], seDestinationIP = [], sePort = 0,
     seCommand = [], seService = [], seMessage = message, seRiskLevel = [], seMetadata = Some fmempty\<rparr>"

definition WithSourceIP :: "string \<Rightarrow> security_event \<Rightarrow> security_event" where
  "WithSourceIP ip e = e\<lparr>seSourceIP := ip\<rparr>"

definition WithDestinationIP :: "string \<Rightarrow> security_event \<Rightarrow> security_event" where
  "WithDestinationIP ip e = e\<lparr>seDestinationIP := ip\<rparr>"

definition WithPort :: "i64 \<Rightarrow> security_event \<Rightarrow> security_event" where
  "WithPort port e = e\<lparr>sePort := port\<rparr>"

definition WithCommand :: "string \<Rightarrow> security_event \<Rightarrow> security_event" where
  "WithCommand cmd e = e\<lparr>seCommand := cmd, seRiskLevel := ''HIGH''\<rparr>"

definition WithService :: "string \<Rightarrow> security_event \<Rightarrow> security_event" where
  "WithService service e = e\<lparr>seService := service\<rparr>"

definition WithRiskLevel :: "string \<Rightarrow> security_event \<Rightarrow> security_event" where
  "WithRiskLevel level e = e\<lparr>seRiskLevel := level\<rparr>"

definition WithMetadata :: "string \<Rightarrow> json \<Rightarrow> security_event \<Rightarrow> security_event" where
  "WithMetadata key v e =
     e\<lparr>seMetadata := Some (fmupd key v (case seMetadata e of None \<Rightarrow> fmempty | Some m \<Rightarrow> m))\<rparr>"

text \<open>A field that is written only if it is set.\<close>

definition put_if :: "bool \<Rightarrow> string \<Rightarrow> json \<Rightarrow> document \<Rightarrow> document" where
  "put_if c key v d = (if c then fmupd key v d else d)"

definition ToMap :: "security_event \<Rightarrow> document" where
  "ToMap e =
     (let d = fmupd ''message'' (JStr (seMessage e)) (fmupd ''event_type'' (JStr (seEventType e))
                (fmupd ''@timestamp'' (JStr (seTimestamp e)) fmempty));
          d = put_if (seSourceIP e \<noteq> []) ''source_ip'' (JStr (seSourceIP e)) d;
          d = put_if (seDestinationIP e \<noteq> []) ''destination_ip'' (JStr (seDestinationIP e)) d;
          d = put_if (0 <s sePort e) ''port'' (JInt (sePort e)) d;
          d = put_if (seCommand e \<noteq> []) ''command'' (JStr (seCommand e)) d;
          d = put_if (seService e \<noteq> []) ''service'' (JStr (seService e)) d;
          d = put_if (seRiskLevel e \<noteq> []) ''risk_level'' (JStr (seRiskLevel e)) d
      in case seMetadata e of
           None \<Rightarrow> d
         | Some m \<Rightarrow> put_if (m \<noteq> fmempty) ''metadata'' (json_of_map m) d)"

section \<open>Messages\<close>

definition parseLogMessage :: "string \<Rightarrow> string \<Rightarrow> security_event" where
  "parseLogMessage now msg =
     (if str_contains msg ''TRAP HIT'' then (NewSecurityEvent now EventTypeTrapHit msg)\<lparr>seRiskLevel := ''HIGH''\<rparr>
      else if str_contains msg ''COMMAND'' then
        (let e = (NewSecurityEvent now EventTypeCommand msg)\<lparr>seRiskLevel := ''HIGH''\<rparr>
         in case str_index msg ''COMMAND:'' of
              None \<Rightarrow> e
            | Some idx \<Rightarrow> e\<lparr>seCommand := strings_trim_space (drop (idx + 8) msg)\<rparr>)
      else if str_contains msg ''[SPA] Successful authentication'' then
        (NewSecurityEvent now EventTypeSPAAuth msg)\<lparr>seRiskLevel := ''INFO''\<rparr>
      else if str_contains msg ''[SPA] Failed authentication'' then
        (NewSecurityEvent now EventTypeSPAFailed msg)\<lparr>seRiskLevel := ''MEDIUM''\<rparr>
      else if str_contains msg ''stealth'' \<or> str_contains msg ''Stealth'' then
        (NewSecurityEvent now EventTypeStealthDrop msg)\<lparr>seRiskLevel := ''MEDIUM''\<rparr>
      else if str_contains msg ''OS mutation'' \<or> str_contains msg ''OS fingerprint'' then
        (NewSecurityEvent now EventTypeOSMutation msg)\<lparr>seRiskLevel := ''LOW''\<rparr>
      else if str_contains msg ''egress'' \<or> str_contains msg ''DLP'' then
        (NewSecurityEvent now EventTypeEgressBlock msg)\<lparr>seRiskLevel := ''HIGH''\<rparr>
      else if str_contains msg ''Connection'' \<or> str_contains msg ''connection'' then
        (NewSecurityEvent now EventTypeConnection msg)\<lparr>seRiskLevel := ''LOW''\<rparr>
      else (NewSecurityEvent now EventTypeSystem msg)\<lparr>seRiskLevel := ''INFO''\<rparr>)"

text \<open>What the handler of SPA packets logs when it has whitelisted an address.\<close>

definition handler_success :: "string \<Rightarrow> string" where
  "handler_success ip = ''[SPA] Successfully authenticated and whitelisted IP: '' @ ip"

section \<open>The monitor of the counters\<close>

record monitor =
  lastSuccessCount :: u64
  lastFailedCount :: u64
  whitelistDuration :: i64

definition monitor_success :: "u64 \<Rightarrow> string" where
  "monitor_success n = ''[SPA] Successful authentication! (Total: '' @ show_nat (unat n) @ '')''"

definition monitor_failed :: "u64 \<Rightarrow> string" where
  "monitor_failed n = ''[SPA] Failed authentication attempt (Total: '' @ show_nat (unat n) @ '')''"

definition monitor_whitelisted :: "i64 \<Rightarrow> string" where
  "monitor_whitelisted d = ''[SPA] IP whitelisted for '' @ show_i64 d @ '' seconds (LRU map auto-expiry)''"

text \<open>One tick, with what the two look-ups give.\<close>

definition monitor_tick :: "u64 option \<Rightarrow> u64 option \<Rightarrow> monitor \<Rightarrow> monitor \<times> string list" where
  "monitor_tick successVal failedVal m =
     (let (m1, msgs1) = (case successVal of
            None \<Rightarrow> (m, [])
          | Some n \<Rightarrow> if lastSuccessCount m < n
                      then (m\<lparr>lastSuccessCount := n\<rparr>, [monitor_success n, monitor_whitelisted (whitelistDuration m)])
                      else (m, []));
          (m2, msgs2) = (case failedVal of
            None \<Rightarrow> (m1, [])
          | Some n \<Rightarrow> if lastFailedCount m1 < n then (m1\<lparr>lastFailedCount := n\<rparr>, [monitor_failed n]) else (m1, []))
      in (m2, msgs1 @ msgs2))"

section \<open>The manager\<close>

definition log_capacity :: nat where "log_capacity = 1000"

text \<open>The dashboard is a channel, with its capacity, that may be nil.\<close>

record log_manager =
  lmMode :: output_mode
  lmQueue :: "string list"
  lmClosed :: bool
  lmDashboard :: "(nat \<times> string list) option"
  lmExporter :: "exporter option"

definition to_dashboard :: "log_manager \<Rightarrow> bool" where
  "to_dashboard m \<longleftrightarrow> lmMode m = OutputModeDashboard \<or> lmMode m = OutputModeBoth"

definition to_elk :: "output_mode \<Rightarrow> bool" where
  "to_elk mode \<longleftrightarrow> mode = OutputModeELK \<or> mode = OutputModeBoth"

definition NewLogManager ::
    "output_mode \<Rightarrow> elk_config \<Rightarrow> (nat \<times> string list) option \<Rightarrow> (exporter_error + log_manager) option" where
  "NewLogManager mode cfg dash =
     (let m = \<lparr>lmMode = mode, lmQueue = [], lmClosed = False, lmDashboard = dash, lmExporter = None\<rparr>
      in if to_elk mode then
           map_option (map_sum id (\<lambda>e. m\<lparr>lmExporter := Some e\<rparr>)) (NewELKExporter (cfg\<lparr>elkEnabled := True\<rparr>))
         else Some (Inr m))"

text \<open>Sending without waiting: a message for a full channel is dropped.\<close>

definition dashboard_send :: "string \<Rightarrow> (nat \<times> string list) option \<Rightarrow> (nat \<times> string list) option" where
  "dashboard_send msg d = map_option (\<lambda>(cap, q). (cap, if length q < cap then q @ [msg] else q)) d"

definition route_dashboard :: "string \<Rightarrow> log_manager \<Rightarrow> log_manager" where
  "route_dashboard msg m =
     (if to_dashboard m then m\<lparr>lmDashboard := dashboard_send msg (lmDashboard m)\<rparr> else m)"

definition route_elk :: "(document list \<Rightarrow> bool) \<Rightarrow> string \<Rightarrow> security_event \<Rightarrow> log_manager \<Rightarrow> log_manager" where
  "route_elk send now ev m =
     (if to_elk (lmMode m)
      then m\<lparr>lmExporter := map_option (\<lambda>e. fst (Export send id now (ToMap ev) e)) (lmExporter m)\<rparr>
      else m)"

text \<open>What \<^verbatim>\<open>processLogs\<close> does with one message, and \<^verbatim>\<open>LogEvent\<close>.\<close>

definition process_log :: "(document list \<Rightarrow> bool) \<Rightarrow> string \<Rightarrow> string \<Rightarrow> log_manager \<Rightarrow> log_manager" where
  "process_log send now msg m = route_elk send now (parseLogMessage now msg) (route_dashboard msg m)"

definition event_line :: "security_event \<Rightarrow> string" where
  "event_line ev =
     ''['' @ seEventType ev @ ''] '' @ seMessage ev @
     (if seSourceIP ev \<noteq> [] then '' | IP: '' @ seSourceIP ev else []) @
     (if seCommand ev \<noteq> [] then '' | CMD: '' @ seCommand ev else [])"

definition LogEvent :: "(document list \<Rightarrow> bool) \<Rightarrow> string \<Rightarrow> security_event \<Rightarrow> log_manager \<Rightarrow> log_manager" where
  "LogEvent send now ev m = route_elk send now ev (route_dashboard (event_line ev) m)"

definition CloseLog :: "(document list \<Rightarrow> bool) \<Rightarrow> log_manager \<Rightarrow> log_manager" where
  "CloseLog send m = m\<lparr>lmClosed := True, lmExporter := map_option (Close send send id) (lmExporter m)\<rparr>"

text \<open>The manager at work, with its goroutine, the exporter's ticker, and the dashboard that reads.
  Sending to a full channel waits; sending to or closing a closed channel panics and is no step. The
  ticker stops when the exporter is closed.\<close>

inductive log_step :: "(document list \<Rightarrow> bool) \<Rightarrow> log_manager \<Rightarrow> log_manager \<Rightarrow> bool" for send where
  log: "\<not> lmClosed m \<Longrightarrow> length (lmQueue m) < log_capacity \<Longrightarrow>
    log_step send m (m\<lparr>lmQueue := lmQueue m @ [msg]\<rparr>)"
| process: "lmQueue m = msg # rest \<Longrightarrow> log_step send m (process_log send now msg (m\<lparr>lmQueue := rest\<rparr>))"
| tick: "\<not> lmClosed m \<Longrightarrow> log_step send m (m\<lparr>lmExporter := map_option (\<lambda>e. fst (Flush send id e)) (lmExporter m)\<rparr>)"
| close: "\<not> lmClosed m \<Longrightarrow> log_step send m (CloseLog send m)"
| read: "lmDashboard m = Some (cap, msg # q) \<Longrightarrow> log_step send m (m\<lparr>lmDashboard := Some (cap, q)\<rparr>)"

inductive_cases log_stepE: "log_step send m m'"

section \<open>Properties\<close>

lemma parse_type_cases:
  "seEventType (parseLogMessage now msg) =
     (if sublist ''TRAP HIT'' msg then EventTypeTrapHit
      else if sublist ''COMMAND'' msg then EventTypeCommand
      else if sublist ''[SPA] Successful authentication'' msg then EventTypeSPAAuth
      else if sublist ''[SPA] Failed authentication'' msg then EventTypeSPAFailed
      else if sublist ''stealth'' msg \<or> sublist ''Stealth'' msg then EventTypeStealthDrop
      else if sublist ''OS mutation'' msg \<or> sublist ''OS fingerprint'' msg then EventTypeOSMutation
      else if sublist ''egress'' msg \<or> sublist ''DLP'' msg then EventTypeEgressBlock
      else if sublist ''Connection'' msg \<or> sublist ''connection'' msg then EventTypeConnection
      else EventTypeSystem)"
  by (simp add: parseLogMessage_def str_contains_sublist NewSecurityEvent_def Let_def split: option.split)

lemma set_show_nat: "set (show_nat n) \<subseteq> set ''0123456789''"
proof (induction n rule: show_nat.induct)
  case (1 n)
  have "''0123456789'' ! (n mod 10) \<in> set ''0123456789''"
    by (rule nth_mem) simp
  with 1 show ?case by (subst show_nat.simps) (auto simp del: nth_mem)
qed

lemma not_sublist_char: "x \<in> set p \<Longrightarrow> x \<notin> set s \<Longrightarrow> \<not> sublist p s"
  by (auto dest: set_mono_sublist)

lemma monitor_success_chars: "CHR ''R'' \<notin> set (monitor_success n)" "CHR ''C'' \<notin> set (monitor_success n)"
  using set_show_nat [of "unat n"] by (auto simp: monitor_success_def)

lemma sublist_head_unique:
  assumes "sublist (c # p) (c # s)" "c \<notin> set s"
  shows "prefix p s"
  using assms by (auto simp: sublist_Cons_right dest: set_mono_sublist)

text \<open>The event of the monitor's message about a successful authentication has the type that is
  meant for it; the event of the handler's message about the client it has just let in never has.\<close>

theorem success_messages_classified:
  assumes "CHR ''['' \<notin> set ip"
  shows "seEventType (parseLogMessage now (monitor_success n)) = EventTypeSPAAuth \<and>
     seEventType (parseLogMessage now (handler_success ip)) \<noteq> EventTypeSPAAuth"
proof
  have "\<not> sublist ''TRAP HIT'' (monitor_success n)"
    by (rule not_sublist_char [OF _ monitor_success_chars(1)]) simp
  moreover have "\<not> sublist ''COMMAND'' (monitor_success n)"
    by (rule not_sublist_char [OF _ monitor_success_chars(2)]) simp
  moreover have "sublist ''[SPA] Successful authentication'' (monitor_success n)"
    by (rule prefix_imp_sublist) (simp add: monitor_success_def)
  ultimately show "seEventType (parseLogMessage now (monitor_success n)) = EventTypeSPAAuth"
    by (simp add: parse_type_cases)
  have "\<not> sublist ''[SPA] Successful authentication'' (handler_success ip)"
    using assms unfolding handler_success_def by (auto dest!: sublist_head_unique)
  then show "seEventType (parseLogMessage now (handler_success ip)) \<noteq> EventTypeSPAAuth"
    by (simp add: parse_type_cases event_type_defs)
qed

theorem success_messages_classified_witness:
  "seEventType (parseLogMessage ''t'' (monitor_success 3)) = EventTypeSPAAuth \<and>
   seEventType (parseLogMessage ''t'' (handler_success ''192.0.2.9'')) \<noteq> EventTypeSPAAuth"
  by (rule success_messages_classified) simp

lemma process_log_dashboard:
  "lmDashboard (process_log send now msg m) =
     (if to_dashboard m then dashboard_send msg (lmDashboard m) else lmDashboard m)"
  "lmMode (process_log send now msg m) = lmMode m"
  by (simp_all add: process_log_def route_elk_def route_dashboard_def)

text \<open>The messages that reach the dashboard while it does not read are the oldest ones, as many as
  fit; the log never waits for it, and without a dashboard mode it gets none.\<close>

theorem dashboard_gets_oldest:
  assumes "lmDashboard m = Some (cap, q)" "length q \<le> cap"
  shows "lmDashboard (foldl (\<lambda>m msg. process_log send now msg m) m msgs) =
     Some (cap, if to_dashboard m then take cap (q @ msgs) else q)"
  using assms
proof (induction msgs arbitrary: m q)
  case (Cons msg msgs)
  let ?q = "if to_dashboard m \<and> length q < cap then q @ [msg] else q"
  have "lmDashboard (process_log send now msg m) = Some (cap, ?q)" "length ?q \<le> cap"
    using Cons.prems by (auto simp: process_log_dashboard dashboard_send_def)
  from Cons.IH [OF this] show ?case
    using Cons.prems by (cases "length q < cap") (simp_all add: process_log_dashboard to_dashboard_def take_Cons')
qed simp

theorem dashboard_gets_oldest_witness:
  "lmDashboard (foldl (\<lambda>m msg. process_log (\<lambda>_. True) ''t'' msg m)
      \<lparr>lmMode = OutputModeBoth, lmQueue = [], lmClosed = False, lmDashboard = Some (2, [''a'']), lmExporter = None\<rparr>
      [''b'', ''c'']) = Some (2, [''a'', ''b''])"
  by (subst dashboard_gets_oldest [where cap = 2 and q = "[''a'']"])
    (simp_all add: to_dashboard_def output_mode_defs)

lemma put_if_lookup: "fmlookup (put_if c k v d) j = (if c \<and> k = j then Some v else fmlookup d j)"
  by (simp add: put_if_def)

lemma ToMap_timestamp: "fmlookup (ToMap e) ''@timestamp'' = Some (JStr (seTimestamp e))"
  by (cases "seMetadata e") (simp_all add: ToMap_def Let_def put_if_lookup)

lemma ToMap_stamped: "stamp now (ToMap e) = ToMap e"
  by (simp add: stamp_def ToMap_timestamp)

lemma Export_failing:
  assumes "\<And>docs. \<not> send docs" "elkEnabled (eConfig e)"
  shows "fst (Export send id now ev e) = add_event now ev e"
  using assms by (auto simp: Export_def add_event_def flushLocked_def flush_begin_def flush_end_def Let_def)

lemma Export_room:
  assumes "elkEnabled (eConfig e)" "int (Suc (length (eBuffer e))) < sint (elkBatchSize (eConfig e))"
  shows "fst (Export send id now ev e) = add_event now ev e"
  using assms by (simp add: Export_def add_event_def buffer_full_def Let_def)

lemma process_log_queue:
  "lmClosed (process_log send now msg m) = lmClosed m" "lmQueue (process_log send now msg m) = lmQueue m"
  by (simp_all add: process_log_def route_elk_def route_dashboard_def)

lemma process_log_exporter:
  "to_elk (lmMode m) \<Longrightarrow> lmExporter (process_log send now msg m) =
     map_option (\<lambda>e. fst (Export send id now (ToMap (parseLogMessage now msg)) e)) (lmExporter m)"
  by (simp add: process_log_def route_elk_def route_dashboard_def)

text \<open>While Elasticsearch refuses everything, no event is lost or reordered: the buffer holds all of
  them. It also has no bound, whatever the batch size.\<close>

theorem outage_keeps_events:
  assumes "\<And>docs. \<not> send docs" "to_elk (lmMode m)" "lmExporter m = Some e" "elkEnabled (eConfig e)"
  shows "lmExporter (foldl (\<lambda>m msg. process_log send now msg m) m msgs) =
     Some (e\<lparr>eBuffer := eBuffer e @ map (\<lambda>msg. ToMap (parseLogMessage now msg)) msgs\<rparr>)"
  using assms(2-)
proof (induction msgs arbitrary: m e)
  case (Cons msg msgs)
  let ?e = "add_event now (ToMap (parseLogMessage now msg)) e"
  have "lmExporter (process_log send now msg m) = Some ?e"
    using Cons.prems Export_failing [OF assms(1)] by (simp add: process_log_exporter)
  moreover have "elkEnabled (eConfig ?e)"
    using Cons.prems(3) by (simp add: add_event_def)
  ultimately show ?case
    using Cons.IH [of "process_log send now msg m" ?e] Cons.prems(1)
    by (simp add: process_log_dashboard add_event_def ToMap_stamped)
qed simp

theorem outage_keeps_events_witness:
  "lmExporter (foldl (\<lambda>m msg. process_log (\<lambda>_. False) ''t'' msg m)
      \<lparr>lmMode = OutputModeELK, lmQueue = [], lmClosed = False, lmDashboard = None,
       lmExporter = Some \<lparr>eConfig = elk_example, eBuffer = []\<rparr>\<rparr> [''a'', ''b'', ''c''])
   = Some \<lparr>eConfig = elk_example,
       eBuffer = map (\<lambda>msg. ToMap (parseLogMessage ''t'' msg)) [''a'', ''b'', ''c'']\<rparr>"
  by (subst outage_keeps_events [where e = "\<lparr>eConfig = elk_example, eBuffer = []\<rparr>"])
    (simp_all add: to_elk_def output_mode_defs elk_example_def)

section \<open>Closing the log\<close>

lemma closed_drained_stuck:
  "(log_step send)\<^sup>*\<^sup>* m m' \<Longrightarrow> lmClosed m \<Longrightarrow> lmQueue m = [] \<Longrightarrow>
   lmClosed m' \<and> lmQueue m' = [] \<and> lmExporter m' = lmExporter m"
  by (induction rule: rtranclp_induct) (auto elim!: log_stepE)

lemma close_empty_exporter:
  "Close send send id (\<lparr>eConfig = cfg, eBuffer = []\<rparr>) = \<lparr>eConfig = cfg, eBuffer = []\<rparr>"
  by (simp add: Close_def Flush_def flushLocked_def flush_begin_def)

text \<open>A message can be in the channel when the log is closed, without an error; it is then put into
  the exporter's buffer after the last flush, and no step the program can take sends it, even though
  Elasticsearch takes everything it is sent.\<close>

theorem close_strands_message:
  assumes "to_elk mode" "elkEnabled cfg" "1 < sint (elkBatchSize cfg)"
  shows "\<exists>m. (log_step (\<lambda>_. True))\<^sup>*\<^sup>*
       \<lparr>lmMode = mode, lmQueue = [], lmClosed = False, lmDashboard = None,
        lmExporter = Some \<lparr>eConfig = cfg, eBuffer = []\<rparr>\<rparr> m \<and>
     (\<forall>m'. (log_step (\<lambda>_. True))\<^sup>*\<^sup>* m m' \<longrightarrow>
        lmExporter m' = Some \<lparr>eConfig = cfg, eBuffer = [ToMap (parseLogMessage now msg)]\<rparr>)"
proof -
  let ?step = "log_step (\<lambda>_. True)"
  let ?m0 = "\<lparr>lmMode = mode, lmQueue = [], lmClosed = False, lmDashboard = None,
        lmExporter = Some \<lparr>eConfig = cfg, eBuffer = []\<rparr>\<rparr>"
  let ?m1 = "?m0\<lparr>lmQueue := [msg]\<rparr>"
  let ?m2 = "?m1\<lparr>lmClosed := True\<rparr>"
  let ?m3 = "process_log (\<lambda>_. True) now msg (?m2\<lparr>lmQueue := []\<rparr>)"
  have "?step ?m0 ?m1"
    using log_step.log [of ?m0 "\<lambda>_. True" msg] by (simp add: log_capacity_def)
  moreover have "?step ?m1 ?m2"
    using log_step.close [of ?m1 "\<lambda>_. True"] by (simp add: CloseLog_def close_empty_exporter)
  moreover have "?step ?m2 ?m3"
    by (rule log_step.process) simp
  ultimately have reach: "?step\<^sup>*\<^sup>* ?m0 ?m3"
    by (meson rtranclp.rtrancl_into_rtrancl rtranclp.rtrancl_refl)
  have m3: "lmClosed ?m3" "lmQueue ?m3 = []"
    "lmExporter ?m3 = Some \<lparr>eConfig = cfg, eBuffer = [ToMap (parseLogMessage now msg)]\<rparr>"
    using assms by (simp_all add: process_log_queue process_log_exporter Export_room add_event_def ToMap_stamped)
  have "lmExporter m' = Some \<lparr>eConfig = cfg, eBuffer = [ToMap (parseLogMessage now msg)]\<rparr>"
    if "?step\<^sup>*\<^sup>* ?m3 m'" for m'
    using closed_drained_stuck [OF that m3(1,2)] m3(3) by (blast intro: trans)
  with reach show ?thesis by blast
qed

theorem close_strands_message_witness:
  "\<exists>m. (log_step (\<lambda>_. True))\<^sup>*\<^sup>*
       \<lparr>lmMode = OutputModeELK, lmQueue = [], lmClosed = False, lmDashboard = None,
        lmExporter = Some \<lparr>eConfig = elk_example, eBuffer = []\<rparr>\<rparr> m \<and>
     (\<forall>m'. (log_step (\<lambda>_. True))\<^sup>*\<^sup>* m m' \<longrightarrow>
        lmExporter m' = Some \<lparr>eConfig = elk_example, eBuffer = [ToMap (parseLogMessage ''t'' ''TRAP HIT'')]\<rparr>)"
  by (rule close_strands_message) (simp_all add: to_elk_def output_mode_defs elk_example_def)

end
