(* ===== verification/Proxy.thy ===== *)
theory Proxy
  imports GoText
begin

text \<open>
  \<^verbatim>\<open>internal/proxy/mtls.go\<close>: whom the proxy connects to its target. The TLS library is what a
  handshake gives: nothing, or the certificates of the peer. A URI of a certificate is its scheme and
  its text. The copying of data is in \<open>Tunnel\<close>.
\<close>

record certificate =
  certURIs :: "(string \<times> string) list"

datatype client_conn = PlainConn | TlsConn "certificate list option"

datatype proxy_outcome = HandshakeFailed | AccessDenied "string list" | DialFailed | Forwarding

definition client_ids :: "certificate \<Rightarrow> string list" where
  "client_ids cert = map snd (filter (\<lambda>u. fst u = ''spiffe'') (certURIs cert))"

text \<open>The two loops with their breaks.\<close>

fun id_matches :: "string \<Rightarrow> string list \<Rightarrow> bool" where
  "id_matches allowedID [] = False"
| "id_matches allowedID (c # cs) = (if c = allowedID then True else id_matches allowedID cs)"

fun some_allowed :: "string list \<Rightarrow> string list \<Rightarrow> bool" where
  "some_allowed [] clients = False"
| "some_allowed (a # as) clients = (if id_matches a clients then True else some_allowed as clients)"

definition proxy_connection :: "string list \<Rightarrow> bool \<Rightarrow> client_conn \<Rightarrow> proxy_outcome" where
  "proxy_connection allowedSPIFFEIDs dial_ok conn =
     (let connect = (if dial_ok then Forwarding else DialFailed)
      in case conn of
           PlainConn \<Rightarrow> connect
         | TlsConn None \<Rightarrow> HandshakeFailed
         | TlsConn (Some []) \<Rightarrow> connect
         | TlsConn (Some (cert # _)) \<Rightarrow>
             (if 0 < length allowedSPIFFEIDs \<and> \<not> some_allowed allowedSPIFFEIDs (client_ids cert)
              then AccessDenied (client_ids cert) else connect))"

text \<open>The list of the flag \<^verbatim>\<open>-mtls-allowed-spiffe-ids\<close> (\<^verbatim>\<open>cmd/agent/main.go\<close>).\<close>

definition allowed_ids :: "string \<Rightarrow> string list" where
  "allowed_ids flag =
     (if flag \<noteq> [] then map strings_trim_space (split_on (CHR '','') flag) else [])"

section \<open>Who gets through\<close>

lemma id_matches_iff: "id_matches a cs \<longleftrightarrow> a \<in> set cs"
  by (induction cs) auto

lemma some_allowed_iff: "some_allowed as cs \<longleftrightarrow> set as \<inter> set cs \<noteq> {}"
  by (induction as) (auto simp: id_matches_iff)

text \<open>What the library promises for \<^verbatim>\<open>RequireAndVerifyClientCert\<close>: a handshake that succeeds has a
  verified certificate.\<close>

definition client_verified :: "client_conn \<Rightarrow> bool" where
  "client_verified conn \<longleftrightarrow> (case conn of PlainConn \<Rightarrow> False | TlsConn r \<Rightarrow> r \<noteq> Some [])"

text \<open>A connection is forwarded exactly when its handshake succeeds, the target answers, and the peer's
  own certificate names an allowed identity as a SPIFFE URI; without a list of identities every
  certificate of the authority will do.\<close>

theorem proxy_forwards_iff:
  assumes "client_verified conn"
  shows "proxy_connection (allowed_ids flag) dial_ok conn = Forwarding \<longleftrightarrow>
    dial_ok \<and> (\<exists>cert chain. conn = TlsConn (Some (cert # chain)) \<and>
      (flag = [] \<or> (\<exists>u \<in> set (certURIs cert). fst u = ''spiffe'' \<and> snd u \<in> set (allowed_ids flag))))"
proof -
  have ids: "0 < length (allowed_ids flag) \<longleftrightarrow> flag \<noteq> []" by (simp add: allowed_ids_def)
  have set_ids: "some_allowed as (client_ids cert) \<longleftrightarrow> (\<exists>u \<in> set (certURIs cert). fst u = ''spiffe'' \<and> snd u \<in> set as)" for as cert
    by (force simp: some_allowed_iff client_ids_def)
  show ?thesis
  proof (cases conn)
    case PlainConn
    then show ?thesis using assms by (simp add: client_verified_def)
  next
    case (TlsConn r)
    show ?thesis
    proof (cases r)
      case None
      then show ?thesis by (simp add: TlsConn proxy_connection_def)
    next
      case (Some certs)
      then obtain cert chain where "certs = cert # chain"
        using assms TlsConn by (cases certs) (auto simp: client_verified_def)
      then show ?thesis
        using Some TlsConn ids by (auto simp: proxy_connection_def set_ids)
    qed
  qed
qed

definition agent_cert :: certificate where
  "agent_cert = \<lparr>certURIs = [(''https'', ''https://phantom.grid/backend-api''), (''spiffe'', ''spiffe://phantom.grid/backend-api'')]\<rparr>"

lemma proxy_forwards_iff_witness:
  "proxy_connection (allowed_ids ''spiffe://phantom.grid/web, spiffe://phantom.grid/backend-api'') True
     (TlsConn (Some [agent_cert])) = Forwarding"
proof -
  have "''spiffe://phantom.grid/backend-api'' \<in> set (allowed_ids ''spiffe://phantom.grid/web, spiffe://phantom.grid/backend-api'')"
    by code_simp
  then show ?thesis
    by (subst proxy_forwards_iff) (auto simp: client_verified_def agent_cert_def)
qed

end
