(* ===== verification/Network.thy ===== *)
theory Network
  imports GoLib
begin

text \<open>
  \<^verbatim>\<open>internal/network/interface.go\<close>: which network interface the agent attaches to. The interfaces
  are an input, in the order the system lists them, with \<^verbatim>\<open>net.InterfaceByName\<close>; addresses that
  cannot be read are none. What is printed is left out.
\<close>

record net_iface =
  ifName :: string
  ifIndex :: i64
  ifLoopback :: bool
  ifAddrs :: "string list"

datatype interface_error = InterfaceNotFound string | NoSuitableInterface

definition getInterfaceByName :: "(string \<Rightarrow> net_iface option) \<Rightarrow> string \<Rightarrow> interface_error + net_iface \<times> string" where
  "getInterfaceByName by_name name =
     (case by_name name of None \<Rightarrow> Inl (InterfaceNotFound name) | Some i \<Rightarrow> Inr (i, name))"

definition interfaceNames :: "string list" where
  "interfaceNames = [''wlx00127b2163a6'', ''wlan0'', ''ens33'', ''eth0'', ''enp0s3'', ''enp0s8'', ''enp0s9'', ''eth1'']"

definition wifi_name :: "string \<Rightarrow> bool" where
  "wifi_name n \<longleftrightarrow> has_prefix n ''wlx'' \<or> has_prefix n ''wlan'' \<or> has_prefix n ''wlp''"

definition external :: "net_iface \<Rightarrow> bool" where
  "external i \<longleftrightarrow> 0 < length (ifAddrs i) \<and> \<not> ifLoopback i"

text \<open>The first of the names that belongs to an external interface.\<close>

fun find_named :: "(string \<Rightarrow> net_iface option) \<Rightarrow> string list \<Rightarrow> (net_iface \<times> string) option" where
  "find_named by_name [] = None"
| "find_named by_name (n # ns) =
     (case by_name n of
        Some i \<Rightarrow> if external i then Some (i, n) else find_named by_name ns
      | None \<Rightarrow> find_named by_name ns)"

definition autoDetectInterface ::
    "net_iface list \<Rightarrow> (string \<Rightarrow> net_iface option) \<Rightarrow> interface_error + net_iface \<times> string" where
  "autoDetectInterface ifaces by_name =
     (case find (\<lambda>i. wifi_name (ifName i) \<and> external i) ifaces of
        Some i \<Rightarrow> Inr (i, ifName i)
      | None \<Rightarrow>
          (case find_named by_name interfaceNames of
             Some r \<Rightarrow> Inr r
           | None \<Rightarrow>
               (case by_name ''lo'' of
                  Some i \<Rightarrow> Inr (i, ''lo'')
                | None \<Rightarrow> Inl NoSuitableInterface)))"

definition DetectInterface ::
    "net_iface list \<Rightarrow> (string \<Rightarrow> net_iface option) \<Rightarrow> string \<Rightarrow> interface_error + net_iface \<times> string" where
  "DetectInterface ifaces by_name specified =
     (if specified \<noteq> [] then getInterfaceByName by_name specified else autoDetectInterface ifaces by_name)"

section \<open>What is chosen\<close>

lemma find_named_None:
  "find_named by_name ns = None \<longleftrightarrow> list_all (\<lambda>n. case by_name n of None \<Rightarrow> True | Some i \<Rightarrow> \<not> external i) ns"
  by (induction ns) (auto split: option.splits)

lemma find_named_Some:
  "find_named by_name ns = Some (i, n) \<Longrightarrow> n \<in> set ns \<and> by_name n = Some i \<and> external i"
  by (induction ns) (auto split: option.splits if_splits)

text \<open>The names the detection can find.\<close>

definition detectable :: "string \<Rightarrow> bool" where
  "detectable n \<longleftrightarrow> wifi_name n \<or> n \<in> set interfaceNames"

text \<open>Detection ends at the loopback interface as soon as no external interface has one of the names
  it knows, however many external interfaces there are; in all other cases it is an external one.\<close>

theorem autoDetect_loopback_iff:
  assumes by_name: "\<And>n i. by_name n = Some i \<longleftrightarrow> i \<in> set ifaces \<and> ifName i = n"
    and lo: "by_name ''lo'' = Some lo" "ifLoopback lo"
  shows "(if \<exists>i \<in> set ifaces. detectable (ifName i) \<and> external i
          then \<exists>i n. DetectInterface ifaces by_name [] = Inr (i, n) \<and> i \<in> set ifaces \<and> ifName i = n \<and>
                 detectable n \<and> external i
          else DetectInterface ifaces by_name [] = Inr (lo, ''lo''))"
proof (cases "find (\<lambda>i. wifi_name (ifName i) \<and> external i) ifaces")
  case (Some i)
  then have "i \<in> set ifaces" "wifi_name (ifName i)" "external i" by (auto simp: find_Some_iff)
  then show ?thesis using Some by (auto simp: DetectInterface_def autoDetectInterface_def detectable_def)
next
  case None
  then have no_wifi: "\<not> (wifi_name (ifName i) \<and> external i)" if "i \<in> set ifaces" for i
    using that by (auto simp: find_None_iff)
  show ?thesis
  proof (cases "find_named by_name interfaceNames")
    case named: None
    have "\<not> external i" if "i \<in> set ifaces" "ifName i \<in> set interfaceNames" for i
      using named that by_name [of "ifName i" i] by (auto simp: find_named_None list_all_iff)
    then show ?thesis
      using None named lo no_wifi by (auto simp: DetectInterface_def autoDetectInterface_def detectable_def)
  next
    case named: (Some r)
    obtain i n where r: "r = (i, n)" by fastforce
    then have "n \<in> set interfaceNames" "by_name n = Some i" "external i"
      using find_named_Some named by auto
    then show ?thesis
      using None named r by_name by (auto simp: DetectInterface_def autoDetectInterface_def detectable_def)
  qed
qed

text \<open>A host whose only network card has a name of the current scheme.\<close>

definition lo_iface :: net_iface where
  "lo_iface = \<lparr>ifName = ''lo'', ifIndex = 1, ifLoopback = True, ifAddrs = [''127.0.0.1/8'']\<rparr>"

definition eno_iface :: net_iface where
  "eno_iface = \<lparr>ifName = ''eno1'', ifIndex = 2, ifLoopback = False, ifAddrs = [''203.0.113.5/24'']\<rparr>"

definition eno_by_name :: "string \<Rightarrow> net_iface option" where
  "eno_by_name n = (if n = ''lo'' then Some lo_iface else if n = ''eno1'' then Some eno_iface else None)"

lemma autoDetect_loopback_iff_witness:
  "DetectInterface [lo_iface, eno_iface] eno_by_name [] = Inr (lo_iface, ''lo'') \<and> external eno_iface"
proof -
  have "\<not> detectable ''eno1''" "\<not> external lo_iface" "external eno_iface" by code_simp+
  moreover have "eno_by_name n = Some i \<longleftrightarrow> i \<in> set [lo_iface, eno_iface] \<and> ifName i = n" for n i
    by (auto simp: eno_by_name_def lo_iface_def eno_iface_def)
  ultimately show ?thesis
    using autoDetect_loopback_iff [of eno_by_name "[lo_iface, eno_iface]" lo_iface]
    by (simp add: eno_by_name_def) (simp add: lo_iface_def eno_iface_def)
qed

end
