(* ===== verification/Agent.thy ===== *)
theory Agent
  imports Honeypot Handler Logger Proxy Network
begin

text \<open>
  \<^verbatim>\<open>internal/agent/agent.go\<close> and the part of \<^verbatim>\<open>cmd/agent/main.go\<close> that starts the services: how
  the agent is made, started and closed, and which service gets which port. What the kernel, the
  network library and the file system answer is an input.
\<close>

section \<open>Making an agent\<close>

record 'm agent =
  agIface :: net_iface
  agIfaceName :: string
  agEgress :: bool
  agXDP :: bool
  agMonitor :: bool
  agLogs :: log_manager
  agSpaConfig :: "spa_config option"
  agHandler :: "'m handler option"
  agHoneypot :: "honeypot option"
  agStaticToken :: string

datatype new_error = DetectFailed interface_error | LoaderFailed | LogManagerFailed exporter_error

text \<open>\<open>None\<close> is the panic of the exporter.\<close>

definition NewAgent ::
    "net_iface list \<Rightarrow> (string \<Rightarrow> net_iface option) \<Rightarrow> bool \<Rightarrow> bool \<Rightarrow> string \<Rightarrow> output_mode \<Rightarrow> elk_config
       \<Rightarrow> (nat \<times> string list) option \<Rightarrow> spa_config option \<Rightarrow> string \<Rightarrow> (new_error + 'm agent) option" where
  "NewAgent ifaces by_name loader_ok egress_ok interfaceName outputMode elkConfig dashboardChan cfg token =
     (case DetectInterface ifaces by_name interfaceName of
        Inl e \<Rightarrow> Some (Inl (DetectFailed e))
      | Inr (iface, name) \<Rightarrow>
          (if \<not> loader_ok then Some (Inl LoaderFailed)
           else map_option (\<lambda>r. case r of
                    Inl e \<Rightarrow> Inl (LogManagerFailed e)
                  | Inr logs \<Rightarrow> Inr \<lparr>agIface = iface, agIfaceName = name, agEgress = egress_ok, agXDP = False,
                      agMonitor = False, agLogs = logs, agSpaConfig = cfg, agHandler = None,
                      agHoneypot = None, agStaticToken = token\<rparr>)
                  (NewLogManager outputMode elkConfig dashboardChan)))"

section \<open>Start\<close>

text \<open>What the surroundings answer: errors of attaching the two programs, of listening on the SPA port,
  the addresses of the interface, which ports can be listened on, and whether the goroutine that starts
  the honeypot has failed before its result is looked at.\<close>

record 'm start_env =
  seAttachXDP :: "string option"
  seAttachTC :: "string option"
  seWhitelist :: 'm
  seListenSPA :: "string option"
  seAddrs :: "string list option"
  seListen :: listen
  seReported :: bool
  seRandom :: "bytes option"

text \<open>What \<^verbatim>\<open>Handler.Start\<close> logs, if the channel has room.\<close>

definition handler_start_logs :: "'m handler \<Rightarrow> string list" where
  "handler_start_logs h =
     [''[SPA] User-space handler started on port '' @ show_i64 SPAMagicPort, ''[SPA] Mode: '' @ Mode (hConfig h)] @
     (if hToken h \<noteq> [] then [''[SPA] Static token configured (length: '' @ show_nat (length (hToken h)) @ '')''] else []) @
     [''[SPA] Handler ready to receive packets'']"

text \<open>The settings are loaded into no map, since the agent has none for them.\<close>

definition initDynamicSPA ::
    "'m bpf_ops \<Rightarrow> bool \<Rightarrow> ((u32 \<times> u32) list \<Rightarrow> (u32 \<times> u32) list) \<Rightarrow> 'm start_env \<Rightarrow> spa_config
       \<Rightarrow> string + 'm handler \<times> string list" where
  "initDynamicSPA ops le order E cfg =
     (let verifier = NewVerifier cfg;
          mapLoader = fst (LoadConfiguration ops le order (NewMapLoader (Some (seWhitelist E)) None None None None) cfg);
          h = NewHandler verifier mapLoader cfg []
      in case seListenSPA E of
           Some err \<Rightarrow> Inl (''failed to start SPA handler: failed to listen on SPA port: '' @ err)
         | None \<Rightarrow> Inr (h, handler_start_logs h @ [''[SPA] Dynamic SPA initialized (mode: '' @ Mode cfg @ '')'']))"

definition initStaticSPA :: "'m start_env \<Rightarrow> string \<Rightarrow> string + 'm handler \<times> string list" where
  "initStaticSPA E staticToken =
     (let staticConfig = (DefaultDynamicSPAConfig (seRandom E))\<lparr>Mode := SPAModeStatic\<rparr>;
          h = NewHandler (NewVerifier staticConfig) (NewMapLoader (Some (seWhitelist E)) None None None None)
                staticConfig staticToken
      in case seListenSPA E of
           Some err \<Rightarrow> Inl (''failed to start static SPA handler: failed to listen on SPA port: '' @ err)
         | None \<Rightarrow> Inr (h, handler_start_logs h @
             [if staticToken \<noteq> [] \<and> staticToken \<noteq> SPASecretToken
              then ''[SPA] Static SPA initialized with custom token (length: '' @ show_nat (length staticToken) @ '')''
              else ''[SPA] Static SPA initialized with default token'']))"

text \<open>The handler that is kept, and what is logged about it. A failure in a dynamic mode goes to the
  console only.\<close>

definition start_spa ::
    "'m bpf_ops \<Rightarrow> bool \<Rightarrow> ((u32 \<times> u32) list \<Rightarrow> (u32 \<times> u32) list) \<Rightarrow> 'm start_env \<Rightarrow> 'm agent
       \<Rightarrow> 'm handler option \<times> string list" where
  "start_spa ops le order E a =
     (case agSpaConfig a of
        Some cfg \<Rightarrow>
          (if Mode cfg \<noteq> SPAModeStatic then
             (case initDynamicSPA ops le order E cfg of
                Inl _ \<Rightarrow> (agHandler a, []) | Inr (h, logs) \<Rightarrow> (Some h, logs))
           else
             (case initStaticSPA E (agStaticToken a) of
                Inl err \<Rightarrow> (agHandler a, [''[!] Warning: Failed to initialize static SPA handler: '' @ err])
              | Inr (h, logs) \<Rightarrow> (Some h, logs)))
      | None \<Rightarrow>
          (case initStaticSPA E (agStaticToken a) of
             Inl err \<Rightarrow> (agHandler a, [''[!] Warning: Failed to initialize static SPA handler: '' @ err])
           | Inr (h, logs) \<Rightarrow> (Some h, logs)))"

definition loopback_warnings :: "string \<Rightarrow> string list" where
  "loopback_warnings name =
     (if name = ''lo'' then
        [''[!] WARNING: XDP attached to LOOPBACK interface!'',
         ''[!] WARNING: Traffic from external hosts (Kali) will NOT be captured!'',
         ''[!] WARNING: For VMware NAT, ensure XDP attaches to external interface (ens33, eth0, etc.)'',
         ''[!] WARNING: Check if interface detection is working correctly'']
      else [])"

datatype start_error = XDPAttachFailed string | HoneypotFailed string

text \<open>The messages are those of \<^verbatim>\<open>Start\<close> itself; the honeypot's come from its goroutine, whose work is
  done here to its end.\<close>

definition AgentStart ::
    "'m bpf_ops \<Rightarrow> bool \<Rightarrow> ((u32 \<times> u32) list \<Rightarrow> (u32 \<times> u32) list) \<Rightarrow> 'm start_env \<Rightarrow> 'm agent
       \<Rightarrow> 'm agent \<times> string list \<times> (start_error + unit)" where
  "AgentStart ops le order E a =
     (case seAttachXDP E of
        Some err \<Rightarrow> (a, [], Inl (XDPAttachFailed err))
      | None \<Rightarrow>
          (let attached = ''[SYSTEM] XDP attached to interface: '' @ agIfaceName a @ '' (index: '' @ show_i64 (ifIndex (agIface a)) @ '')'';
               tc = (if agEgress a \<and> seAttachTC E = None then [''[SYSTEM] TC Egress Hook attached (DLP Active)''] else []);
               (handler, spa_logs) = start_spa ops le order E a;
               info = [''[SYSTEM] SPA Magic Packet port: '' @ show_i64 SPAMagicPort,
                       ''[SYSTEM] SSH port '' @ show_i64 SSHPort @ '' protected - requires SPA whitelist''];
               addrs = (case seAddrs E of
                          None \<Rightarrow> []
                        | Some as \<Rightarrow> map (\<lambda>x. ''[DEBUG] Interface '' @ agIfaceName a @ '' has IP: '' @ x) as);
               (hp, hp_logs, hp_err) = Start (seListen E) New;
               a' = a\<lparr>agXDP := True, agMonitor := True, agHandler := handler, agHoneypot := Some hp\<rparr>
           in (a', [attached] @ tc @ spa_logs @ info @ addrs @ loopback_warnings (agIfaceName a),
               case hp_err of
                 Some err \<Rightarrow> if seReported E then Inl (HoneypotFailed err) else Inr ()
               | None \<Rightarrow> Inr ())))"

section \<open>Close\<close>

text \<open>The stages of \<^verbatim>\<open>Close\<close>, with the honeypot at work beside it. The answers are the error of
  closing the SPA socket, of each listener, of the log, and of the XDP link.\<close>

datatype close_stage = HandlerStage | HoneypotStage | LogStage | LoaderStage | CloseReturned "string option"

record 'm closing =
  clAgent :: "'m agent"
  clStage :: close_stage
  clRun :: "running option"

record close_env =
  ceHandler :: "string option"
  ceListener :: "i64 \<Rightarrow> string option"
  ceLog :: "string option"
  ceLoader :: "string option"

definition begin_close :: "'m agent \<Rightarrow> 'm closing" where
  "begin_close a = \<lparr>clAgent = a, clStage = HandlerStage, clRun = map_option run_honeypot (agHoneypot a)\<rparr>"

text \<open>An error ends \<^verbatim>\<open>Close\<close>, and no error goes on.\<close>

definition go_on :: "string option \<Rightarrow> close_stage \<Rightarrow> close_stage" where
  "go_on err stage = (case err of Some e \<Rightarrow> CloseReturned (Some e) | None \<Rightarrow> stage)"

inductive agent_close_step :: "close_env \<Rightarrow> 'm closing \<Rightarrow> 'm closing \<Rightarrow> bool" for C where
  handler: "clStage s = HandlerStage \<Longrightarrow> agent_close_step C s
    (s\<lparr>clStage := (if agHandler (clAgent s) = None then HoneypotStage else go_on (ceHandler C) HoneypotStage)\<rparr>)"
| no_honeypot: "clStage s = HoneypotStage \<Longrightarrow> clRun s = None \<Longrightarrow> agent_close_step C s (s\<lparr>clStage := LogStage\<rparr>)"
| honeypot: "clRun s = Some r \<Longrightarrow> honeypot_step (ceListener C) r r' \<Longrightarrow> rPhase r' = rPhase r \<or> clStage s = HoneypotStage
    \<Longrightarrow> agent_close_step C s (s\<lparr>clRun := Some r'\<rparr>)"
| honeypot_closed: "clStage s = HoneypotStage \<Longrightarrow> clRun s = Some r \<Longrightarrow> rPhase r = Returned e
    \<Longrightarrow> agent_close_step C s (s\<lparr>clStage := go_on e LogStage\<rparr>)"
| log: "clStage s = LogStage \<Longrightarrow> agent_close_step C s (s\<lparr>clStage := go_on (ceLog C) LoaderStage\<rparr>)"
| loader: "clStage s = LoaderStage \<Longrightarrow> agent_close_step C s
    (s\<lparr>clStage := CloseReturned (ceLoader C), clAgent := (clAgent s)\<lparr>agXDP := agXDP (clAgent s) \<and> ceLoader C \<noteq> None\<rparr>\<rparr>)"

inductive_cases agent_close_stepE: "agent_close_step C s s'"

section \<open>The ports of the program\<close>

text \<open>After \<^verbatim>\<open>Start\<close> the honeypot's goroutine goes on binding its ports beside the main program, which
  starts the proxy, if it is enabled, and the dashboard, unless the agent reports to a fleet. A port has
  one listener. A proxy that cannot listen ends the program, a dashboard that cannot is a message.\<close>

datatype port_owner = HoneypotListener | ProxyServer | DashboardServer

definition DashboardPort :: i64 where "DashboardPort = 9999"

record boot =
  bTable :: "i64 \<Rightarrow> port_owner option"
  bHoneypot :: "i64 list"
  bHoneypotFailed :: bool
  bMain :: "(port_owner \<times> i64) list"
  bDashboardFailed :: bool
  bExited :: bool

definition main_services :: "bool \<Rightarrow> i64 \<Rightarrow> string \<Rightarrow> output_mode \<Rightarrow> (port_owner \<times> i64) list" where
  "main_services mtls mtlsPort fleetUrl outputMode =
     (if mtls then [(ProxyServer, mtlsPort)] else []) @
     (if fleetUrl \<noteq> [] then []
      else if outputMode = OutputModeDashboard \<or> outputMode = OutputModeBoth
      then [(DashboardServer, DashboardPort)] else [])"

definition boot_start :: "(port_owner \<times> i64) list \<Rightarrow> boot" where
  "boot_start services =
     \<lparr>bTable = Map.empty, bHoneypot = FakePorts @ [HoneypotPort], bHoneypotFailed = False,
      bMain = services, bDashboardFailed = False, bExited = False\<rparr>"

definition take_port :: "port_owner \<Rightarrow> i64 \<Rightarrow> boot \<Rightarrow> boot" where
  "take_port owner p s = (if bTable s p = None then s\<lparr>bTable := (bTable s)(p \<mapsto> owner)\<rparr> else s)"

inductive boot_step :: "boot \<Rightarrow> boot \<Rightarrow> bool" where
  honeypot: "\<not> bExited s \<Longrightarrow> bHoneypot s = p # ps \<Longrightarrow> boot_step s
    (take_port HoneypotListener p (s\<lparr>bHoneypot := ps,
       bHoneypotFailed := bHoneypotFailed s \<or> p = HoneypotPort \<and> bTable s p \<noteq> None\<rparr>))"
| proxy: "\<not> bExited s \<Longrightarrow> bMain s = (ProxyServer, p) # ms \<Longrightarrow> boot_step s
    (take_port ProxyServer p (s\<lparr>bMain := ms, bExited := (bTable s p \<noteq> None)\<rparr>))"
| dashboard: "\<not> bExited s \<Longrightarrow> bMain s = (DashboardServer, p) # ms \<Longrightarrow> boot_step s
    (take_port DashboardServer p (s\<lparr>bMain := ms, bDashboardFailed := bDashboardFailed s \<or> bTable s p \<noteq> None\<rparr>))"

inductive_cases boot_stepE: "boot_step s s'"

section \<open>Starting\<close>

lemma start_spa_handler:
  "fst (start_spa ops le order E a) = None \<longleftrightarrow> agHandler a = None \<and> seListenSPA E \<noteq> None"
  by (auto simp: start_spa_def initDynamicSPA_def initStaticSPA_def Let_def split: option.split)

lemma Start_error: "snd (snd (Start listen New)) = None \<longleftrightarrow> listen HoneypotPort = None"
proof (cases "listen HoneypotPort")
  case None
  then show ?thesis by (rule_tac Start_binds [of listen, OF None]) simp
next
  case (Some e)
  then show ?thesis by (rule_tac Start_fails [of listen, OF Some]) simp
qed

lemma AgentStart_attached:
  assumes "seAttachXDP E = None"
  obtains handler spa_logs hp hp_logs hp_err logs where
    "start_spa ops le order E a = (handler, spa_logs)" "Start (seListen E) New = (hp, hp_logs, hp_err)"
    "AgentStart ops le order E a =
       (a\<lparr>agXDP := True, agMonitor := True, agHandler := handler, agHoneypot := Some hp\<rparr>, logs,
        case hp_err of Some err \<Rightarrow> if seReported E then Inl (HoneypotFailed err) else Inr () | None \<Rightarrow> Inr ())"
proof -
  obtain handler spa_logs where h: "start_spa ops le order E a = (handler, spa_logs)" by fastforce
  obtain hp hp_logs hp_err where hp: "Start (seListen E) New = (hp, hp_logs, hp_err)" by (metis prod_cases3)
  show ?thesis by (rule that [OF h hp]) (simp only: AgentStart_def assms h hp option.case prod.case Let_def)
qed

text \<open>Starting an agent succeeds exactly when the XDP program can be attached and a failure of the
  honeypot, if any, is not known yet when it is looked for; that there is no handler for SPA packets,
  because its port is taken, does not matter: in no mode is anything put in its place.\<close>

theorem AgentStart_succeeds_iff:
  assumes "agHandler a = None"
  shows "(snd (snd (AgentStart ops le order E a)) = Inr () \<longleftrightarrow>
      seAttachXDP E = None \<and> (seListen E HoneypotPort = None \<or> \<not> seReported E)) \<and>
    (agHandler (fst (AgentStart ops le order E a)) = None \<longleftrightarrow> seAttachXDP E \<noteq> None \<or> seListenSPA E \<noteq> None)"
proof (cases "seAttachXDP E")
  case None
  obtain handler spa_logs hp hp_logs hp_err logs where
    h: "start_spa ops le order E a = (handler, spa_logs)" "Start (seListen E) New = (hp, hp_logs, hp_err)"
    and run: "AgentStart ops le order E a =
       (a\<lparr>agXDP := True, agMonitor := True, agHandler := handler, agHoneypot := Some hp\<rparr>, logs,
        case hp_err of Some err \<Rightarrow> if seReported E then Inl (HoneypotFailed err) else Inr () | None \<Rightarrow> Inr ())"
    using AgentStart_attached [OF None, of ops le order a] .
  have "handler = None \<longleftrightarrow> seListenSPA E \<noteq> None"
    using start_spa_handler [of ops le order E a] assms by (simp add: h)
  moreover have "hp_err = None \<longleftrightarrow> seListen E HoneypotPort = None"
    using Start_error [of "seListen E"] by (simp add: h)
  ultimately show ?thesis unfolding run using None by (cases hp_err) simp_all
next
  case (Some err)
  then show ?thesis using assms by (simp add: AgentStart_def)
qed

definition busy_env :: "(bytes \<Rightarrow> bytes option) start_env" where
  "busy_env = \<lparr>seAttachXDP = None, seAttachTC = None, seWhitelist = Map.empty, seListenSPA = Some ''address in use'',
     seAddrs = None, seListen = (\<lambda>p. Some ''address in use''), seReported = False, seRandom = None\<rparr>"

definition new_agent :: "(bytes \<Rightarrow> bytes option) agent" where
  "new_agent = \<lparr>agIface = lo_iface, agIfaceName = ''lo'', agEgress = False, agXDP = False, agMonitor = False,
     agLogs = \<lparr>lmMode = OutputModeDashboard, lmQueue = [], lmClosed = False, lmDashboard = None, lmExporter = None\<rparr>,
     agSpaConfig = Some example_dynamic_config, agHandler = None, agHoneypot = None, agStaticToken = []\<rparr>"

lemma AgentStart_succeeds_iff_witness:
  "snd (snd (AgentStart plain_map True id busy_env new_agent)) = Inr () \<and>
   agHandler (fst (AgentStart plain_map True id busy_env new_agent)) = None"
  using AgentStart_succeeds_iff [of new_agent plain_map True id busy_env]
  by (simp add: new_agent_def busy_env_def)

section \<open>Closing\<close>

definition closing_inv :: "(i64 \<Rightarrow> string option) \<Rightarrow> honeypot \<Rightarrow> 'm closing \<Rightarrow> bool" where
  "closing_inv ce h s \<longleftrightarrow> agXDP (clAgent s) \<and> clStage s \<in> {HandlerStage, HoneypotStage} \<and>
     (\<exists>r. clRun s = Some r \<and> (honeypot_step ce)\<^sup>*\<^sup>* (run_honeypot h) r)"

lemma closing_inv_step:
  assumes "agent_close_step C s s'" "closing_inv (ceListener C) h s" "ceHandler C = None"
    and "\<And>r e. (honeypot_step (ceListener C))\<^sup>*\<^sup>* (run_honeypot h) r \<Longrightarrow> rPhase r \<noteq> Returned e"
  shows "closing_inv (ceListener C) h s'"
  using assms
proof (induction rule: agent_close_step.induct)
  case (handler s)
  then show ?case by (auto simp: closing_inv_def go_on_def)
next
  case (honeypot s r r')
  then show ?case by (auto simp: closing_inv_def intro: rtranclp.rtrancl_into_rtrancl)
qed (auto simp: closing_inv_def)

text \<open>C31. An agent whose honeypot has started is never closed: even if nothing fails, \<^verbatim>\<open>Close\<close> gets no
  further than the honeypot, so the log is not flushed and the XDP program stays attached.\<close>

theorem AgentClose_never_detaches:
  assumes start: "Start listen New = (h, logs, None)"
    and agent: "agXDP a" "agHoneypot a = Some h"
    and no_error: "ceHandler C = None" "\<forall>p. ceListener C p = None"
    and run: "(agent_close_step C)\<^sup>*\<^sup>* (begin_close a) s"
  shows "clStage s \<in> {HandlerStage, HoneypotStage} \<and> agXDP (clAgent s)"
proof -
  have "closing_inv (ceListener C) h s"
    using run
  proof (induction rule: rtranclp_induct)
    case base
    then show ?case using agent by (simp add: closing_inv_def begin_close_def)
  next
    case (step y z)
    show ?case
      by (rule closing_inv_step [OF step.hyps(2) step.IH no_error(1)])
        (use Close_does_not_return [OF start] no_error(2) in blast)
  qed
  then show ?thesis by (auto simp: closing_inv_def)
qed

definition quiet_close :: close_env where
  "quiet_close = \<lparr>ceHandler = None, ceListener = (\<lambda>p. None), ceLog = None, ceLoader = None\<rparr>"

definition running_agent :: "(bytes \<Rightarrow> bytes option) agent" where
  "running_agent = new_agent\<lparr>agXDP := True, agHoneypot := Some \<lparr>hListeners = [9999], hLoops = [9999]\<rparr>\<rparr>"

lemma closing_reachable:
  "(agent_close_step quiet_close)\<^sup>*\<^sup>* (begin_close running_agent)
     \<lparr>clAgent = running_agent, clStage = HoneypotStage, clRun = Some closed_fallback\<rparr>"
proof -
  let ?s = "\<lambda>r. \<lparr>clAgent = running_agent, clStage = HoneypotStage, clRun = Some r\<rparr>"
  have "agent_close_step quiet_close (begin_close running_agent) (?s (run_honeypot \<lparr>hListeners = [9999], hLoops = [9999]\<rparr>))"
    using agent_close_step.handler [of "begin_close running_agent" quiet_close]
    by (simp add: begin_close_def running_agent_def new_agent_def)
  moreover have "(agent_close_step quiet_close)\<^sup>*\<^sup>* (?s r) (?s r')" if "(honeypot_step (\<lambda>p. None))\<^sup>*\<^sup>* r r'" for r r'
    using that
  proof (induction rule: rtranclp_induct)
    case (step y z)
    then show ?case
      using agent_close_step.honeypot [of "?s y" y quiet_close z]
      by (auto simp: quiet_close_def intro: rtranclp.rtrancl_into_rtrancl)
  qed simp
  ultimately show ?thesis
    using closed_fallback_reachable by (meson converse_rtranclp_into_rtranclp)
qed

lemma AgentClose_never_detaches_witness:
  "rPhase closed_fallback = Closing [] \<and> agXDP running_agent"
proof -
  obtain logs where "Start only_fallback New = (\<lparr>hListeners = [9999], hLoops = [9999]\<rparr>, logs, None)"
    by (rule only_fallback_starts)
  from AgentClose_never_detaches [OF this _ _ _ _ closing_reachable] show ?thesis
    by (simp add: running_agent_def quiet_close_def closed_fallback_def)
qed

section \<open>The honeypot and the dashboard\<close>

text \<open>Who has the port both want, and what is left to do then.\<close>

definition port_inv :: "bool \<Rightarrow> bool \<Rightarrow> bool \<Rightarrow> bool \<Rightarrow> port_owner option \<Rightarrow> bool" where
  "port_inv hp_left hp_failed dash_left dash_failed owner \<longleftrightarrow>
     (case owner of
        None \<Rightarrow> hp_left \<and> dash_left \<and> \<not> hp_failed \<and> \<not> dash_failed
      | Some HoneypotListener \<Rightarrow> \<not> hp_left \<and> \<not> hp_failed \<and> (dash_left \<longleftrightarrow> \<not> dash_failed)
      | Some DashboardServer \<Rightarrow> \<not> dash_left \<and> \<not> dash_failed \<and> (hp_left \<longleftrightarrow> \<not> hp_failed)
      | Some ProxyServer \<Rightarrow> False)"

definition boot_inv :: "boot \<Rightarrow> bool" where
  "boot_inv s \<longleftrightarrow> distinct (bHoneypot s) \<and> distinct (bMain s) \<and>
     (\<forall>m \<in> set (bMain s). snd m = HoneypotPort \<longleftrightarrow> fst m = DashboardServer) \<and>
     port_inv (HoneypotPort \<in> set (bHoneypot s)) (bHoneypotFailed s)
       ((DashboardServer, HoneypotPort) \<in> set (bMain s)) (bDashboardFailed s) (bTable s HoneypotPort)"

lemma bTable_take_port:
  "bTable (take_port owner p s) q = (if q = p \<and> bTable s p = None then Some owner else bTable s q)"
  by (simp add: take_port_def)

lemma take_port_keeps [simp]:
  "bHoneypot (take_port owner p s) = bHoneypot s" "bHoneypotFailed (take_port owner p s) = bHoneypotFailed s"
  "bMain (take_port owner p s) = bMain s" "bDashboardFailed (take_port owner p s) = bDashboardFailed s"
  "bExited (take_port owner p s) = bExited s"
  by (simp_all add: take_port_def)

lemma boot_inv_step: "boot_step s s' \<Longrightarrow> boot_inv s \<Longrightarrow> boot_inv s'"
proof (induction rule: boot_step.induct)
  case (honeypot s p ps)
  then show ?case
    by (cases "p = HoneypotPort"; cases "bTable s HoneypotPort")
      (simp_all add: boot_inv_def bTable_take_port port_inv_def split: port_owner.splits)
next
  case (proxy s p ms)
  then have "p \<noteq> HoneypotPort" by (auto simp: boot_inv_def)
  with proxy show ?case by (simp add: boot_inv_def bTable_take_port)
next
  case (dashboard s p ms)
  then have "p = HoneypotPort" by (auto simp: boot_inv_def)
  with dashboard show ?case
    by (cases "bTable s HoneypotPort")
      (simp_all add: boot_inv_def bTable_take_port port_inv_def split: port_owner.splits)
qed

lemma boot_inv_run:
  assumes "boot_step\<^sup>*\<^sup>* s s'" "boot_inv s"
  shows "boot_inv s'"
  using assms by (induction rule: rtranclp_induct) (auto intro: boot_inv_step)

lemma boot_inv_start:
  assumes "mode = OutputModeDashboard \<or> mode = OutputModeBoth" "mtlsPort \<noteq> HoneypotPort"
  shows "boot_inv (boot_start (main_services mtls mtlsPort [] mode))"
proof -
  have "distinct (FakePorts @ [HoneypotPort])" by code_simp
  then show ?thesis
    using assms by (auto simp: boot_inv_def boot_start_def main_services_def port_inv_def DashboardPort_def HoneypotPort_def)
qed

text \<open>C32. An agent with a dashboard of its own, and with another port than 9999 for its mTLS proxy, starts two
  servers on port 9999, the port the XDP program redirects to: however they race, when all are done either the
  honeypot has it and the dashboard has failed, or the dashboard has it and the honeypot has failed.\<close>

theorem dashboard_or_honeypot:
  assumes "mode = OutputModeDashboard \<or> mode = OutputModeBoth" and "mtlsPort \<noteq> HoneypotPort"
    and run: "boot_step\<^sup>*\<^sup>* (boot_start (main_services mtls mtlsPort [] mode)) s"
    and over: "bHoneypot s = []" "bMain s = []"
  shows "bTable s HoneypotPort = Some HoneypotListener \<and> bDashboardFailed s \<and> \<not> bHoneypotFailed s \<or>
    bTable s HoneypotPort = Some DashboardServer \<and> bHoneypotFailed s \<and> \<not> bDashboardFailed s"
proof -
  have "boot_inv s" by (rule boot_inv_run [OF run boot_inv_start]) (rule assms(1,2))+
  then show ?thesis
    using over by (simp add: boot_inv_def port_inv_def split: option.splits port_owner.splits)
qed

text \<open>The honeypot binds the ports it has left, unless somebody else has them.\<close>

lemma honeypot_binds:
  assumes "\<not> bExited s" "bHoneypot s = ps @ qs"
  shows "\<exists>s'. boot_step\<^sup>*\<^sup>* s s' \<and> bHoneypot s' = qs \<and> bMain s' = bMain s \<and> \<not> bExited s' \<and>
    (\<forall>p. bTable s' p = (if bTable s p = None \<and> p \<in> set ps then Some HoneypotListener else bTable s p))"
  using assms
proof (induction ps arbitrary: s)
  case Nil
  then show ?case by (intro exI [of _ s]) simp
next
  case (Cons p ps)
  let ?s = "take_port HoneypotListener p (s\<lparr>bHoneypot := ps @ qs,
     bHoneypotFailed := bHoneypotFailed s \<or> p = HoneypotPort \<and> bTable s p \<noteq> None\<rparr>)"
  have first: "boot_step s ?s" by (rule boot_step.honeypot) (use Cons.prems in simp_all)
  obtain s' where "boot_step\<^sup>*\<^sup>* ?s s'" "bHoneypot s' = qs" "bMain s' = bMain ?s" "\<not> bExited s'"
    "\<forall>q. bTable s' q = (if bTable ?s q = None \<and> q \<in> set ps then Some HoneypotListener else bTable ?s q)"
    using Cons.IH [of ?s] Cons.prems by auto
  with first show ?case
    by (intro exI [of _ s']) (auto simp: bTable_take_port intro: converse_rtranclp_into_rtranclp)
qed

lemma dashboard_or_honeypot_witness:
  "\<exists>s :: boot. bTable s HoneypotPort = Some HoneypotListener \<and> bDashboardFailed s"
proof -
  let ?s = "boot_start (main_services False 0 [] OutputModeDashboard)"
  obtain s where s: "boot_step\<^sup>*\<^sup>* ?s s" "bHoneypot s = []" "bMain s = [(DashboardServer, DashboardPort)]" "\<not> bExited s"
    "bTable s HoneypotPort = Some HoneypotListener"
    using honeypot_binds [of ?s "FakePorts @ [HoneypotPort]" "[]"] by (auto simp: boot_start_def main_services_def)
  let ?t = "take_port DashboardServer DashboardPort
     (s\<lparr>bMain := [], bDashboardFailed := bDashboardFailed s \<or> bTable s DashboardPort \<noteq> None\<rparr>)"
  have "boot_step s ?t" by (rule boot_step.dashboard) (use s in simp_all)
  then have t: "boot_step\<^sup>*\<^sup>* ?s ?t" using s(1) by (rule_tac rtranclp.rtrancl_into_rtrancl)
  have "bTable ?t HoneypotPort = Some HoneypotListener" using s(5) by (simp add: bTable_take_port HoneypotPort_def DashboardPort_def)
  then have "bTable ?t HoneypotPort = Some HoneypotListener \<and> bDashboardFailed ?t"
    using dashboard_or_honeypot [OF _ _ t] s(2) by (simp add: HoneypotPort_def)
  then show ?thesis by blast
qed

text \<open>The default port of the proxy is one of the honeypot's: with the honeypot faster, the proxy ends the
  program.\<close>

lemma default_proxy_port_race:
  "\<exists>s. boot_step\<^sup>*\<^sup>* (boot_start (main_services True 8443 fleetUrl mode)) s \<and> bExited s"
proof -
  let ?s = "boot_start (main_services True 8443 fleetUrl mode)"
  have "(8443 :: i64) \<in> set FakePorts" by code_simp
  then obtain s where s: "boot_step\<^sup>*\<^sup>* ?s s" "bMain s = bMain ?s" "\<not> bExited s"
    "bTable s 8443 = Some HoneypotListener"
    using honeypot_binds [of ?s FakePorts "[HoneypotPort]"] by (auto simp: boot_start_def)
  obtain ms where ms: "bMain s = (ProxyServer, 8443) # ms"
    using s(2) by (simp add: boot_start_def main_services_def)
  have "boot_step s (take_port ProxyServer 8443 (s\<lparr>bMain := ms, bExited := (bTable s 8443 \<noteq> None)\<rparr>))"
    by (rule boot_step.proxy) (use s ms in simp_all)
  then show ?thesis
    using s(1,4) by (intro exI conjI, rule_tac rtranclp.rtrancl_into_rtrancl) (assumption | simp)+
qed

end
