(* ===== verification/Commands.thy ===== *)
theory Commands
  imports Flags Cli Agent
begin

text \<open>
  The \<^verbatim>\<open>main\<close> functions of \<^verbatim>\<open>cmd/agent\<close>, \<^verbatim>\<open>cmd/spa-client\<close>, \<^verbatim>\<open>cmd/fleet\<close> and
  \<^verbatim>\<open>cmd/spa-keygen\<close>, from the arguments of the program to what it does with them: it ends with a
  status, or it runs the parts modelled elsewhere. What is only printed is left out.
\<close>

section \<open>cmd/agent\<close>

definition agent_flag_set :: flag_set where
  "agent_flag_set = [
     (''interface'', StringFlag ''''),
     (''output'', StringFlag ''dashboard''),
     (''elk-address'', StringFlag ''http://localhost:9200''),
     (''elk-index'', StringFlag ''phantom-grid''),
     (''elk-user'', StringFlag ''''),
     (''elk-pass'', StringFlag ''''),
     (''elk-tls'', BoolFlag False),
     (''elk-skip-verify'', BoolFlag False),
     (''fleet-url'', StringFlag ''''),
     (''agent-id'', StringFlag ''Phantom-Node-Alpha''),
     (''spa-mode'', StringFlag ''static''),
     (''spa-key-dir'', StringFlag ''./keys''),
     (''spa-totp-secret'', StringFlag ''''),
     (''spa-static-token'', StringFlag ''''),
     (''mtls'', BoolFlag False),
     (''mtls-port'', IntFlag 8443),
     (''mtls-target'', IntFlag 22),
     (''mtls-ca'', StringFlag ''./keys/ca.crt''),
     (''mtls-cert'', StringFlag ''./keys/server.crt''),
     (''mtls-key'', StringFlag ''./keys/server.key''),
     (''mtls-allowed-spiffe-ids'', StringFlag ''''),
     (''h'', BoolFlag False),
     (''help'', BoolFlag False)]"

definition parse_output_mode :: "unicode \<Rightarrow> string \<Rightarrow> output_mode option" where
  "parse_output_mode U s =
     (let m = to_lower U s
      in if m = ''dashboard'' then Some OutputModeDashboard
         else if m = ''elk'' then Some OutputModeELK
         else if m = ''both'' then Some OutputModeBoth
         else None)"

definition agent_elk_config :: "output_mode \<Rightarrow> flag_set \<Rightarrow> elk_config" where
  "agent_elk_config mode F =
     (if mode = OutputModeELK \<or> mode = OutputModeBoth
      then DefaultELKConfig\<lparr>
             elkEnabled := True,
             elkAddresses := map strings_trim_space (split_on (CHR '','') (flag_string F ''elk-address'')),
             elkIndex := flag_string F ''elk-index'',
             elkUsername := flag_string F ''elk-user'',
             elkPassword := flag_string F ''elk-pass'',
             elkUseTLS := flag_bool F ''elk-tls'',
             elkSkipVerify := flag_bool F ''elk-skip-verify''\<rparr>
      else DefaultELKConfig)"

text \<open>A channel is its capacity and its contents.\<close>

definition dashboard_chan :: "output_mode \<Rightarrow> (nat \<times> string list) option" where
  "dashboard_chan mode = (if mode = OutputModeDashboard \<or> mode = OutputModeBoth then Some (1000, []) else None)"

text \<open>\<^verbatim>\<open>fmt.Scanln\<close> into a string, on the line that is typed (without its end): the first word, whatever
  follows it.\<close>

definition scanln_word :: "string \<Rightarrow> string" where
  "scanln_word line = take_word (trim_left space_strings line)"

datatype agent_exit =
    AgentFlags flag_error
  | AgentHelp
  | BadOutputMode string
  | BadSPA agent_error
  | AgentNotMade new_error
  | AgentNotStarted start_error
  | ProxyNotStarted string

definition agent_status :: "agent_exit \<Rightarrow> nat" where
  "agent_status e = (case e of AgentFlags f \<Rightarrow> flag_status f | AgentHelp \<Rightarrow> 0 | _ \<Rightarrow> 1)"

text \<open>What the first half of \<^verbatim>\<open>main\<close> finds out; \<open>line\<close> is what is typed if the token is asked for.\<close>

record agent_settings =
  asFlags :: flag_set
  asOutput :: output_mode
  asELK :: elk_config
  asDashboard :: "(nat \<times> string list) option"
  asToken :: string
  asSPA :: "spa_config option"

definition agent_configure ::
    "unicode \<Rightarrow> bytes option \<Rightarrow> file_system \<Rightarrow> string \<Rightarrow> string list \<Rightarrow> agent_exit + agent_settings" where
  "agent_configure U rnd fs line args =
     (case parse_flags agent_flag_set args of
        Inl e \<Rightarrow> Inl (AgentFlags e)
      | Inr (F, _) \<Rightarrow>
          (if flag_bool F ''h'' \<or> flag_bool F ''help'' then Inl AgentHelp
           else case parse_output_mode U (flag_string F ''output'') of
                  None \<Rightarrow> Inl (BadOutputMode (flag_string F ''output''))
                | Some mode \<Rightarrow>
                    (case configure_spa rnd fs \<lparr>fSpaMode = flag_string F ''spa-mode'',
                            fKeyDir = flag_string F ''spa-key-dir'', fTOTPSecret = flag_string F ''spa-totp-secret''\<rparr> of
                       Inl e \<Rightarrow> Inl (BadSPA e)
                     | Inr cfg \<Rightarrow> Inr \<lparr>asFlags = F, asOutput = mode, asELK = agent_elk_config mode F,
                         asDashboard = dashboard_chan mode,
                         asToken = static_token (flag_string F ''spa-mode'') (flag_string F ''spa-static-token'') (scanln_word line),
                         asSPA = cfg\<rparr>)))"

text \<open>The proxy of \<^verbatim>\<open>internal/proxy/mtls.go\<close>, and what the library says to its certificates and its
  port.\<close>

record mtls_server =
  ListenPort :: i64
  TargetPort :: i64
  CACert :: bytes
  ServerCert :: bytes
  ServerKey :: bytes
  AllowedSPIFFEIDs :: "string list"

record tls_env =
  teAppendCA :: "bytes \<Rightarrow> bool"
  teKeyPair :: "bytes \<Rightarrow> bytes \<Rightarrow> string option"
  teListen :: "i64 \<Rightarrow> string option"

definition MTLSStart :: "tls_env \<Rightarrow> mtls_server \<Rightarrow> string + unit" where
  "MTLSStart T s =
     (if \<not> teAppendCA T (CACert s) then Inl ''failed to append CA certificate''
      else case teKeyPair T (ServerCert s) (ServerKey s) of
             Some err \<Rightarrow> Inl (''failed to load server key pair: '' @ err)
           | None \<Rightarrow>
               (case teListen T (ListenPort s) of
                  Some err \<Rightarrow> Inl (''failed to start mTLS listener: '' @ err)
                | None \<Rightarrow> Inr ()))"

text \<open>The proxy the flags ask for, if its three files can be read.\<close>

definition agent_proxy :: "file_system \<Rightarrow> flag_set \<Rightarrow> mtls_server option" where
  "agent_proxy fs F =
     (if flag_bool F ''mtls'' then
        (case (fs (flag_string F ''mtls-ca''), fs (flag_string F ''mtls-cert''), fs (flag_string F ''mtls-key'')) of
           (Some ca, Some cert, Some key) \<Rightarrow>
             Some \<lparr>ListenPort = word_of_int (flag_int F ''mtls-port''),
               TargetPort = word_of_int (flag_int F ''mtls-target''),
               CACert = ca, ServerCert = cert, ServerKey = key,
               AllowedSPIFFEIDs = allowed_ids (flag_string F ''mtls-allowed-spiffe-ids'')\<rparr>
         | _ \<Rightarrow> None)
      else None)"

text \<open>Where an agent runs: the file system, the typed line, the interfaces and what the kernel and the
  libraries answer.\<close>

record 'm machine =
  mUnicode :: unicode
  mRandom :: "bytes option"
  mFiles :: file_system
  mLine :: string
  mIfaces :: "net_iface list"
  mByName :: "string \<Rightarrow> net_iface option"
  mLoaderOK :: bool
  mEgressOK :: bool
  mOps :: "'m bpf_ops"
  mLE :: bool
  mOrder :: "(u32 \<times> u32) list \<Rightarrow> (u32 \<times> u32) list"
  mStart :: "'m start_env"
  mTLS :: tls_env

text \<open>The whole of \<^verbatim>\<open>main\<close> up to the wait for a signal: the agent and the proxy that run, or the end
  of the program; \<open>None\<close> is a panic.\<close>

definition agent_main ::
    "'m machine \<Rightarrow> string list \<Rightarrow> (agent_exit + agent_settings \<times> 'm agent \<times> mtls_server option) option" where
  "agent_main M args =
     (case agent_configure (mUnicode M) (mRandom M) (mFiles M) (mLine M) args of
        Inl e \<Rightarrow> Some (Inl e)
      | Inr st \<Rightarrow>
          (case NewAgent (mIfaces M) (mByName M) (mLoaderOK M) (mEgressOK M) (flag_string (asFlags st) ''interface'')
                  (asOutput st) (asELK st) (asDashboard st) (asSPA st) (asToken st) of
             None \<Rightarrow> None
           | Some (Inl e) \<Rightarrow> Some (Inl (AgentNotMade e))
           | Some (Inr a) \<Rightarrow>
               (case AgentStart (mOps M) (mLE M) (mOrder M) (mStart M) a of
                  (_, _, Inl e) \<Rightarrow> Some (Inl (AgentNotStarted e))
                | (a', _, Inr _) \<Rightarrow>
                    (case agent_proxy (mFiles M) (asFlags st) of
                       None \<Rightarrow> Some (Inr (st, a', None))
                     | Some p \<Rightarrow>
                         (case MTLSStart (mTLS M) p of
                            Inl e \<Rightarrow> Some (Inl (ProxyNotStarted e))
                          | Inr _ \<Rightarrow> Some (Inr (st, a', Some p)))))))"

section \<open>cmd/spa-client\<close>

definition client_flag_set :: flag_set where
  "client_flag_set = [
     (''ui'', BoolFlag False),
     (''ui-port'', IntFlag 9090),
     (''server'', StringFlag ''''),
     (''mode'', StringFlag ''static''),
     (''key'', StringFlag ''''),
     (''totp'', StringFlag ''''),
     (''static-token'', StringFlag ''''),
     (''client-ip'', StringFlag ''''),
     (''h'', BoolFlag False),
     (''help'', BoolFlag False)]"

datatype client_outcome =
    ClientExit nat
  | ClientUI string
  | ClientSent "string \<times> bytes"
  | ClientError request_error

text \<open>The request of the flags.\<close>

definition flag_request :: "flag_set \<Rightarrow> client_request" where
  "flag_request F = \<lparr>rqServer = flag_string F ''server'', rqMode = flag_string F ''mode'',
     rqKeyPath = flag_string F ''key'', rqTotpPath = flag_string F ''totp'',
     rqStaticToken = flag_string F ''static-token'', rqClientIP = flag_string F ''client-ip''\<rparr>"

definition show_int :: "int \<Rightarrow> string" where
  "show_int k = (if k < 0 then CHR ''-'' # show_nat (nat (- k)) else show_nat (nat k))"

definition spa_client_main :: "ed25519 \<Rightarrow> client_env \<Rightarrow> string list \<Rightarrow> client_outcome option" where
  "spa_client_main E ce args =
     (case parse_flags client_flag_set args of
        Inl e \<Rightarrow> Some (ClientExit (flag_status e))
      | Inr (F, _) \<Rightarrow>
          (if flag_bool F ''h'' \<or> flag_bool F ''help'' then Some (ClientExit 0)
           else if flag_bool F ''ui'' then Some (ClientUI ('':'' @ show_int (flag_int F ''ui-port'')))
           else if flag_string F ''server'' = [] then Some (ClientExit 1)
           else map_option (\<lambda>r. case r of Inl e \<Rightarrow> ClientError e | Inr d \<Rightarrow> ClientSent d)
                  (processSPARequest E ce (flag_request F))))"

text \<open>The web interface: the file a path stands for, and the request that sends. The body is what
  decoding it gives; fields it leaves out are empty.\<close>

definition ui_file :: "string \<Rightarrow> string" where
  "ui_file path = (if path = ''/'' \<or> path = ''/index.html'' then ''/ui/index.html'' else ''/ui'' @ path)"

datatype ui_response = UIStatus nat | UIError request_error | UISent string

definition api_send ::
    "ed25519 \<Rightarrow> client_env \<Rightarrow> string \<Rightarrow> client_request option \<Rightarrow> (ui_response \<times> (string \<times> bytes) list) option" where
  "api_send E ce meth body =
     (if meth \<noteq> ''POST'' then Some (UIStatus 405, [])
      else case body of
             None \<Rightarrow> Some (UIStatus 400, [])
           | Some rq \<Rightarrow>
               map_option (\<lambda>r. case r of
                   Inl e \<Rightarrow> (UIError e, [])
                 | Inr d \<Rightarrow> (UISent (''Target: '' @ rqServer rq @ '':'' @ show_i64 SPAMagicPort), [d]))
                 (processSPARequest E ce rq))"

section \<open>cmd/fleet and cmd/spa-keygen\<close>

definition fleet_flag_set :: flag_set where
  "fleet_flag_set = [(''port'', IntFlag 9999), (''h'', BoolFlag False)]"

text \<open>The port the fleet manager listens on, or the status it ends with.\<close>

definition fleet_main :: "string list \<Rightarrow> nat + i64" where
  "fleet_main args =
     (case parse_flags fleet_flag_set args of
        Inl e \<Rightarrow> Inl (flag_status e)
      | Inr (F, _) \<Rightarrow> if flag_bool F ''h'' then Inl 0 else Inr (word_of_int (flag_int F ''port'')))"

definition keygen_flag_set :: flag_set where
  "keygen_flag_set = [(''dir'', StringFlag ''./keys''), (''force'', BoolFlag False), (''h'', BoolFlag False), (''help'', BoolFlag False)]"

definition keygen_main ::
    "bool \<Rightarrow> (string \<Rightarrow> bool) \<Rightarrow> (bytes \<times> bytes) option \<Rightarrow> string list \<Rightarrow> file_system \<Rightarrow> file_system \<times> nat" where
  "keygen_main mkdir_ok write_ok keys args fs =
     (case parse_flags keygen_flag_set args of
        Inl e \<Rightarrow> (fs, flag_status e)
      | Inr (F, _) \<Rightarrow>
          (if flag_bool F ''h'' \<or> flag_bool F ''help'' then (fs, 0)
           else case spa_keygen mkdir_ok write_ok keys (flag_string F ''dir'') (flag_bool F ''force'') fs of
                  (fs', Inl _) \<Rightarrow> (fs', 1)
                | (fs', Inr _) \<Rightarrow> (fs', 0)))"

section \<open>What the agent makes of its arguments\<close>

text \<open>Flags given as pairs, read back.\<close>

lemma flag_bool_set_strings:
  "map_of F m = Some (BoolFlag b) \<Longrightarrow> m \<notin> fst ` set ps \<Longrightarrow> flag_bool (set_strings ps F) m = b"
proof -
  assume "map_of F m = Some (BoolFlag b)" "m \<notin> fst ` set ps"
  moreover from this(2) have "map_of (rev ps) m = None" by (simp add: map_of_eq_None_iff)
  ultimately show ?thesis by (simp add: flag_bool_def map_of_set_strings)
qed

lemma DefaultDynamicSPAConfig_mode:
  "configure_spa rnd fs fl = Inr (Some cfg) \<Longrightarrow> Mode cfg = SPAModeDynamic \<or> Mode cfg = SPAModeAsymmetric"
  by (auto simp: configure_spa_def load_totp_def split: if_splits sum.splits option.splits)

lemma configure_spa_static: "configure_spa rnd fs fl = Inr cfg \<Longrightarrow> cfg = None \<longleftrightarrow> fSpaMode fl = ''static''"
  by (auto simp: configure_spa_def split: sum.splits if_splits)

lemma static_token_nonempty: "static_token mode tokenFlag input = [] \<longleftrightarrow> mode \<noteq> ''static''"
  by (simp add: static_token_def SPASecretToken_def)

text \<open>The settings fit together.\<close>

definition settings_ok :: "agent_settings \<Rightarrow> bool" where
  "settings_ok st \<longleftrightarrow>
     flags_typed agent_flag_set (asFlags st) \<and>
     asOutput st \<in> {OutputModeDashboard, OutputModeELK, OutputModeBoth} \<and>
     (asDashboard st = None \<longleftrightarrow> asOutput st = OutputModeELK) \<and>
     (elkEnabled (asELK st) \<longleftrightarrow> asOutput st \<noteq> OutputModeDashboard) \<and>
     elkAddresses (asELK st) \<noteq> [] \<and>
     (asSPA st = None \<longleftrightarrow> asToken st \<noteq> []) \<and>
     pred_option (\<lambda>cfg. Mode cfg = SPAModeDynamic \<or> Mode cfg = SPAModeAsymmetric) (asSPA st)"

text \<open>C33. Whatever the arguments, the files and the typed line are, the settings an agent starts with fit
  together: every flag has a value of its type, the output is one of the three modes, there is a channel
  to the dashboard and a connection to Elasticsearch exactly when the mode wants them, there is at least
  one address for it, and there is either a static token that is not empty or a configuration of one of
  the two dynamic modes.\<close>

theorem agent_configure_typed:
  assumes "agent_configure U rnd fs line args = Inr st"
  shows "settings_ok st"
proof -
  obtain F rest mode cfg where F: "parse_flags agent_flag_set args = Inr (F, rest)"
    and mode: "parse_output_mode U (flag_string F ''output'') = Some mode"
    and cfg: "configure_spa rnd fs \<lparr>fSpaMode = flag_string F ''spa-mode'', fKeyDir = flag_string F ''spa-key-dir'',
          fTOTPSecret = flag_string F ''spa-totp-secret''\<rparr> = Inr cfg"
    and st: "st = \<lparr>asFlags = F, asOutput = mode, asELK = agent_elk_config mode F, asDashboard = dashboard_chan mode,
          asToken = static_token (flag_string F ''spa-mode'') (flag_string F ''spa-static-token'') (scanln_word line),
          asSPA = cfg\<rparr>"
    using assms by (auto simp: agent_configure_def split: sum.splits prod.splits option.splits if_splits)
  have modes: "mode \<in> {OutputModeDashboard, OutputModeELK, OutputModeBoth}"
    using mode by (auto simp: parse_output_mode_def Let_def split: if_splits)
  have spa: "cfg = None \<longleftrightarrow> flag_string F ''spa-mode'' = ''static''"
    using configure_spa_static [OF cfg] by simp
  have "pred_option (\<lambda>cfg. Mode cfg = SPAModeDynamic \<or> Mode cfg = SPAModeAsymmetric) cfg"
    using DefaultDynamicSPAConfig_mode cfg by (cases cfg) auto
  then show ?thesis
    using parse_flags_typed [OF F] modes spa
    by (auto simp: settings_ok_def st agent_elk_config_def dashboard_chan_def DefaultELKConfig_def
        static_token_nonempty output_mode_defs)
qed

text \<open>No arguments at all.\<close>

lemma agent_configure_Nil:
  "agent_configure U rnd fs line [] =
     Inr \<lparr>asFlags = agent_flag_set, asOutput = OutputModeDashboard, asELK = DefaultELKConfig,
       asDashboard = Some (1000, []), asToken = (if scanln_word line = [] then SPASecretToken else scanln_word line),
       asSPA = None\<rparr>"
proof -
  have flags: "flag_bool agent_flag_set ''h'' = False" "flag_bool agent_flag_set ''help'' = False"
    "flag_string agent_flag_set ''output'' = ''dashboard''" "flag_string agent_flag_set ''spa-mode'' = ''static''"
    "flag_string agent_flag_set ''spa-static-token'' = []"
    by code_simp+
  have "to_lower U ''dashboard'' = ''dashboard''"
    by (simp add: to_lower_def is_ascii_def ascii_lower_def)
  then have mode: "parse_output_mode U ''dashboard'' = Some OutputModeDashboard"
    by (simp add: parse_output_mode_def)
  show ?thesis
    by (simp add: agent_configure_def flags mode configure_spa_def static_token_def agent_elk_config_def
        dashboard_chan_def output_mode_defs)
qed

lemma agent_configure_typed_witness:
  "settings_ok \<lparr>asFlags = agent_flag_set, asOutput = OutputModeDashboard, asELK = DefaultELKConfig,
     asDashboard = Some (1000, []), asToken = SPASecretToken, asSPA = None\<rparr>"
proof -
  have "scanln_word [] = []" by (simp add: scanln_word_def)
  then show ?thesis
    using agent_configure_typed [of _ None "\<lambda>_. None" "[]" "[]"] agent_configure_Nil [of _ None "\<lambda>_. None" "[]"] by simp
qed

text \<open>\<^verbatim>\<open>main\<close> of the agent does not panic, and the log manager it makes is never refused: what it
  ends with, short of running, is a mistake in the arguments, a file, the network interface, the kernel, or a port.\<close>

theorem agent_main_total:
  "\<exists>r. agent_main M args = Some r \<and> (\<forall>e. r \<noteq> Inl (AgentNotMade (LogManagerFailed e)))"
proof (cases "agent_configure (mUnicode M) (mRandom M) (mFiles M) (mLine M) args")
  case (Inl e)
  then show ?thesis
    by (auto simp: agent_main_def agent_configure_def split: sum.splits prod.splits option.splits if_splits)
next
  case (Inr st)
  have "elkBatchSize (asELK st) = 100"
    using Inr by (auto simp: agent_configure_def agent_elk_config_def DefaultELKConfig_def
        split: sum.splits prod.splits option.splits if_splits)
  moreover have "\<not> (100 :: i64) <s 0" by (simp add: word_sless_alt)
  ultimately have logs: "\<exists>l. NewLogManager (asOutput st) (asELK st) (asDashboard st) = Some (Inr l)"
    by (simp add: NewLogManager_def Let_def NewELKExporter_def)
  show ?thesis
    using logs
    by (simp add: agent_main_def Inr NewAgent_def)
      (auto split: sum.splits prod.splits option.splits)
qed

section \<open>The two faces of the client\<close>

definition request_pairs :: "client_request \<Rightarrow> (string \<times> string) list" where
  "request_pairs rq = [(''server'', rqServer rq), (''mode'', rqMode rq), (''key'', rqKeyPath rq),
     (''totp'', rqTotpPath rq), (''static-token'', rqStaticToken rq), (''client-ip'', rqClientIP rq)]"

definition client_view :: "ui_response \<times> (string \<times> bytes) list \<Rightarrow> client_outcome" where
  "client_view r =
     (case r of
        (_, d # _) \<Rightarrow> ClientSent d
      | (UIError e, []) \<Rightarrow> ClientError e
      | (_, []) \<Rightarrow> ClientExit 0)"

lemma client_flag_kinds:
  "map_of client_flag_set ''h'' = Some (BoolFlag False)" "map_of client_flag_set ''help'' = Some (BoolFlag False)"
  "map_of client_flag_set ''ui'' = Some (BoolFlag False)" "map_of client_flag_set ''server'' = Some (StringFlag [])"
  "map_of client_flag_set ''mode'' = Some (StringFlag ''static'')" "map_of client_flag_set ''key'' = Some (StringFlag [])"
  "map_of client_flag_set ''totp'' = Some (StringFlag [])" "map_of client_flag_set ''static-token'' = Some (StringFlag [])"
  "map_of client_flag_set ''client-ip'' = Some (StringFlag [])"
  by code_simp+

text \<open>The web interface of the client and its command line are the same request: with the fields of the
  request as flags, the command sends the datagram and fails with the error of \<^verbatim>\<open>/api/send\<close>, whatever
  the values are. The one difference is a request without a server, which the command line refuses and
  the web interface passes on.\<close>

theorem client_ui_like_command_line:
  "spa_client_main E ce (pair_args (request_pairs rq)) =
     (if rqServer rq = [] then Some (ClientExit 1)
      else map_option client_view (api_send E ce ''POST'' (Some rq)))"
proof -
  let ?F = "set_strings (request_pairs rq) client_flag_set"
  have "parse_flags client_flag_set (pair_args (request_pairs rq)) = Inr (?F, [])"
    using parse_flags_pairs [of "request_pairs rq" client_flag_set "[]"]
    by (simp add: request_pairs_def client_flag_kinds plain_flag_name_def)
  moreover have "flag_bool ?F ''h'' = False" "flag_bool ?F ''help'' = False" "flag_bool ?F ''ui'' = False"
    by (rule flag_bool_set_strings, rule client_flag_kinds, simp add: request_pairs_def)+
  moreover have strs: "flag_string ?F ''server'' = rqServer rq" "flag_string ?F ''mode'' = rqMode rq"
    "flag_string ?F ''key'' = rqKeyPath rq" "flag_string ?F ''totp'' = rqTotpPath rq"
    "flag_string ?F ''static-token'' = rqStaticToken rq" "flag_string ?F ''client-ip'' = rqClientIP rq"
    by (subst flag_string_set_strings, rule client_flag_kinds, simp add: request_pairs_def)+
  moreover have "flag_request ?F = rq" unfolding flag_request_def strs by simp
  ultimately show ?thesis
    by (auto simp: spa_client_main_def api_send_def option.map_comp client_view_def comp_def
        intro!: option.map_cong split: sum.split)
qed

text \<open>The command of the documentation that starts the web interface names a flag that does not exist.\<close>

lemma documented_ui_command_fails:
  "spa_client_main E ce [''-web-ui'', ''-ui-port'', ''9090''] = Some (ClientExit 2)"
proof -
  have "parse_flags client_flag_set [''-web-ui'', ''-ui-port'', ''9090''] = Inl (FlagNotDefined ''web-ui'')" by code_simp
  then show ?thesis by (simp add: spa_client_main_def flag_status_def)
qed

section \<open>The key files of the repository\<close>

text \<open>\<^verbatim>\<open>keys/totp_secret.txt\<close>: text in UTF-16 with a byte order mark and a line end of two characters.\<close>

definition utf16le :: "string \<Rightarrow> bytes" where
  "utf16le s = concat (map (\<lambda>b. [b, 0]) (bytes_of_string s))"

definition repository_totp_secret :: bytes where
  "repository_totp_secret =
     [0xff, 0xfe] @ utf16le ''UBeP9PbyCr_bCVsjG2JedJva0YcXbbtUdOwn0xmwslg'' @ [0x0d, 0, 0x0a, 0]"

lemma repository_totp_trims:
  "client_trim repository_totp_secret = repository_totp_secret"
  "server_trim repository_totp_secret = take 87 repository_totp_secret"
  "length repository_totp_secret = 92"
proof -
  show "client_trim repository_totp_secret = repository_totp_secret"
    "server_trim repository_totp_secret = take 87 repository_totp_secret"
    by code_simp+
  have "length (utf16le s) = 2 * length s" for s by (induction s) (simp_all add: utf16le_def bytes_of_string_def)
  then show "length repository_totp_secret = 92" by (simp add: repository_totp_secret_def)
qed

lemma client_config_totp:
  "client_config ce rq = Inr cfg \<Longrightarrow> choose_path ce (rqTotpPath rq) ''totp_secret.txt'' = p \<Longrightarrow> p \<noteq> [] \<Longrightarrow>
   ceFiles ce p = Some d \<Longrightarrow> TOTPSecret cfg = client_trim d"
  by (auto simp: client_config_def load_client_totp_def Let_def split: if_splits sum.splits)

text \<open>With the TOTP secret that the repository ships, client and agent never agree: the file is UTF-16
  with a Windows line end, from which the agent removes the last five bytes and the client none, so the
  secret the client computes its codes with is not among those the agent knows.\<close>

theorem repository_totp_secret_disagrees:
  assumes "configure_spa rnd fs fl = Inr (Some cfg)" and "fTOTPSecret fl = []"
    and "fs (fKeyDir fl @ ''/totp_secret.txt'') = Some repository_totp_secret"
    and "client_config ce rq = Inr cfg'" and "choose_path ce (rqTotpPath rq) ''totp_secret.txt'' = p" "p \<noteq> []"
    and "ceFiles ce p = Some repository_totp_secret"
  shows "length (TOTPSecret cfg') = 92 \<and> map length (TOTPSecrets cfg) = [87] \<and> TOTPSecret cfg' \<notin> set (TOTPSecrets cfg)"
proof -
  have "TOTPSecret cfg' = repository_totp_secret"
    using client_config_totp [OF assms(4-7)] by (simp add: repository_totp_trims)
  moreover have "TOTPSecrets cfg = [take 87 repository_totp_secret]"
    using assms(1-3) by (auto simp: configure_spa_def load_totp_def repository_totp_trims split: if_splits sum.splits)
  moreover have "length (take 87 repository_totp_secret) = 87" by (simp add: repository_totp_trims(3))
  moreover from this have "repository_totp_secret \<noteq> take 87 repository_totp_secret"
    using repository_totp_trims(3) by (metis numeral_eq_iff num.distinct(1) semiring_norm(88,89))
  ultimately show ?thesis using repository_totp_trims(3) by simp
qed

lemma repository_totp_secret_disagrees_witness:
  "\<exists>cfg cfg'. configure_spa None (\<lambda>_. Some repository_totp_secret) \<lparr>fSpaMode = ''dynamic'', fKeyDir = [], fTOTPSecret = []\<rparr>
       = Inr (Some cfg) \<and>
     client_config (example_client_env\<lparr>ceFiles := \<lambda>_. Some repository_totp_secret\<rparr>) (example_request ''dynamic'') = Inr cfg' \<and>
     TOTPSecret cfg' \<notin> set (TOTPSecrets cfg)"
proof -
  let ?fs = "\<lambda>_. Some repository_totp_secret"
  let ?fl = "\<lparr>fSpaMode = ''dynamic'', fKeyDir = [], fTOTPSecret = []\<rparr>"
  let ?ce = "example_client_env\<lparr>ceFiles := ?fs\<rparr>"
  have server: "configure_spa None ?fs ?fl = Inr (Some (load_totp ?fs ?fl ((DefaultDynamicSPAConfig None)\<lparr>Mode := SPAModeDynamic\<rparr>)))"
    by (simp add: configure_spa_def)
  obtain cfg' where client: "client_config ?ce (example_request ''dynamic'') = Inr cfg'"
    by (simp add: client_config_def example_request_def Let_def)
  have path: "choose_path ?ce (rqTotpPath (example_request ''dynamic'')) ''totp_secret.txt'' = ''t''"
    by (simp add: choose_path_def example_request_def)
  show ?thesis
    using repository_totp_secret_disagrees [OF server _ _ client path] server client by auto
qed

end
