(* ===== verification/ExampleClient.thy ===== *)
theory ExampleClient
  imports Commands
begin

text \<open>
  \<^verbatim>\<open>examples/spa-client-example.go\<close>: a client in one page, for Ed25519 mode. It differs from
  \<^verbatim>\<open>cmd/spa-client\<close> in that a missing file ends it and in that it binds every packet to one fixed
  address; the lemmas say what of the client's correctness it keeps.
\<close>

definition example_flag_set :: flag_set where
  "example_flag_set = [
     (''server'', StringFlag ''''),
     (''key'', StringFlag ''./keys/spa_private.key''),
     (''totp'', StringFlag ''./keys/totp_secret.txt'')]"

datatype example_outcome =
    ExampleUsage nat
  | NoServer
  | ExampleKeyFailed key_error
  | ExampleTOTPFailed
  | ExampleClientFailed client_error
  | ExampleSendFailed send_error
  | ExampleSent string bytes

definition example_address :: net_ip where
  "example_address = Some (v4_in_v6_prefix @ [192, 168, 1, 100])"

fun example_sent :: "send_error + (string \<times> bytes) \<Rightarrow> example_outcome" where
  "example_sent (Inl e) = ExampleSendFailed e"
| "example_sent (Inr (a, d)) = ExampleSent a d"

lemma example_sent_iff [simp]: "example_sent r = ExampleSent a d \<longleftrightarrow> r = Inr (a, d)"
  by (cases r rule: example_sent.cases) auto

definition example_run_client ::
    "ed25519 \<Rightarrow> client_env \<Rightarrow> string \<Rightarrow> string \<Rightarrow> string \<Rightarrow> example_outcome option" where
  "example_run_client E ce serverIP keyPath totpPath =
     (let cfg = (DefaultDynamicSPAConfig (ceRandom ce))\<lparr>Mode := SPAModeAsymmetric\<rparr>
      in case LoadKeysFromFile (ceFiles ce) [] keyPath of
           Inl e \<Rightarrow> Some (ExampleKeyFailed e)
         | Inr (_, sk) \<Rightarrow>
             (case ceFiles ce totpPath of
                None \<Rightarrow> Some ExampleTOTPFailed
              | Some t \<Rightarrow>
                  (case NewDynamicClient serverIP
                          (cfg\<lparr>PrivateKey := (case sk of None \<Rightarrow> [] | Some k \<Rightarrow> k), TOTPSecret := client_trim t\<rparr>)
                          example_address of
                     Inl e \<Rightarrow> Some (ExampleClientFailed e)
                   | Inr c \<Rightarrow>
                       map_option example_sent
                         (SendMagicPacket E (ceNet ce) (cePacket ce) c))))"

definition example_main :: "ed25519 \<Rightarrow> client_env \<Rightarrow> string list \<Rightarrow> example_outcome option" where
  "example_main E ce args =
     (case parse_flags example_flag_set args of
        Inl e \<Rightarrow> Some (ExampleUsage (flag_status e))
      | Inr (F, _) \<Rightarrow>
          (if flag_string F ''server'' = [] then Some NoServer
           else example_run_client E ce (flag_string F ''server'') (flag_string F ''key'') (flag_string F ''totp'')))"

section \<open>Against the client command\<close>

text \<open>With its files there, the example sends exactly what the client command sends in Ed25519 mode
  with \<^verbatim>\<open>-client-ip 192.168.1.100\<close>.\<close>

theorem example_is_client_with_fixed_address:
  assumes "ceFiles ce totp \<noteq> None" and "key \<noteq> []" and "totp \<noteq> []"
    and "ceParseIP ce ''192.168.1.100'' = example_address"
  shows "example_run_client E ce server key totp = Some (ExampleSent a d) \<longleftrightarrow>
    processSPARequest E ce \<lparr>rqServer = server, rqMode = ''asymmetric'', rqKeyPath = key, rqTotpPath = totp,
      rqStaticToken = '''', rqClientIP = ''192.168.1.100''\<rparr> = Some (Inr (a, d))"
proof -
  let ?rq = "\<lparr>rqServer = server, rqMode = ''asymmetric'', rqKeyPath = key, rqTotpPath = totp,
      rqStaticToken = '''', rqClientIP = ''192.168.1.100''\<rparr>"
  obtain t where t: "ceFiles ce totp = Some t" using assms(1) by blast
  have ip: "client_ip ce ?rq = Inr example_address"
    using assms(4) by (simp add: client_ip_def example_address_def)
  show ?thesis
  proof (cases "LoadKeysFromFile (ceFiles ce) [] key")
    case (Inl e)
    then show ?thesis
      using assms(2)
      by (simp add: example_run_client_def processSPARequest_def client_config_def client_key_def choose_path_def)
  next
    case (Inr ks)
    obtain pk sk where ks: "ks = (pk, sk)" by (cases ks)
    let ?cfg = "(DefaultDynamicSPAConfig (ceRandom ce))\<lparr>Mode := SPAModeAsymmetric,
      PrivateKey := (case sk of None \<Rightarrow> [] | Some k \<Rightarrow> k), TOTPSecret := client_trim t\<rparr>"
    have cfg: "client_config ce ?rq = Inr ?cfg"
      using assms(2,3) t Inr ks
      by (simp add: client_config_def client_key_def choose_path_def load_client_totp_def Let_def)
    show ?thesis
    proof (cases "NewDynamicClient server ?cfg example_address")
      case (Inl e)
      then show ?thesis using cfg ip t Inr ks
        by (simp add: example_run_client_def processSPARequest_def)
    next
      case (Inr c)
      have "example_run_client E ce server key totp =
          map_option example_sent
            (SendMagicPacket E (ceNet ce) (cePacket ce) c)"
        using t ks Inr \<open>LoadKeysFromFile (ceFiles ce) [] key = Inr ks\<close> by (simp add: example_run_client_def)
      moreover have "processSPARequest E ce ?rq = map_option (map_sum SendFailed id) (SendMagicPacket E (ceNet ce) (cePacket ce) c)"
        using cfg ip Inr by (simp add: processSPARequest_def)
      moreover have "map_option example_sent m = Some (ExampleSent a d)
          \<longleftrightarrow> map_option (map_sum SendFailed id) m = Some (Inr (a, d))" for m
        by (auto simp: map_sum_Inr split: sum.splits)
      ultimately show ?thesis by simp
    qed
  qed
qed

section \<open>The fixed address\<close>

text \<open>
  Every packet of the example is a version 2 packet that names 192.168.1.100: no verifier accepts it from
  any other sender.
\<close>

theorem example_packets_one_sender:
  assumes laws: "ed25519_laws E" and key: "ceFiles ce key = Some (ed_newkey E seed)"
    and sent: "example_run_client E ce server key totp = Some (ExampleSent a d)"
    and accepted: "VerifyPacket E v clk d ip = Some (v', Inr ())"
  shows "ip_to4 ip = Some [192, 168, 1, 100]"
proof -
  have len: "length (ed_newkey E seed) = 64" using laws by (simp add: ed25519_laws_def)
  obtain pk sk t c where ks: "LoadKeysFromFile (ceFiles ce) [] key = Inr (pk, sk)" "ceFiles ce totp = Some t"
    and c: "NewDynamicClient server ((DefaultDynamicSPAConfig (ceRandom ce))\<lparr>Mode := SPAModeAsymmetric,
      PrivateKey := (case sk of None \<Rightarrow> [] | Some k \<Rightarrow> k), TOTPSecret := client_trim t\<rparr>) example_address = Inr c"
    and send: "SendMagicPacket E (ceNet ce) (cePacket ce) c = Some (Inr (a, d))"
    using sent by (auto simp: example_run_client_def Let_def split: sum.splits option.splits)
  obtain k where k: "load_private (ceFiles ce) key = Inr (Some k)" "sk = Some k"
    using ks(1) key
    by (auto simp: LoadKeysFromFile_def load_public_def load_private_def Let_def split: sum.splits option.splits if_splits)
  have "k = ed_newkey E seed" using load_private_ok [OF k(1) key len] .
  then obtain obf step where "CreateAsymmetricPacket E (cePacket ce) (ed_newkey E seed) (client_trim t) step obf example_address
      = Some (Inr d)"
    using NewDynamicClient_asymmetric [OF c, of E "cePacket ce"] send k(2)
    by (auto simp: SendMagicPacket_sent map_sum_Inr)
  from CreateAsymmetricPacket_parsed [OF laws this]
  obtain p where p: "ParseSPAPacket d = Some (Inr p)" "pVersion p = 2" "pClientIP p = Some (ip_bytes example_address)"
    by blast
  have "check_ip p ip = Inr ()"
    using accepted p(1) by (auto simp: VerifyPacket_accepts verify_checks_ok)
  then have "ip_to16 ip = Some (v4_in_v6_prefix @ [192, 168, 1, 100])"
    using p(2,3) by (auto simp: check_ip_ok ip_bytes_def example_address_def ip_to16_def)
  then have "ip_to4 (ip_to16 ip) = Some [192, 168, 1, 100]" by (simp add: ip_to4_def)
  then show ?thesis by (simp add: ip_to4_of_to16)
qed

lemma example_packets_one_sender_witness:
  "\<exists>a d v'. example_run_client ed_example example_client_env ''10.0.0.1'' ''k'' ''t'' = Some (ExampleSent a d) \<and>
     VerifyPacket ed_example (NewVerifier example_asymmetric_config) (\<lambda>n. 1010) d example_address = Some (v', Inr ()) \<and>
     (\<forall>ip v''. VerifyPacket ed_example (NewVerifier example_asymmetric_config) (\<lambda>n. 1010) d ip = Some (v'', Inr ())
        \<longrightarrow> ip_to4 ip = Some [192, 168, 1, 100])"
proof -
  let ?ce = example_client_env and ?sk = "ed_newkey ed_example [3]" and ?v = "NewVerifier example_asymmetric_config"
  have len: "length ?sk = 64" using ed_example_laws by (simp add: ed25519_laws_def)
  let ?cfg = "(DefaultDynamicSPAConfig None)\<lparr>Mode := SPAModeAsymmetric, PrivateKey := ?sk, TOTPSecret := [1]\<rparr>"
  have same: "ip_bytes example_address = ip_bytes example_ip" "ip_to16 example_address = ip_to16 example_ip"
    by (simp_all add: example_address_def example_ip_def ip_bytes_def ip_to16_def v4_in_v6_prefix_def)
  obtain c where c: "NewDynamicClient ''10.0.0.1'' ?cfg example_address = Inr c"
    using len by (cases "?sk = []") (auto simp: NewDynamicClient_def Let_def)
  obtain d where "CreateAsymmetricPacket ed_example example_env ?sk [1] 30 True example_ip = Some (Inr d)"
    using CreateAsymmetricPacket_example by blast
  then have d: "CreateAsymmetricPacket ed_example example_env ?sk [1] 30 True example_address = Some (Inr d)"
    unfolding CreateAsymmetricPacket_def packet_header_def same .
  then have "magic_packet ed_example (cePacket ?ce) c = Some (Inr d)"
    using NewDynamicClient_asymmetric [OF c, of ed_example "cePacket ?ce"]
    by (simp add: example_client_env_def DefaultDynamicSPAConfig_def)
  then have send: "SendMagicPacket ed_example (ceNet ?ce) (cePacket ?ce) c = Some (Inr (spa_addr (dcServerIP c), d))"
    by (simp add: SendMagicPacket_sent) (simp add: example_client_env_def)
  have keys: "LoadKeysFromFile (ceFiles ?ce) [] ''k'' = Inr (Some (ed_public ?sk), Some ?sk)"
    using len
    by (simp add: example_client_env_def LoadKeysFromFile_def load_public_def load_private_def example_key_trim Let_def)
  have sent: "example_run_client ed_example ?ce ''10.0.0.1'' ''k'' ''t'' = Some (ExampleSent (spa_addr (dcServerIP c)) d)"
    using keys c send
    by (simp add: example_run_client_def example_client_env_def client_trim_def)
  have "length (ed_public ?sk) = 32" using len by (simp add: ed_public_def)
  then have "\<exists>v'. VerifyPacket ed_example ?v (\<lambda>n. 1010) d example_address = Some (v', Inr ())"
    by (intro accepts_asymmetric [where env = example_env and seed = "[3]" and s = "[1]"
          and obf = True and cip = example_address, OF ed_example_laws])
       (use d example_clock_near example_totp_settings in \<open>simp_all add: NewVerifier_def
          example_asymmetric_config_def DefaultDynamicSPAConfig_def keys_in_use_def example_address_def
          ip_to16_def keys_well_sized_def v4_in_v6_prefix_def\<close>)
  moreover have "ip_to4 ip = Some [192, 168, 1, 100]"
    if "VerifyPacket ed_example ?v (\<lambda>n. 1010) d ip = Some (v'', Inr ())" for ip v''
    by (rule example_packets_one_sender [OF ed_example_laws _ sent that, where seed = "[3]"])
       (simp add: example_client_env_def)
  ultimately show ?thesis using sent by blast
qed

end
