(* ===== verification/Webdash.thy ===== *)
theory Webdash
  imports Crypto GoLib Prelude "HOL-Library.Finite_Map"
begin

text \<open>
  \<^verbatim>\<open>internal/webdash\<close>: the dashboard's users and sessions (\<^verbatim>\<open>auth.go\<close>), its settings
  (\<^verbatim>\<open>settings.go\<close>), the register of agents (\<^verbatim>\<open>fleet.go\<close>), and the request handlers behind
  the authentication middleware (\<^verbatim>\<open>server.go\<close>). Times are nanoseconds. A JSON file is modelled
  by the value it decodes to, \<open>None\<close> if it is missing or does not decode; a JSON request body
  likewise. Handlers run one at a time. The database of agents is a parameter.
\<close>

section \<open>Users and sessions\<close>

definition RoleAdmin :: string where "RoleAdmin = ''admin''"
definition RoleViewer :: string where "RoleViewer = ''viewer''"

record user =
  Username :: string
  Password :: string
  Role :: string

record session =
  sUsername :: string
  sExpiresAt :: int

record auth_manager =
  users :: "(string, user) fmap"
  sessions :: "(string, session) fmap"
  usersFile :: "user list option"

datatype auth_error =
    InvalidCredentials
  | UserNotFound
  | IncorrectOldPassword
  | InvalidSession
  | SessionExpired

definition HashPassword :: "string \<Rightarrow> string" where
  "HashPassword password = hex_encode (sha256 (bytes_of_string password))"

definition loadUsers :: "auth_manager \<Rightarrow> auth_manager" where
  "loadUsers am =
     (case usersFile am of
        None \<Rightarrow> am
      | Some us \<Rightarrow> am\<lparr>users := foldl (\<lambda>m u. fmupd (Username u) u m) (users am) us\<rparr>)"

text \<open>Writing a file succeeds, or fails and leaves whatever is there then.\<close>

datatype 'a disk = Written | Failed "'a option"

definition write_file :: "'a disk \<Rightarrow> 'a \<Rightarrow> 'a option" where
  "write_file w x = (case w of Written \<Rightarrow> Some x | Failed y \<Rightarrow> y)"

text \<open>The range over the map lists the users in an order the run-time chooses.\<close>

definition saveUsers :: "((string, user) fmap \<Rightarrow> user list) \<Rightarrow> user list disk \<Rightarrow> auth_manager \<Rightarrow> auth_manager" where
  "saveUsers order w am = am\<lparr>usersFile := write_file w (order (users am))\<rparr>"

definition NewAuthManager :: "((string, user) fmap \<Rightarrow> user list) \<Rightarrow> user list disk \<Rightarrow> user list option \<Rightarrow> auth_manager" where
  "NewAuthManager order w file =
     (let am = loadUsers \<lparr>users = fmempty, sessions = fmempty, usersFile = file\<rparr>
      in if fmlookup (users am) ''admin'' = None
         then saveUsers order w
                (am\<lparr>users := fmupd ''admin'' \<lparr>Username = ''admin'', Password = HashPassword ''admin'',
                                               Role = RoleAdmin\<rparr> (users am)\<rparr>)
         else am)"

definition session_length :: int where "session_length = 24 * 3600 * 1000000000"

text \<open>\<open>rnd\<close> is the 32 random bytes of the token.\<close>

definition Authenticate ::
    "auth_manager \<Rightarrow> bytes \<Rightarrow> int \<Rightarrow> string \<Rightarrow> string \<Rightarrow> auth_manager \<times> (auth_error + string)" where
  "Authenticate am rnd now username password =
     (case fmlookup (users am) username of
        None \<Rightarrow> (am, Inl InvalidCredentials)
      | Some user \<Rightarrow>
          (if Password user \<noteq> HashPassword password then (am, Inl InvalidCredentials)
           else (let token = hex_encode rnd
                 in (am\<lparr>sessions := fmupd token \<lparr>sUsername = username, sExpiresAt = now + session_length\<rparr>
                                      (sessions am)\<rparr>, Inr token))))"

definition ChangePassword ::
    "((string, user) fmap \<Rightarrow> user list) \<Rightarrow> user list disk \<Rightarrow> auth_manager \<Rightarrow> string \<Rightarrow> string \<Rightarrow> string
       \<Rightarrow> auth_manager \<times> (auth_error + unit)" where
  "ChangePassword order w am username oldPass newPass =
     (case fmlookup (users am) username of
        None \<Rightarrow> (am, Inl UserNotFound)
      | Some user \<Rightarrow>
          (if Password user \<noteq> HashPassword oldPass then (am, Inl IncorrectOldPassword)
           else (saveUsers order w
                   (am\<lparr>users := fmupd username (user\<lparr>Password := HashPassword newPass\<rparr>) (users am)\<rparr>),
                 Inr ())))"

definition ValidateToken :: "auth_manager \<Rightarrow> int \<Rightarrow> string \<Rightarrow> auth_error + string" where
  "ValidateToken am now token =
     (case fmlookup (sessions am) token of
        None \<Rightarrow> Inl InvalidSession
      | Some s \<Rightarrow> if sExpiresAt s < now then Inl SessionExpired else Inr (sUsername s))"

definition GetUser :: "auth_manager \<Rightarrow> string \<Rightarrow> user option" where
  "GetUser am username = fmlookup (users am) username"

definition Logout :: "auth_manager \<Rightarrow> string \<Rightarrow> auth_manager" where
  "Logout am token = am\<lparr>sessions := fmdrop token (sessions am)\<rparr>"

text \<open>One tick of the hourly clean-up.\<close>

definition cleanupSessions :: "auth_manager \<Rightarrow> int \<Rightarrow> auth_manager" where
  "cleanupSessions am now =
     am\<lparr>sessions := fmfilter (\<lambda>t. \<forall>s. fmlookup (sessions am) t = Some s \<longrightarrow> \<not> sExpiresAt s < now) (sessions am)\<rparr>"

section \<open>Requests and the middleware\<close>

record request =
  rPath :: string
  rMethod :: string
  rCookie :: "string option"
  rQuery :: "string \<Rightarrow> string"
  rRemoteAddr :: string

datatype gate = Next "user option" | Deny401 | RedirectLogin

definition isAPIRequest :: "request \<Rightarrow> bool" where
  "isAPIRequest r \<longleftrightarrow> 4 \<le> length (rPath r) \<and> take 4 (rPath r) = ''/api''"

definition public_path :: "string \<Rightarrow> bool" where
  "public_path p \<longleftrightarrow> p = ''/login'' \<or> p = ''/api/auth/login'' \<or> p = ''/metrics''
     \<or> take (length ''/api/fleet/'') p = ''/api/fleet/''"

definition AuthMiddleware :: "auth_manager \<Rightarrow> int \<Rightarrow> request \<Rightarrow> gate" where
  "AuthMiddleware am now r =
     (if public_path (rPath r) then Next None
      else case rCookie r of
             None \<Rightarrow> if isAPIRequest r then Deny401 else RedirectLogin
           | Some c \<Rightarrow>
               (case ValidateToken am now c of
                  Inl _ \<Rightarrow> if isAPIRequest r then Deny401 else RedirectLogin
                | Inr username \<Rightarrow>
                    (case GetUser am username of
                       None \<Rightarrow> Deny401
                     | Some u \<Rightarrow> Next (Some u))))"

section \<open>Settings and agents\<close>

record settings =
  AgentIdentifier :: string
  MirageEnabled :: bool
  LogRotation :: string
  ProtectedIf :: string
  StealthMode :: bool
  EbpfTimeoutSec :: i64
  SpaTriggerPort :: i64
  SpaWhitelistSec :: i64
  SpaClockSkewSec :: i64

definition DefaultSettings :: settings where
  "DefaultSettings = \<lparr>
     AgentIdentifier = ''Phantom-Node-Alpha'',
     MirageEnabled = True,
     LogRotation = ''100MB'',
     ProtectedIf = ''eth0'',
     StealthMode = True,
     EbpfTimeoutSec = 3600,
     SpaTriggerPort = 62201,
     SpaWhitelistSec = 300,
     SpaClockSkewSec = 30\<rparr>"

definition LoadSettings :: "settings option \<Rightarrow> settings" where
  "LoadSettings file = (case file of None \<Rightarrow> DefaultSettings | Some s \<Rightarrow> s)"

text \<open>The new contents of the file, and whether there was no error.\<close>

definition SaveSettings :: "settings disk \<Rightarrow> settings \<Rightarrow> settings option \<times> bool" where
  "SaveSettings w s = (write_file w s, case w of Written \<Rightarrow> True | Failed _ \<Rightarrow> False)"

record agent_telemetry =
  AgentID :: string
  IP :: string
  DroppedPackets :: u64
  AuthSuccess :: u64
  AuthFailed :: u64
  LastSeen :: int

text \<open>The operations of the database the manager uses: saving a row (\<open>None\<close> on an error, which the
  manager does not look at), all rows, and the first row with a given key.\<close>

record 'd fleet_db =
  db_save :: "'d \<Rightarrow> agent_telemetry \<Rightarrow> 'd option"
  db_find :: "'d \<Rightarrow> agent_telemetry list"
  db_first :: "'d \<Rightarrow> string \<Rightarrow> agent_telemetry option"

text \<open>What is relied on: a saved row replaces the row with its primary key and no other.\<close>

definition fleet_laws :: "'d fleet_db \<Rightarrow> bool" where
  "fleet_laws ops \<longleftrightarrow>
     (\<forall>d t d'. db_save ops d t = Some d' \<longrightarrow>
        db_first ops d' (AgentID t) = Some t \<and>
        (\<forall>k. k \<noteq> AgentID t \<longrightarrow> db_first ops d' k = db_first ops d k))"

definition RegisterAgent :: "'d fleet_db \<Rightarrow> 'd \<Rightarrow> int \<Rightarrow> agent_telemetry \<Rightarrow> 'd" where
  "RegisterAgent ops db now t =
     (case db_save ops db (t\<lparr>LastSeen := now\<rparr>) of None \<Rightarrow> db | Some db' \<Rightarrow> db')"

definition GetAgents :: "'d fleet_db \<Rightarrow> 'd \<Rightarrow> agent_telemetry list" where
  "GetAgents ops db = db_find ops db"

definition GetAgent :: "'d fleet_db \<Rightarrow> 'd \<Rightarrow> string \<Rightarrow> agent_telemetry option" where
  "GetAgent ops db agentID = db_first ops db agentID"

section \<open>The server\<close>

text \<open>The clients of the log stream are numbered; each has a queue of messages.\<close>

record 'd web_server =
  wAuth :: auth_manager
  wSettings :: "settings option"
  wFleet :: 'd
  wExternalLogs :: "string list"
  wClients :: "(nat, string list) fmap"

text \<open>The counters of the kernel program, when this process has loaded it; a failed look-up leaves
  the counter zero.\<close>

record ebpf_stats =
  esDropped :: "u64 option"
  esAuthSuccess :: "u64 option"
  esAuthFailed :: "u64 option"

definition stat :: "u64 option \<Rightarrow> u64" where
  "stat v = (case v of None \<Rightarrow> 0 | Some n \<Rightarrow> n)"

text \<open>Responses, by content.\<close>

datatype response =
    Status nat
  | SetSession string
  | ClearSession
  | StatsJSON u64 u64 u64
  | MeJSON string string
  | SettingsJSON settings
  | MetricsText u64 u64 u64
  | AgentsJSON "agent_telemetry list"
  | ProvisionJSON bytes
  | LogStream
  | StaticFile string

definition MethodPost :: string where "MethodPost = ''POST''"
definition MethodGet :: string where "MethodGet = ''GET''"

text \<open>What decoding the request body gives, for the handlers that read one.\<close>

record body =
  bLogin :: "(string \<times> string) option"
  bPassword :: "(string \<times> string) option"
  bSettings :: "settings option"
  bTelemetry :: "agent_telemetry option"
  bLog :: "(string \<times> string) option"

text \<open>What a request meets: the clock, random bytes, the state of the disk and the kernel's
  counters, the order of maps, and the key and certificate generators.\<close>

record web_env =
  weNow :: int
  weRandom :: bytes
  weOrder :: "(string, user) fmap \<Rightarrow> user list"
  weUsersDisk :: "user list disk"
  weSettingsDisk :: "settings disk"
  weStats :: "ebpf_stats option"
  weKey :: "bytes option"
  weCerts :: bool

definition handleStats :: "'d fleet_db \<Rightarrow> web_env \<Rightarrow> 'd web_server \<Rightarrow> request \<Rightarrow> response" where
  "handleStats ops we s r =
     (let local = (case weStats we of
                     None \<Rightarrow> StatsJSON 0 0 0
                   | Some st \<Rightarrow> StatsJSON (stat (esDropped st)) (stat (esAuthSuccess st)) (stat (esAuthFailed st)));
          agentID = rQuery r ''agent''
      in if agentID \<noteq> [] then
           (case GetAgent ops (wFleet s) agentID of
              Some a \<Rightarrow> StatsJSON (DroppedPackets a) (AuthSuccess a) (AuthFailed a)
            | None \<Rightarrow> local)
         else local)"

definition handleLogin :: "web_env \<Rightarrow> 'd web_server \<Rightarrow> request \<Rightarrow> body \<Rightarrow> 'd web_server \<times> response" where
  "handleLogin we s r b =
     (if rMethod r \<noteq> MethodPost then (s, Status 405)
      else case bLogin b of
             None \<Rightarrow> (s, Status 400)
           | Some (u, p) \<Rightarrow>
               (case Authenticate (wAuth s) (weRandom we) (weNow we) u p of
                  (am, Inl _) \<Rightarrow> (s\<lparr>wAuth := am\<rparr>, Status 401)
                | (am, Inr token) \<Rightarrow> (s\<lparr>wAuth := am\<rparr>, SetSession token)))"

definition handleLogout :: "'d web_server \<Rightarrow> request \<Rightarrow> 'd web_server \<times> response" where
  "handleLogout s r =
     (case rCookie r of
        None \<Rightarrow> (s, ClearSession)
      | Some c \<Rightarrow> (s\<lparr>wAuth := Logout (wAuth s) c\<rparr>, ClearSession))"

definition handlePassword ::
    "web_env \<Rightarrow> 'd web_server \<Rightarrow> user option \<Rightarrow> request \<Rightarrow> body \<Rightarrow> 'd web_server \<times> response" where
  "handlePassword we s ctx r b =
     (if rMethod r \<noteq> MethodPost then (s, Status 405)
      else case ctx of
             None \<Rightarrow> (s, Status 401)
           | Some u \<Rightarrow>
               (case bPassword b of
                  None \<Rightarrow> (s, Status 400)
                | Some (old, new) \<Rightarrow>
                    (case ChangePassword (weOrder we) (weUsersDisk we) (wAuth s) (Username u) old new of
                       (am, Inl _) \<Rightarrow> (s\<lparr>wAuth := am\<rparr>, Status 400)
                     | (am, Inr _) \<Rightarrow> (s\<lparr>wAuth := am\<rparr>, Status 200))))"

definition handleMe :: "user option \<Rightarrow> response" where
  "handleMe ctx = (case ctx of None \<Rightarrow> Status 401 | Some u \<Rightarrow> MeJSON (Username u) (Role u))"

definition handleSettings ::
    "web_env \<Rightarrow> 'd web_server \<Rightarrow> user option \<Rightarrow> request \<Rightarrow> body \<Rightarrow> 'd web_server \<times> response" where
  "handleSettings we s ctx r b =
     (if rMethod r = MethodGet then (s, SettingsJSON (LoadSettings (wSettings s)))
      else if rMethod r = MethodPost then
        (case ctx of
           None \<Rightarrow> (s, Status 403)
         | Some u \<Rightarrow>
             (if Role u \<noteq> RoleAdmin then (s, Status 403)
              else case bSettings b of
                     None \<Rightarrow> (s, Status 400)
                   | Some st \<Rightarrow>
                       (case SaveSettings (weSettingsDisk we) st of
                          (f, ok) \<Rightarrow> (s\<lparr>wSettings := f\<rparr>, if ok then Status 200 else Status 500))))
      else (s, Status 405))"

definition handleMetrics :: "'d fleet_db \<Rightarrow> web_env \<Rightarrow> 'd web_server \<Rightarrow> response" where
  "handleMetrics ops we s =
     (case weStats we of
        Some st \<Rightarrow> MetricsText (stat (esDropped st)) (stat (esAuthSuccess st)) (stat (esAuthFailed st))
      | None \<Rightarrow>
          (case foldl (\<lambda>(d, a, f) t. (d + DroppedPackets t, a + AuthSuccess t, f + AuthFailed t)) (0, 0, 0)
                  (GetAgents ops (wFleet s)) of
             (d, a, f) \<Rightarrow> MetricsText d a f))"

definition handleFleetTelemetry :: "'d fleet_db \<Rightarrow> web_env \<Rightarrow> 'd web_server \<Rightarrow> request \<Rightarrow> body \<Rightarrow> 'd web_server \<times> response" where
  "handleFleetTelemetry ops we s r b =
     (if rMethod r \<noteq> MethodPost then (s, Status 405)
      else case bTelemetry b of
             None \<Rightarrow> (s, Status 400)
           | Some t \<Rightarrow>
               (s\<lparr>wFleet := RegisterAgent ops (wFleet s) (weNow we) (t\<lparr>IP := rRemoteAddr r\<rparr>)\<rparr>, Status 200))"

definition broadcastRawLog :: "'d web_server \<Rightarrow> string \<Rightarrow> string \<Rightarrow> 'd web_server" where
  "broadcastRawLog s agentID msg =
     s\<lparr>wExternalLogs := wExternalLogs s @ [''[AGENT:'' @ agentID @ ''] '' @ msg]\<rparr>"

definition handleFleetLogs :: "'d web_server \<Rightarrow> request \<Rightarrow> body \<Rightarrow> 'd web_server \<times> response" where
  "handleFleetLogs s r b =
     (if rMethod r \<noteq> MethodPost then (s, Status 405)
      else case bLog b of
             None \<Rightarrow> (s, Status 400)
           | Some (a, m) \<Rightarrow> (broadcastRawLog s a m, Status 200))"

definition handleGetAgents :: "'d fleet_db \<Rightarrow> web_env \<Rightarrow> 'd web_server \<Rightarrow> response" where
  "handleGetAgents ops we s = AgentsJSON (GetAgents ops (wFleet s))"

definition handleProvisionAccess :: "web_env \<Rightarrow> response" where
  "handleProvisionAccess we =
     (case weKey we of
        None \<Rightarrow> Status 500
      | Some sk \<Rightarrow> if weCerts we then ProvisionJSON sk else Status 500)"

definition static_path :: "string \<Rightarrow> string" where
  "static_path p =
     (if p = ''/login'' then ''/ui/login.html''
      else if p = ''/'' \<or> p = ''/index.html'' then ''/ui/index.html''
      else ''/ui'' @ p)"

text \<open>The routes, all but the last one exact paths.\<close>

definition route :: "'d fleet_db \<Rightarrow> web_env \<Rightarrow> 'd web_server \<Rightarrow> user option \<Rightarrow> request \<Rightarrow> body \<Rightarrow> 'd web_server \<times> response" where
  "route ops we s ctx r b =
     (let p = rPath r in
      if p = ''/api/auth/login'' then handleLogin we s r b
      else if p = ''/api/auth/logout'' then handleLogout s r
      else if p = ''/api/auth/password'' then handlePassword we s ctx r b
      else if p = ''/api/auth/me'' then (s, handleMe ctx)
      else if p = ''/api/logs'' then (s, LogStream)
      else if p = ''/api/stats'' then (s, handleStats ops we s r)
      else if p = ''/api/settings'' then handleSettings we s ctx r b
      else if p = ''/metrics'' then (s, handleMetrics ops we s)
      else if p = ''/api/fleet/telemetry'' then handleFleetTelemetry ops we s r b
      else if p = ''/api/fleet/logs'' then handleFleetLogs s r b
      else if p = ''/api/fleet/agents'' then (s, handleGetAgents ops we s)
      else if p = ''/api/fleet/provision'' then (s, handleProvisionAccess we)
      else (s, StaticFile (static_path p)))"

text \<open>\<^verbatim>\<open>http.ServeMux\<close> redirects a path that is not clean; otherwise the routes apply.\<close>

definition clean_path :: "string \<Rightarrow> string" where
  "clean_path p =
     (if p = [] then ''/''
      else (let q = (if hd p = CHR ''/'' then p else CHR ''/'' # p); np = path_clean q
            in if last q = CHR ''/'' \<and> np \<noteq> ''/'' then np @ ''/'' else np))"

definition mux :: "'d fleet_db \<Rightarrow> web_env \<Rightarrow> 'd web_server \<Rightarrow> user option \<Rightarrow> request \<Rightarrow> body \<Rightarrow> 'd web_server \<times> response" where
  "mux ops we s ctx r b =
     (if rMethod r \<noteq> ''CONNECT'' \<and> clean_path (rPath r) \<noteq> rPath r then (s, Status 301)
      else route ops we s ctx r b)"

definition serve :: "'d fleet_db \<Rightarrow> web_env \<Rightarrow> 'd web_server \<Rightarrow> request \<Rightarrow> body \<Rightarrow> 'd web_server \<times> response" where
  "serve ops we s r b =
     (case AuthMiddleware (wAuth s) (weNow we) r of
        Next ctx \<Rightarrow> mux ops we s ctx r b
      | Deny401 \<Rightarrow> (s, Status 401)
      | RedirectLogin \<Rightarrow> (s, Status 302))"

section \<open>The log stream\<close>

text \<open>The broadcaster receives, one at a time, a new client, a client that leaves, a message of the log
  channel (\<open>None\<close> when it is closed), or the oldest message the agents sent. A client whose queue
  of 100 messages is full misses a message.\<close>

definition client_capacity :: nat where "client_capacity = 100"

datatype broadcast = AddClient nat | RemoveClient nat | LocalLog "string option" | AgentLog

definition sendToClients :: "string \<Rightarrow> (nat, string list) fmap \<Rightarrow> (nat, string list) fmap" where
  "sendToClients msg cs = fmmap (\<lambda>q. if length q < client_capacity then q @ [msg] else q) cs"

fun broadcastLogs :: "'d web_server \<Rightarrow> broadcast \<Rightarrow> 'd web_server" where
  "broadcastLogs s (AddClient c) = s\<lparr>wClients := fmupd c [] (wClients s)\<rparr>"
| "broadcastLogs s (RemoveClient c) = s\<lparr>wClients := fmdrop c (wClients s)\<rparr>"
| "broadcastLogs s (LocalLog None) = s"
| "broadcastLogs s (LocalLog (Some msg)) = s\<lparr>wClients := sendToClients msg (wClients s)\<rparr>"
| "broadcastLogs s AgentLog =
     (case wExternalLogs s of
        [] \<Rightarrow> s
      | msg # rest \<Rightarrow> s\<lparr>wExternalLogs := rest, wClients := sendToClients msg (wClients s)\<rparr>)"

text \<open>The stream of a client: the oldest message leaves its queue as one server-sent event.\<close>

definition sse_event :: "string \<Rightarrow> string" where
  "sse_event msg = ''data: '' @ map (\<lambda>c. if c = CHR 0x0A then CHR '' '' else c) msg @ [CHR 0x0A, CHR 0x0A]"

definition handleLogs :: "nat \<Rightarrow> 'd web_server \<Rightarrow> 'd web_server \<times> string option" where
  "handleLogs c s =
     (case fmlookup (wClients s) c of
        Some (msg # q) \<Rightarrow> (s\<lparr>wClients := fmupd c q (wClients s)\<rparr>, Some (sse_event msg))
      | _ \<Rightarrow> (s, None))"

section \<open>Runs of the server\<close>

text \<open>A run is a sequence of requests, ticks of the clean-up, and steps of the log stream.\<close>

datatype event = Request web_env request body | CleanUp int | Broadcast broadcast | Deliver nat

fun web_step :: "'d fleet_db \<Rightarrow> 'd web_server \<Rightarrow> event \<Rightarrow> 'd web_server" where
  "web_step ops s (Request we r b) = fst (serve ops we s r b)"
| "web_step ops s (CleanUp now) = s\<lparr>wAuth := cleanupSessions (wAuth s) now\<rparr>"
| "web_step ops s (Broadcast e) = broadcastLogs s e"
| "web_step ops s (Deliver c) = fst (handleLogs c s)"

definition web_run :: "'d fleet_db \<Rightarrow> 'd web_server \<Rightarrow> event list \<Rightarrow> 'd web_server" where
  "web_run ops s es = foldl (web_step ops) s es"

end
