(* ===== verification/LogStream.thy ===== *)
theory LogStream
  imports Webdash "HOL-Library.Sublist"
begin

text \<open>
  The goroutines of the log stream (\<^verbatim>\<open>handleLogs\<close> and \<^verbatim>\<open>broadcastLogs\<close> of
  \<^verbatim>\<open>internal/webdash/server.go\<close>) side by side: a request for the stream makes its own channel, hands it to
  the broadcaster, copies messages until the browser is gone, takes the channel back from the broadcaster
  and closes it. Every goroutine is a counter in \<open>lsPhase\<close>, and each step is what happens between two
  rendezvous. A message sent on a closed channel would be a panic of the whole dashboard; the lemmas
  show that there is none, and what a browser gets to see. \<^verbatim>\<open>NewServer\<close> is the start of every run.
\<close>

section \<open>The server at its start\<close>

text \<open>\<open>None\<close> when the database of the fleet cannot be opened or migrated, which ends the program
  (\<^verbatim>\<open>log.Fatalf\<close>).\<close>

definition NewFleetManager :: "(string + 'd) \<Rightarrow> ('d \<Rightarrow> string + 'd) \<Rightarrow> 'd option" where
  "NewFleetManager opened autoMigrate =
     (case opened of
        Inl _ \<Rightarrow> None
      | Inr db \<Rightarrow> (case autoMigrate db of Inl _ \<Rightarrow> None | Inr db' \<Rightarrow> Some db'))"

definition NewServer ::
    "((string, user) fmap \<Rightarrow> user list) \<Rightarrow> user list disk \<Rightarrow> user list option \<Rightarrow> settings option
       \<Rightarrow> 'd option \<Rightarrow> 'd web_server option" where
  "NewServer order disk usersJSON settings fleet =
     map_option (\<lambda>db. \<lparr>wAuth = NewAuthManager order disk usersJSON, wSettings = settings,
       wFleet = db, wExternalLogs = [], wClients = fmempty\<rparr>) fleet"

section \<open>Goroutines\<close>

text \<open>A goroutine that waits for the broadcaster knows whether its response can be flushed.\<close>

datatype stream_phase = NotStarted | Adding bool | Streaming | Removing | Removed | Finished

text \<open>\<open>lsShown\<close> is what a browser was sent, \<open>lsOffered\<close> what was broadcast since it was added: they
  record the run and decide nothing.\<close>

record 'd log_stream =
  lsServer :: "'d web_server"
  lsPhase :: "nat \<Rightarrow> stream_phase"
  lsClosed :: "nat set"
  lsShown :: "nat \<Rightarrow> string list"
  lsOffered :: "nat \<Rightarrow> string list"

definition stream_start :: "'d web_server \<Rightarrow> 'd log_stream" where
  "stream_start s = \<lparr>lsServer = s, lsPhase = (\<lambda>_. NotStarted), lsClosed = {},
     lsShown = (\<lambda>_. []), lsOffered = (\<lambda>_. [])\<rparr>"

text \<open>The message a step of the broadcaster takes from the two log channels.\<close>

fun broadcast_message :: "'d web_server \<Rightarrow> broadcast \<Rightarrow> string option" where
  "broadcast_message s (LocalLog m) = m"
| "broadcast_message s AgentLog = (case wExternalLogs s of [] \<Rightarrow> None | m # _ \<Rightarrow> Some m)"
| "broadcast_message s _ = None"

definition offered :: "'d web_server \<Rightarrow> string option \<Rightarrow> (nat \<Rightarrow> string list) \<Rightarrow> nat \<Rightarrow> string list" where
  "offered s m f c =
     (case m of None \<Rightarrow> f c | Some x \<Rightarrow> if fmlookup (wClients s) c = None then f c else f c @ [x])"

text \<open>The handler of an agent's message waits while the channel of these messages is full.\<close>

definition external_capacity :: nat where "external_capacity = 100"

inductive stream_step :: "'d log_stream \<Rightarrow> 'd log_stream \<Rightarrow> bool" where
  request:
    "lsPhase L c = NotStarted \<Longrightarrow> stream_step L (L\<lparr>lsPhase := (lsPhase L)(c := Adding ok)\<rparr>)"
| added:
    "lsPhase L c = Adding ok \<Longrightarrow>
     stream_step L (L\<lparr>lsServer := broadcastLogs (lsServer L) (AddClient c),
       lsPhase := (lsPhase L)(c := if ok then Streaming else Removing)\<rparr>)"
| shown:
    "lsPhase L c = Streaming \<Longrightarrow> fmlookup (wClients (lsServer L)) c = Some (msg # q) \<Longrightarrow>
     stream_step L (L\<lparr>lsServer := fst (handleLogs c (lsServer L)),
       lsShown := (lsShown L)(c := lsShown L c @ [msg])\<rparr>)"
| disconnected:
    "lsPhase L c = Streaming \<Longrightarrow> stream_step L (L\<lparr>lsPhase := (lsPhase L)(c := Removing)\<rparr>)"
| removed:
    "lsPhase L c = Removing \<Longrightarrow>
     stream_step L (L\<lparr>lsServer := broadcastLogs (lsServer L) (RemoveClient c),
       lsPhase := (lsPhase L)(c := Removed)\<rparr>)"
| closed:
    "lsPhase L c = Removed \<Longrightarrow>
     stream_step L (L\<lparr>lsPhase := (lsPhase L)(c := Finished), lsClosed := insert c (lsClosed L)\<rparr>)"
| broadcast:
    "b = LocalLog m \<or> b = AgentLog \<Longrightarrow>
     stream_step L (L\<lparr>lsServer := broadcastLogs (lsServer L) b,
       lsOffered := offered (lsServer L) (broadcast_message (lsServer L) b) (lsOffered L)\<rparr>)"
| agent_log:
    "length (wExternalLogs (lsServer L)) < external_capacity \<Longrightarrow>
     stream_step L (L\<lparr>lsServer := broadcastRawLog (lsServer L) agent msg\<rparr>)"

inductive_cases stream_stepE: "stream_step L L'"

section \<open>The invariant\<close>

text \<open>A goroutine is a client of the broadcaster exactly between the two rendezvous, and its channel is
  closed only afterwards; what its browser was sent and what waits for it was all offered, in this
  order.\<close>

definition client_inv :: "stream_phase \<Rightarrow> bool \<Rightarrow> string list option \<Rightarrow> string list \<Rightarrow> string list \<Rightarrow> bool" where
  "client_inv phase isClosed queue seen sent \<longleftrightarrow>
     (queue \<noteq> None \<longleftrightarrow> phase = Streaming \<or> phase = Removing) \<and>
     (isClosed \<longleftrightarrow> phase = Finished) \<and>
     (phase = NotStarted \<or> (\<exists>ok. phase = Adding ok) \<longrightarrow> seen = [] \<and> sent = []) \<and>
     (case queue of
        None \<Rightarrow> subseq seen sent
      | Some q \<Rightarrow> length q \<le> client_capacity \<and> subseq (seen @ q) sent \<and>
          (length sent \<le> client_capacity \<longrightarrow> seen @ q = sent))"

definition stream_inv :: "'d log_stream \<Rightarrow> bool" where
  "stream_inv L \<longleftrightarrow>
     (\<forall>c. client_inv (lsPhase L c) (c \<in> lsClosed L) (fmlookup (wClients (lsServer L)) c)
            (lsShown L c) (lsOffered L c)) \<and>
     length (wExternalLogs (lsServer L)) \<le> external_capacity"

text \<open>What one goroutine sees of a step.\<close>

lemma client_inv_offer:
  assumes "client_inv phase isClosed (Some q) seen sent"
  shows "client_inv phase isClosed
    (Some (if length q < client_capacity then q @ [m] else q)) seen (sent @ [m])"
proof -
  have "subseq (seen @ q) (sent @ [m])" and "subseq (seen @ q @ [m]) (sent @ [m])"
    using assms list_emb_append_mono [of "(=)" "seen @ q" sent "[m]" "[m]"]
    by (auto simp: client_inv_def intro: list_emb_append2)
  then show ?thesis using assms by (auto simp: client_inv_def)
qed

lemma client_inv_message:
  "client_inv phase isClosed queue seen sent \<Longrightarrow>
   client_inv phase isClosed
     (map_option (\<lambda>q. if length q < client_capacity then q @ [m] else q) queue) seen
     (if queue = None then sent else sent @ [m])"
  by (cases queue) (simp_all add: client_inv_offer)

lemma client_inv_shown:
  "client_inv Streaming isClosed (Some (m # q)) seen sent \<Longrightarrow>
   client_inv Streaming isClosed (Some q) (seen @ [m]) sent"
  by (auto simp: client_inv_def)

lemma client_inv_phase:
  "client_inv NotStarted isClosed queue seen sent \<Longrightarrow> client_inv (Adding ok) isClosed queue seen sent"
  "client_inv (Adding ok) isClosed queue seen sent \<Longrightarrow>
     client_inv (if ok then Streaming else Removing) isClosed (Some []) seen sent"
  "client_inv Streaming isClosed queue seen sent \<Longrightarrow> client_inv Removing isClosed queue seen sent"
  "client_inv Removed isClosed queue seen sent \<Longrightarrow> client_inv Finished True queue seen sent"
  by (auto simp: client_inv_def client_capacity_def)

lemma client_inv_left:
  "client_inv Removing isClosed queue seen sent \<Longrightarrow> client_inv Removed isClosed None seen sent"
proof -
  have "subseq (seen @ q) sent \<Longrightarrow> subseq seen sent" for q
    using subseq_order.trans [OF prefix_imp_subseq] by (metis prefixI)
  then show "client_inv Removing isClosed queue seen sent \<Longrightarrow> client_inv Removed isClosed None seen sent"
    by (auto simp: client_inv_def split: option.splits)
qed

text \<open>A step of one goroutine.\<close>

lemma stream_inv_one:
  assumes "stream_inv L"
    and "\<And>d. d \<noteq> c \<Longrightarrow> lsPhase L' d = lsPhase L d \<and> (d \<in> lsClosed L' \<longleftrightarrow> d \<in> lsClosed L) \<and>
      fmlookup (wClients (lsServer L')) d = fmlookup (wClients (lsServer L)) d \<and>
      lsShown L' d = lsShown L d \<and> lsOffered L' d = lsOffered L d"
    and "client_inv (lsPhase L c) (c \<in> lsClosed L) (fmlookup (wClients (lsServer L)) c) (lsShown L c) (lsOffered L c) \<Longrightarrow>
      client_inv (lsPhase L' c) (c \<in> lsClosed L') (fmlookup (wClients (lsServer L')) c) (lsShown L' c) (lsOffered L' c)"
    and "wExternalLogs (lsServer L') = wExternalLogs (lsServer L)"
  shows "stream_inv L'"
  unfolding stream_inv_def
proof (intro conjI allI)
  fix d
  show "client_inv (lsPhase L' d) (d \<in> lsClosed L') (fmlookup (wClients (lsServer L')) d) (lsShown L' d) (lsOffered L' d)"
    using assms(1,3) assms(2) [of d] unfolding stream_inv_def by (cases "d = c") simp_all
  show "length (wExternalLogs (lsServer L')) \<le> external_capacity"
    using assms(1,4) by (simp add: stream_inv_def)
qed

lemma stream_start_inv: "wClients s = fmempty \<Longrightarrow> wExternalLogs s = [] \<Longrightarrow> stream_inv (stream_start s)"
  by (simp add: stream_inv_def stream_start_def client_inv_def)

lemma broadcast_clients:
  assumes "b = LocalLog m \<or> b = AgentLog"
  shows "fmlookup (wClients (broadcastLogs s b)) c =
      (case broadcast_message s b of
         None \<Rightarrow> fmlookup (wClients s) c
       | Some x \<Rightarrow> map_option (\<lambda>q. if length q < client_capacity then q @ [x] else q) (fmlookup (wClients s) c))"
    and "length (wExternalLogs (broadcastLogs s b)) \<le> length (wExternalLogs s)"
proof -
  show "fmlookup (wClients (broadcastLogs s b)) c =
      (case broadcast_message s b of
         None \<Rightarrow> fmlookup (wClients s) c
       | Some x \<Rightarrow> map_option (\<lambda>q. if length q < client_capacity then q @ [x] else q) (fmlookup (wClients s) c))"
    using assms by (cases m; cases "wExternalLogs s") (auto simp: sendToClients_def)
  show "length (wExternalLogs (broadcastLogs s b)) \<le> length (wExternalLogs s)"
    using assms by (cases m; cases "wExternalLogs s") auto
qed

lemma stream_step_inv:
  assumes "stream_inv L" and "stream_step L L'"
  shows "stream_inv L'"
  using assms(2)
proof cases
  case (request c ok)
  show ?thesis by (rule stream_inv_one [OF assms(1), of c]) (simp_all add: request client_inv_phase(1))
next
  case (added c ok)
  show ?thesis by (rule stream_inv_one [OF assms(1), of c]) (use client_inv_phase(2) in \<open>simp_all add: added\<close>)
next
  case (shown c msg q)
  show ?thesis
    by (rule stream_inv_one [OF assms(1), of c]) (use client_inv_shown in \<open>simp_all add: shown handleLogs_def\<close>)
next
  case (disconnected c)
  show ?thesis by (rule stream_inv_one [OF assms(1), of c]) (simp_all add: disconnected client_inv_phase(3))
next
  case (removed c)
  show ?thesis by (rule stream_inv_one [OF assms(1), of c]) (use client_inv_left in \<open>simp_all add: removed\<close>)
next
  case (closed c)
  show ?thesis by (rule stream_inv_one [OF assms(1), of c]) (use client_inv_phase(4) in \<open>simp_all add: closed\<close>)
next
  case (broadcast b m)
  have "client_inv (lsPhase L' c) (c \<in> lsClosed L') (fmlookup (wClients (lsServer L')) c) (lsShown L' c) (lsOffered L' c)" for c
    using assms(1) client_inv_message [of "lsPhase L c" "c \<in> lsClosed L" "fmlookup (wClients (lsServer L)) c"]
    by (auto simp: stream_inv_def broadcast broadcast_clients(1) [OF broadcast(2)] offered_def split: option.splits)
  moreover have "length (wExternalLogs (lsServer L')) \<le> external_capacity"
    using assms(1) broadcast_clients(2) [OF broadcast(2), of "lsServer L"] by (simp add: stream_inv_def broadcast)
  ultimately show ?thesis by (simp add: stream_inv_def)
next
  case (agent_log agent msg)
  then show ?thesis using assms(1) by (auto simp: stream_inv_def broadcastRawLog_def)
qed

section \<open>Runs\<close>

lemma stream_run_inv:
  assumes "NewServer order disk usersJSON settings fleet = Some s"
    and "stream_step\<^sup>*\<^sup>* (stream_start s) L"
  shows "stream_inv L"
  using assms(2)
proof (induction rule: rtranclp_induct)
  case base
  then show ?case using assms(1) by (auto simp: NewServer_def intro!: stream_start_inv)
next
  case (step L L')
  then show ?case using stream_step_inv by blast
qed

text \<open>C6. 
  However requests, messages and disconnections interleave, the broadcaster never has a client whose
  channel is closed, so it never panics; a browser is sent a part of what was broadcast while it was
  a client, in the order of the broadcasts, and all of it as long as that is at most 100 messages.
\<close>

theorem log_stream_safe:
  assumes "NewServer order disk usersJSON settings fleet = Some s"
    and "stream_step\<^sup>*\<^sup>* (stream_start s) L"
  shows "(c \<in> lsClosed L \<longrightarrow> fmlookup (wClients (lsServer L)) c = None) \<and>
    subseq (lsShown L c) (lsOffered L c) \<and>
    (fmlookup (wClients (lsServer L)) c = Some [] \<and> length (lsOffered L c) \<le> 100 \<longrightarrow>
       lsShown L c = lsOffered L c)"
proof -
  have inv: "client_inv (lsPhase L c) (c \<in> lsClosed L) (fmlookup (wClients (lsServer L)) c) (lsShown L c) (lsOffered L c)"
    using stream_run_inv [OF assms] by (simp add: stream_inv_def)
  have "subseq (seen @ q) sent \<Longrightarrow> subseq seen sent" for seen q sent :: "string list"
    using subseq_order.trans [OF prefix_imp_subseq] by (metis prefixI)
  then have "subseq (lsShown L c) (lsOffered L c)"
    using inv by (auto simp: client_inv_def split: option.splits)
  then show ?thesis using inv by (auto simp: client_inv_def client_capacity_def)
qed

text \<open>A browser that comes, gets a message and goes; the next message finds no client.\<close>

lemma log_stream_safe_witness:
  "\<exists>s L. NewServer (\<lambda>_. []) Written None None (Some ()) = Some s
     \<and> stream_step\<^sup>*\<^sup>* (stream_start s) L \<and> 7 \<in> lsClosed L
     \<and> fmlookup (wClients (lsServer L)) 7 = None \<and> subseq [''x''] (lsOffered L 7)"
proof -
  obtain s where s: "NewServer (\<lambda>_. []) Written None None (Some ()) = Some s"
    by (simp add: NewServer_def)
  then have cl: "wClients s = fmempty" by (auto simp: NewServer_def)
  let ?L0 = "stream_start s"
  let ?L1 = "?L0\<lparr>lsPhase := (lsPhase ?L0)(7 := Adding True)\<rparr>"
  let ?L2 = "?L1\<lparr>lsServer := broadcastLogs (lsServer ?L1) (AddClient 7), lsPhase := (lsPhase ?L1)(7 := Streaming)\<rparr>"
  let ?L3 = "?L2\<lparr>lsServer := broadcastLogs (lsServer ?L2) (LocalLog (Some ''x'')),
    lsOffered := offered (lsServer ?L2) (Some ''x'') (lsOffered ?L2)\<rparr>"
  let ?L4 = "?L3\<lparr>lsServer := fst (handleLogs 7 (lsServer ?L3)), lsShown := (lsShown ?L3)(7 := lsShown ?L3 7 @ [''x''])\<rparr>"
  let ?L5 = "?L4\<lparr>lsPhase := (lsPhase ?L4)(7 := Removing)\<rparr>"
  let ?L6 = "?L5\<lparr>lsServer := broadcastLogs (lsServer ?L5) (RemoveClient 7), lsPhase := (lsPhase ?L5)(7 := Removed)\<rparr>"
  let ?L7 = "?L6\<lparr>lsPhase := (lsPhase ?L6)(7 := Finished), lsClosed := insert 7 (lsClosed ?L6)\<rparr>"
  have "stream_step ?L0 ?L1" by (rule stream_step.request) (simp add: stream_start_def)
  moreover have "stream_step ?L1 ?L2" using stream_step.added [of ?L1 7 True] by simp
  moreover have "stream_step ?L2 ?L3" using stream_step.broadcast [of "LocalLog (Some ''x'')" _ ?L2] by simp
  moreover have "stream_step ?L3 ?L4"
    by (rule stream_step.shown [of _ _ _ "[]"]) (simp_all add: stream_start_def sendToClients_def client_capacity_def)
  moreover have "stream_step ?L4 ?L5" by (rule stream_step.disconnected) simp
  moreover have "stream_step ?L5 ?L6" by (rule stream_step.removed) simp
  moreover have "stream_step ?L6 ?L7" by (rule stream_step.closed) simp
  ultimately have run: "stream_step\<^sup>*\<^sup>* ?L0 ?L7" by (meson rtranclp.rtrancl_refl rtranclp.rtrancl_into_rtrancl)
  have "lsShown ?L7 7 = [''x'']" "7 \<in> lsClosed ?L7" by (simp_all add: stream_start_def)
  then obtain L where L: "stream_step\<^sup>*\<^sup>* (stream_start s) L" "lsShown L 7 = [''x'']" "7 \<in> lsClosed L"
    using run by blast
  then show ?thesis using s log_stream_safe [OF s L(1), of 7] by auto
qed

end
