(* ===== verification/SpaServer.thy ===== *)
theory SpaServer
  imports Agent
begin

text \<open>
  The life of the SPA server (\<^verbatim>\<open>Start\<close>, \<^verbatim>\<open>Stop\<close> and the loop \<^verbatim>\<open>handlePackets\<close> of
  \<^verbatim>\<open>internal/spa/handler.go\<close>): the socket is opened, the loop looks at the stop channel before each
  read, starts a goroutine for every datagram and says so in the log. The goroutines themselves are
  those of \<open>handler_step\<close>, whose runs contain the runs of this loop.
\<close>

section \<open>Start and Stop\<close>

datatype read_result = ReadTimeout | ReadError string | ReadDatagram bytes net_ip string

text \<open>A running server with what it has logged and whether its loop has not returned yet.\<close>

record 'm spa_server =
  spServer :: "'m server"
  spLogs :: "string list"
  spRunning :: bool

definition HandlerStart :: "string option \<Rightarrow> 'm handler \<Rightarrow> string + 'm spa_server" where
  "HandlerStart listen h =
     (case listen of
        Some err \<Rightarrow> Inl (''failed to listen on SPA port: '' @ err)
      | None \<Rightarrow> Inr \<lparr>spServer = server_start h, spLogs = handler_start_logs h, spRunning = True\<rparr>)"

text \<open>Closing the stop channel again is a panic, \<open>None\<close>; the result is the error of closing the socket.\<close>

definition HandlerStop :: "string option \<Rightarrow> 'm spa_server \<Rightarrow> ('m spa_server \<times> string option) option" where
  "HandlerStop closeErr s =
     (if sStopped (spServer s) then None
      else Some (s\<lparr>spServer := (spServer s)\<lparr>sStopped := True\<rparr>\<rparr>, closeErr))"

section \<open>The loop\<close>

definition received_message :: "string \<Rightarrow> nat \<Rightarrow> string" where
  "received_message from_ip n = ''[SPA] Received packet from '' @ from_ip @ '' (length: '' @ show_nat n @ '' bytes)''"

text \<open>One iteration; the read is not reached when the server is stopped.\<close>

definition handlePackets :: "read_result \<Rightarrow> 'm spa_server \<Rightarrow> 'm spa_server" where
  "handlePackets r s =
     (if \<not> spRunning s then s
      else if sStopped (spServer s) then
        s\<lparr>spLogs := spLogs s @ [''[SPA] Packet handler stopping...''], spRunning := False\<rparr>
      else
        (case r of
           ReadTimeout \<Rightarrow> s
         | ReadError e \<Rightarrow> s\<lparr>spLogs := spLogs s @ [''[SPA] Read error: '' @ e]\<rparr>
         | ReadDatagram d ip name \<Rightarrow>
             s\<lparr>spServer := receive d ip (spServer s),
               spLogs := spLogs s @ [received_message name (min (length d) buffer_size)]\<rparr>))"

datatype spa_action = StopCalled "string option" | Iteration read_result

fun spa_run :: "spa_action list \<Rightarrow> 'm spa_server \<Rightarrow> 'm spa_server option" where
  "spa_run [] s = Some s"
| "spa_run (StopCalled e # as) s =
     (case HandlerStop e s of None \<Rightarrow> None | Some (s', _) \<Rightarrow> spa_run as s')"
| "spa_run (Iteration r # as) s = spa_run as (handlePackets r s)"

lemmas spa_defs = HandlerStop_def handlePackets_def

section \<open>What the agent does with it\<close>

text \<open>The agent's initialisation is this start, with a wrapped error.\<close>

lemma initDynamicSPA_starts:
  "initDynamicSPA ops le order E cfg =
     (let h = NewHandler (NewVerifier cfg)
            (fst (LoadConfiguration ops le order (NewMapLoader (Some (seWhitelist E)) None None None None) cfg)) cfg []
      in case HandlerStart (seListenSPA E) h of
           Inl err \<Rightarrow> Inl (''failed to start SPA handler: '' @ err)
         | Inr s \<Rightarrow> Inr (h, spLogs s @ [''[SPA] Dynamic SPA initialized (mode: '' @ Mode cfg @ '')'']))"
  by (simp add: initDynamicSPA_def HandlerStart_def Let_def split: option.splits)

section \<open>Runs\<close>

text \<open>A run of the loop is a run of \<open>handler_step\<close>, so what holds of those holds here.\<close>

lemma spa_run_steps:
  "spa_run as s = Some s' \<Longrightarrow> (handler_step ops le E)\<^sup>*\<^sup>* (spServer s) (spServer s')"
proof (induction as arbitrary: s)
  case (Cons a as)
  show ?case
  proof (cases a)
    case (StopCalled e)
    then have "spa_run as (s\<lparr>spServer := (spServer s)\<lparr>sStopped := True\<rparr>\<rparr>) = Some s'"
      using Cons.prems by (auto simp: HandlerStop_def split: if_splits)
    from Cons.IH [OF this]
    have "(handler_step ops le E)\<^sup>*\<^sup>* ((spServer s)\<lparr>sStopped := True\<rparr>) (spServer s')" by simp
    with handler_step.stop show ?thesis by (rule converse_rtranclp_into_rtranclp)
  next
    case (Iteration r)
    then have "(handler_step ops le E)\<^sup>*\<^sup>* (spServer (handlePackets r s)) (spServer s')"
      using Cons by simp
    moreover have "handler_step ops le E (spServer s) (spServer (handlePackets r s)) \<or>
        spServer (handlePackets r s) = spServer s"
      by (auto simp: handlePackets_def intro: handler_step.datagram split: read_result.split)
    ultimately show ?thesis by (auto intro: converse_rtranclp_into_rtranclp)
  qed
qed simp

definition stops :: "spa_action list \<Rightarrow> nat" where
  "stops as = length (filter (\<lambda>a. \<exists>e. a = StopCalled e) as)"

lemma stops_simps [simp]:
  "stops [] = 0" "stops (StopCalled e # as) = Suc (stops as)" "stops (Iteration r # as) = stops as"
  by (simp_all add: stops_def)

lemma handlePackets_stopped [simp]: "sStopped (spServer (handlePackets r s)) = sStopped (spServer s)"
  by (simp add: handlePackets_def receive_def Let_def split: read_result.split)

lemma spa_run_None: "spa_run as s = None \<longleftrightarrow> 1 < stops as + (if sStopped (spServer s) then 1 else 0)"
  by (induction as s rule: spa_run.induct) (auto simp: HandlerStop_def)

fun stopped_iteration :: "bool \<Rightarrow> spa_action list \<Rightarrow> bool" where
  "stopped_iteration st [] = False"
| "stopped_iteration st (StopCalled e # as) = stopped_iteration True as"
| "stopped_iteration st (Iteration r # as) = (st \<or> stopped_iteration st as)"

lemma spa_run_running:
  "spa_run as s = Some s' \<Longrightarrow>
   spRunning s' \<longleftrightarrow> spRunning s \<and> \<not> stopped_iteration (sStopped (spServer s)) as"
proof (induction as s rule: spa_run.induct)
  case (3 r as s)
  have "spRunning (handlePackets r s) \<longleftrightarrow> spRunning s \<and> \<not> sStopped (spServer s)"
    by (simp add: handlePackets_def split: read_result.split)
  then show ?case using 3 by auto
qed (auto simp: HandlerStop_def split: if_splits)

text \<open>The goroutines the loop starts: one for each datagram before the stop, with its length and sender.\<close>

fun served :: "spa_action list \<Rightarrow> (nat \<times> net_ip) list" where
  "served [] = []"
| "served (StopCalled e # as) = []"
| "served (Iteration (ReadDatagram d ip name) # as) = (min (length d) buffer_size, ip) # served as"
| "served (Iteration _ # as) = served as"

lemma spa_run_stopped:
  "spa_run as s = Some s' \<Longrightarrow> sStopped (spServer s) \<Longrightarrow> sPending (spServer s') = sPending (spServer s)"
proof (induction as arbitrary: s)
  case (Cons a as)
  then show ?case by (cases a) (auto simp: spa_defs split: if_splits)
qed simp

lemma spa_run_served:
  "spa_run as s = Some s' \<Longrightarrow> spRunning s \<Longrightarrow> \<not> sStopped (spServer s) \<Longrightarrow>
   sPending (spServer s') = sPending (spServer s) @ served as"
proof (induction as arbitrary: s)
  case (Cons a as)
  show ?case
  proof (cases a)
    case (StopCalled e)
    then show ?thesis
      using Cons.prems spa_run_stopped [of as "s\<lparr>spServer := (spServer s)\<lparr>sStopped := True\<rparr>\<rparr>" s']
      by (simp add: HandlerStop_def)
  next
    case (Iteration r)
    have "spRunning (handlePackets r s)" using Cons.prems by (simp add: handlePackets_def split: read_result.split)
    then have "sPending (spServer s') = sPending (spServer (handlePackets r s)) @ served as"
      using Cons.IH [of "handlePackets r s"] Cons.prems Iteration by simp
    moreover have "sPending (spServer (handlePackets r s)) @ served as = sPending (spServer s) @ served (a # as)"
      using Cons.prems(2,3) by (cases r) (simp_all add: Iteration handlePackets_def receive_def Let_def)
    ultimately show ?thesis by simp
  qed
qed simp

text \<open>C27. 
  Once the socket is open, calling \<^verbatim>\<open>Stop\<close> twice is the only way to a panic of the loop and its owner; the
  loop returns exactly at its first iteration after a \<^verbatim>\<open>Stop\<close>, whatever the reads give; it has started one
  goroutine for each datagram read before; and all that happened is a run of \<open>handler_step\<close>.
\<close>

theorem spa_server_lifecycle:
  assumes "HandlerStart listen h = Inr s"
  shows "(spa_run as s = None \<longleftrightarrow> 2 \<le> stops as) \<and>
    (\<forall>s'. spa_run as s = Some s' \<longrightarrow>
       (spRunning s' \<longleftrightarrow> \<not> stopped_iteration False as) \<and>
       sPending (spServer s') = served as \<and>
       (handler_step ops le E)\<^sup>*\<^sup>* (server_start h) (spServer s'))"
proof -
  have s: "spServer s = server_start h" "spRunning s" "\<not> sStopped (spServer s)" "sPending (spServer s) = []"
    using assms by (auto simp: HandlerStart_def server_start_def split: option.splits)
  have "spa_run as s = None \<longleftrightarrow> 2 \<le> stops as" using s by (auto simp: spa_run_None)
  moreover have "spRunning s' \<longleftrightarrow> \<not> stopped_iteration False as" "sPending (spServer s') = served as"
    "(handler_step ops le E)\<^sup>*\<^sup>* (server_start h) (spServer s')" if "spa_run as s = Some s'" for s'
    using that spa_run_running [of as s s'] spa_run_served [of as s s'] spa_run_steps [of as s s'] s by simp_all
  ultimately show ?thesis by blast
qed

text \<open>Two datagrams, a stop, and one more iteration, whose datagram nobody reads.\<close>

lemma spa_server_lifecycle_witness:
  "\<exists>s s'. HandlerStart None example_handler = Inr s \<and>
     spa_run [Iteration (ReadDatagram [1, 2] example_ip ''a''), Iteration ReadTimeout, StopCalled None,
       Iteration (ReadDatagram [3] example_ip ''a'')] s = Some s' \<and>
     \<not> spRunning s' \<and> sPending (spServer s') = [(2, example_ip)] \<and>
     (handler_step plain_map True ed_example)\<^sup>*\<^sup>* (server_start example_handler) (spServer s')"
proof -
  let ?as = "[Iteration (ReadDatagram [1, 2] example_ip ''a''), Iteration ReadTimeout, StopCalled None,
       Iteration (ReadDatagram [3] example_ip ''a'')]"
  obtain s where s: "HandlerStart None example_handler = Inr s" by (simp add: HandlerStart_def)
  obtain s' where s': "spa_run ?as s = Some s'"
    using spa_server_lifecycle [OF s, of ?as] by (cases "spa_run ?as s") auto
  show ?thesis
    using s s' spa_server_lifecycle [OF s, of ?as plain_map True ed_example] by (auto simp: buffer_size_def)
qed

end
