(* ===== verification/Egress.thy ===== *)
theory Egress
  imports ConfigGen
begin

text \<open>
  \<^verbatim>\<open>internal/ebpf/programs/phantom_egress.c\<close>: the filter on what the host sends. It looks for leaked
  data in what the honeypot port sends, counts what it finds, and lets it pass. The honeypot port and
  the longest payload looked at come from the generated header.
\<close>

record egress_kernel =
  egress_blocks :: u64
  suspicious_patterns :: "nat \<Rightarrow> u64"

section \<open>Patterns\<close>

text \<open>At most 20 bytes are compared.\<close>

definition check_pattern :: "bytes \<Rightarrow> string \<Rightarrow> bool" where
  "check_pattern data pattern =
     list_all (\<lambda>i. data ! i = bytes_of_string pattern ! i) [0 ..< min 20 (length pattern)]"

definition base64_byte :: "byte \<Rightarrow> bool" where
  "base64_byte b \<longleftrightarrow>
     (let n = unat b
      in 65 \<le> n \<and> n \<le> 90 \<or> 97 \<le> n \<and> n \<le> 122 \<or> 48 \<le> n \<and> n \<le> 57 \<or> n = 43 \<or> n = 47 \<or> n = 61)"

definition base64_count :: "bytes \<Rightarrow> u32 \<Rightarrow> u32" where
  "base64_count data data_len = of_nat (length (filter base64_byte (take (min (unat data_len) 64) data)))"

definition detect_suspicious_pattern :: "u32 \<Rightarrow> bytes \<Rightarrow> u32 \<Rightarrow> nat" where
  "detect_suspicious_pattern max_scan data data_len =
     (if data_len = 0 \<or> max_scan < data_len then 0
      else if 11 \<le> data_len \<and> check_pattern data ''root:x:0:0:'' then 1
      else if 10 \<le> data_len \<and> check_pattern data ''-----BEGIN'' then 2
      else if data_len * 95 < base64_count data data_len * 100 \<and> 64 < data_len then 3
      else if 11 \<le> data_len \<and> check_pattern data ''INSERT INTO'' then 4
      else 0)"

section \<open>The program\<close>

datatype tc_verdict = TC_ACT_OK | TC_ACT_SHOT

definition off_doff :: nat where "off_doff = 46"

definition tcp_payload :: "bytes \<Rightarrow> nat" where
  "tcp_payload f = 34 + unat (drop_bit 4 (f ! off_doff)) * 4"

definition egress_count :: "nat \<Rightarrow> egress_kernel \<Rightarrow> egress_kernel" where
  "egress_count pattern K =
     K\<lparr>egress_blocks := egress_blocks K + 1,
       suspicious_patterns := (suspicious_patterns K)(pattern := suspicious_patterns K pattern + 1)\<rparr>"

definition phantom_egress_prog ::
    "bool \<Rightarrow> u16 \<Rightarrow> u32 \<Rightarrow> egress_kernel \<Rightarrow> bytes \<Rightarrow> egress_kernel \<times> tc_verdict" where
  "phantom_egress_prog le honeypot_port max_scan K f =
     (if length f < 14 then (K, TC_ACT_OK)
      else if load16 le off_proto f \<noteq> bpf_htons le 0x0800 then (K, TC_ACT_OK)
      else if length f < 34 then (K, TC_ACT_OK)
      else if f ! off_protocol \<noteq> 6 then (K, TC_ACT_OK)
      else if length f < 54 then (K, TC_ACT_OK)
      else if load16 le off_source f \<noteq> bpf_htons le honeypot_port then (K, TC_ACT_OK)
      else
        (let payload = tcp_payload f
         in if length f < payload then (K, TC_ACT_OK)
            else
              (let payload_len = of_nat (length f - payload) :: u32
               in if payload_len = 0 then (K, TC_ACT_OK)
                  else
                    (let pattern = detect_suspicious_pattern max_scan (drop payload f) (min payload_len max_scan)
                     in if 0 < pattern then (egress_count pattern K, TC_ACT_OK) else (K, TC_ACT_OK)))))"

text \<open>The constants of the generated header.\<close>

definition egress_max_scan :: "generated \<Rightarrow> u32" where
  "egress_max_scan g = ucast (num_macro (genHeader g) ''MAX_PAYLOAD_SCAN'')"

section \<open>What is found\<close>

lemma base64_count_le: "unat (base64_count data n) = length (filter base64_byte (take (min (unat n) 64) data))"
  "unat (base64_count data n) \<le> 64"
proof -
  let ?k = "length (filter base64_byte (take (min (unat n) 64) data))"
  have "?k \<le> length (take (min (unat n) 64) data)" by (rule length_filter_le)
  then have k: "?k \<le> 64" by simp
  then have "unat (of_nat ?k :: u32) = ?k" by (simp add: unat_of_nat)
  then show "unat (base64_count data n) = ?k" "unat (base64_count data n) \<le> 64"
    using k by (simp_all add: base64_count_def)
qed

lemma base64_test:
  assumes "unat n \<le> 45000000"
  shows "n * 95 < base64_count data n * 100 \<longleftrightarrow> unat n * 95 < unat (base64_count data n) * 100"
proof -
  have "unat n * 95 < 2 ^ 32" "unat (base64_count data n) * 100 < 2 ^ 32"
    using assms base64_count_le(2) [of data n] by simp_all
  then have "unat (n * 95) = unat n * 95" "unat (base64_count data n * 100) = unat (base64_count data n) * 100"
    by (simp_all add: unat_word_ariths)
  then show ?thesis by (simp add: word_less_nat_alt)
qed

text \<open>C38. Base64 is found in payloads of 65, 66 or 67 bytes only, in which all but at most three of the
  first 64 bytes are of its alphabet: at most 64 bytes are counted, but 95 of 100 of all bytes are asked
  for, so no longer payload can pass the test.\<close>

theorem base64_found_iff:
  assumes "unat max_scan \<le> 45000000"
  shows "detect_suspicious_pattern max_scan data data_len = 3 \<longleftrightarrow>
    unat data_len \<in> {65, 66, 67} \<and> data_len \<le> max_scan \<and>
    \<not> check_pattern data ''root:x:0:0:'' \<and> \<not> check_pattern data ''-----BEGIN'' \<and>
    unat data_len - 3 \<le> length (filter base64_byte (take 64 data))"
proof (cases "data_len \<le> max_scan")
  case False
  then show ?thesis by (simp add: detect_suspicious_pattern_def not_le)
next
  case True
  let ?n = "unat data_len" and ?k = "length (filter base64_byte (take 64 data))"
  have small: "?n \<le> 45000000" using True assms by (simp add: word_le_nat_alt)
  have gt: "64 < data_len \<longleftrightarrow> 64 < ?n" by (simp add: word_less_nat_alt)
  have count: "unat (base64_count data data_len) = ?k" if "64 < ?n"
    using base64_count_le(1) [of data data_len] that by (simp add: min_def)
  have k: "?k \<le> 64" using length_filter_le [of base64_byte "take 64 data"] by simp
  have num: "?n * 95 < ?k * 100 \<and> 64 < ?n \<longleftrightarrow> ?n \<in> {65, 66, 67} \<and> ?n - 3 \<le> ?k"
  proof -
    have "?n \<le> 67" if "?n * 95 < ?k * 100" using that k by linarith
    moreover have "?n = 65 \<or> ?n = 66 \<or> ?n = 67" if "?n \<le> 67" "64 < ?n" using that by linarith
    ultimately show ?thesis using k by auto
  qed
  have ge: "11 \<le> data_len" "10 \<le> data_len" "data_len \<noteq> 0" if "64 < ?n"
    using that by (auto simp: word_le_nat_alt)
  have test: "data_len * 95 < base64_count data data_len * 100 \<and> 64 < data_len \<longleftrightarrow> ?n \<in> {65, 66, 67} \<and> ?n - 3 \<le> ?k"
    using base64_test [OF small, of data] gt count num by auto
  have gt': "64 < ?n" if "?n \<in> {65, 66, 67}" using that by auto
  show ?thesis
    unfolding detect_suspicious_pattern_def test using True ge gt' by (auto simp: not_less [symmetric])
qed

lemma base64_found_iff_witness:
  "detect_suspicious_pattern 512 (replicate 67 65) 67 = 3 \<and> detect_suspicious_pattern 512 (replicate 68 65) 68 \<noteq> 3"
proof -
  have "length (filter base64_byte (take 64 (replicate 67 65))) = 64" by code_simp
  moreover have "\<not> check_pattern (replicate 67 65) ''root:x:0:0:''" "\<not> check_pattern (replicate 67 65) ''-----BEGIN''"
    by code_simp+
  ultimately show ?thesis
    using base64_found_iff [of 512 "replicate 67 65" 67] base64_found_iff [of 512 "replicate 68 65" 68] by simp
qed

section \<open>What is counted\<close>

text \<open>A segment from a port.\<close>

definition source_port :: "bytes \<Rightarrow> u16" where
  "source_port f = join16 (f ! 34) (f ! 35)"

lemma source_field: "load16 le off_source f = bpf_htons le p \<longleftrightarrow> source_port f = p"
  by (simp add: htons_eq_load16 source_port_def offsets)

text \<open>The filter lets everything pass, and looks at nothing but what the honeypot port sends: a segment
  from any other port, of a fake service that listens on its own port too, is not even counted.\<close>

theorem egress_only_counts:
  assumes "length f < 2 ^ 32"
  shows "snd (phantom_egress_prog le honeypot_port max_scan K f) = TC_ACT_OK \<and>
   (fst (phantom_egress_prog le honeypot_port max_scan K f) \<noteq> K \<longleftrightarrow>
      tcp_frame f \<and> source_port f = honeypot_port \<and> tcp_payload f < length f \<and>
      0 < detect_suspicious_pattern max_scan (drop (tcp_payload f) f)
            (min (of_nat (length f - tcp_payload f)) max_scan))"
proof -
  have changed: "egress_count p K \<noteq> K" for p
  proof
    assume "egress_count p K = K"
    then have "egress_blocks K + 1 = egress_blocks K"
      by (metis (no_types, lifting) egress_count_def egress_kernel.ext_inject egress_kernel.surjective
          egress_kernel.update_convs(1,2))
    then show False by simp
  qed
  have len: "(of_nat (length f - tcp_payload f) :: u32) = 0 \<longleftrightarrow> length f \<le> tcp_payload f"
  proof -
    have "unat (of_nat (length f - tcp_payload f) :: u32) = length f - tcp_payload f"
      using assms by (simp add: unat_of_nat)
    then show ?thesis by (metis diff_is_0_eq unat_eq_zero)
  qed
  have none: "detect_suspicious_pattern max_scan data 0 = 0" for data by (simp add: detect_suspicious_pattern_def)
  show ?thesis
    using changed len
    by (auto simp: phantom_egress_prog_def Let_def source_field source_port_def tcp_frame_def ipv4_frame_def htons_eq_load16 offsets)
qed

definition reply_frame :: "u16 \<Rightarrow> bytes \<Rightarrow> bytes" where
  "reply_frame port payload =
     replicate 12 0 @ [8, 0] @ replicate 9 0 @ [6] @ replicate 10 0 @ [hi8 port, lo8 port] @ replicate 10 0 @
       [0x50] @ replicate 7 0 @ payload"

lemma reply_frame_simps:
  "tcp_frame (reply_frame p pl)" "source_port (reply_frame p pl) = p" "tcp_payload (reply_frame p pl) = 54"
  "drop 54 (reply_frame p pl) = pl" "length (reply_frame p pl) = 54 + length pl"
  by (simp_all add: tcp_frame_def ipv4_frame_def reply_frame_def source_port_def tcp_payload_def off_doff_def nth_append)

definition passwd_leak :: bytes where
  "passwd_leak = bytes_of_string ''root:x:0:0:root''"

lemma egress_only_counts_witness:
  "fst (phantom_egress_prog True 9999 512 \<lparr>egress_blocks = 0, suspicious_patterns = (\<lambda>_. 0)\<rparr> (reply_frame 9999 passwd_leak))
     \<noteq> \<lparr>egress_blocks = 0, suspicious_patterns = (\<lambda>_. 0)\<rparr> \<and>
   fst (phantom_egress_prog True 9999 512 \<lparr>egress_blocks = 0, suspicious_patterns = (\<lambda>_. 0)\<rparr> (reply_frame 80 passwd_leak))
     = \<lparr>egress_blocks = 0, suspicious_patterns = (\<lambda>_. 0)\<rparr>"
proof -
  have "0 < detect_suspicious_pattern 512 passwd_leak 15" "length passwd_leak = 15" by code_simp+
  then show ?thesis
    using egress_only_counts [of "reply_frame 9999 passwd_leak" True 9999 512]
      egress_only_counts [of "reply_frame 80 passwd_leak" True 9999 512]
    by (simp add: reply_frame_simps)
qed

end
