(* ===== verification/Menu.thy ===== *)
theory Menu
  imports Commands "HOL-Library.State_Monad"
begin

text \<open>
  \<^verbatim>\<open>cmd/phantom/main.go\<close>: the menu program. A handler is a computation in the state monad over a
  world of input, files and output; it runs other programs, whose work is a parameter. The loops are a
  state machine: its state is the menu shown, a step is one turn of a loop. Paths are those of Unix.
\<close>

section \<open>The world\<close>

text \<open>What stays the same: the system, the user, the environment, which programs are found, where files
  can be written, and what a program does: from its arguments, the files and the input it can read to
  the files and input after it, its output, and its error.\<close>

type_synonym program_run = "string list \<Rightarrow> file_system \<Rightarrow> string list \<Rightarrow> file_system \<times> string list \<times> string \<times> string option"

record platform =
  pfGOOS :: string
  pfGOARCH :: string
  pfEuid :: nat
  pfDevice :: bool
  pfEnv :: "string \<Rightarrow> string"
  pfLookPath :: "string \<Rightarrow> bool"
  pfWriteError :: "string \<Rightarrow> string option"
  pfRun :: program_run

text \<open>Standard input is the list of what each further read of the system gives; nothing is the end of
  the file. \<open>wdRandom\<close> are the results of the random generator.\<close>

record world =
  wdInput :: "string list"
  wdFiles :: file_system
  wdRandom :: "nat \<Rightarrow> string + bytes"
  wdOut :: string
  wdRan :: "string list list"

text \<open>The colours, which Windows does without.\<close>

definition menu_colour :: "platform \<Rightarrow> string \<Rightarrow> string" where
  "menu_colour P code = (if pfGOOS P = ''windows'' then [] else char_of (27 :: nat) # CHR ''['' # code @ ''m'')"

definition bold :: "platform \<Rightarrow> string \<Rightarrow> string" where "bold P s = menu_colour P ''1'' @ s @ menu_colour P ''0''"
definition cyan :: "platform \<Rightarrow> string \<Rightarrow> string" where "cyan P s = menu_colour P ''36'' @ s @ menu_colour P ''0''"
definition green :: "platform \<Rightarrow> string \<Rightarrow> string" where "green P s = menu_colour P ''32'' @ s @ menu_colour P ''0''"
definition yellow :: "platform \<Rightarrow> string \<Rightarrow> string" where "yellow P s = menu_colour P ''33'' @ s @ menu_colour P ''0''"
definition red :: "platform \<Rightarrow> string \<Rightarrow> string" where "red P s = menu_colour P ''31'' @ s @ menu_colour P ''0''"

text \<open>A character of three bytes, and the lines drawn with it.\<close>

definition box_char :: "nat \<Rightarrow> string" where "box_char n = map char_of [0xE2, 0x95 :: nat, n]"
definition box_line :: "nat \<Rightarrow> nat \<Rightarrow> nat \<Rightarrow> string" where
  "box_line l m r = box_char l @ concat (replicate 62 (box_char m)) @ box_char r"
definition rule_line :: string where
  "rule_line = concat (replicate 76 (map char_of [0xE2, 0x94, 0x81 :: nat]))"

section \<open>Input, output and programs\<close>

definition put_text :: "string \<Rightarrow> (world, unit) state" where
  "put_text s = State (\<lambda>w. ((), w\<lparr>wdOut := wdOut w @ s\<rparr>))"

definition say :: "string list \<Rightarrow> (world, unit) state" where
  "say ls = put_text (lf_lines ls)"

text \<open>A new buffered reader reads up to a line end; what it has read beyond that is lost with it.\<close>

fun read_line :: "string list \<Rightarrow> string \<times> string list" where
  "read_line [] = ([], [])"
| "read_line (c # cs) =
     (if c = [] then ([], cs)
      else if char_of (10 :: nat) \<in> set c then (takeWhile (\<lambda>x. x \<noteq> char_of (10 :: nat)) c @ lf, cs)
      else (c @ fst (read_line cs), snd (read_line cs)))"

definition read_input :: "(world, string) state" where
  "read_input = State (\<lambda>w. (fst (read_line (wdInput w)), w\<lparr>wdInput := snd (read_line (wdInput w))\<rparr>))"

definition getUserInput :: "platform \<Rightarrow> string \<Rightarrow> (world, string) state" where
  "getUserInput P prompt = do {
     put_text (cyan P prompt);
     input \<leftarrow> read_input;
     State_Monad.return (strings_trim_space input)
   }"

definition getUserInputWithDefault :: "platform \<Rightarrow> string \<Rightarrow> string \<Rightarrow> (world, string) state" where
  "getUserInputWithDefault P prompt defaultValue = do {
     put_text (if defaultValue \<noteq> [] then cyan P (prompt @ '' ['' @ defaultValue @ '']: '') else cyan P (prompt @ '': ''));
     input \<leftarrow> read_input;
     let t = strings_trim_space input;
     State_Monad.return (if t = [] then defaultValue else t)
   }"

definition pause :: "platform \<Rightarrow> (world, unit) state" where
  "pause P = do {
     say [[]];
     put_text (yellow P ''Press Enter to continue...'');
     read_input;
     State_Monad.return ()
   }"

text \<open>\<^verbatim>\<open>os.Stat\<close>: the size of a file. The world has files only; where a directory has the name, \<^verbatim>\<open>os.Stat\<close>
  succeeds too.\<close>

definition file_size :: "string \<Rightarrow> (world, nat option) state" where
  "file_size path = State (\<lambda>w. (map_option length (wdFiles w path), w))"

text \<open>\<^verbatim>\<open>cmd.Run\<close> with the output passed on, and with or without the input; \<^verbatim>\<open>cmd.Output\<close> gives the
  output to the caller.\<close>

definition run_command :: "platform \<Rightarrow> bool \<Rightarrow> string list \<Rightarrow> (world, string option) state" where
  "run_command P stdin argv = State (\<lambda>w.
     case pfRun P argv (wdFiles w) (if stdin then wdInput w else []) of
       (fs, inp, outp, err) \<Rightarrow>
         (err, w\<lparr>wdFiles := fs, wdInput := (if stdin then inp else wdInput w), wdOut := wdOut w @ outp,
                wdRan := wdRan w @ [argv]\<rparr>))"

definition command_output :: "platform \<Rightarrow> string list \<Rightarrow> (world, string \<times> string option) state" where
  "command_output P argv = State (\<lambda>w.
     case pfRun P argv (wdFiles w) [] of
       (fs, _, outp, err) \<Rightarrow> ((outp, err), w\<lparr>wdFiles := fs, wdRan := wdRan w @ [argv]\<rparr>))"

definition random_bytes :: "(world, string + bytes) state" where
  "random_bytes = State (\<lambda>w. (wdRandom w 0, w\<lparr>wdRandom := (\<lambda>n. wdRandom w (Suc n))\<rparr>))"

definition write_text :: "platform \<Rightarrow> string \<Rightarrow> string \<Rightarrow> (world, string option) state" where
  "write_text P path s = State (\<lambda>w.
     case pfWriteError P path of
       Some err \<Rightarrow> (Some err, w)
     | None \<Rightarrow> (None, w\<lparr>wdFiles := (wdFiles w)(path \<mapsto> bytes_of_string s)\<rparr>))"

definition clearScreen :: "platform \<Rightarrow> (world, unit) state" where
  "clearScreen P = do {
     run_command P False (if pfGOOS P = ''windows'' then [''cmd'', ''/c'', ''cls''] else [''clear'']);
     State_Monad.return ()
   }"

section \<open>The screens\<close>

definition menu_banner :: "platform \<Rightarrow> string" where
  "menu_banner P =
     (let reset = menu_colour P ''0''; c = menu_colour P ''36''; g = menu_colour P ''32'';
          edge = box_char 0x91; blank = edge @ replicate 62 (CHR '' '') @ edge
      in lf @ c @ menu_colour P ''1'' @ lf_lines [[], box_line 0x94 0x90 0x97, blank,
           edge @ ''          '' @ g @ ''PHANTOM GRID'' @ c @ '' - Active Defense System          '' @ edge,
           blank, edge @ ''              Kernel-level Network Protection                 '' @ edge,
           blank, box_line 0x9A 0x90 0x9D] @ reset)"

definition main_screen :: "platform \<Rightarrow> string list" where
  "main_screen P =
    [lf @ bold P rule_line,
     bold P ''                              MAIN MENU'',
     bold P rule_line,
     [],
     ''  '' @ cyan P ''[1]'' @ '' Key Management'',
     ''     Generate and manage SPA keys'',
     [],
     ''  '' @ cyan P ''[2]'' @ '' Agent Management'',
     ''     Start, stop, and configure the agent'',
     [],
     ''  '' @ cyan P ''[3]'' @ '' SPA Testing'',
     ''     Test Single Packet Authorization'',
     [],
     ''  '' @ cyan P ''[4]'' @ '' Configuration'',
     ''     Configure ports, output modes, and settings'',
     [],
     ''  '' @ cyan P ''[5]'' @ '' System Information'',
     ''     View system status and statistics'',
     [],
     ''  '' @ cyan P ''[6]'' @ '' Documentation'',
     ''     View documentation and guides'',
     [],
     ''  '' @ yellow P ''[0]'' @ '' Exit'',
     []]"

definition keys_screen :: "platform \<Rightarrow> string list" where
  "keys_screen P =
    [bold P (lf @ rule_line),
     bold P ''                         KEY MANAGEMENT'',
     bold P rule_line,
     [],
     ''  [1] Generate Ed25519 Key Pair'',
     ''  [2] Generate TOTP Secret'',
     ''  [3] View Key Status'',
     ''  [4] Copy Keys to Client'',
     ''  [0] Back to Main Menu'',
     []]"

definition agent_screen :: "platform \<Rightarrow> string list" where
  "agent_screen P =
    [bold P (lf @ rule_line),
     bold P ''                        AGENT MANAGEMENT'',
     bold P rule_line,
     [],
     ''  [1] Start Agent (Interactive)'',
     ''  [2] Start Agent (Background)'',
     ''  [3] Stop Agent'',
     ''  [4] View Agent Status'',
     ''  [5] Configure Agent'',
     ''  [0] Back to Main Menu'',
     []]"

definition spa_screen :: "platform \<Rightarrow> string list" where
  "spa_screen P =
    [bold P (lf @ rule_line),
     bold P ''                            SPA TESTING'',
     bold P rule_line,
     [],
     ''  [1] Quick Send (Auto-detect keys)'',
     ''  [2] Custom Configuration'',
     ''  [3] Static SPA (Legacy)'',
     ''  [0] Back to Main Menu'',
     []]"

definition config_screen :: "platform \<Rightarrow> string list" where
  "config_screen P =
    [bold P (lf @ rule_line),
     bold P ''                          CONFIGURATION'',
     bold P rule_line,
     [],
     ''  [1] View Protected Ports'',
     ''  [2] View Fake Ports (Honeypot)'',
     ''  [3] Regenerate eBPF Configuration'',
     ''  [0] Back to Main Menu'',
     []]"

definition docs_screen :: "platform \<Rightarrow> string list" where
  "docs_screen P =
    [bold P (lf @ rule_line),
     bold P ''                           DOCUMENTATION'',
     bold P rule_line,
     [],
     ''  [1] Getting Started Guide'',
     ''  [2] SPA Mechanism Explained'',
     ''  [3] Key Management Guide'',
     ''  [4] Troubleshooting Guide'',
     ''  [5] Configuration Guide'',
     ''  [0] Back to Main Menu'',
     []]"

section \<open>Keys\<close>

text \<open>The question whether to overwrite a file that exists; the answer is compared in lower case.\<close>

definition may_write :: "platform \<Rightarrow> string \<Rightarrow> string \<Rightarrow> (world, bool) state" where
  "may_write P path question = do {
     size \<leftarrow> file_size path;
     if size = None then State_Monad.return True
     else do {
       overwrite \<leftarrow> getUserInput P question;
       State_Monad.return (overwrite = ''y'' \<or> overwrite = ''Y'')
     }
   }"

definition generateKeys :: "platform \<Rightarrow> (world, unit) state" where
  "generateKeys P = do {
     say [lf @ cyan P ''[*] Generating Ed25519 key pair...''];
     keyDir \<leftarrow> getUserInputWithDefault P ''Key directory'' ''./keys'';
     ok \<leftarrow> may_write P (path_join keyDir ''spa_public.key'') ''Keys already exist. Overwrite? (y/N): '';
     if \<not> ok then do { say [yellow P ''[*] Cancelled.'']; pause P }
     else do {
       err \<leftarrow> run_command P False [''go'', ''run'', ''./cmd/spa-keygen'', ''-dir'', keyDir, ''-force''];
       say (case err of
              Some e \<Rightarrow> [red P (''[!] Failed to generate keys: '' @ e)]
            | None \<Rightarrow> [green P ''[+] Keys generated successfully!'']);
       pause P
     }
   }"

text \<open>\<^verbatim>\<open>base64.StdEncoding\<close>\<close>

definition base64_char :: "nat \<Rightarrow> char" where
  "base64_char n =
     (if n < 26 then char_of (65 + n) else if n < 52 then char_of (71 + n)
      else if n < 62 then char_of (n - 4) else if n = 62 then CHR ''+'' else CHR ''/'')"

fun base64_encode :: "bytes \<Rightarrow> string" where
  "base64_encode [] = []"
| "base64_encode [a] =
     (let n = unat a * 16 in [base64_char (n div 64), base64_char (n mod 64), CHR ''='', CHR ''=''])"
| "base64_encode [a, b] =
     (let n = unat a * 1024 + unat b * 4
      in [base64_char (n div 4096), base64_char (n div 64 mod 64), base64_char (n mod 64), CHR ''=''])"
| "base64_encode (a # b # c # bs) =
     (let n = unat a * 65536 + unat b * 256 + unat c
      in base64_char (n div 262144) # base64_char (n div 4096 mod 64) # base64_char (n div 64 mod 64) #
         base64_char (n mod 64) # base64_encode bs)"

definition generateTOTPSecretGo :: "platform \<Rightarrow> string \<Rightarrow> (world, unit) state" where
  "generateTOTPSecretGo P path = do {
     secret \<leftarrow> random_bytes;
     case secret of
       Inl e \<Rightarrow> say [red P (''[!] Failed to generate random secret: '' @ e)]
     | Inr bytes \<Rightarrow> do {
         err \<leftarrow> write_text P path (base64_encode bytes);
         say (case err of
                Some e \<Rightarrow> [red P (''[!] Failed to write TOTP secret: '' @ e)]
              | None \<Rightarrow> [green P ''[+] TOTP secret generated successfully!'',
                                    cyan P (''[*] Secret saved to: '' @ path)])
       }
   }"

definition generateTOTPSecret :: "platform \<Rightarrow> (world, unit) state" where
  "generateTOTPSecret P = do {
     say [lf @ cyan P ''[*] Generating TOTP secret...''];
     keyDir \<leftarrow> getUserInputWithDefault P ''Key directory'' ''./keys'';
     let secretPath = path_join keyDir ''totp_secret.txt'';
     ok \<leftarrow> may_write P secretPath ''TOTP secret already exists. Overwrite? (y/N): '';
     if \<not> ok then do { say [yellow P ''[*] Cancelled.'']; pause P }
     else do { generateTOTPSecretGo P secretPath; pause P }
   }"

definition checkFile :: "platform \<Rightarrow> string \<Rightarrow> string \<Rightarrow> (world, unit) state" where
  "checkFile P name path = do {
     size \<leftarrow> file_size path;
     say [case size of
            Some n \<Rightarrow> ''  '' @ name @ '': '' @ green P ''[OK]'' @ '' '' @ cyan P (''('' @ show_nat n @ '' bytes)'')
          | None \<Rightarrow> ''  '' @ name @ '': '' @ red P ''[MISSING]'' @ '' '' @ yellow P ''(not found)'']
   }"

definition viewKeyStatus :: "platform \<Rightarrow> (world, unit) state" where
  "viewKeyStatus P = do {
     say [lf @ cyan P ''[*] Checking key status...''];
     keyDir \<leftarrow> getUserInputWithDefault P ''Key directory'' ''./keys'';
     say [[],
          bold P ''Key Status:'',
          rule_line];
     checkFile P ''Public Key'' (path_join keyDir ''spa_public.key'');
     checkFile P ''Private Key'' (path_join keyDir ''spa_private.key'');
     checkFile P ''TOTP Secret'' (path_join keyDir ''totp_secret.txt'');
     pause P
   }"

definition copyKeysToClient :: "platform \<Rightarrow> (world, unit) state" where
  "copyKeysToClient P = do {
     say
       [lf @ cyan P ''[*] Copy Keys to Client'',
        [],
        ''To copy keys to a client machine, use one of these methods:'',
        [],
        bold P ''Method 1: SCP (Linux/macOS)'',
        ''  scp keys/spa_private.key user@client-ip:~/.phantom-grid/'',
        ''  scp keys/totp_secret.txt user@client-ip:~/.phantom-grid/'',
        [],
        bold P ''Method 2: Manual Copy'',
        ''  1. Copy keys/spa_private.key to client'',
        ''  2. Copy keys/totp_secret.txt to client'',
        ''  3. Set permissions: chmod 600 ~/.phantom-grid/*'',
        []];
     keyDir \<leftarrow> getUserInputWithDefault P ''Key directory'' ''./keys'';
     say [[],
          cyan P (''[*] Keys location: '' @ keyDir)];
     pause P
   }"

section \<open>The agent\<close>

definition isRoot :: "platform \<Rightarrow> bool" where
  "isRoot P =
     (if pfGOOS P = ''windows'' then pfDevice P
      else if pfGOOS P \<in> {''linux'', ''darwin'', ''freebsd''} then pfEuid P = 0
      else False)"

text \<open>The questions, and the arguments made of the answers.\<close>

definition agent_answers :: "platform \<Rightarrow> (world, string \<times> (string \<times> string) list) state" where
  "agent_answers P = do {
     interfaceName \<leftarrow> getUserInputWithDefault P ''Network interface'' [];
     spaMode \<leftarrow> getUserInputWithDefault P ''SPA mode (static/dynamic/asymmetric)'' ''asymmetric'';
     outputMode \<leftarrow> getUserInputWithDefault P ''Output mode (dashboard/elk/both)'' ''dashboard'';
     let args = (if interfaceName \<noteq> [] then [(''interface'', interfaceName)] else []) @
                [(''spa-mode'', spaMode), (''output'', outputMode)];
     args1 \<leftarrow> (if spaMode = ''static'' then do {
                staticToken \<leftarrow> getUserInputWithDefault P ''Static token (press Enter to prompt later)'' [];
                State_Monad.return (if staticToken \<noteq> [] then args @ [(''spa-static-token'', staticToken)] else args)
              }
              else do {
                keyDir \<leftarrow> getUserInputWithDefault P ''Key directory'' ''./keys'';
                State_Monad.return (args @ [(''spa-key-dir'', keyDir)])
              });
     args2 \<leftarrow> (if outputMode = ''elk'' \<or> outputMode = ''both'' then do {
                elkAddr \<leftarrow> getUserInputWithDefault P ''Elasticsearch address'' ''http://localhost:9200'';
                State_Monad.return (args1 @ [(''elk-address'', elkAddr)])
              }
              else State_Monad.return args1);
     State_Monad.return (interfaceName, args2)
   }"

definition agent_argv :: "platform \<Rightarrow> (string \<times> string) list \<Rightarrow> string list" where
  "agent_argv P ps =
     (if isRoot P then [''go''] else [''sudo'', ''-E'', ''go'']) @ [''run'', ''./cmd/agent''] @ pair_args ps"

definition agent_failure :: "platform \<Rightarrow> string \<Rightarrow> string \<Rightarrow> string list" where
  "agent_failure P interfaceName err =
     [[],
      red P ''[!] Agent failed to start. Possible reasons:''] @
     (if isRoot P then [] else [yellow P ''    1. Permission denied - sudo password may be required or incorrect'']) @
     [yellow P ''    2. eBPF not supported - requires Linux kernel 5.4+'',
      yellow P ''    3. Interface not found - check interface name'',
      yellow P ''    4. Missing dependencies - ensure clang, llvm, libbpf-dev are installed'',
      []] @
     (if isRoot P then [cyan P (''[*] Try running manually: go run ./cmd/agent -interface '' @ interfaceName)]
      else [cyan P (''[*] Try running manually: sudo go run ./cmd/agent -interface '' @ interfaceName)]) @
     [[],
      red P (''[!] Error details: '' @ err)]"

definition run_agent :: "platform \<Rightarrow> string \<times> (string \<times> string) list \<Rightarrow> (world, unit) state" where
  "run_agent P answers = do {
     let ps = snd answers;
     say [[], yellow P ((if isRoot P then ''[*] Starting agent with: go '' else ''[*] Running with sudo: sudo go '') @
                        join_with '' '' ([''run'', ''./cmd/agent''] @ pair_args ps))];
     say [yellow P ''[*] Press Ctrl+C to stop'',
          []];
     err \<leftarrow> run_command P True (agent_argv P ps);
     say (case err of Some e \<Rightarrow> agent_failure P (fst answers) e | None \<Rightarrow> []);
     pause P
   }"

definition startAgentInteractive :: "platform \<Rightarrow> (world, unit) state" where
  "startAgentInteractive P = do {
     say [lf @ cyan P ''[*] Starting agent interactively...''];
     if pfGOOS P = ''windows'' then do {
       say [red P ''[!] ERROR: Phantom Grid agent requires Linux with eBPF/XDP support.'',
            yellow P ''[*] eBPF/XDP is not available on Windows.'',
            cyan P ''[*] Please run the agent on a Linux system (kernel 5.4+).''];
       pause P
     }
     else do {
       say (if isRoot P then []
            else [yellow P ''[!] Warning: Agent requires root privileges for eBPF/XDP operations.'',
                  cyan P ''[*] The command will be run with 'sudo'. You may be prompted for your password.'',
                  []]);
       answers \<leftarrow> agent_answers P;
       run_agent P answers
     }
   }"

definition startAgentBackground :: "platform \<Rightarrow> (world, unit) state" where
  "startAgentBackground P = do {
     say [yellow P ''[!] Background mode not yet implemented.'',
          cyan P ''[*] Use systemd or screen/tmux for background execution.''];
     pause P
   }"

definition stopAgent :: "platform \<Rightarrow> (world, unit) state" where
  "stopAgent P = do {
     say [lf @ cyan P ''[*] Stopping agent...''];
     err \<leftarrow> run_command P False (if pfGOOS P = ''windows'' then [''taskkill'', ''/F'', ''/IM'', ''phantom-grid.exe'']
                                 else [''pkill'', ''-f'', ''phantom-grid'']);
     say (if err \<noteq> None then [yellow P ''[*] No running agent found or failed to stop.''] else [green P ''[+] Agent stopped successfully.'']);
     pause P
   }"

definition viewAgentStatus :: "platform \<Rightarrow> (world, unit) state" where
  "viewAgentStatus P = do {
     say [lf @ cyan P ''[*] Checking agent status...''];
     (output, err) \<leftarrow> command_output P (if pfGOOS P = ''windows'' then [''tasklist'', ''/FI'', ''IMAGENAME eq phantom-grid.exe'']
                                          else [''pgrep'', ''-f'', ''phantom-grid'']);
     say (if err \<noteq> None \<or> output = [] then [yellow P ''[*] Agent is not running.'']
          else [green P ''[+] Agent is running:''] @ [output]);
     pause P
   }"

definition configureAgent :: "platform \<Rightarrow> (world, unit) state" where
  "configureAgent P = do {
     say [yellow P ''[!] Agent configuration editor not yet implemented.'',
          cyan P ''[*] Edit internal/config/ports.go to configure ports.'',
          cyan P ''[*] Use command-line flags to configure runtime options.''];
     pause P
   }"

section \<open>Sending packets\<close>

text \<open>The first path that exists, which is told.\<close>

fun find_path :: "platform \<Rightarrow> string \<Rightarrow> string list \<Rightarrow> (world, string) state" where
  "find_path P what [] = State_Monad.return []"
| "find_path P what (path # paths) = do {
     size \<leftarrow> file_size path;
     if size \<noteq> None then do { say [green P (''[+] Found '' @ what @ '': '' @ path)]; State_Monad.return path }
     else find_path P what paths
   }"

definition default_key_paths :: "platform \<Rightarrow> string \<Rightarrow> string list" where
  "default_key_paths P name =
     [''./keys/'' @ name, path_join3 (pfEnv P ''HOME'') ''.phantom-grid'' name,
      path_join3 (pfEnv P ''USERPROFILE'') ''.phantom-grid'' name]"

definition client_argv :: "(string \<times> string) list \<Rightarrow> string list" where
  "client_argv ps = [''go'', ''run'', ''./cmd/spa-client''] @ pair_args ps"

definition quickSendSPA :: "platform \<Rightarrow> (world, unit) state" where
  "quickSendSPA P = do {
     clearScreen P;
     say [bold P (lf @ rule_line),
          bold P ''                         QUICK SPA SEND'',
          bold P rule_line,
          []];
     serverIP \<leftarrow> getUserInput P ''Server IP address: '';
     if serverIP = [] then do { say [red P ''[!] Server IP is required.'']; pause P }
     else do {
       say [[],
            cyan P ''[*] Auto-detecting keys...''];
       let keyPaths = default_key_paths P ''spa_private.key'';
       keyPath \<leftarrow> find_path P ''private key'' keyPaths;
       if keyPath = [] then do {
         say ([red P ''[!] Private key not found in default locations:''] @
              map (\<lambda>path. yellow P (''    - '' @ path)) keyPaths @
              [[],
               cyan P ''[*] Please copy keys from server or use Custom Configuration option.'']);
         pause P
       }
       else do {
         totpPath \<leftarrow> find_path P ''TOTP secret'' (default_key_paths P ''totp_secret.txt'');
         say (if totpPath = []
              then [yellow P ''[!] TOTP secret not found. Sending without TOTP (may fail if server requires it).'']
              else []);
         say [[],
              cyan P (''[*] Sending SPA packet to '' @ serverIP @ ''...''),
              []];
         err \<leftarrow> run_command P False (client_argv ([(''server'', serverIP), (''mode'', ''asymmetric''), (''key'', keyPath)] @
                  (if totpPath \<noteq> [] then [(''totp'', totpPath)] else [])));
         say (case err of
                None \<Rightarrow> []
              | Some e \<Rightarrow> [[],
                                      red P (''[!] SPA send failed: '' @ e),
                                      yellow P ''[*] Check:'',
                                      yellow P ''    1. Server is running and accessible'',
                                      yellow P ''    2. Keys match between client and server'',
                                      yellow P ''    3. TOTP secret matches (if used)'',
                                      yellow P (''    4. Firewall allows UDP port '' @ show_i64 SPAMagicPort)]);
         pause P
       }
     }
   }"

definition custom_answers :: "platform \<Rightarrow> string \<Rightarrow> (world, (string \<times> string) list) state" where
  "custom_answers P serverIP = do {
     mode \<leftarrow> getUserInputWithDefault P ''SPA mode (static/dynamic/asymmetric)'' ''asymmetric'';
     let args = [(''server'', serverIP), (''mode'', mode)];
     if mode \<noteq> ''static'' then do {
       keyPath \<leftarrow> getUserInputWithDefault P ''Private key path'' ''./keys/spa_private.key'';
       totpPath \<leftarrow> getUserInputWithDefault P ''TOTP secret path (press Enter to skip)'' [];
       State_Monad.return (args @ [(''key'', keyPath)] @ (if totpPath \<noteq> [] then [(''totp'', totpPath)] else []))
     }
     else State_Monad.return args
   }"

definition customSPA :: "platform \<Rightarrow> (world, unit) state" where
  "customSPA P = do {
     clearScreen P;
     say [bold P (lf @ rule_line),
          bold P ''                      CUSTOM SPA CONFIGURATION'',
          bold P rule_line,
          []];
     serverIP \<leftarrow> getUserInput P ''Server IP address: '';
     if serverIP = [] then do { say [red P ''[!] Server IP is required.'']; pause P }
     else do {
       ps \<leftarrow> custom_answers P serverIP;
       say [[],
            cyan P ''[*] Sending SPA packet...'',
            []];
       err \<leftarrow> run_command P False (client_argv ps);
       say (case err of None \<Rightarrow> [] | Some e \<Rightarrow> [red P (''[!] SPA send failed: '' @ e)]);
       pause P
     }
   }"

definition staticSPA :: "platform \<Rightarrow> (world, unit) state" where
  "staticSPA P = do {
     clearScreen P;
     say [bold P (lf @ rule_line),
          bold P ''                         STATIC SPA (LEGACY)'',
          bold P rule_line,
          [],
          yellow P ''[!] Warning: Static SPA is less secure. Use Dynamic Asymmetric SPA for production.'',
          []];
     serverIP \<leftarrow> getUserInput P ''Server IP address: '';
     if serverIP = [] then do { say [red P ''[!] Server IP is required.'']; pause P }
     else do {
       token \<leftarrow> getUserInputWithDefault P ''Static token (press Enter for default)'' [];
       say [[],
            cyan P ''[*] Sending static SPA packet...'',
            []];
       err \<leftarrow> run_command P False (client_argv ([(''server'', serverIP), (''mode'', ''static'')] @
                (if token \<noteq> [] then [(''static-token'', token)] else [])));
       say (case err of None \<Rightarrow> [] | Some e \<Rightarrow> [red P (''[!] SPA send failed: '' @ e)]);
       pause P
     }
   }"

section \<open>Configuration, system and documentation\<close>

definition getPortName :: "i64 \<Rightarrow> string" where
  "getPortName port =
     (case find (\<lambda>d. Port d = port) CriticalPortDefinitions of
        Some d \<Rightarrow> Name d
      | None \<Rightarrow>
          (case find (\<lambda>d. Port d = port) FakePortDefinitions of
             Some d \<Rightarrow> Name d
           | None \<Rightarrow> ''Unknown''))"

definition port_line :: "i64 \<Rightarrow> string" where
  "port_line port = ''  Port '' @ show_i64 port @ '': '' @ getPortName port"

definition viewProtectedPorts :: "platform \<Rightarrow> (world, unit) state" where
  "viewProtectedPorts P = do {
     say [lf @ cyan P ''[*] Protected Ports (Critical Assets):'',
          []];
     say (if GetCriticalPorts = [] then [yellow P ''[*] No protected ports configured.'']
          else map port_line GetCriticalPorts);
     pause P
   }"

definition viewFakePorts :: "platform \<Rightarrow> (world, unit) state" where
  "viewFakePorts P = do {
     say [lf @ cyan P ''[*] Fake Ports (Honeypot - The Mirage):'',
          []];
     say (if GetFakePorts = [] then [yellow P ''[*] No fake ports configured.'']
          else map port_line GetFakePorts);
     pause P
   }"

definition regenerateEBPFConfig :: "platform \<Rightarrow> (world, unit) state" where
  "regenerateEBPFConfig P = do {
     say [lf @ cyan P ''[*] Regenerating eBPF configuration...''];
     err \<leftarrow> run_command P False [''go'', ''run'', ''./cmd/config-gen''];
     say (case err of
            Some e \<Rightarrow> [red P (''[!] Failed to regenerate configuration: '' @ e)]
          | None \<Rightarrow> [green P ''[+] Configuration regenerated successfully!'',
                                cyan P ''[*] Run 'make generate' to rebuild eBPF programs.'']);
     pause P
   }"

definition listNetworkInterfaces :: "platform \<Rightarrow> (world, unit) state" where
  "listNetworkInterfaces P = do {
     (output, _) \<leftarrow> command_output P (if pfGOOS P = ''windows'' then [''ipconfig''] else [''ip'', ''link'', ''show'']);
     say [output]
   }"

definition handleSystemInfo :: "platform \<Rightarrow> (world, unit) state" where
  "handleSystemInfo P = do {
     clearScreen P;
     say ([bold P (lf @ rule_line),
           bold P ''                        SYSTEM INFORMATION'',
           bold P rule_line,
           []] @
          [cyan P ''System:'', ''  OS: '' @ pfGOOS P, ''  Architecture: '' @ pfGOARCH P, [],
           cyan P ''Configuration:'',
           ''  SPA Magic Port: '' @ show_i64 SPAMagicPort, ''  SSH Port: '' @ show_i64 SSHPort,
           ''  Honeypot Port: '' @ show_i64 HoneypotPort,
           ''  Protected Ports: '' @ show_nat (length GetCriticalPorts),
           ''  Fake Ports: '' @ show_nat (length GetFakePorts), []] @
          [cyan P ''Network Interfaces:'']);
     listNetworkInterfaces P;
     pause P
   }"

definition document_of :: "string \<Rightarrow> string option" where
  "document_of choice =
     map_of [(''1'', ''docs/GETTING_STARTED.md''), (''2'', ''docs/SPA_MECHANISM_EXPLAINED.md''),
             (''3'', ''docs/SPA_KEYS_MANAGEMENT.md''), (''4'', ''docs/SPA_TROUBLESHOOTING.md''),
             (''5'', ''docs/CONFIGURING_PORTS.md'')] choice"

definition viewDocumentation :: "platform \<Rightarrow> string \<Rightarrow> (world, unit) state" where
  "viewDocumentation P doc = do {
     size \<leftarrow> file_size doc;
     if size = None then do { say [red P (''[!] Documentation file not found: '' @ doc)]; pause P }
     else do {
       run_command P True
         (if pfGOOS P = ''windows'' then [''notepad'', doc]
          else case find (pfLookPath P) [''less'', ''cat'', ''more''] of
                 Some viewer \<Rightarrow> [viewer, doc]
               | None \<Rightarrow> [''cat'', doc]);
       pause P
     }
   }"

section \<open>The loops\<close>

datatype place = MainMenu | KeysMenu | AgentMenu | SpaMenu | ConfigMenu | DocsMenu | Exited

definition stay :: "place \<Rightarrow> (world, unit) state \<Rightarrow> (world, place) state" where
  "stay pl m = do { m; State_Monad.return pl }"

definition invalid_option :: "platform \<Rightarrow> string \<Rightarrow> (world, unit) state" where
  "invalid_option P text = do { say [red P text]; pause P }"

definition main_turn :: "platform \<Rightarrow> (world, place) state" where
  "main_turn P = do {
     say (main_screen P);
     choice \<leftarrow> getUserInput P ''Select an option: '';
     if choice = ''1'' then State_Monad.return KeysMenu
     else if choice = ''2'' then State_Monad.return AgentMenu
     else if choice = ''3'' then State_Monad.return SpaMenu
     else if choice = ''4'' then State_Monad.return ConfigMenu
     else if choice = ''5'' then stay MainMenu (handleSystemInfo P)
     else if choice = ''6'' then State_Monad.return DocsMenu
     else if choice = ''0'' \<or> choice = ''q'' \<or> choice = ''exit'' then
       stay Exited (say [lf @ green P ''[+] Exiting Phantom Grid. Stay secure!''])
     else stay MainMenu (invalid_option P ''[!] Invalid option. Please try again.'')
   }"

text \<open>One turn of a submenu: its screen, and what its options do.\<close>

definition submenu_turn ::
    "platform \<Rightarrow> place \<Rightarrow> string list \<Rightarrow> (string \<times> (world, unit) state) list \<Rightarrow> (world, place) state" where
  "submenu_turn P here screen options = do {
     clearScreen P;
     say screen;
     choice \<leftarrow> getUserInput P ''Select an option: '';
     case map_of options choice of
       Some m \<Rightarrow> stay here m
     | None \<Rightarrow> if choice = ''0'' then State_Monad.return MainMenu
               else stay here (invalid_option P ''[!] Invalid option.'')
   }"

definition handleKeyManagement :: "platform \<Rightarrow> (world, place) state" where
  "handleKeyManagement P = submenu_turn P KeysMenu (keys_screen P)
     [(''1'', generateKeys P), (''2'', generateTOTPSecret P), (''3'', viewKeyStatus P), (''4'', copyKeysToClient P)]"

definition handleAgentManagement :: "platform \<Rightarrow> (world, place) state" where
  "handleAgentManagement P = submenu_turn P AgentMenu (agent_screen P)
     [(''1'', startAgentInteractive P), (''2'', startAgentBackground P), (''3'', stopAgent P),
      (''4'', viewAgentStatus P), (''5'', configureAgent P)]"

definition handleSPATest :: "platform \<Rightarrow> (world, place) state" where
  "handleSPATest P = submenu_turn P SpaMenu (spa_screen P)
     [(''1'', quickSendSPA P), (''2'', customSPA P), (''3'', staticSPA P)]"

definition handleConfiguration :: "platform \<Rightarrow> (world, place) state" where
  "handleConfiguration P = submenu_turn P ConfigMenu (config_screen P)
     [(''1'', viewProtectedPorts P), (''2'', viewFakePorts P), (''3'', regenerateEBPFConfig P)]"

definition handleDocumentation :: "platform \<Rightarrow> (world, place) state" where
  "handleDocumentation P = submenu_turn P DocsMenu (docs_screen P)
     (map (\<lambda>c. (c, case document_of c of Some doc \<Rightarrow> viewDocumentation P doc | None \<Rightarrow> State_Monad.return ()))
        [''1'', ''2'', ''3'', ''4'', ''5''])"

definition menu_turn :: "platform \<Rightarrow> place \<Rightarrow> (world, place) state" where
  "menu_turn P pl =
     (case pl of
        MainMenu \<Rightarrow> main_turn P
      | KeysMenu \<Rightarrow> handleKeyManagement P
      | AgentMenu \<Rightarrow> handleAgentManagement P
      | SpaMenu \<Rightarrow> handleSPATest P
      | ConfigMenu \<Rightarrow> handleConfiguration P
      | DocsMenu \<Rightarrow> handleDocumentation P
      | Exited \<Rightarrow> State_Monad.return Exited)"

text \<open>The state of the program after some turns, from its start.\<close>

definition menu_start :: "platform \<Rightarrow> world \<Rightarrow> world" where
  "menu_start P w = snd (run_state (do { clearScreen P; put_text (menu_banner P) }) w)"

fun menu_run :: "platform \<Rightarrow> nat \<Rightarrow> place \<times> world \<Rightarrow> place \<times> world" where
  "menu_run P 0 s = s"
| "menu_run P (Suc n) s = menu_run P n (run_state (menu_turn P (fst s)) (snd s))"

end
