(* ===== verification/MenuRuns.thy ===== *)
theory MenuRuns
  imports Menu
begin

text \<open>
  What the menu program does: which programs it runs with which arguments, when it ends, how the answers
  to its questions arrive at the agent, and what becomes of keys and secrets.
\<close>

section \<open>Reasoning about turns\<close>

declare read_line.simps(2) [simp del]

lemma run_put_text [simp]: "run_state (put_text s) w = ((), w\<lparr>wdOut := wdOut w @ s\<rparr>)"
  by (simp add: put_text_def)

lemma run_say [simp]: "run_state (say ls) w = ((), w\<lparr>wdOut := wdOut w @ lf_lines ls\<rparr>)"
  by (simp add: say_def)

lemma run_read_input [simp]:
  "run_state read_input w = (fst (read_line (wdInput w)), w\<lparr>wdInput := snd (read_line (wdInput w))\<rparr>)"
  by (simp add: read_input_def)

lemma run_file_size [simp]: "run_state (file_size path) w = (map_option length (wdFiles w path), w)"
  by (simp add: file_size_def)

lemma trim_space_Nil [simp]: "strings_trim_space [] = []"
  by (simp add: strings_trim_space_def trim_space_with_def trim_right_def)

text \<open>A computation that keeps a property of the world.\<close>

definition keeps :: "(world \<Rightarrow> bool) \<Rightarrow> (world, 'a) state \<Rightarrow> bool" where
  "keeps I m \<longleftrightarrow> (\<forall>w. I w \<longrightarrow> I (snd (run_state m w)))"

named_theorems keeping \<open>computations that keep a property\<close>

lemma keeps_return [keeping]: "keeps I (State_Monad.return x)"
  by (simp add: keeps_def)

lemma keeps_bind [keeping]: "keeps I m \<Longrightarrow> (\<And>x. keeps I (f x)) \<Longrightarrow> keeps I (m \<bind> f)"
  by (auto simp: keeps_def split: prod.splits)

lemma keeps_if [keeping]: "(b \<Longrightarrow> keeps I m) \<Longrightarrow> (\<not> b \<Longrightarrow> keeps I m') \<Longrightarrow> keeps I (if b then m else m')"
  by simp

lemma keeps_option [keeping]: "keeps I m \<Longrightarrow> (\<And>x. keeps I (f x)) \<Longrightarrow> keeps I (case v of None \<Rightarrow> m | Some x \<Rightarrow> f x)"
  by (cases v) simp_all

lemma keeps_sum [keeping]: "(\<And>e. keeps I (f e)) \<Longrightarrow> (\<And>x. keeps I (g x)) \<Longrightarrow> keeps I (case v of Inl e \<Rightarrow> f e | Inr x \<Rightarrow> g x)"
  by (cases v) simp_all

lemma keeps_prod [keeping]: "(\<And>x y. keeps I (f x y)) \<Longrightarrow> keeps I (case v of (x, y) \<Rightarrow> f x y)"
  by (cases v) simp

text \<open>A property of the list of programs that were run.\<close>

abbreviation ran :: "(string list list \<Rightarrow> bool) \<Rightarrow> world \<Rightarrow> bool" where
  "ran Q w \<equiv> Q (wdRan w)"

lemma keeps_ran [keeping]:
  "keeps (ran Q) (put_text s)" "keeps (ran Q) (say ls)" "keeps (ran Q) read_input" "keeps (ran Q) (file_size path)"
  "keeps (ran Q) random_bytes" "keeps (ran Q) (write_text P path s)"
  by (simp_all add: keeps_def random_bytes_def write_text_def split: option.split)

lemma keeps_input [keeping]: "keeps (ran Q) (getUserInput P prompt)" "keeps (ran Q) (getUserInputWithDefault P prompt d)"
  "keeps (ran Q) (pause P)"
  unfolding getUserInput_def getUserInputWithDefault_def pause_def Let_def by (intro keeping)+

lemma keeps_run:
  assumes "\<And>R. Q R \<Longrightarrow> Q (R @ [argv])"
  shows "keeps (ran Q) (run_command P stdin argv)" "keeps (ran Q) (command_output P argv)"
  using assms by (simp_all add: keeps_def run_command_def command_output_def split: prod.split)

section \<open>Which programs it runs\<close>

definition fixed_programs :: "string list set" where
  "fixed_programs = {[''clear''], [''cmd'', ''/c'', ''cls''],
     [''pkill'', ''-f'', ''phantom-grid''], [''taskkill'', ''/F'', ''/IM'', ''phantom-grid.exe''],
     [''pgrep'', ''-f'', ''phantom-grid''], [''tasklist'', ''/FI'', ''IMAGENAME eq phantom-grid.exe''],
     [''ip'', ''link'', ''show''], [''ipconfig''], [''go'', ''run'', ''./cmd/config-gen'']}"

definition viewer_programs :: "string set" where "viewer_programs = {''less'', ''cat'', ''more'', ''notepad''}"

definition client_flags :: "string set" where
  "client_flags = {''server'', ''mode'', ''key'', ''totp'', ''static-token''}"

definition agent_flag_names :: "string set" where
  "agent_flag_names = {''interface'', ''spa-mode'', ''output'', ''spa-static-token'', ''spa-key-dir'', ''elk-address''}"

definition known_program :: "platform \<Rightarrow> string list \<Rightarrow> bool" where
  "known_program P argv \<longleftrightarrow> argv \<in> fixed_programs \<or>
     (\<exists>dir. argv = [''go'', ''run'', ''./cmd/spa-keygen'', ''-dir'', dir, ''-force'']) \<or>
     (\<exists>ps. argv = client_argv ps \<and> fst ` set ps \<subseteq> client_flags) \<or>
     (\<exists>ps. argv = agent_argv P ps \<and> fst ` set ps \<subseteq> agent_flag_names) \<or>
     (\<exists>viewer choice doc. argv = [viewer, doc] \<and> viewer \<in> viewer_programs \<and> document_of choice = Some doc)"

abbreviation only_known :: "platform \<Rightarrow> string list list \<Rightarrow> string list list \<Rightarrow> bool" where
  "only_known P R0 R \<equiv> \<exists>new. R = R0 @ new \<and> list_all (known_program P) new"

lemma keeps_known:
  "known_program P argv \<Longrightarrow> keeps (ran (only_known P R0)) (run_command P' stdin argv)"
  "known_program P argv \<Longrightarrow> keeps (ran (only_known P R0)) (command_output P' argv)"
  by (rule keeps_run, auto)+

lemma known_fixed: "argv \<in> fixed_programs \<Longrightarrow> known_program P argv"
  by (simp add: known_program_def)

lemma keeps_clear [keeping]: "keeps (ran (only_known P R0)) (clearScreen P')"
  unfolding clearScreen_def by (intro keeping keeps_known known_fixed) (simp add: fixed_programs_def)

lemma keeps_stay [keeping]: "keeps I m \<Longrightarrow> keeps I (stay pl m)"
  unfolding stay_def by (intro keeping)

lemma keeps_may_write [keeping]: "keeps (ran Q) (may_write P path q)"
  unfolding may_write_def by (intro keeping)

lemma keeps_find_path [keeping]: "keeps (ran Q) (find_path P what paths)"
proof (induction paths)
  case Nil
  then show ?case unfolding find_path.simps by (intro keeping)
next
  case (Cons p ps)
  show ?case unfolding find_path.simps by (intro keeping Cons)
qed

lemma keeps_keys [keeping]:
  "keeps (ran (only_known P R0)) (generateKeys P')" "keeps (ran Q) (generateTOTPSecret P')"
  "keeps (ran Q) (viewKeyStatus P')" "keeps (ran Q) (copyKeysToClient P')"
proof -
  show "keeps (ran (only_known P R0)) (generateKeys P')"
    unfolding generateKeys_def by (intro keeping keeps_known) (simp_all add: known_program_def)
  show "keeps (ran Q) (generateTOTPSecret P')"
    unfolding generateTOTPSecret_def generateTOTPSecretGo_def Let_def by (intro keeping)
  show "keeps (ran Q) (viewKeyStatus P')"
    unfolding viewKeyStatus_def checkFile_def by (intro keeping)
  show "keeps (ran Q) (copyKeysToClient P')"
    unfolding copyKeysToClient_def by (intro keeping)
qed

lemma keeps_returned:
  assumes "\<And>w. P (fst (run_state m w))" "keeps I m" "\<And>x. P x \<Longrightarrow> keeps I (f x)"
  shows "keeps I (m \<bind> f)"
  using assms by (auto simp: keeps_def split: prod.splits) (metis fst_conv snd_conv)

lemma keeps_answers [keeping]: "keeps (ran Q) (agent_answers P)" "keeps (ran Q) (custom_answers P server)"
  unfolding agent_answers_def custom_answers_def Let_def by (intro keeping)+

text \<open>The flags that answers are given with.\<close>

lemma agent_answers_flags: "fst ` set (snd (fst (run_state (agent_answers P) w))) \<subseteq> agent_flag_names"
  by (auto simp: agent_answers_def agent_flag_names_def Let_def split: prod.splits if_splits)

lemma custom_answers_flags: "fst ` set (fst (run_state (custom_answers P server) w)) \<subseteq> client_flags"
  by (auto simp: custom_answers_def client_flags_def Let_def split: prod.splits if_splits)

lemma keeps_run_agent:
  "fst ` set (snd answers) \<subseteq> agent_flag_names \<Longrightarrow> keeps (ran (only_known P R0)) (run_agent P answers)"
  unfolding run_agent_def Let_def by (intro keeping keeps_known) (auto simp: known_program_def)

lemma keeps_agent [keeping]:
  "keeps (ran (only_known P R0)) (startAgentInteractive P)" "keeps (ran Q) (startAgentBackground P)"
  "keeps (ran (only_known P R0)) (stopAgent P)" "keeps (ran (only_known P R0)) (viewAgentStatus P)"
  "keeps (ran Q) (configureAgent P)"
proof -
  have "keeps (ran (only_known P R0)) (agent_answers P \<bind> run_agent P)"
    by (rule keeps_returned [where P = "\<lambda>r. fst ` set (snd r) \<subseteq> agent_flag_names"])
      (rule agent_answers_flags keeping keeps_run_agent, assumption?)+
  note dialogue = this
  show "keeps (ran (only_known P R0)) (startAgentInteractive P)"
    unfolding startAgentInteractive_def by (rule dialogue | rule keeping)+
  show "keeps (ran Q) (startAgentBackground P)" "keeps (ran Q) (configureAgent P)"
    unfolding startAgentBackground_def configureAgent_def by (intro keeping)+
  show "keeps (ran (only_known P R0)) (stopAgent P)" "keeps (ran (only_known P R0)) (viewAgentStatus P)"
    unfolding stopAgent_def viewAgentStatus_def
    by ((intro keeping keeps_known known_fixed; simp add: fixed_programs_def))+
qed

lemma known_client: "fst ` set ps \<subseteq> client_flags \<Longrightarrow> known_program P (client_argv ps)"
  by (auto simp: known_program_def)

lemma keeps_spa [keeping]:
  "keeps (ran (only_known P R0)) (quickSendSPA P)" "keeps (ran (only_known P R0)) (customSPA P)"
  "keeps (ran (only_known P R0)) (staticSPA P)"
proof -
  show "keeps (ran (only_known P R0)) (quickSendSPA P)" "keeps (ran (only_known P R0)) (staticSPA P)"
    unfolding quickSendSPA_def staticSPA_def Let_def
    by (intro keeping keeps_known known_client; auto simp: client_flags_def split: if_splits)+
  have "keeps (ran (only_known P R0)) (custom_answers P server \<bind> f)"
    if "\<And>ps. fst ` set ps \<subseteq> client_flags \<Longrightarrow> keeps (ran (only_known P R0)) (f ps)" for server f
    by (rule keeps_returned [where P = "\<lambda>r. fst ` set r \<subseteq> client_flags"])
      (rule custom_answers_flags keeping that, assumption?)+
  note dialogue = this
  show "keeps (ran (only_known P R0)) (customSPA P)"
    unfolding customSPA_def by (rule dialogue | rule keeping keeps_known known_client | assumption)+
qed

lemma keeps_configuration [keeping]:
  "keeps (ran Q) (viewProtectedPorts P)" "keeps (ran Q) (viewFakePorts P)"
  "keeps (ran (only_known P' R0)) (regenerateEBPFConfig P)" "keeps (ran (only_known P' R0)) (handleSystemInfo P)"
proof -
  show "keeps (ran Q) (viewProtectedPorts P)" "keeps (ran Q) (viewFakePorts P)"
    unfolding viewProtectedPorts_def viewFakePorts_def by (intro keeping)+
  show "keeps (ran (only_known P' R0)) (regenerateEBPFConfig P)"
    "keeps (ran (only_known P' R0)) (handleSystemInfo P)"
    unfolding regenerateEBPFConfig_def handleSystemInfo_def listNetworkInterfaces_def
    by (intro keeping keeps_known known_fixed; simp add: fixed_programs_def)+
qed

lemma keeps_document: "document_of choice = Some doc \<Longrightarrow> keeps (ran (only_known P R0)) (viewDocumentation P' doc)"
  unfolding viewDocumentation_def
  by (intro keeping keeps_known)
    (auto simp: known_program_def viewer_programs_def find_Some_iff nth_Cons' split: option.split if_splits)

lemma keeps_submenu:
  assumes "\<And>c m. map_of options c = Some m \<Longrightarrow> keeps (ran (only_known P R0)) m"
  shows "keeps (ran (only_known P R0)) (submenu_turn P' here screen options)"
proof -
  have "keeps (ran (only_known P R0)) (case map_of options choice of
       Some m \<Rightarrow> stay here m
     | None \<Rightarrow> if choice = ''0'' then State_Monad.return MainMenu
               else stay here (invalid_option P' ''[!] Invalid option.''))" for choice
    using assms unfolding invalid_option_def by (cases "map_of options choice") (auto intro!: keeping)
  note choices = this
  show ?thesis unfolding submenu_turn_def by (rule choices | rule keeping)+
qed

lemma keeps_turn: "keeps (ran (only_known P R0)) (menu_turn P pl)"
proof (cases pl)
  case MainMenu
  show ?thesis unfolding MainMenu menu_turn_def place.case main_turn_def invalid_option_def by (intro keeping)
next
  case DocsMenu
  show ?thesis
    unfolding DocsMenu menu_turn_def place.case handleDocumentation_def
    by (rule keeps_submenu) (auto split: if_splits option.splits intro: keeping keeps_document)
next
  case Exited
  show ?thesis unfolding Exited menu_turn_def place.case by (intro keeping)
qed (simp add: menu_turn_def handleKeyManagement_def handleAgentManagement_def handleSPATest_def handleConfiguration_def,
     rule keeps_submenu, auto intro: keeping split: if_splits)+

lemma menu_run_Suc: "menu_run P (Suc n) s = run_state (menu_turn P (fst (menu_run P n s))) (snd (menu_run P n s))"
  by (induction n arbitrary: s) simp_all

text \<open>C36. Whatever is typed, the menu program starts no programs but a fixed list, its own commands, and a
  viewer on one of its documents; what the user types reaches them only as the value of a flag of a fixed
  name, never as a flag, a program or part of a shell command.\<close>

theorem menu_runs_known_programs:
  "\<exists>new. wdRan (snd (menu_run P n (pl, w))) = wdRan w @ new \<and> list_all (known_program P) new"
proof (induction n)
  case (Suc n)
  then show ?case
    using keeps_turn [where P = P and ?R0.0 = "wdRan w" and pl = "fst (menu_run P n (pl, w))"]
    unfolding keeps_def menu_run_Suc by blast
qed simp

section \<open>When it ends\<close>

text \<open>The screen is cleared by a program that cannot read.\<close>

definition cleared :: "platform \<Rightarrow> world \<Rightarrow> world" where
  "cleared P w = snd (run_state (clearScreen P) w)"

lemma run_clearScreen [simp]: "run_state (clearScreen P) w = ((), cleared P w)"
  by (simp add: cleared_def prod_eq_iff)

lemma cleared_input [simp]: "wdInput (cleared P w) = wdInput w"
  by (simp add: cleared_def clearScreen_def run_command_def split: prod.split)

lemma run_getUserInput [simp]:
  "run_state (getUserInput P prompt) w =
     (strings_trim_space (fst (read_line (wdInput w))),
      w\<lparr>wdOut := wdOut w @ cyan P prompt, wdInput := snd (read_line (wdInput w))\<rparr>)"
  by (simp add: getUserInput_def)

lemma run_pause: "wdInput (snd (run_state (pause P) w)) = snd (read_line (wdInput w))"
  by (simp add: pause_def)

lemma run_stay [simp]: "run_state (stay pl m) w = (pl, snd (run_state m w))"
  by (simp add: stay_def split: prod.split)

lemma submenu_at_end:
  "wdInput w = [] \<Longrightarrow> map_of options [] = None \<Longrightarrow>
   fst (run_state (submenu_turn P here screen options) w) = here \<and>
   wdInput (snd (run_state (submenu_turn P here screen options) w)) = []"
  by (simp add: submenu_turn_def invalid_option_def run_pause)

lemma turn_at_end:
  "wdInput w = [] \<Longrightarrow> fst (run_state (menu_turn P pl) w) = pl \<and> wdInput (snd (run_state (menu_turn P pl) w)) = []"
proof (cases pl)
  case MainMenu
  assume "wdInput w = []"
  then show ?thesis
    by (simp add: MainMenu menu_turn_def main_turn_def invalid_option_def run_pause)
qed (auto simp: menu_turn_def handleKeyManagement_def handleAgentManagement_def handleSPATest_def
      handleConfiguration_def handleDocumentation_def submenu_at_end)

lemma menu_at_end: "wdInput w = [] \<Longrightarrow> fst (menu_run P n (pl, w)) = pl"
proof (induction n arbitrary: w)
  case (Suc n)
  have "fst (run_state (menu_turn P pl) w) = pl \<and> wdInput (snd (run_state (menu_turn P pl) w)) = []"
    using Suc.prems by (rule turn_at_end)
  then show ?case using Suc.IH [of "snd (run_state (menu_turn P pl) w)"] by (simp add: prod_eq_iff) (metis prod.collapse)
qed simp

lemma run_bind: "run_state (m \<bind> f) w = run_state (f (fst (run_state m w))) (snd (run_state m w))"
  by (simp add: case_prod_beta)

lemma system_info_input: "wdInput (snd (run_state (handleSystemInfo P) w)) = snd (read_line (wdInput w))"
proof -
  have "wdInput (snd (run_state (listNetworkInterfaces P) u)) = wdInput u" for u
    by (simp add: listNetworkInterfaces_def command_output_def split: prod.split)
  moreover have "wdInput (u\<lparr>wdOut := out\<rparr>) = wdInput u" for u :: world and out by simp
  ultimately show ?thesis
    unfolding handleSystemInfo_def run_bind
    by (simp only: run_clearScreen run_say snd_conv run_pause cleared_input)
qed

lemma read_last: "snd (read_line [c]) = []"
  by (simp add: read_line.simps)

text \<open>A line that is typed.\<close>

lemma read_line_typed: "char_of (10 :: nat) \<notin> set l \<Longrightarrow> read_line ((l @ lf) # cs) = (l @ lf, cs)"
proof -
  assume "char_of (10 :: nat) \<notin> set l"
  then have "takeWhile (\<lambda>x. x \<noteq> char_of (10 :: nat)) (l @ lf) = l"
    unfolding lf_def by (subst takeWhile_append2) auto
  moreover have "char_of (10 :: nat) \<in> set (l @ lf)" "l @ lf \<noteq> []" by (simp_all add: lf_def)
  ultimately show ?thesis by (simp only: read_line.simps if_True if_False)
qed

text \<open>C37. A script that is piped into the menu program in one piece never ends it, unless its first line
  does: every question makes a new reader, the first one swallows the whole script, and at the end of the
  input the menus repeat their question without end instead of leaving.\<close>

theorem piped_script_never_ends:
  assumes "wdInput w = [c]" and "strings_trim_space (fst (read_line [c])) \<notin> {''0'', ''q'', ''exit''}"
  shows "fst (menu_run P n (MainMenu, w)) \<noteq> Exited"
proof (cases n)
  case (Suc k)
  let ?s = "run_state (menu_turn P MainMenu) w"
  have "fst ?s \<noteq> Exited \<and> wdInput (snd ?s) = []"
    using assms
    by (simp add: menu_turn_def main_turn_def invalid_option_def run_pause system_info_input)
      (simp add: read_last)
  then show ?thesis
    using menu_at_end [of "snd ?s" P k "fst ?s"] by (simp add: Suc)
qed simp

text \<open>On a terminal two zeros leave the program, in whatever menu it is.\<close>

theorem two_zeros_leave:
  assumes "wdInput w = (''0'' @ lf) # (''0'' @ lf) # rest"
  shows "fst (menu_run P 2 (pl, w)) = Exited"
proof -
  define z where "z = ''0'' @ lf"
  have zero: "strings_trim_space z = ''0''" unfolding z_def by code_simp
  have "char_of (10 :: nat) \<notin> set ''0''" by code_simp
  then have lines: "read_line (z # cs) = (z, cs)" for cs unfolding z_def by (rule read_line_typed)
  have input: "wdInput w = z # z # rest" using assms by (simp add: z_def)
  have leave: "fst (run_state (menu_turn P MainMenu) u) = Exited" if "wdInput u = z # cs" for u cs
    using that zero by (simp add: menu_turn_def main_turn_def lines)
  have sub: "map_of options ''0'' = None \<Longrightarrow> fst (run_state (submenu_turn P here screen options) w) = MainMenu \<and>
      wdInput (snd (run_state (submenu_turn P here screen options) w)) = z # rest" for here screen options
    using input zero by (simp add: submenu_turn_def lines)
  have two: "menu_run P 2 (pl, w) = run_state (menu_turn P (fst (run_state (menu_turn P pl) w))) (snd (run_state (menu_turn P pl) w))"
    by (simp add: numeral_2_eq_2)
  show ?thesis
  proof (cases "pl = MainMenu \<or> pl = Exited")
    case True
    then show ?thesis
    proof
      assume "pl = MainMenu"
      then show ?thesis using leave [OF input] unfolding two by (simp add: menu_turn_def)
    next
      assume "pl = Exited"
      then show ?thesis unfolding two by (simp add: menu_turn_def)
    qed
  next
    case False
    then have "fst (run_state (menu_turn P pl) w) = MainMenu \<and>
        wdInput (snd (run_state (menu_turn P pl) w)) = z # rest"
      by (cases pl) (simp_all add: menu_turn_def handleKeyManagement_def handleAgentManagement_def handleSPATest_def
          handleConfiguration_def handleDocumentation_def sub)
    then show ?thesis unfolding two using leave by simp
  qed
qed

definition example_platform :: platform where
  "example_platform = \<lparr>pfGOOS = ''linux'', pfGOARCH = ''amd64'', pfEuid = 0, pfDevice = False, pfEnv = (\<lambda>_. []),
     pfLookPath = (\<lambda>_. True), pfWriteError = (\<lambda>_. None), pfRun = (\<lambda>argv fs inp. (fs, inp, [], None))\<rparr>"

definition example_world :: "string list \<Rightarrow> world" where
  "example_world input = \<lparr>wdInput = input, wdFiles = Map.empty, wdRandom = (\<lambda>_. Inr (replicate 32 0)), wdOut = [], wdRan = []\<rparr>"

lemma piped_script_never_ends_witness:
  "\<forall>n. fst (menu_run example_platform n (MainMenu, example_world [''1'' @ lf @ ''0'' @ lf @ ''0'' @ lf])) \<noteq> Exited"
proof
  fix n
  define c where "c = ''1'' @ lf @ ''0'' @ lf @ ''0'' @ lf"
  have first: "strings_trim_space (fst (read_line [c])) = ''1''" unfolding c_def by code_simp
  have "strings_trim_space (fst (read_line [c])) \<notin> {''0'', ''q'', ''exit''}" unfolding first by simp
  then have "fst (menu_run example_platform n (MainMenu, example_world [c])) \<noteq> Exited"
    by (rule piped_script_never_ends [rotated]) (simp add: example_world_def)
  then show "fst (menu_run example_platform n (MainMenu, example_world [''1'' @ lf @ ''0'' @ lf @ ''0'' @ lf])) \<noteq> Exited"
    unfolding c_def .
qed

lemma two_zeros_leave_witness:
  "fst (menu_run example_platform 2 (DocsMenu, example_world [''0'' @ lf, ''0'' @ lf])) = Exited"
  by (rule two_zeros_leave [where rest = "[]"]) (simp add: example_world_def)

section \<open>From the answers to the agent\<close>

declare State_Monad.run_state_bind [simp del] run_bind [simp]

text \<open>The answer to a question with a default.\<close>

definition answer :: "string \<Rightarrow> string \<Rightarrow> string" where
  "answer d l = (let t = strings_trim_space (l @ lf) in if t = [] then d else t)"

definition one_line :: "string \<Rightarrow> bool" where
  "one_line l \<longleftrightarrow> char_of (10 :: nat) \<notin> set l"

lemma run_question:
  assumes "one_line l" and "wdInput w = (l @ lf) # cs"
  shows "fst (run_state (getUserInputWithDefault P prompt d) w) = answer d l"
    and "wdInput (snd (run_state (getUserInputWithDefault P prompt d) w)) = cs"
    and "wdFiles (snd (run_state (getUserInputWithDefault P prompt d) w)) = wdFiles w"
    and "wdRan (snd (run_state (getUserInputWithDefault P prompt d) w)) = wdRan w"
    and "wdRandom (snd (run_state (getUserInputWithDefault P prompt d) w)) = wdRandom w"
  using assms read_line_typed [of l cs]
  by (simp_all add: one_line_def getUserInputWithDefault_def answer_def Let_def)

lemma agent_answers_typed:
  assumes lines: "one_line l1" "one_line l2" "one_line l3" "one_line l4"
    and input: "wdInput w = (l1 @ lf) # (l2 @ lf) # (l3 @ lf) # (l4 @ lf) # rest"
    and fifth: "answer ''dashboard'' l3 \<in> {''elk'', ''both''} \<Longrightarrow> one_line l5 \<and> (\<exists>cs. rest = (l5 @ lf) # cs)"
  defines "i \<equiv> answer [] l1" and "m \<equiv> answer ''asymmetric'' l2" and "out \<equiv> answer ''dashboard'' l3"
  shows "snd (fst (run_state (agent_answers P) w)) =
    (if i \<noteq> [] then [(''interface'', i)] else []) @ [(''spa-mode'', m), (''output'', out)] @
    (if m = ''static'' then if answer [] l4 \<noteq> [] then [(''spa-static-token'', answer [] l4)] else []
     else [(''spa-key-dir'', answer ''./keys'' l4)]) @
    (if out = ''elk'' \<or> out = ''both'' then [(''elk-address'', answer ''http://localhost:9200'' l5)] else [])"
proof -
  let ?q = "\<lambda>p d. getUserInputWithDefault P p d"
  let ?w1 = "snd (run_state (?q ''Network interface'' []) w)"
  let ?w2 = "snd (run_state (?q ''SPA mode (static/dynamic/asymmetric)'' ''asymmetric'') ?w1)"
  let ?w3 = "snd (run_state (?q ''Output mode (dashboard/elk/both)'' ''dashboard'') ?w2)"
  note q1 = run_question [OF lines(1) input]
  note q2 = run_question [OF lines(2) q1(2)]
  note q3 = run_question [OF lines(3) q2(2)]
  note q4 = run_question [OF lines(4) q3(2)]
  have q5: "fst (run_state (?q ''Elasticsearch address'' ''http://localhost:9200'') (snd (run_state (?q p d) ?w3))) =
      answer ''http://localhost:9200'' l5" if out: "out = ''elk'' \<or> out = ''both''" for p d
  proof -
    obtain cs where "one_line l5" "rest = (l5 @ lf) # cs" using fifth out unfolding out_def by blast
    then show ?thesis using run_question(1) [of l5 _ cs] q4(2) by simp
  qed
  show ?thesis
    unfolding agent_answers_def run_bind Let_def q1(1) q2(1) q3(1) i_def [symmetric] m_def [symmetric] out_def [symmetric]
    by (cases "m = ''static''"; cases "out = ''elk'' \<or> out = ''both''") (simp_all add: q4(1) q5)
qed

lemma agent_flag_kinds:
  "map_of agent_flag_set ''interface'' = Some (StringFlag [])" "map_of agent_flag_set ''spa-mode'' = Some (StringFlag ''static'')"
  "map_of agent_flag_set ''output'' = Some (StringFlag ''dashboard'')" "map_of agent_flag_set ''spa-static-token'' = Some (StringFlag [])"
  "map_of agent_flag_set ''spa-key-dir'' = Some (StringFlag ''./keys'')"
  "map_of agent_flag_set ''elk-address'' = Some (StringFlag ''http://localhost:9200'')"
  by code_simp+

lemma agent_flags_strings: "n \<in> agent_flag_names \<Longrightarrow> plain_flag_name n \<and> (\<exists>d. map_of agent_flag_set n = Some (StringFlag d))"
  by (auto simp: agent_flag_names_def plain_flag_name_def agent_flag_kinds)

lemma run_agent_ran: "wdRan (snd (run_state (run_agent P answers) w)) = wdRan w @ [agent_argv P (snd answers)]"
  by (simp add: run_agent_def run_command_def pause_def Let_def split: prod.split)

lemma startAgent_ran:
  assumes "pfGOOS P \<noteq> ''windows''"
  shows "\<exists>u. wdInput u = wdInput w \<and>
    wdRan (snd (run_state (startAgentInteractive P) w)) = wdRan w @ [agent_argv P (snd (fst (run_state (agent_answers P) u)))]"
proof -
  have ran: "wdRan (snd (run_state (agent_answers P) u)) = wdRan u" for u
    using keeps_answers(1) [where Q = "\<lambda>R. R = wdRan u" and P = P] by (simp add: keeps_def)
  show ?thesis
    by (rule exI [of _ "w\<lparr>wdOut := wdOut w @ lf_lines [lf @ cyan P ''[*] Starting agent interactively...''] @
         lf_lines (if isRoot P then [] else [yellow P ''[!] Warning: Agent requires root privileges for eBPF/XDP operations.'',
           cyan P ''[*] The command will be run with 'sudo'. You may be prompted for your password.'', []])\<rparr>"])
      (simp add: startAgentInteractive_def assms run_agent_ran ran)
qed

text \<open>C35. What is answered to the menu's questions is what the agent is started with: after the answers are
  typed, one program is run, the agent, as the superuser, and when it parses its arguments every flag the
  menu asked about has the answer, or the default that was offered, whatever characters the answer has: the
  interface, the mode, the output, the token or the key directory, and for an output with Elasticsearch
  the answer to the fifth question, its address; without that question the flag has the agent's default.\<close>

theorem menu_starts_agent_as_answered:
  assumes "pfGOOS P \<noteq> ''windows''"
    and lines: "one_line l1" "one_line l2" "one_line l3" "one_line l4"
    and input: "wdInput w = (l1 @ lf) # (l2 @ lf) # (l3 @ lf) # (l4 @ lf) # rest"
    and fifth: "answer ''dashboard'' l3 \<in> {''elk'', ''both''} \<Longrightarrow> one_line l5 \<and> (\<exists>cs. rest = (l5 @ lf) # cs)"
  shows "\<exists>ps F. wdRan (snd (run_state (startAgentInteractive P) w)) = wdRan w @ [agent_argv P ps] \<and>
    parse_flags agent_flag_set (pair_args ps) = Inr (F, []) \<and>
    flag_string F ''interface'' = answer [] l1 \<and>
    flag_string F ''spa-mode'' = answer ''asymmetric'' l2 \<and>
    flag_string F ''output'' = answer ''dashboard'' l3 \<and>
    (if answer ''asymmetric'' l2 = ''static'' then flag_string F ''spa-static-token'' = answer [] l4
     else flag_string F ''spa-key-dir'' = answer ''./keys'' l4) \<and>
    flag_string F ''elk-address'' =
      (if answer ''dashboard'' l3 \<in> {''elk'', ''both''} then answer ''http://localhost:9200'' l5 else ''http://localhost:9200'')"
proof -
  obtain u where u: "wdInput u = wdInput w"
    "wdRan (snd (run_state (startAgentInteractive P) w)) = wdRan w @ [agent_argv P (snd (fst (run_state (agent_answers P) u)))]"
    using startAgent_ran [OF assms(1)] by blast
  let ?ps = "snd (fst (run_state (agent_answers P) u))"
  let ?F = "set_strings ?ps agent_flag_set"
  have "wdInput u = (l1 @ lf) # (l2 @ lf) # (l3 @ lf) # (l4 @ lf) # rest" using u(1) input by simp
  from agent_answers_typed [OF lines this fifth, of P] have ps: "?ps =
      (if answer [] l1 \<noteq> [] then [(''interface'', answer [] l1)] else []) @
      [(''spa-mode'', answer ''asymmetric'' l2), (''output'', answer ''dashboard'' l3)] @
      (if answer ''asymmetric'' l2 = ''static'' then if answer [] l4 \<noteq> [] then [(''spa-static-token'', answer [] l4)] else []
       else [(''spa-key-dir'', answer ''./keys'' l4)]) @
      (if answer ''dashboard'' l3 = ''elk'' \<or> answer ''dashboard'' l3 = ''both''
       then [(''elk-address'', answer ''http://localhost:9200'' l5)] else [])" by blast
  have "parse_flags agent_flag_set (pair_args ?ps) = Inr (?F, [])"
    using parse_flags_pairs [of ?ps agent_flag_set "[]"] agent_flags_strings agent_answers_flags [of P u] by fastforce
  moreover have "flag_string ?F ''interface'' = answer [] l1"
    by (subst flag_string_set_strings, rule agent_flag_kinds, simp add: ps)
  moreover have "flag_string ?F ''spa-mode'' = answer ''asymmetric'' l2"
    by (subst flag_string_set_strings, rule agent_flag_kinds, simp add: ps)
  moreover have "flag_string ?F ''output'' = answer ''dashboard'' l3"
    by (subst flag_string_set_strings, rule agent_flag_kinds, simp add: ps)
  moreover have "answer ''asymmetric'' l2 = ''static'' \<Longrightarrow> flag_string ?F ''spa-static-token'' = answer [] l4"
    by (subst flag_string_set_strings, rule agent_flag_kinds, simp add: ps)
  moreover have "answer ''asymmetric'' l2 \<noteq> ''static'' \<Longrightarrow> flag_string ?F ''spa-key-dir'' = answer ''./keys'' l4"
    by (subst flag_string_set_strings, rule agent_flag_kinds, simp add: ps)
  moreover have "flag_string ?F ''elk-address'' =
      (if answer ''dashboard'' l3 \<in> {''elk'', ''both''} then answer ''http://localhost:9200'' l5 else ''http://localhost:9200'')"
    by (subst flag_string_set_strings, rule agent_flag_kinds, simp add: ps)
  ultimately show ?thesis using u(2) by (intro exI conjI) auto
qed

lemma menu_starts_agent_as_answered_witness:
  "\<exists>ps F. wdRan (snd (run_state (startAgentInteractive example_platform)
        (example_world [''eth0'' @ lf, lf, ''both'' @ lf, ''-x'' @ lf, ''http://es:9200'' @ lf]))) =
       [agent_argv example_platform ps] \<and>
     parse_flags agent_flag_set (pair_args ps) = Inr (F, []) \<and> flag_string F ''spa-key-dir'' = ''-x'' \<and>
     flag_string F ''elk-address'' = ''http://es:9200''"
proof -
  have one: "one_line ''eth0''" "one_line []" "one_line ''both''" "one_line ''-x''" "one_line ''http://es:9200''"
    unfolding one_line_def by code_simp+
  have answers: "answer ''asymmetric'' [] = ''asymmetric''" "answer ''./keys'' ''-x'' = ''-x''"
    "answer ''dashboard'' ''both'' = ''both''" "answer ''http://localhost:9200'' ''http://es:9200'' = ''http://es:9200''"
    by code_simp+
  have input: "wdInput (example_world [''eth0'' @ lf, lf, ''both'' @ lf, ''-x'' @ lf, ''http://es:9200'' @ lf]) =
      (''eth0'' @ lf) # ([] @ lf) # (''both'' @ lf) # (''-x'' @ lf) # [''http://es:9200'' @ lf]"
    by (simp add: example_world_def)
  have "pfGOOS example_platform \<noteq> ''windows''" "wdRan (example_world cs) = []" for cs
    by (simp_all add: example_platform_def example_world_def)
  then show ?thesis
    using menu_starts_agent_as_answered [OF _ one(1-4) input, of example_platform "''http://es:9200''"] one(5)
    unfolding answers by auto
qed

section \<open>Keys and secrets made by the menu\<close>

lemma run_pause_files [simp]: "wdFiles (snd (run_state (pause P) w)) = wdFiles w"
  by (simp add: pause_def)

lemma keygen_forced:
  "keygen_main True (\<lambda>_. True) (Some (pub, priv)) [''-dir'', dir, ''-force''] fs =
     (fs(path_join dir ''spa_public.key'' \<mapsto> pub, path_join dir ''spa_private.key'' \<mapsto> priv), 0)"
proof -
  have kinds: "map_of keygen_flag_set ''dir'' = Some (StringFlag ''./keys'')" "map_of keygen_flag_set ''force'' = Some (BoolFlag False)"
    "map_of keygen_flag_set ''h'' = Some (BoolFlag False)" "map_of keygen_flag_set ''help'' = Some (BoolFlag False)"
    by code_simp+
  let ?F = "set_flag ''force'' (BoolFlag True) (set_flag ''dir'' (StringFlag dir) keygen_flag_set)"
  have "parse_flags keygen_flag_set [''-dir'', dir, ''-force''] = Inr (?F, [])"
    by (simp add: parse_flags_string [where n = "''dir''", OF _ kinds(1)] plain_flag_name_def map_of_set_flag kinds
        parse_flags_bool [where n = "''force''" and d = False])
  moreover have "flag_bool ?F ''h'' = False" "flag_bool ?F ''help'' = False" "flag_bool ?F ''force'' = True" "flag_string ?F ''dir'' = dir"
    by (simp_all add: flag_bool_def flag_string_def map_of_set_flag kinds)
  ultimately show ?thesis
    by (simp add: keygen_main_def spa_keygen_def SaveKeysToFile_def Let_def)
qed

text \<open>What starting the key generator does is what its \<^verbatim>\<open>main\<close> does, here with a file system that can be
  written and a random generator that works.\<close>

definition runs_keygen :: "platform \<Rightarrow> bytes \<Rightarrow> bytes \<Rightarrow> bool" where
  "runs_keygen P pub priv \<longleftrightarrow> (\<forall>dir fs inp. fst (pfRun P [''go'', ''run'', ''./cmd/spa-keygen'', ''-dir'', dir, ''-force''] fs inp) =
     fst (keygen_main True (\<lambda>_. True) (Some (pub, priv)) [''-dir'', dir, ''-force''] fs))"

text \<open>Before it makes a new pair of keys the menu asks about the public key only: where just the private
  key exists, it is overwritten without a question, although the answer to one would have been typed next.\<close>

theorem private_key_overwritten_unasked:
  assumes "runs_keygen P pub priv" and "one_line l" "wdInput w = (l @ lf) # rest"
    and "wdFiles w (path_join (answer ''./keys'' l) ''spa_public.key'') = None"
    and "wdFiles w (path_join (answer ''./keys'' l) ''spa_private.key'') = Some old"
  shows "wdFiles (snd (run_state (generateKeys P) w)) (path_join (answer ''./keys'' l) ''spa_private.key'') = Some priv \<and>
    wdInput (snd (run_state (generateKeys P) w)) = snd (read_line rest)"
proof -
  let ?q = "getUserInputWithDefault P ''Key directory'' ''./keys''"
  let ?u = "w\<lparr>wdOut := wdOut w @ lf_lines [lf @ cyan P ''[*] Generating Ed25519 key pair...'']\<rparr>"
  have "wdInput ?u = (l @ lf) # rest" using assms(3) by simp
  note q = run_question [OF assms(2) this]
  let ?dir = "answer ''./keys'' l"
  have ask: "run_state (may_write P (path_join ?dir ''spa_public.key'') s) (snd (run_state ?q ?u)) = (True, snd (run_state ?q ?u))" for s
    using assms(4) by (simp add: may_write_def q(3))
  obtain fs inp outp err where run: "pfRun P [''go'', ''run'', ''./cmd/spa-keygen'', ''-dir'', ?dir, ''-force''] (wdFiles w) [] = (fs, inp, outp, err)"
    by (metis prod_cases4)
  then have fs: "fs = (wdFiles w)(path_join ?dir ''spa_public.key'' \<mapsto> pub, path_join ?dir ''spa_private.key'' \<mapsto> priv)"
    using assms(1) unfolding runs_keygen_def keygen_forced by (metis fst_conv)
  show ?thesis
    unfolding generateKeys_def run_bind run_say fst_conv snd_conv q(1) ask
    by (simp add: run_command_def q(2,3) run run_pause fs)
qed

definition keygen_platform :: platform where
  "keygen_platform = example_platform\<lparr>pfRun := (\<lambda>argv fs inp.
     (fst (keygen_main True (\<lambda>_. True) (Some ([1], [2])) [''-dir'', argv ! 4, ''-force''] fs), inp, [], None))\<rparr>"

lemma private_key_overwritten_unasked_witness:
  "wdFiles (snd (run_state (generateKeys keygen_platform)
     ((example_world [lf, ''n'' @ lf])\<lparr>wdFiles := [path_join ''./keys'' ''spa_private.key'' \<mapsto> [9]]\<rparr>)))
     (path_join ''./keys'' ''spa_private.key'') = Some [2]"
proof -
  have dir: "answer ''./keys'' [] = ''./keys''" by code_simp
  have "runs_keygen keygen_platform [1] [2]" by (simp add: runs_keygen_def keygen_platform_def)
  moreover have "one_line []" by (simp add: one_line_def)
  ultimately show ?thesis
    using private_key_overwritten_unasked [of keygen_platform "[1]" "[2]" "[]"
        "(example_world [lf, ''n'' @ lf])\<lparr>wdFiles := [path_join ''./keys'' ''spa_private.key'' \<mapsto> [9]]\<rparr>" "[''n'' @ lf]" "[9]"]
      key_paths(1) [of "''./keys''"]
    unfolding dir by (simp add: example_world_def)
qed

text \<open>Text in base64 has no white space and no zero byte.\<close>

lemma base64_char_code: "n < 64 \<Longrightarrow> (43 :: nat) \<le> of_char (base64_char n)"
  by (auto simp: base64_char_def)

lemma base64_codes: "c \<in> set (base64_encode bs) \<Longrightarrow> (43 :: nat) \<le> of_char c"
proof (induction bs rule: base64_encode.induct)
  case (2 a)
  have "unat a < 256" using unsigned_less [of a] by simp
  then have "unat a * 16 div 64 < 64" "unat a * 16 mod 64 < 64" by simp_all
  then show ?case using 2 by (auto simp: Let_def base64_char_code)
next
  case (3 a b)
  have "unat a < 256" "unat b < 256" using unsigned_less [of a] unsigned_less [of b] by simp_all
  then have "(unat a * 1024 + unat b * 4) div 4096 < 64" by simp
  then show ?case using 3 by (auto simp: Let_def base64_char_code)
next
  case (4 a b c bs)
  have "unat a < 256" "unat b < 256" "unat c < 256" using unsigned_less [of a] unsigned_less [of b] unsigned_less [of c] by simp_all
  then have "(unat a * 65536 + unat b * 256 + unat c) div 262144 < 64" by simp
  then show ?case using 4 by (auto simp: Let_def base64_char_code)
qed simp

lemma length_base64: "length (base64_encode bs) = 4 * ((length bs + 2) div 3)"
proof (induction bs rule: base64_encode.induct)
  case (4 a b c bs)
  have "(length (a # b # c # bs) + 2) div 3 = Suc ((length bs + 2) div 3)"
    using div_add_self2 [of 3 "length bs + 2"] by (simp add: add.commute)
  then show ?case using 4 by (simp add: Let_def)
qed (simp_all add: Let_def)

lemma base64_trims:
  "client_trim (bytes_of_string (base64_encode bs)) = bytes_of_string (base64_encode bs)"
  "server_trim (bytes_of_string (base64_encode bs)) = bytes_of_string (base64_encode bs)"
proof -
  let ?t = "bytes_of_string (base64_encode bs)"
  have "b \<notin> {0x0a, 0x0d, 0}" if b: "b \<in> set ?t" for b
  proof -
    obtain c where c: "c \<in> set (base64_encode bs)" "b = word_of_nat (of_char c)"
      using b unfolding bytes_of_string_def set_map by blast
    have "unat b = of_char c"
      using nat_of_char_less_256 [of c] by (simp add: c(2) unat_of_nat)
    then have "43 \<le> unat b" using base64_codes [OF c(1)] by simp
    then show ?thesis by auto
  qed
  then have "?t = [] \<or> last ?t \<notin> {0x0a, 0x0d, 0}" using last_in_set by blast
  then show "client_trim ?t = ?t" "server_trim ?t = ?t"
    by (auto simp: client_trim_def server_trim_def trim_right_set_id)
qed

text \<open>A TOTP secret made by the menu is one client and agent agree on: the file holds 44 characters of
  base64, and both sides read exactly these, unlike the files the scripts and Windows tools leave.\<close>

theorem menu_totp_secret_agrees:
  assumes "one_line l" "wdInput w = (l @ lf) # rest" and "wdRandom w 0 = Inr bs" "length bs = 32"
    and "wdFiles w (path_join (answer ''./keys'' l) ''totp_secret.txt'') = None"
    and "pfWriteError P (path_join (answer ''./keys'' l) ''totp_secret.txt'') = None"
  shows "\<exists>t. wdFiles (snd (run_state (generateTOTPSecret P) w)) (path_join (answer ''./keys'' l) ''totp_secret.txt'') = Some t \<and>
    length t = 44 \<and> client_trim t = t \<and> server_trim t = t"
proof -
  let ?q = "getUserInputWithDefault P ''Key directory'' ''./keys''"
  let ?u = "w\<lparr>wdOut := wdOut w @ lf_lines [lf @ cyan P ''[*] Generating TOTP secret...'']\<rparr>"
  have "wdInput ?u = (l @ lf) # rest" using assms(2) by simp
  note q = run_question [OF assms(1) this]
  let ?path = "path_join (answer ''./keys'' l) ''totp_secret.txt''"
  have ask: "run_state (may_write P ?path s) (snd (run_state ?q ?u)) = (True, snd (run_state ?q ?u))" for s
    using assms(5) by (simp add: may_write_def q(3))
  have "wdFiles (snd (run_state (generateTOTPSecret P) w)) ?path = Some (bytes_of_string (base64_encode bs))"
    unfolding generateTOTPSecret_def generateTOTPSecretGo_def Let_def run_bind run_say fst_conv snd_conv q(1) ask
    by (simp add: random_bytes_def write_text_def q(3,5) assms(3,6))
  then show ?thesis
    using assms(4) by (intro exI [of _ "bytes_of_string (base64_encode bs)"]) (simp add: base64_trims length_base64)
qed

lemma menu_totp_secret_agrees_witness:
  "\<exists>t. wdFiles (snd (run_state (generateTOTPSecret example_platform) (example_world [lf])))
      (path_join ''./keys'' ''totp_secret.txt'') = Some t \<and> length t = 44"
proof -
  have dir: "answer ''./keys'' [] = ''./keys''" by code_simp
  have "one_line []" by (simp add: one_line_def)
  then show ?thesis
    using menu_totp_secret_agrees [of "[]" "example_world [lf]" "[]" "replicate 32 0" example_platform]
    unfolding dir by (auto simp: example_world_def example_platform_def)
qed

end
