(* ===== verification/WebAccess.thy ===== *)
theory WebAccess
  imports Webdash
begin

text \<open>
  Who can change what in the dashboard (theory \<open>Webdash\<close>): the state each handler can touch, the
  invariant that users are filed under their names, where sessions come from in a run, what a
  change of password does across a restart, and what the public paths let anyone do.
\<close>

section \<open>Which handler changes what\<close>

lemmas handler_defs =
  handleLogin_def handleLogout_def handlePassword_def handleSettings_def handleFleetTelemetry_def
  handleFleetLogs_def broadcastRawLog_def

lemma Authenticate_users [simp]: "users (fst (Authenticate am rnd now u p)) = users am"
  "usersFile (fst (Authenticate am rnd now u p)) = usersFile am"
  by (simp_all add: Authenticate_def Let_def split: option.splits)

lemma ChangePassword_sessions [simp]: "sessions (fst (ChangePassword ord w am u p q)) = sessions am"
  by (simp add: ChangePassword_def saveUsers_def split: option.splits)

lemma Logout_users [simp]: "users (Logout am t) = users am" "usersFile (Logout am t) = usersFile am"
  by (simp_all add: Logout_def)

lemma route_settings:
  assumes "wSettings (fst (route ops we s ctx r b)) \<noteq> wSettings s"
  shows "rPath r = ''/api/settings'' \<and> rMethod r = MethodPost \<and>
     (\<exists>u st. ctx = Some u \<and> Role u = RoleAdmin \<and> bSettings b = Some st)"
  using assms
  by (auto simp: route_def handler_defs Let_def split: if_splits option.splits prod.splits sum.splits)

lemma route_sessions_new:
  assumes "fmlookup (sessions (wAuth (fst (route ops we s ctx r b)))) t = Some x"
    and "fmlookup (sessions (wAuth s)) t \<noteq> Some x"
  shows "rPath r = ''/api/auth/login'' \<and> rMethod r = MethodPost \<and> t = hex_encode (weRandom we) \<and>
     (\<exists>u p usr. bLogin b = Some (u, p) \<and> fmlookup (users (wAuth s)) u = Some usr \<and>
        Password usr = HashPassword p \<and> x = \<lparr>sUsername = u, sExpiresAt = weNow we + session_length\<rparr>)"
  using assms
  by (auto simp: route_def handler_defs Let_def Authenticate_def Logout_def ChangePassword_def saveUsers_def
      split: if_splits option.splits prod.splits sum.splits)

text \<open>A request that changes anything has passed the middleware.\<close>

lemma serve_changed:
  assumes "f (fst (serve ops we s r b)) \<noteq> f s"
  obtains ctx where "AuthMiddleware (wAuth s) (weNow we) r = Next ctx" "serve ops we s r b = route ops we s ctx r b"
  using assms by (auto simp: serve_def mux_def split: gate.splits if_splits)

lemma AuthMiddleware_user:
  assumes "AuthMiddleware am now r = Next (Some u)"
  obtains c n where "rCookie r = Some c" "ValidateToken am now c = Inr n" "fmlookup (users am) n = Some u"
  using assms by (auto simp: AuthMiddleware_def GetUser_def split: if_splits option.splits sum.splits)

lemma ValidateToken_Inr:
  "ValidateToken am now c = Inr n \<longleftrightarrow>
     (\<exists>x. fmlookup (sessions am) c = Some x \<and> now \<le> sExpiresAt x \<and> n = sUsername x)"
  by (auto simp: ValidateToken_def split: option.splits)

section \<open>Users are filed under their names\<close>

definition users_keyed :: "auth_manager \<Rightarrow> bool" where
  "users_keyed am \<longleftrightarrow> fmpred (\<lambda>k u. Username u = k) (users am)"

lemma users_keyed_iff:
  "users_keyed am \<longleftrightarrow> (\<forall>k u. fmlookup (users am) k = Some u \<longrightarrow> Username u = k)"
  by (simp add: users_keyed_def fmpred_iff)

lemma users_keyedD: "users_keyed am \<Longrightarrow> fmlookup (users am) k = Some u \<Longrightarrow> Username u = k"
  by (simp add: users_keyed_iff)

lemma fold_users:
  "fmlookup (foldl (\<lambda>m u. fmupd (Username u) u m) m us) k =
     (case find (\<lambda>u. Username u = k) (rev us) of None \<Rightarrow> fmlookup m k | Some u \<Rightarrow> Some u)"
  by (induction us arbitrary: m rule: rev_induct) (auto split: option.splits)

lemma loadUsers_keyed: "users_keyed am \<Longrightarrow> users_keyed (loadUsers am)"
  by (auto simp: users_keyed_iff loadUsers_def fold_users find_Some_iff split: option.splits)

lemma NewAuthManager_keyed: "users_keyed (NewAuthManager ord w file)"
proof -
  have "users_keyed (loadUsers \<lparr>users = fmempty, sessions = fmempty, usersFile = file\<rparr>)"
    by (rule loadUsers_keyed) (simp add: users_keyed_iff)
  then show ?thesis
    by (auto simp: NewAuthManager_def saveUsers_def users_keyed_iff Let_def)
qed

lemma ChangePassword_keyed: "users_keyed am \<Longrightarrow> users_keyed (fst (ChangePassword ord w am u p q))"
  by (auto simp: ChangePassword_def saveUsers_def users_keyed_iff split: option.splits)

lemma cleanupSessions_users [simp]: "users (cleanupSessions am now) = users am"
  by (simp add: cleanupSessions_def)

lemma broadcastLogs_auth [simp]: "wAuth (broadcastLogs s e) = wAuth s"
  by (cases "(s, e)" rule: broadcastLogs.cases) (auto split: list.splits)

lemma handleLogs_auth [simp]: "wAuth (fst (handleLogs c s)) = wAuth s"
  by (auto simp: handleLogs_def split: option.splits list.splits)

lemma unchanged_auth [simp]:
  "wAuth (fst (handleSettings we s ctx r b)) = wAuth s"
  "wAuth (fst (handleFleetTelemetry ops we s r b)) = wAuth s"
  "wAuth (fst (handleFleetLogs s r b)) = wAuth s"
  by (simp_all add: handler_defs split: option.splits prod.splits)

lemma handleLogin_auth:
  "wAuth (fst (handleLogin we s r b)) =
     (if rMethod r = MethodPost \<and> bLogin b \<noteq> None
      then fst (Authenticate (wAuth s) (weRandom we) (weNow we) (fst (the (bLogin b))) (snd (the (bLogin b))))
      else wAuth s)"
  by (simp add: handleLogin_def split: option.splits prod.splits sum.splits)

lemma handleLogout_auth:
  "wAuth (fst (handleLogout s r)) = (case rCookie r of None \<Rightarrow> wAuth s | Some c \<Rightarrow> Logout (wAuth s) c)"
  by (simp add: handleLogout_def split: option.splits)

lemma handlePassword_auth:
  "wAuth (fst (handlePassword we s ctx r b)) =
     (if rMethod r = MethodPost \<and> ctx \<noteq> None \<and> bPassword b \<noteq> None
      then fst (ChangePassword (weOrder we) (weUsersDisk we) (wAuth s) (Username (the ctx))
                  (fst (the (bPassword b))) (snd (the (bPassword b))))
      else wAuth s)"
  by (simp add: handlePassword_def split: option.splits prod.splits sum.splits)

text \<open>Three routes change users or sessions.\<close>

lemma route_auth:
  "wAuth (fst (route ops we s ctx r b)) =
     (if rPath r = ''/api/auth/login'' then wAuth (fst (handleLogin we s r b))
      else if rPath r = ''/api/auth/logout'' then wAuth (fst (handleLogout s r))
      else if rPath r = ''/api/auth/password'' then wAuth (fst (handlePassword we s ctx r b))
      else wAuth s)"
  by (simp add: route_def Let_def)

lemma route_auth_cases:
  obtains (same) "wAuth (fst (route ops we s ctx r b)) = wAuth s"
  | (login) u p where "rPath r = ''/api/auth/login''" "rMethod r = MethodPost" "bLogin b = Some (u, p)"
      "wAuth (fst (route ops we s ctx r b)) = fst (Authenticate (wAuth s) (weRandom we) (weNow we) u p)"
  | (logout) c where "rPath r = ''/api/auth/logout''" "rCookie r = Some c"
      "wAuth (fst (route ops we s ctx r b)) = Logout (wAuth s) c"
  | (password) u p q where "rPath r = ''/api/auth/password''" "rMethod r = MethodPost" "ctx = Some u"
      "bPassword b = Some (p, q)"
      "wAuth (fst (route ops we s ctx r b)) =
         fst (ChangePassword (weOrder we) (weUsersDisk we) (wAuth s) (Username u) p q)"
proof (cases "rPath r = ''/api/auth/login''")
  case True
  then show thesis
    using same login
    by (cases "rMethod r = MethodPost"; cases "bLogin b") (auto simp: route_auth handleLogin_auth)
next
  case nologin: False
  show thesis
  proof (cases "rPath r = ''/api/auth/logout''")
    case True
    then show thesis
      using same logout by (cases "rCookie r") (auto simp: route_auth handleLogout_auth)
  next
    case False
    then show thesis
      using nologin same password
      by (cases "rPath r = ''/api/auth/password'' \<and> rMethod r = MethodPost"; cases ctx; cases "bPassword b")
        (auto simp: route_auth handlePassword_auth)
  qed
qed

lemma web_step_keyed: "users_keyed (wAuth s) \<Longrightarrow> users_keyed (wAuth (web_step ops s e))"
proof (cases e)
  case (Request we r b)
  assume k: "users_keyed (wAuth s)"
  show ?thesis
  proof (cases "wAuth (fst (serve ops we s r b)) = wAuth s")
    case False
    then obtain ctx where "serve ops we s r b = route ops we s ctx r b"
      by (rule serve_changed)
    then show ?thesis
      using k Request ChangePassword_keyed
      by (cases rule: route_auth_cases [of ops we s ctx r b]) (simp_all add: users_keyed_def)
  qed (use k Request in simp)
qed (simp_all add: users_keyed_iff)

lemma web_run_keyed: "users_keyed (wAuth s) \<Longrightarrow> users_keyed (wAuth (web_run ops s es))"
  unfolding web_run_def by (induction es arbitrary: s) (simp_all add: web_step_keyed)

section \<open>Examples\<close>

text \<open>A database kept as a list, a server as it is first started, and a request from its administrator.\<close>

definition list_fleet :: "agent_telemetry list fleet_db" where
  "list_fleet = \<lparr>
     db_save = (\<lambda>d t. Some (filter (\<lambda>x. AgentID x \<noteq> AgentID t) d @ [t])),
     db_find = (\<lambda>d. d),
     db_first = (\<lambda>d k. find (\<lambda>x. AgentID x = k) d)\<rparr>"

lemma find_filter_append:
  "find P (filter Q xs @ ys) = (case find P (filter Q xs) of None \<Rightarrow> find P ys | Some x \<Rightarrow> Some x)"
  by (induction xs) auto

lemma find_filter_other: "(\<And>x. P x \<Longrightarrow> Q x) \<Longrightarrow> find P (filter Q xs) = find P xs"
  by (induction xs) auto

lemma find_filter_same: "find (\<lambda>x. f x = k) (filter (\<lambda>x. f x \<noteq> k) xs) = None"
  by (auto simp: find_None_iff)

lemma list_fleet_laws: "fleet_laws list_fleet"
  by (auto simp: fleet_laws_def list_fleet_def find_filter_append find_filter_same find_filter_other
      split: option.splits)

definition admin_user :: user where
  "admin_user = \<lparr>Username = ''admin'', Password = HashPassword ''admin'', Role = RoleAdmin\<rparr>"

definition fresh_server :: "agent_telemetry list web_server" where
  "fresh_server = \<lparr>
     wAuth = NewAuthManager (\<lambda>_. [admin_user]) Written None, wSettings = None, wFleet = [],
     wExternalLogs = [], wClients = fmempty\<rparr>"

definition quiet_env :: "int \<Rightarrow> web_env" where
  "quiet_env now = \<lparr>
     weNow = now, weRandom = replicate 32 7, weOrder = (\<lambda>_. [admin_user]), weUsersDisk = Written,
     weSettingsDisk = Written, weStats = None, weKey = Some (replicate 64 1), weCerts = True\<rparr>"

definition request_to :: "string \<Rightarrow> string \<Rightarrow> string option \<Rightarrow> request" where
  "request_to path meth cookie =
     \<lparr>rPath = path, rMethod = meth, rCookie = cookie, rQuery = (\<lambda>_. []), rRemoteAddr = ''192.0.2.9:4711''\<rparr>"

definition empty_body :: body where
  "empty_body = \<lparr>bLogin = None, bPassword = None, bSettings = None, bTelemetry = None, bLog = None\<rparr>"

definition admin_login :: event where
  "admin_login = Request (quiet_env 0) (request_to ''/api/auth/login'' MethodPost None)
                   (empty_body\<lparr>bLogin := Some (''admin'', ''admin'')\<rparr>)"

definition admin_token :: string where
  "admin_token = hex_encode (replicate 32 7)"

lemmas example_defs = fresh_server_def quiet_env_def request_to_def empty_body_def admin_login_def
  NewAuthManager_def loadUsers_def saveUsers_def

lemma clean_paths:
  "clean_path ''/api/auth/login'' = ''/api/auth/login''"
  "clean_path ''/api/auth/logout'' = ''/api/auth/logout''"
  "clean_path ''/api/auth/password'' = ''/api/auth/password''"
  "clean_path ''/api/settings'' = ''/api/settings''"
  "clean_path ''/api/fleet/telemetry'' = ''/api/fleet/telemetry''"
  "clean_path ''/api/fleet/provision'' = ''/api/fleet/provision''"
  by code_simp+

lemma public_paths:
  "public_path ''/api/auth/login''" "\<not> public_path ''/api/auth/password''" "\<not> public_path ''/api/settings''"
  "public_path ''/api/fleet/telemetry''" "public_path ''/api/fleet/provision''"
  by code_simp+

text \<open>The state after the administrator has logged in with the default password at time 0.\<close>

lemma admin_logged_in:
  "wAuth (web_run list_fleet fresh_server [admin_login]) =
     \<lparr>users = fmupd ''admin'' admin_user fmempty,
      sessions = fmupd admin_token \<lparr>sUsername = ''admin'', sExpiresAt = session_length\<rparr> fmempty,
      usersFile = Some [admin_user]\<rparr>"
  by (simp add: web_run_def example_defs serve_def AuthMiddleware_def public_paths mux_def clean_paths
      route_def handleLogin_def Authenticate_def Let_def MethodPost_def admin_user_def admin_token_def write_file_def)

section \<open>Settings\<close>

text \<open>Only a POST to the settings by a session of a user whose role is administrator changes the
  settings, and it writes the settings of its body.\<close>

theorem settings_changed_by_admin:
  assumes "wSettings (fst (serve ops we s r b)) \<noteq> wSettings s"
  shows "rPath r = ''/api/settings'' \<and> rMethod r = MethodPost \<and>
     (\<exists>c n u st. rCookie r = Some c \<and> ValidateToken (wAuth s) (weNow we) c = Inr n \<and>
        fmlookup (users (wAuth s)) n = Some u \<and> Role u = RoleAdmin \<and>
        bSettings b = Some st \<and> wSettings (fst (serve ops we s r b)) = write_file (weSettingsDisk we) st)"
proof -
  obtain ctx where gate: "AuthMiddleware (wAuth s) (weNow we) r = Next ctx"
    and srv: "serve ops we s r b = route ops we s ctx r b"
    using serve_changed [of wSettings, OF assms] .
  have "wSettings (fst (route ops we s ctx r b)) \<noteq> wSettings s"
    using assms srv by simp
  from route_settings [OF this] obtain u st where r: "rPath r = ''/api/settings''" "rMethod r = MethodPost"
    "ctx = Some u" "Role u = RoleAdmin" "bSettings b = Some st"
    by auto
  then have "wSettings (fst (route ops we s ctx r b)) = write_file (weSettingsDisk we) st"
    by (simp add: route_def handleSettings_def SaveSettings_def MethodPost_def MethodGet_def)
  then show ?thesis
    using r srv gate AuthMiddleware_user [of "wAuth s" "weNow we" r u] by metis
qed

text \<open>The administrator posts settings and a new password.\<close>

definition after_login :: "agent_telemetry list web_server" where
  "after_login = web_run list_fleet fresh_server [admin_login]"

lemma admin_gate:
  "\<not> public_path path \<Longrightarrow>
   AuthMiddleware (wAuth after_login) 0 (request_to path m (Some admin_token)) = Next (Some admin_user)"
  by (simp add: after_login_def admin_logged_in AuthMiddleware_def request_to_def ValidateToken_def session_length_def
      GetUser_def)

lemma admin_posts_settings:
  "wSettings (fst (serve list_fleet (quiet_env 0) after_login
     (request_to ''/api/settings'' MethodPost (Some admin_token)) (empty_body\<lparr>bSettings := Some DefaultSettings\<rparr>)))
   = Some DefaultSettings"
  using admin_gate [of "''/api/settings''" MethodPost]
  by (simp add: serve_def quiet_env_def public_paths mux_def request_to_def clean_paths route_def handleSettings_def
      MethodPost_def MethodGet_def admin_user_def SaveSettings_def write_file_def empty_body_def)

lemma after_login_settings: "wSettings after_login = None"
  by (simp add: after_login_def web_run_def example_defs serve_def AuthMiddleware_def public_paths mux_def clean_paths
      route_def handleLogin_def Authenticate_def Let_def MethodPost_def split: option.splits)

theorem settings_changed_by_admin_witness:
  "\<exists>c n u. rCookie (request_to ''/api/settings'' MethodPost (Some admin_token)) = Some c
     \<and> ValidateToken (wAuth after_login) (weNow (quiet_env 0)) c = Inr n
     \<and> fmlookup (users (wAuth after_login)) n = Some u \<and> Role u = RoleAdmin"
  using settings_changed_by_admin [of list_fleet "quiet_env 0" after_login
      "request_to ''/api/settings'' MethodPost (Some admin_token)" "empty_body\<lparr>bSettings := Some DefaultSettings\<rparr>"]
  unfolding admin_posts_settings after_login_settings by blast

text \<open>C22. A request leaves all users as they are, or it is a POST to the password page, which
  changes nothing but the password of the user whose session it carries, to the new password, when
  the old one is right.\<close>

theorem users_changed_by_owner:
  assumes keyed: "users_keyed (wAuth s)"
  shows "users (wAuth (fst (serve ops we s r b))) = users (wAuth s) \<or>
     rPath r = ''/api/auth/password'' \<and> rMethod r = MethodPost \<and>
     (\<exists>c n u p q. rCookie r = Some c \<and> ValidateToken (wAuth s) (weNow we) c = Inr n \<and>
        fmlookup (users (wAuth s)) n = Some u \<and> bPassword b = Some (p, q) \<and> Password u = HashPassword p \<and>
        users (wAuth (fst (serve ops we s r b))) = fmupd n (u\<lparr>Password := HashPassword q\<rparr>) (users (wAuth s)))"
proof (cases "users (wAuth (fst (serve ops we s r b))) = users (wAuth s)")
  case changed: False
  obtain ctx where gate: "AuthMiddleware (wAuth s) (weNow we) r = Next ctx"
    and srv: "serve ops we s r b = route ops we s ctx r b"
    using serve_changed [of "\<lambda>s. users (wAuth s)", OF changed] .
  show ?thesis
  proof (cases rule: route_auth_cases [of ops we s ctx r b])
    case (password u p q)
    obtain c n where s: "rCookie r = Some c" "ValidateToken (wAuth s) (weNow we) c = Inr n"
      "fmlookup (users (wAuth s)) n = Some u"
      using gate password(3) AuthMiddleware_user by metis
    have "Username u = n"
      using keyed s(3) by (rule users_keyedD)
    then show ?thesis
      using password s changed srv
      by (auto simp: ChangePassword_def saveUsers_def split: if_splits)
  qed (use changed srv in simp_all)
qed simp

lemma admin_changes_password:
  "users (wAuth (fst (serve list_fleet (quiet_env 0) after_login
     (request_to ''/api/auth/password'' MethodPost (Some admin_token))
     (empty_body\<lparr>bPassword := Some (''admin'', ''s3cret'')\<rparr>))))
   = fmupd ''admin'' (admin_user\<lparr>Password := HashPassword ''s3cret''\<rparr>) fmempty"
  using admin_gate [of "''/api/auth/password''" MethodPost]
  by (simp add: serve_def quiet_env_def public_paths mux_def request_to_def clean_paths route_def handlePassword_def
      MethodPost_def empty_body_def ChangePassword_def after_login_def admin_logged_in saveUsers_def admin_user_def)

lemma after_login_keyed: "users_keyed (wAuth after_login)"
  by (simp add: after_login_def admin_logged_in users_keyed_iff admin_user_def)

theorem users_changed_by_owner_witness:
  "fmupd ''admin'' (admin_user\<lparr>Password := HashPassword ''s3cret''\<rparr>) fmempty = users (wAuth after_login) \<or>
   (\<exists>c n u p q. rCookie (request_to ''/api/auth/password'' MethodPost (Some admin_token)) = Some c
     \<and> fmlookup (users (wAuth after_login)) n = Some u \<and> Password u = HashPassword p
     \<and> fmupd ''admin'' (admin_user\<lparr>Password := HashPassword ''s3cret''\<rparr>) fmempty
         = fmupd n (u\<lparr>Password := HashPassword q\<rparr>) (users (wAuth after_login)))"
  using users_changed_by_owner [OF after_login_keyed, of list_fleet "quiet_env 0"
      "request_to ''/api/auth/password'' MethodPost (Some admin_token)"
      "empty_body\<lparr>bPassword := Some (''admin'', ''s3cret'')\<rparr>"]
  unfolding admin_changes_password by blast

text \<open>A login: the body names a user and the right password, and the token is the random bytes.\<close>

definition login_as :: "auth_manager \<Rightarrow> web_env \<Rightarrow> request \<Rightarrow> body \<Rightarrow> string \<Rightarrow> string \<Rightarrow> bool" where
  "login_as am we r b u token \<longleftrightarrow>
     rPath r = ''/api/auth/login'' \<and> rMethod r = MethodPost \<and> token = hex_encode (weRandom we) \<and>
     (case bLogin b of
        None \<Rightarrow> False
      | Some (n, p) \<Rightarrow>
          n = u \<and> (case fmlookup (users am) n of None \<Rightarrow> False | Some usr \<Rightarrow> Password usr = HashPassword p))"

lemma web_step_sessions:
  assumes new: "fmlookup (sessions (wAuth (web_step ops s e))) t = Some x"
    and old: "fmlookup (sessions (wAuth s)) t \<noteq> Some x"
  obtains we r b where "e = Request we r b" "login_as (wAuth s) we r b (sUsername x) t"
    "sExpiresAt x = weNow we + session_length"
proof (cases e)
  case (Request we r b)
  then obtain ctx where "serve ops we s r b = route ops we s ctx r b"
    using serve_changed [of "\<lambda>s. fmlookup (sessions (wAuth s)) t" ops we s r b] new old by auto
  then have "fmlookup (sessions (wAuth (fst (route ops we s ctx r b)))) t = Some x"
    using new Request by simp
  from route_sessions_new [OF this old] show ?thesis
    using Request that by (auto simp: login_as_def)
qed (use new old in \<open>auto simp: cleanupSessions_def split: if_splits\<close>)

lemma session_origin:
  assumes "fmlookup (sessions (wAuth (web_run ops s es))) t = Some x" "fmlookup (sessions (wAuth s)) t = None"
  shows "\<exists>pre we r b post. es = pre @ Request we r b # post \<and>
     login_as (wAuth (web_run ops s pre)) we r b (sUsername x) t \<and> sExpiresAt x = weNow we + session_length"
  using assms(1)
proof (induction es rule: rev_induct)
  case Nil
  then show ?case using assms(2) by (simp add: web_run_def)
next
  case (snoc e es)
  have run: "web_run ops s (es @ [e]) = web_step ops (web_run ops s es) e"
    by (simp add: web_run_def)
  show ?case
  proof (cases "fmlookup (sessions (wAuth (web_run ops s es))) t = Some x")
    case True
    then obtain pre we r b post where "es = pre @ Request we r b # post"
      "login_as (wAuth (web_run ops s pre)) we r b (sUsername x) t" "sExpiresAt x = weNow we + session_length"
      using snoc.IH by blast
    then show ?thesis by (intro exI [of _ pre] exI [of _ we] exI [of _ r] exI [of _ b] exI [of _ "post @ [e]"]) simp
  next
    case False
    obtain we r b where "e = Request we r b" "login_as (wAuth (web_run ops s es)) we r b (sUsername x) t"
      "sExpiresAt x = weNow we + session_length"
      using web_step_sessions [OF snoc.prems [unfolded run] False] by blast
    then show ?thesis by (intro exI [of _ es] exI [of _ we] exI [of _ r] exI [of _ b] exI [of _ "[]"]) simp
  qed
qed

text \<open>A request that is turned away: 401, or the redirection to the login page, and nothing has changed.\<close>

definition turned_away :: "'d web_server \<Rightarrow> 'd web_server \<times> response \<Rightarrow> bool" where
  "turned_away s a \<longleftrightarrow> a = (s, Status 401) \<or> a = (s, Status 302)"

lemma serve_let_in:
  assumes "\<not> turned_away s (serve ops we s r b)" "\<not> public_path (rPath r)"
  obtains c x u where "rCookie r = Some c" "fmlookup (sessions (wAuth s)) c = Some x" "weNow we \<le> sExpiresAt x"
    "fmlookup (users (wAuth s)) (sUsername x) = Some u"
proof (cases "AuthMiddleware (wAuth s) (weNow we) r")
  case (Next ctx)
  have "ctx \<noteq> None"
    using Next assms(2) unfolding AuthMiddleware_def by (auto split: option.splits sum.splits if_splits dest: sym)
  with Next obtain u where "AuthMiddleware (wAuth s) (weNow we) r = Next (Some u)" by auto
  then show thesis
    using AuthMiddleware_user that unfolding ValidateToken_Inr by metis
qed (use assms(1) in \<open>simp_all add: serve_def turned_away_def\<close>)

text \<open>C20. In every run of a server that starts without sessions: a request that is not turned away, for a
  path other than the login page, the login, the metrics and what is below \<^verbatim>\<open>/api/fleet/\<close>, carries
  the token of a session that is still in the table, whose user still exists, and that an earlier login
  of that user with the password then filed has made at most 24 hours before. Every other request for
  such a path is answered with 401 or sent to the login page, and changes nothing.\<close>

theorem serve_needs_session:
  assumes start: "sessions (wAuth s) = fmempty"
    and path: "rPath r \<notin> {''/login'', ''/api/auth/login'', ''/metrics''}" "take 11 (rPath r) \<noteq> ''/api/fleet/''"
    and let_in: "\<not> turned_away (web_run ops s es) (serve ops we (web_run ops s es) r b)"
  shows "\<exists>c x u pre we' r' b' post. rCookie r = Some c \<and>
     fmlookup (sessions (wAuth (web_run ops s es))) c = Some x \<and>
     fmlookup (users (wAuth (web_run ops s es))) (sUsername x) = Some u \<and>
     es = pre @ Request we' r' b' # post \<and>
     login_as (wAuth (web_run ops s pre)) we' r' b' (sUsername x) c \<and>
     weNow we \<le> weNow we' + session_length"
proof -
  have "length ''/api/fleet/'' = 11" by simp
  then have "\<not> public_path (rPath r)" using path unfolding public_path_def by (metis insertCI)
  with let_in obtain c x u where c: "rCookie r = Some c" "fmlookup (sessions (wAuth (web_run ops s es))) c = Some x"
    "weNow we \<le> sExpiresAt x" "fmlookup (users (wAuth (web_run ops s es))) (sUsername x) = Some u"
    by (rule serve_let_in)
  moreover have "fmlookup (sessions (wAuth s)) c = None" using start by simp
  ultimately show ?thesis using session_origin [OF c(2)] by metis
qed

lemma serve_needs_session_witness:
  "\<exists>c x u pre we' r' b' post. Some admin_token = Some c \<and>
     fmlookup (sessions (wAuth (web_run list_fleet fresh_server [admin_login]))) c = Some x \<and>
     fmlookup (users (wAuth (web_run list_fleet fresh_server [admin_login]))) (sUsername x) = Some u \<and>
     [admin_login] = pre @ Request we' r' b' # post \<and>
     login_as (wAuth (web_run list_fleet fresh_server pre)) we' r' b' (sUsername x) c \<and> 0 \<le> weNow we' + session_length"
proof -
  let ?r = "request_to ''/api/settings'' MethodPost (Some admin_token)"
    and ?b = "empty_body\<lparr>bSettings := Some DefaultSettings\<rparr>"
  have fresh: "sessions (wAuth fresh_server) = fmempty" by (simp add: example_defs Let_def)
  have "\<not> turned_away (web_run list_fleet fresh_server [admin_login])
     (serve list_fleet (quiet_env 0) (web_run list_fleet fresh_server [admin_login]) ?r ?b)"
    using admin_posts_settings after_login_settings by (auto simp: turned_away_def after_login_def)
  then show ?thesis
    using serve_needs_session [OF fresh, of ?r list_fleet "[admin_login]" "quiet_env 0" ?b]
    by (simp add: request_to_def quiet_env_def)
qed

text \<open>C19. In every run of a server that starts without sessions, a token is good for a user only if
  the random bytes of an earlier login of that user, with the password filed then, gave the token, and
  only until 24 hours after that login.\<close>

theorem session_from_login:
  assumes "sessions (wAuth s) = fmempty"
    and "ValidateToken (wAuth (web_run ops s es)) now token = Inr u"
  shows "\<exists>pre we r b post. es = pre @ Request we r b # post \<and>
     login_as (wAuth (web_run ops s pre)) we r b u token \<and> now \<le> weNow we + session_length"
proof -
  obtain x where "fmlookup (sessions (wAuth (web_run ops s es))) token = Some x" "now \<le> sExpiresAt x" "u = sUsername x"
    using assms(2) by (auto simp: ValidateToken_Inr)
  moreover have "fmlookup (sessions (wAuth s)) token = None"
    using assms(1) by simp
  ultimately show ?thesis
    using session_origin [of ops s es token x] by metis
qed

lemma after_login_valid:
  "ValidateToken (wAuth (web_run list_fleet fresh_server [admin_login])) 0 admin_token = Inr ''admin''"
  by (simp add: admin_logged_in ValidateToken_def session_length_def)

lemma fresh_sessions: "sessions (wAuth fresh_server) = fmempty"
  by (simp add: example_defs Let_def)

theorem session_from_login_witness:
  "\<exists>pre we r b post. [admin_login] = pre @ Request we r b # post \<and>
     login_as (wAuth (web_run list_fleet fresh_server pre)) we r b ''admin'' admin_token \<and> 0 \<le> weNow we + session_length"
  by (rule session_from_login [OF fresh_sessions after_login_valid])

section \<open>Passwords across a restart\<close>

lemma find_rev_set:
  assumes "set us = fmran' m" "\<And>k u. fmlookup m k = Some u \<Longrightarrow> Username u = k"
  shows "find (\<lambda>u. Username u = k) (rev us) = fmlookup m k"
proof (cases "find (\<lambda>u. Username u = k) (rev us)")
  case None
  then have "\<forall>u \<in> fmran' m. Username u \<noteq> k"
    using assms(1) by (auto simp: find_None_iff)
  then show ?thesis
    using None assms(2) by (cases "fmlookup m k") (auto dest: fmran'I)
next
  case (Some u)
  then have "u \<in> fmran' m" "Username u = k"
    using assms(1) by (auto simp: find_Some_iff) (metis nth_mem rev_nth length_rev set_rev)
  then show ?thesis
    using Some assms(2) by (auto elim: fmran'E)
qed

text \<open>A manager that starts on a file that lists the users of another one has the same users.\<close>

lemma NewAuthManager_users:
  assumes "users_keyed am" "set us = fmran' (users am)" "fmlookup (users am) ''admin'' \<noteq> None"
  shows "users (NewAuthManager ord w (Some us)) = users am" "sessions (NewAuthManager ord w (Some us)) = fmempty"
proof -
  have "foldl (\<lambda>m u. fmupd (Username u) u m) fmempty us = users am"
  proof (rule fmap_ext)
    show "fmlookup (foldl (\<lambda>m u. fmupd (Username u) u m) fmempty us) k = fmlookup (users am) k" for k
      using find_rev_set [OF assms(2), of k] assms(1) by (simp add: fold_users users_keyedD split: option.splits)
  qed
  then show "users (NewAuthManager ord w (Some us)) = users am" "sessions (NewAuthManager ord w (Some us)) = fmempty"
    using assms(3) by (auto simp: NewAuthManager_def loadUsers_def Let_def saveUsers_def)
qed

text \<open>C23. After a change of password that was written to the file, the manager started on that file
  has the same users with the new password, so exactly the passwords with the new password's hash log the
  user in. The change itself ends no session; the restart ends them all.\<close>

theorem password_survives_restart:
  assumes "users_keyed am" "fmlookup (users am) ''admin'' \<noteq> None"
    and "ChangePassword ord Written am u p q = (am', Inr ())"
    and "set (ord (users am')) = fmran' (users am')"
    and "am2 = NewAuthManager ord2 w (usersFile am')"
  shows "\<exists>usr. fmlookup (users am) u = Some usr \<and> Password usr = HashPassword p \<and>
     users am2 = fmupd u (usr\<lparr>Password := HashPassword q\<rparr>) (users am) \<and>
     (\<forall>x rnd now. snd (Authenticate am2 rnd now u x) = Inr (hex_encode rnd) \<longleftrightarrow> HashPassword x = HashPassword q) \<and>
     sessions am' = sessions am \<and> sessions am2 = fmempty"
proof -
  obtain usr where usr: "fmlookup (users am) u = Some usr" "Password usr = HashPassword p"
    and am': "users am' = fmupd u (usr\<lparr>Password := HashPassword q\<rparr>) (users am)"
      "usersFile am' = Some (ord (users am'))" "sessions am' = sessions am"
    using assms(3) by (auto simp: ChangePassword_def saveUsers_def write_file_def split: option.splits if_splits)
  have "users_keyed am'"
    using ChangePassword_keyed [OF assms(1)] assms(3) by (metis fst_conv)
  moreover have "fmlookup (users am') ''admin'' \<noteq> None"
    using assms(2) am' by simp
  ultimately have new: "users am2 = users am'" "sessions am2 = fmempty"
    using NewAuthManager_users assms(4,5) am'(2) by metis+
  then have "\<forall>x rnd now. snd (Authenticate am2 rnd now u x) = Inr (hex_encode rnd) \<longleftrightarrow> HashPassword x = HashPassword q"
    using am' by (auto simp: Authenticate_def Let_def)
  then show ?thesis
    using usr am' new by auto
qed

lemma fmran'_single: "fmran' (fmupd k v fmempty) = {v}"
  by (auto elim!: fmran'E intro: fmran'I split: if_splits)

definition changed_user :: user where
  "changed_user = admin_user\<lparr>Password := HashPassword ''s3cret''\<rparr>"

lemma admin_change:
  "ChangePassword (\<lambda>_. [changed_user]) Written (wAuth after_login) ''admin'' ''admin'' ''s3cret'' =
     ((wAuth after_login)\<lparr>users := fmupd ''admin'' changed_user fmempty, usersFile := Some [changed_user]\<rparr>, Inr ())"
  by (simp add: after_login_def admin_logged_in ChangePassword_def saveUsers_def write_file_def admin_user_def
      changed_user_def)

theorem password_survives_restart_witness:
  "\<exists>usr. fmlookup (users (wAuth after_login)) ''admin'' = Some usr \<and> Password usr = HashPassword ''admin'' \<and>
     users (NewAuthManager (\<lambda>_. []) Written (Some [changed_user]))
       = fmupd ''admin'' (usr\<lparr>Password := HashPassword ''s3cret''\<rparr>) (users (wAuth after_login))"
proof -
  let ?am' = "(wAuth after_login)\<lparr>users := fmupd ''admin'' changed_user fmempty, usersFile := Some [changed_user]\<rparr>"
  have "fmlookup (users (wAuth after_login)) ''admin'' \<noteq> None" "set [changed_user] = fmran' (users ?am')"
    "NewAuthManager (\<lambda>_. []) Written (Some [changed_user]) = NewAuthManager (\<lambda>_. []) Written (usersFile ?am')"
    by (simp_all add: after_login_def admin_logged_in fmran'_single)
  then show ?thesis
    using password_survives_restart [OF after_login_keyed _ admin_change, of "NewAuthManager (\<lambda>_. []) Written (Some [changed_user])"
        "\<lambda>_. []" Written]
    by blast
qed

section \<open>What anyone can do\<close>

text \<open>Without any session, whoever can reach the dashboard replaces what it knows and shows of an
  agent, the counters of the other agents staying as they are, and is handed a freshly made private key.\<close>

theorem fleet_open_to_all:
  assumes laws: "fleet_laws ops"
    and post: "rPath r = ''/api/fleet/telemetry''" "rMethod r = MethodPost" "bTelemetry b = Some t"
    and saved: "db_save ops (wFleet s) (t\<lparr>IP := rRemoteAddr r, LastSeen := weNow we\<rparr>) = Some d"
    and query: "rQuery q ''agent'' = a" "a \<noteq> []"
    and provision: "rPath r' = ''/api/fleet/provision''" "weKey we' = Some sk" "weCerts we'"
  shows "serve ops we s r b = (s\<lparr>wFleet := d\<rparr>, Status 200) \<and>
     handleStats ops we' (s\<lparr>wFleet := d\<rparr>) q =
       (if a = AgentID t then StatsJSON (DroppedPackets t) (AuthSuccess t) (AuthFailed t)
        else handleStats ops we' s q) \<and>
     serve ops we' s r' b' = (s, ProvisionJSON sk)"
proof (intro conjI)
  show "serve ops we s r b = (s\<lparr>wFleet := d\<rparr>, Status 200)"
    using post saved by (simp add: serve_def AuthMiddleware_def public_paths mux_def clean_paths route_def
        handleFleetTelemetry_def RegisterAgent_def)
  have "db_first ops d (AgentID t) = Some (t\<lparr>IP := rRemoteAddr r, LastSeen := weNow we\<rparr>)"
    "k \<noteq> AgentID t \<Longrightarrow> db_first ops d k = db_first ops (wFleet s) k" for k
    using laws saved unfolding fleet_laws_def by force+
  then show "handleStats ops we' (s\<lparr>wFleet := d\<rparr>) q =
       (if a = AgentID t then StatsJSON (DroppedPackets t) (AuthSuccess t) (AuthFailed t)
        else handleStats ops we' s q)"
    using query by (simp add: handleStats_def GetAgent_def Let_def)
  show "serve ops we' s r' b' = (s, ProvisionJSON sk)"
    using provision by (simp add: serve_def AuthMiddleware_def public_paths mux_def clean_paths route_def
        handleProvisionAccess_def)
qed

definition false_report :: agent_telemetry where
  "false_report = \<lparr>AgentID = ''edge-1'', IP = [], DroppedPackets = 0, AuthSuccess = 9, AuthFailed = 0, LastSeen = 0\<rparr>"

theorem fleet_open_to_all_witness:
  "serve list_fleet (quiet_env 5) fresh_server (request_to ''/api/fleet/telemetry'' MethodPost None)
      (empty_body\<lparr>bTelemetry := Some false_report\<rparr>)
     = (fresh_server\<lparr>wFleet := [false_report\<lparr>IP := ''192.0.2.9:4711'', LastSeen := 5\<rparr>]\<rparr>, Status 200) \<and>
   serve list_fleet (quiet_env 5) fresh_server (request_to ''/api/fleet/provision'' MethodGet None) empty_body
     = (fresh_server, ProvisionJSON (replicate 64 1))"
  using fleet_open_to_all [OF list_fleet_laws, of "request_to ''/api/fleet/telemetry'' MethodPost None"
      "empty_body\<lparr>bTelemetry := Some false_report\<rparr>" false_report fresh_server "quiet_env 5"
      "[false_report\<lparr>IP := ''192.0.2.9:4711'', LastSeen := 5\<rparr>]"
      "request_to [] [] None \<lparr>rQuery := \<lambda>_. ''edge-1''\<rparr>" "''edge-1''"
      "request_to ''/api/fleet/provision'' MethodGet None" "quiet_env 5" "replicate 64 1" empty_body]
  by (simp add: request_to_def quiet_env_def empty_body_def fresh_server_def list_fleet_def)

end
