(* ===== verification/Fleet.thy ===== *)
theory Fleet
  imports WebAccess Json GoText
begin

text \<open>
  \<^verbatim>\<open>internal/agent/fleet_client.go\<close>: the agent that reports to a fleet manager, whose handlers are
  those of \<^verbatim>\<open>Webdash\<close>. The HTTP library takes a message to the path of its URL; the decoder of the
  manager is the part of \<^verbatim>\<open>encoding/json\<close> that reads what the client writes: an object of strings
  and numbers. Strings are bytes, and one that is not valid UTF-8 is altered on the way.
\<close>

section \<open>The client\<close>

record fleet_client =
  fcFleetURL :: string
  fcAgentID :: string

definition json_object :: "(string \<times> string) list \<Rightarrow> string" where
  "json_object kvs = ''{'' @ join_with '','' (map (\<lambda>(k, v). json_quote k @ '':'' @ v) kvs) @ ''}''"

text \<open>One tick of \<^verbatim>\<open>telemetryLoop\<close>: the address and the body that are posted. The keys of a map are
  written in order. Without kernel programs, or where a look-up fails, a counter is zero.\<close>

definition telemetry_body :: "fleet_client \<Rightarrow> ebpf_stats option \<Rightarrow> string" where
  "telemetry_body fc stats =
     (let (dropped, authSuccess, authFailed) =
        (case stats of
           None \<Rightarrow> (0, 0, 0)
         | Some st \<Rightarrow> (stat (esDropped st), stat (esAuthSuccess st), stat (esAuthFailed st)))
      in json_object [
           (''agent_id'', json_quote (fcAgentID fc)),
           (''auth_failed'', show_nat (unat authFailed)),
           (''auth_success'', show_nat (unat authSuccess)),
           (''dropped_packets'', show_nat (unat dropped))])"

definition telemetryLoop :: "fleet_client \<Rightarrow> ebpf_stats option \<Rightarrow> string \<times> string" where
  "telemetryLoop fc stats = (fcFleetURL fc @ ''/api/fleet/telemetry'', telemetry_body fc stats)"

text \<open>\<^verbatim>\<open>logLoop\<close> on one message.\<close>

definition logLoop :: "fleet_client \<Rightarrow> string \<Rightarrow> string \<times> string" where
  "logLoop fc msg =
     (fcFleetURL fc @ ''/api/fleet/logs'',
      json_object [(''agent_id'', json_quote (fcAgentID fc)), (''message'', json_quote msg)])"

section \<open>Reading JSON\<close>

definition hex_digit :: "char \<Rightarrow> nat option" where
  "hex_digit c =
     (let n = of_char c
      in if 48 \<le> n \<and> n \<le> 57 then Some (n - 48)
         else if 97 \<le> n \<and> n \<le> 102 then Some (n - 87)
         else if 65 \<le> n \<and> n \<le> 70 then Some (n - 55) else None)"

fun hex_value :: "nat \<Rightarrow> string \<Rightarrow> nat option" where
  "hex_value n [] = Some n"
| "hex_value n (c # cs) = (case hex_digit c of None \<Rightarrow> None | Some d \<Rightarrow> hex_value (16 * n + d) cs)"

definition simple_escape :: "char \<Rightarrow> char option" where
  "simple_escape c =
     map_of [(ch_quote, ch_quote), (ch_backslash, ch_backslash), (CHR ''/'', CHR ''/''), (CHR ''b'', char_of (8 :: nat)),
       (CHR ''f'', char_of (12 :: nat)), (CHR ''n'', ch_newline), (CHR ''r'', char_of (13 :: nat)), (CHR ''t'', char_of (9 :: nat))] c"

text \<open>The replacement character, and the UTF-8 bytes of a character below U+10000 that is no surrogate; the
  encoder writes no surrogates.\<close>

definition replacement :: string where
  "replacement = map char_of [0xEF, 0xBF, 0xBD :: nat]"

definition utf8_encode :: "nat \<Rightarrow> string option" where
  "utf8_encode n =
     (if n < 0x80 then Some [char_of n]
      else if n < 0x800 then Some [char_of (0xC0 + n div 64), char_of (0x80 + n mod 64)]
      else if 0xD800 \<le> n \<and> n < 0xE000 then None
      else Some [char_of (0xE0 + n div 4096), char_of (0x80 + n div 64 mod 64), char_of (0x80 + n mod 64)])"

text \<open>The text up to the closing quote, and what follows it.\<close>

function json_text :: "string \<Rightarrow> (string \<times> string) option" where
  "json_text [] = None"
| "json_text (c # cs) =
     (if c = ch_quote then Some ([], cs)
      else if c = ch_backslash then
        (case cs of
           [] \<Rightarrow> None
         | e # r \<Rightarrow>
             if e = CHR ''u'' then
               (case hex_value 0 (take 4 r) of
                  None \<Rightarrow> None
                | Some n \<Rightarrow>
                    if length r < 4 then None
                    else case utf8_encode n of
                           None \<Rightarrow> None
                         | Some u \<Rightarrow> map_option (apfst (append u)) (json_text (drop 4 r)))
             else (case simple_escape e of
                     None \<Rightarrow> None
                   | Some d \<Rightarrow> map_option (apfst (Cons d)) (json_text r)))
      else if of_char c < (32 :: nat) then None
      else if of_char c < (128 :: nat) then map_option (apfst (Cons c)) (json_text cs)
      else if utf8_len (c # cs) = 0 then map_option (apfst (append replacement)) (json_text cs)
      else map_option (apfst (append (take (utf8_len (c # cs)) (c # cs)))) (json_text (drop (utf8_len (c # cs)) (c # cs))))"
  by pat_completeness auto
termination
  by (relation "measure length") auto

declare json_text.simps(2) [simp del]

text \<open>What arrives of a string: a byte that starts no valid UTF-8 sequence becomes the replacement character.\<close>

function valid_utf8 :: "string \<Rightarrow> string" where
  "valid_utf8 [] = []"
| "valid_utf8 (c # cs) =
     (if of_char c < (0x80 :: nat) then c # valid_utf8 cs
      else if utf8_len (c # cs) = 0 then replacement @ valid_utf8 cs
      else take (utf8_len (c # cs)) (c # cs) @ valid_utf8 (drop (utf8_len (c # cs)) (c # cs)))"
  by pat_completeness auto
termination
  by (relation "measure length") auto

declare valid_utf8.simps(2) [simp del]

datatype json_value = JText string | JNumber nat

definition read_value :: "string \<Rightarrow> (json_value \<times> string) option" where
  "read_value s =
     (case s of
        [] \<Rightarrow> None
      | c # cs \<Rightarrow>
          if c = ch_quote then map_option (apfst JText) (json_text cs)
          else (let ds = takeWhile is_digit s
                in if ds = [] then None else Some (JNumber (digits_value ds), drop (length ds) s)))"

text \<open>The members of an object, at most \<open>fuel\<close> of them.\<close>

fun json_members :: "nat \<Rightarrow> string \<Rightarrow> (string \<times> json_value) list option" where
  "json_members 0 s = None"
| "json_members (Suc fuel) s =
     (case read_value s of
        Some (JText k, c # r) \<Rightarrow>
          (if c \<noteq> CHR '':'' then None
           else case read_value r of
                  Some (v, d # r') \<Rightarrow>
                    (if d = CHR '','' then map_option (Cons (k, v)) (json_members fuel r')
                     else if d = CHR ''}'' \<and> r' = [] then Some [(k, v)] else None)
                | _ \<Rightarrow> None)
      | _ \<Rightarrow> None)"

definition json_decode :: "string \<Rightarrow> (string \<times> json_value) list option" where
  "json_decode s = (case s of [] \<Rightarrow> None | c # r \<Rightarrow> if c = CHR ''{'' then json_members (length r) r else None)"

text \<open>A field of a struct: its value if it is there and of the right type, the zero value if it is not there.\<close>

definition text_field :: "(string \<times> json_value) list \<Rightarrow> string \<Rightarrow> string option" where
  "text_field ms k = (case map_of ms k of None \<Rightarrow> Some [] | Some (JText s) \<Rightarrow> Some s | _ \<Rightarrow> None)"

definition u64_field :: "(string \<times> json_value) list \<Rightarrow> string \<Rightarrow> u64 option" where
  "u64_field ms k =
     (case map_of ms k of
        None \<Rightarrow> Some 0
      | Some (JNumber n) \<Rightarrow> if n < 2 ^ 64 then Some (of_nat n) else None
      | _ \<Rightarrow> None)"

definition decode_telemetry :: "string \<Rightarrow> agent_telemetry option" where
  "decode_telemetry s =
     (case json_decode s of
        None \<Rightarrow> None
      | Some ms \<Rightarrow>
          (case (text_field ms ''agent_id'', u64_field ms ''dropped_packets'', u64_field ms ''auth_success'',
                 u64_field ms ''auth_failed'') of
             (Some i, Some d, Some a, Some f) \<Rightarrow>
               Some \<lparr>AgentID = i, IP = [], DroppedPackets = d, AuthSuccess = a, AuthFailed = f, LastSeen = 0\<rparr>
           | _ \<Rightarrow> None))"

definition decode_log :: "string \<Rightarrow> (string \<times> string) option" where
  "decode_log s =
     (case json_decode s of
        None \<Rightarrow> None
      | Some ms \<Rightarrow>
          (case (text_field ms ''agent_id'', text_field ms ''message'') of
             (Some i, Some m) \<Rightarrow> Some (i, m)
           | _ \<Rightarrow> None))"

section \<open>Delivery\<close>

text \<open>The path of an URL: what follows the host.\<close>

definition url_path :: "string \<Rightarrow> string" where
  "url_path url =
     (case str_index url ''://'' of
        None \<Rightarrow> url
      | Some i \<Rightarrow> dropWhile (\<lambda>c. c \<noteq> CHR ''/'') (drop (i + 3) url))"

text \<open>A message is posted without a cookie; the client looks at no answer.\<close>

definition deliver :: "'d fleet_db \<Rightarrow> web_env \<Rightarrow> string \<Rightarrow> 'd web_server \<Rightarrow> string \<times> string \<Rightarrow> 'd web_server \<times> response" where
  "deliver ops we remote s msg =
     serve ops we s
       \<lparr>rPath = url_path (fst msg), rMethod = MethodPost, rCookie = None, rQuery = (\<lambda>_. []), rRemoteAddr = remote\<rparr>
       \<lparr>bLogin = None, bPassword = None, bSettings = None,
        bTelemetry = decode_telemetry (snd msg), bLog = decode_log (snd msg)\<rparr>"

section \<open>What is written is what is read\<close>

lemma hex_digit_char: "hex_digit (hex_char n) = Some (n mod 16)"
proof -
  have "\<forall>m \<in> set [0..<16]. hex_digit (''0123456789abcdef'' ! m) = Some m" by code_simp
  moreover have "n mod 16 \<in> set [0..<16]" by (simp only: set_upt atLeastLessThan_iff) simp
  ultimately show ?thesis unfolding hex_char_def by blast
qed

lemma hex_value_u: "n < 128 \<Longrightarrow> hex_value 0 (''00'' @ [hex_char (n div 16), hex_char n]) = Some n"
proof -
  assume "n < 128"
  then have "n div 16 < 16" by simp
  moreover have "hex_digit (CHR ''0'') = Some 0" by (simp add: hex_digit_def)
  ultimately show ?thesis by (simp add: hex_digit_char)
qed

lemma json_text_escape:
  assumes "of_char c < (128 :: nat)"
  shows "json_text (escape_ascii c @ r) = map_option (apfst (Cons c)) (json_text r)"
proof -
  note json_text.simps(2) [simp]
  have different: "ch_backslash \<noteq> ch_quote" "CHR ''n'' \<noteq> CHR ''u''" by code_simp+
  have simple: "simple_escape ch_quote = Some ch_quote" "simple_escape ch_backslash = Some ch_backslash"
    "simple_escape (CHR ''n'') = Some ch_newline" "simple_escape (CHR ''r'') = Some (char_of (13 :: nat))"
    "simple_escape (CHR ''t'') = Some (char_of (9 :: nat))" "ch_quote \<noteq> CHR ''u''" "ch_backslash \<noteq> CHR ''u''"
    by code_simp+
  show ?thesis
  proof (cases "html_safe c")
    case True
    then have "c \<noteq> ch_quote" "c \<noteq> ch_backslash" "\<not> of_char c < (32 :: nat)" "\<not> 128 \<le> (of_char c :: nat)"
      by (auto simp: html_safe_def byte_in_def)
    then show ?thesis using True by (simp add: escape_ascii_def)
  next
    case unsafe: False
    consider "c = ch_backslash \<or> c = ch_quote" | "c \<noteq> ch_backslash" "c \<noteq> ch_quote" "c = ch_newline"
      | "c \<noteq> ch_backslash" "c \<noteq> ch_quote" "c \<noteq> ch_newline" "of_char c = (13 :: nat)"
      | "c \<noteq> ch_backslash" "c \<noteq> ch_quote" "c \<noteq> ch_newline" "of_char c = (9 :: nat)"
      | "c \<noteq> ch_backslash" "c \<noteq> ch_quote" "c \<noteq> ch_newline" "of_char c \<noteq> (13 :: nat)" "of_char c \<noteq> (9 :: nat)"
      by blast
    then show ?thesis
    proof cases
      case 1
      then show ?thesis using unsafe different simple by (auto simp: escape_ascii_def)
    next
      case 2
      then show ?thesis using unsafe different simple by (simp add: escape_ascii_def)
    next
      case 3
      then have "c = char_of (13 :: nat)" by (metis char_of_char)
      then show ?thesis using 3 unsafe different simple by (simp add: escape_ascii_def)
    next
      case 4
      then have "c = char_of (9 :: nat)" by (metis char_of_char)
      then show ?thesis using 4 unsafe different simple by (simp add: escape_ascii_def)
    next
      case 5
      then have "escape_ascii c = u_escape (of_char c)" using unsafe by (simp add: escape_ascii_def)
      moreover have "apfst (append [c]) = (apfst (Cons c) :: string \<times> string \<Rightarrow> string \<times> string)"
        by (simp add: fun_eq_iff)
      ultimately show ?thesis
        using assms different hex_value_u [OF assms] by (simp add: u_escape_def utf8_encode_def)
    qed
  qed
qed

text \<open>Only the first bytes of a sequence say how long it is.\<close>

lemma utf8_len_take: "0 < utf8_len s \<Longrightarrow> utf8_len (take (utf8_len s) s @ t) = utf8_len s"
  by (cases s; cases "tl s"; cases "tl (tl s)"; cases "tl (tl (tl s))")
    (auto simp: utf8_len_def split: if_splits)

lemma utf8_len_length: "utf8_len s \<le> length s"
  by (auto simp: utf8_len_def split: list.splits)

text \<open>A multi-byte sequence is read as it is.\<close>

lemma json_text_seq:
  assumes "128 \<le> (of_char c :: nat)" "0 < utf8_len (c # cs)"
  shows "json_text (take (utf8_len (c # cs)) (c # cs) @ r) =
    map_option (apfst (append (take (utf8_len (c # cs)) (c # cs)))) (json_text r)"
proof -
  let ?n = "utf8_len (c # cs)"
  obtain m where n: "?n = Suc m" using assms(2) by (cases ?n) simp_all
  have "of_char ch_quote < (128 :: nat)" "of_char ch_backslash < (128 :: nat)" by code_simp+
  then have c: "c \<noteq> ch_quote" "c \<noteq> ch_backslash" "\<not> of_char c < (32 :: nat)" "\<not> of_char c < (128 :: nat)"
    using assms(1) by auto
  have len: "utf8_len (c # take m cs @ r) = Suc m" using utf8_len_take [OF assms(2), of r] by (simp add: n)
  have "length (take m cs) = m" using utf8_len_length [of "c # cs"] by (simp add: n)
  then show ?thesis by (simp add: n json_text.simps(2) c len)
qed

lemma json_text_u:
  assumes "hex_value 0 h = Some n" "length h = 4" "utf8_encode n = Some u"
  shows "json_text (ch_backslash # CHR ''u'' # h @ r) = map_option (apfst (append u)) (json_text r)"
proof -
  have "ch_backslash \<noteq> ch_quote" by code_simp
  then show ?thesis using assms by (simp add: json_text.simps(2))
qed

lemma json_text_replacement: "json_text (ch_backslash # ''ufffd'' @ r) = map_option (apfst (append replacement)) (json_text r)"
proof -
  have "hex_value 0 ''fffd'' = Some 65533" by (simp add: hex_digit_def Let_def)
  moreover have "utf8_encode 65533 = Some replacement" by (simp add: utf8_encode_def replacement_def)
  ultimately show ?thesis using json_text_u [of "''fffd''"] by simp
qed

lemma json_text_separator:
  assumes "map of_char s = [0xE2, 0x80, k :: nat]" and "k = 0xA8 \<or> k = 0xA9"
  shows "json_text (escape_seq s @ r) = map_option (apfst (append s)) (json_text r)"
proof -
  have s: "s = map char_of [0xE2, 0x80, k]"
    unfolding assms(1) [symmetric] by (simp add: comp_def)
  have hex: "hex_value 0 ''2028'' = Some 8232" "hex_value 0 ''2029'' = Some 8233"
    by (simp_all add: hex_digit_def Let_def)
  have enc: "utf8_encode 8232 = Some (map char_of [0xE2, 0x80, 0xA8 :: nat])"
    "utf8_encode 8233 = Some (map char_of [0xE2, 0x80, 0xA9 :: nat])"
    by (simp_all add: utf8_encode_def)
  show ?thesis
    using assms(2) json_text_u [OF hex(1) _ enc(1), of r] json_text_u [OF hex(2) _ enc(2), of r]
    by (elim disjE) (simp_all add: escape_seq_def assms(1) s)
qed

lemma json_text_quote: "json_text (escape_string s @ ch_quote # r) = Some (valid_utf8 s, r)"
proof (induction s rule: valid_utf8.induct)
  case 1
  then show ?case by (simp add: json_text.simps(2))
next
  case (2 c cs)
  let ?n = "utf8_len (c # cs)" and ?seq = "take (utf8_len (c # cs)) (c # cs)"
  consider "of_char c < (128 :: nat)" | "\<not> of_char c < (128 :: nat)" "?n = 0" | "\<not> of_char c < (128 :: nat)" "?n \<noteq> 0"
    by blast
  then show ?case
  proof cases
    case 3
    have "json_text (escape_seq ?seq @ t) = map_option (apfst (append ?seq)) (json_text t)" for t
    proof (cases "map of_char ?seq \<in> {[0xE2, 0x80, 0xA8 :: nat], [0xE2, 0x80, 0xA9]}")
      case True
      then obtain k :: nat where "map of_char ?seq = [0xE2, 0x80, k]" "k = 0xA8 \<or> k = 0xA9" by fastforce
      then show ?thesis by (rule json_text_separator)
    next
      case False
      then have "escape_seq ?seq = ?seq" by (simp add: escape_seq_def)
      then show ?thesis using 3 json_text_seq [of c cs t] by simp
    qed
    then show ?thesis using 2(3) 3 by (simp add: escape_string.simps(2) valid_utf8.simps(2))
  qed (use 2(1,2) json_text_escape json_text_replacement in
      \<open>simp_all add: escape_string.simps(2) valid_utf8.simps(2)\<close>)
qed

text \<open>ASCII, and any string that is valid UTF-8, arrives as it is.\<close>

lemma valid_utf8_ascii: "is_ascii s \<Longrightarrow> valid_utf8 s = s"
  by (induction s) (simp_all add: is_ascii_def valid_utf8.simps(2))

lemma read_value_quote: "read_value (json_quote s @ r) = Some (JText (valid_utf8 s), r)"
  by (simp add: read_value_def json_quote_def json_text_quote)

lemma read_value_nat: "\<not> is_digit d \<Longrightarrow> read_value (show_nat n @ d # r) = Some (JNumber n, d # r)"
proof -
  assume d: "\<not> is_digit d"
  have digits: "list_all is_digit (show_nat n)" by (rule is_digit_show_nat)
  then have take: "takeWhile is_digit (show_nat n @ d # r) = show_nat n"
    using d by (simp add: list_all_iff takeWhile_tail)
  obtain c cs where s: "show_nat n = c # cs" by (cases "show_nat n") auto
  have "c \<noteq> ch_quote" using digits s by (auto simp: is_digit_def ch_quote_def)
  then show ?thesis using take digits_value_show_nat [of n] by (simp add: read_value_def s Let_def)
qed

lemma ascii_keys: "is_ascii ''agent_id''" "is_ascii ''auth_failed''" "is_ascii ''auth_success''"
  "is_ascii ''dropped_packets''" "is_ascii ''message''"
  by code_simp+

lemma no_digits: "\<not> is_digit (CHR '','')" "\<not> is_digit (CHR ''}'')" "CHR ''}'' \<noteq> CHR '',''"
  by code_simp+

lemma read_key: "is_ascii s \<Longrightarrow> read_value (json_quote s @ r) = Some (JText s, r)"
  by (simp add: read_value_quote valid_utf8_ascii)

text \<open>One member, and the last one.\<close>

lemma json_members_Cons:
  assumes "is_ascii k" "read_value (v @ '','' @ r) = Some (x, '','' @ r)"
  shows "json_members (Suc n) (json_quote k @ '':'' @ v @ '','' @ r) = map_option (Cons (k, x)) (json_members n r)"
  using assms read_key [OF assms(1), of "'':'' @ v @ '','' @ r"] by simp

lemma json_members_last:
  assumes "is_ascii k" "read_value (v @ ''}'') = Some (x, ''}'')"
  shows "json_members (Suc n) (json_quote k @ '':'' @ v @ ''}'') = Some [(k, x)]"
  using assms read_key [OF assms(1), of "'':'' @ v @ ''}''"] no_digits(3) by simp

lemma number_ends: "read_value (show_nat n @ '','' @ r) = Some (JNumber n, '','' @ r)"
  "read_value (show_nat n @ ''}'') = Some (JNumber n, ''}'')"
  using read_value_nat [OF no_digits(1)] read_value_nat [OF no_digits(2)] by simp_all

lemma telemetry_members:
  "json_members (Suc (Suc (Suc (Suc n))))
     (json_quote ''agent_id'' @ '':'' @ json_quote i @ '','' @ json_quote ''auth_failed'' @ '':'' @ show_nat f @ '','' @
      json_quote ''auth_success'' @ '':'' @ show_nat a @ '','' @ json_quote ''dropped_packets'' @ '':'' @ show_nat d @ ''}'') =
     Some [(''agent_id'', JText (valid_utf8 i)), (''auth_failed'', JNumber f), (''auth_success'', JNumber a), (''dropped_packets'', JNumber d)]"
  unfolding json_members_Cons [OF ascii_keys(1) read_value_quote] json_members_Cons [OF ascii_keys(2) number_ends(1)]
    json_members_Cons [OF ascii_keys(3) number_ends(1)] json_members_last [OF ascii_keys(4) number_ends(2)] option.map ..

lemma log_members:
  "json_members (Suc (Suc n)) (json_quote ''agent_id'' @ '':'' @ json_quote i @ '','' @ json_quote ''message'' @ '':'' @ json_quote m @ ''}'') =
     Some [(''agent_id'', JText (valid_utf8 i)), (''message'', JText (valid_utf8 m))]"
  unfolding json_members_Cons [OF ascii_keys(1) read_value_quote] json_members_last [OF ascii_keys(5) read_value_quote]
    option.map ..


lemma decode_telemetryLoop:
  "decode_telemetry (snd (telemetryLoop fc (Some st))) =
     Some \<lparr>AgentID = valid_utf8 (fcAgentID fc), IP = [], DroppedPackets = stat (esDropped st), AuthSuccess = stat (esAuthSuccess st),
           AuthFailed = stat (esAuthFailed st), LastSeen = 0\<rparr>"
proof -
  define k1 where "k1 = ''agent_id''"
  define k2 where "k2 = ''auth_failed''"
  define k3 where "k3 = ''auth_success''"
  define k4 where "k4 = ''dropped_packets''"
  note keys = k1_def k2_def k3_def k4_def
  have distinct: "k1 \<noteq> k2" "k1 \<noteq> k3" "k1 \<noteq> k4" "k2 \<noteq> k3" "k2 \<noteq> k4" "k3 \<noteq> k4"
    unfolding keys by code_simp+
  let ?f = "unat (stat (esAuthFailed st))" and ?a = "unat (stat (esAuthSuccess st))" and ?d = "unat (stat (esDropped st))"
  let ?r = "json_quote k1 @ '':'' @ json_quote (fcAgentID fc) @ '','' @ json_quote k2 @ '':'' @ show_nat ?f @ '','' @
      json_quote k3 @ '':'' @ show_nat ?a @ '','' @ json_quote k4 @ '':'' @ show_nat ?d @ ''}''"
  have body: "telemetry_body fc (Some st) = CHR ''{'' # ?r"
    by (simp add: telemetry_body_def json_object_def join_with_def keys [symmetric])
  have "4 \<le> length ?r" by (simp add: json_quote_def)
  then obtain n where "length ?r = 4 + n" using le_Suc_ex by blast
  then have n: "length ?r = Suc (Suc (Suc (Suc n)))" by simp
  have "json_decode (telemetry_body fc (Some st)) =
      Some [(k1, JText (valid_utf8 (fcAgentID fc))), (k2, JNumber ?f), (k3, JNumber ?a), (k4, JNumber ?d)]"
    unfolding body json_decode_def list.case if_True simp_thms n unfolding keys by (rule telemetry_members)
  moreover have "unat w < 2 ^ 64" for w :: u64
    using unsigned_less [of w, where ?'a = nat] by simp
  ultimately show ?thesis
    using distinct unfolding decode_telemetry_def telemetryLoop_def snd_conv keys [symmetric]
    by (simp add: text_field_def u64_field_def)
qed

lemma decode_logLoop:
  "decode_log (snd (logLoop fc msg)) = Some (valid_utf8 (fcAgentID fc), valid_utf8 msg)"
proof -
  define k1 where "k1 = ''agent_id''"
  define k2 where "k2 = ''message''"
  note keys = k1_def k2_def
  have distinct: "k1 \<noteq> k2" unfolding keys by code_simp
  let ?r = "json_quote k1 @ '':'' @ json_quote (fcAgentID fc) @ '','' @ json_quote k2 @ '':'' @ json_quote msg @ ''}''"
  have body: "snd (logLoop fc msg) = CHR ''{'' # ?r"
    by (simp add: logLoop_def json_object_def join_with_def keys [symmetric])
  have "2 \<le> length ?r" by (simp add: json_quote_def)
  then obtain n where "length ?r = 2 + n" using le_Suc_ex by blast
  then have n: "length ?r = Suc (Suc n)" by simp
  have "json_decode (snd (logLoop fc msg)) = Some [(k1, JText (valid_utf8 (fcAgentID fc))), (k2, JText (valid_utf8 msg))]"
    unfolding body json_decode_def list.case if_True simp_thms n unfolding keys by (rule log_members)
  then show ?thesis
    using distinct unfolding decode_log_def keys [symmetric] by (simp add: text_field_def)
qed


section \<open>Reports arrive\<close>

lemma url_path_host:
  assumes "CHR ''/'' \<notin> set host"
  shows "url_path (''http://'' @ host @ CHR ''/'' # p) = CHR ''/'' # p"
proof -
  have "dropWhile (\<lambda>c. c \<noteq> CHR ''/'') (host @ CHR ''/'' # p) = CHR ''/'' # p"
    using assms by (induction host) auto
  then show ?thesis by (simp add: url_path_def has_prefix_def)
qed

lemma clean_logs: "clean_path ''/api/fleet/logs'' = ''/api/fleet/logs''" "public_path ''/api/fleet/logs''"
  by code_simp+

lemma deliver_telemetry:
  assumes "fcFleetURL fc = ''http://'' @ host" "CHR ''/'' \<notin> set host"
  shows "deliver ops we remote s (telemetryLoop fc (Some st)) =
     (s\<lparr>wFleet := RegisterAgent ops (wFleet s) (weNow we)
          \<lparr>AgentID = valid_utf8 (fcAgentID fc), IP = remote, DroppedPackets = stat (esDropped st),
           AuthSuccess = stat (esAuthSuccess st), AuthFailed = stat (esAuthFailed st), LastSeen = 0\<rparr>\<rparr>, Status 200)"
proof -
  define p where "p = ''/api/fleet/telemetry''"
  have path: "url_path (fst (telemetryLoop fc (Some st))) = p"
    using url_path_host [OF assms(2)] by (simp add: telemetryLoop_def assms(1) p_def)
  have p: "clean_path p = p" "public_path p"
    unfolding p_def by (rule clean_paths public_paths)+
  have "route ops we s ctx r b = handleFleetTelemetry ops we s r b" if "rPath r = p" for ctx r b
    unfolding route_def Let_def that p_def by simp
  then show ?thesis
    unfolding deliver_def path decode_telemetryLoop
    by (simp add: serve_def AuthMiddleware_def p mux_def handleFleetTelemetry_def)
qed

lemma deliver_log:
  assumes "fcFleetURL fc = ''http://'' @ host" "CHR ''/'' \<notin> set host"
  shows "deliver ops we remote s (logLoop fc msg) =
    (broadcastRawLog s (valid_utf8 (fcAgentID fc)) (valid_utf8 msg), Status 200)"
proof -
  define p where "p = ''/api/fleet/logs''"
  have path: "url_path (fst (logLoop fc msg)) = p"
    using url_path_host [OF assms(2)] by (simp add: logLoop_def assms(1) p_def)
  have p: "clean_path p = p" "public_path p"
    unfolding p_def by (rule clean_logs)+
  have "route ops we s ctx r b = handleFleetLogs s r b" if "rPath r = p" for ctx r b
    unfolding route_def Let_def that p_def by simp
  then show ?thesis
    unfolding deliver_def path decode_logLoop
    by (simp add: serve_def AuthMiddleware_def p mux_def handleFleetLogs_def)
qed

text \<open>What the kernel counted on an agent is what the manager shows for it: after one tick of the
  agent's telemetry loop, when the database takes the row, the statistics the manager serves for that
  agent's name are the three counters, whatever its own kernel counts, and the row holds the address
  the report came from and the manager's time.\<close>

theorem telemetry_reaches_dashboard:
  assumes "fleet_laws ops" "valid_utf8 (fcAgentID fc) = fcAgentID fc" "fcAgentID fc \<noteq> []" "fcFleetURL fc = ''http://'' @ host"
    and "CHR ''/'' \<notin> set host" "\<And>t. db_save ops (wFleet s) t \<noteq> None" "rQuery r ''agent'' = fcAgentID fc"
  shows "snd (deliver ops we remote s (telemetryLoop fc (Some st))) = Status 200 \<and>
     handleStats ops we' (fst (deliver ops we remote s (telemetryLoop fc (Some st)))) r =
       StatsJSON (stat (esDropped st)) (stat (esAuthSuccess st)) (stat (esAuthFailed st)) \<and>
     map_option (\<lambda>t. (IP t, LastSeen t)) (GetAgent ops (wFleet (fst (deliver ops we remote s (telemetryLoop fc (Some st))))) (fcAgentID fc)) =
       Some (remote, weNow we)"
proof -
  define row where "row = \<lparr>AgentID = fcAgentID fc, IP = remote, DroppedPackets = stat (esDropped st),
    AuthSuccess = stat (esAuthSuccess st), AuthFailed = stat (esAuthFailed st), LastSeen = weNow we\<rparr>"
  obtain d where d: "db_save ops (wFleet s) row = Some d" using assms(6) by blast
  have first: "db_first ops d (fcAgentID fc) = Some row"
  proof -
    have "db_first ops d (AgentID row) = Some row"
      using assms(1) d unfolding fleet_laws_def by blast
    then show ?thesis by (simp add: row_def)
  qed
  have "deliver ops we remote s (telemetryLoop fc (Some st)) = (s\<lparr>wFleet := d\<rparr>, Status 200)"
    using deliver_telemetry [OF assms(4,5), of ops we remote s st] assms(2) d by (simp add: RegisterAgent_def row_def)
  then show ?thesis
    using first assms(3,7) by (simp add: handleStats_def GetAgent_def Let_def row_def)
qed

definition fleet_agent :: "string \<Rightarrow> fleet_client" where
  "fleet_agent url = \<lparr>fcFleetURL = url, fcAgentID = ''node-7''\<rparr>"

theorem telemetry_reaches_dashboard_witness:
  "snd (deliver list_fleet (quiet_env 5) ''192.0.2.9:4711'' fresh_server
     (telemetryLoop (fleet_agent ''http://10.0.0.1:9999'')
        (Some \<lparr>esDropped = Some 7, esAuthSuccess = None, esAuthFailed = Some (- 1)\<rparr>))) = Status 200"
proof -
  let ?st = "\<lparr>esDropped = Some 7, esAuthSuccess = None, esAuthFailed = Some (- 1)\<rparr>"
  have "valid_utf8 ''node-7'' = ''node-7''" "CHR ''/'' \<notin> set ''10.0.0.1:9999''" by code_simp+
  moreover have saves: "\<And>t d. db_save list_fleet d t \<noteq> None" by (simp add: list_fleet_def)
  ultimately show ?thesis
    using telemetry_reaches_dashboard [of list_fleet "fleet_agent ''http://10.0.0.1:9999''" "''10.0.0.1:9999''" fresh_server
      "\<lparr>rPath = ''/api/stats'', rMethod = MethodGet, rCookie = None, rQuery = (\<lambda>_. ''node-7''), rRemoteAddr = []\<rparr>"
      "quiet_env 5" "''192.0.2.9:4711''" ?st "quiet_env 6"] list_fleet_laws saves
    by (simp add: fleet_agent_def)
qed

text \<open>A log message of an agent is queued for the viewers of the manager's log, marked with the
  agent's name, whatever quotes, control characters or line breaks it holds; what is not UTF-8 in either
  is replaced.\<close>

theorem log_reaches_dashboard:
  assumes "fcFleetURL fc = ''http://'' @ host" "CHR ''/'' \<notin> set host"
  shows "wExternalLogs (fst (deliver ops we remote s (logLoop fc msg))) =
     wExternalLogs s @ [''[AGENT:'' @ valid_utf8 (fcAgentID fc) @ ''] '' @ valid_utf8 msg]"
  by (simp add: deliver_log [OF assms] broadcastRawLog_def)

theorem log_reaches_dashboard_witness:
  "wExternalLogs (fst (deliver list_fleet (quiet_env 5) ''192.0.2.9:4711'' fresh_server
     (logLoop (fleet_agent ''http://10.0.0.1:9999'') [ch_quote, ch_newline, ch_backslash]))) =
   wExternalLogs fresh_server @ [''[AGENT:'' @ ''node-7'' @ ''] '' @ [ch_quote, ch_newline, ch_backslash]]"
proof -
  have ascii: "valid_utf8 ''node-7'' = ''node-7''" "CHR ''/'' \<notin> set ''10.0.0.1:9999''"
    "valid_utf8 [ch_quote, ch_newline, ch_backslash] = [ch_quote, ch_newline, ch_backslash]"
    by code_simp+
  then show ?thesis
    using log_reaches_dashboard [of "fleet_agent ''http://10.0.0.1:9999''" "''10.0.0.1:9999''" list_fleet "quiet_env 5"
      "''192.0.2.9:4711''" fresh_server "[ch_quote, ch_newline, ch_backslash]"]
    by (simp add: fleet_agent_def)
qed

text \<open>With a slash at the end of the manager's address, every report and every message is answered by
  a redirection to the login page, which the client does not look at, and changes nothing.\<close>

theorem trailing_slash_loses_reports:
  assumes "fcFleetURL fc = ''http://'' @ host @ ''/''" "CHR ''/'' \<notin> set host"
  shows "deliver ops we remote s (telemetryLoop fc st) = (s, Status 302) \<and>
    deliver ops we remote s (logLoop fc msg) = (s, Status 302)"
proof -
  have lost: "serve ops we s \<lparr>rPath = CHR ''/'' # CHR ''/'' # p, rMethod = m, rCookie = None, rQuery = q, rRemoteAddr = remote\<rparr> b =
      (s, Status 302)" for p m q b
    by (simp add: serve_def AuthMiddleware_def public_path_def isAPIRequest_def)
  have "url_path (fst (telemetryLoop fc st)) = ''//api/fleet/telemetry''" "url_path (fst (logLoop fc msg)) = ''//api/fleet/logs''"
    using url_path_host [OF assms(2), of "''/api/fleet/telemetry''"] url_path_host [OF assms(2), of "''/api/fleet/logs''"]
    by (simp_all add: telemetryLoop_def logLoop_def assms(1))
  then show ?thesis by (simp add: deliver_def lost)
qed

theorem trailing_slash_loses_reports_witness:
  "deliver list_fleet (quiet_env 5) ''192.0.2.9:4711'' fresh_server
     (logLoop (fleet_agent ''http://10.0.0.1:9999/'') ''ssh login'') = (fresh_server, Status 302)"
proof -
  have "CHR ''/'' \<notin> set ''10.0.0.1:9999''" by code_simp
  then show ?thesis
    using trailing_slash_loses_reports [of "fleet_agent ''http://10.0.0.1:9999/''" "''10.0.0.1:9999''" list_fleet
      "quiet_env 5" "''192.0.2.9:4711''" fresh_server None "''ssh login''"]
    by (simp add: fleet_agent_def)
qed

end
