(* ===== verification/FleetRun.thy ===== *)
theory FleetRun
  imports Fleet LogStream
begin

text \<open>
  The reporting of one agent from its start (\<^verbatim>\<open>NewFleetClient\<close> and \<^verbatim>\<open>Start\<close> of
  \<^verbatim>\<open>internal/agent/fleet_client.go\<close>): its two loops post independently, a post that does not arrive is
  not repeated, and the manager works on those that do. An event is one post, with the manager's
  environment and the address it came from if it arrives, or the broadcaster of the manager that takes a
  message. The channel between the manager's handlers and its broadcaster holds 100 messages
  (\<^verbatim>\<open>externalLogChan\<close> of \<^verbatim>\<open>internal/webdash/server.go\<close>); a handler that finds it full waits in its send,
  and the handlers that wait are served in the order they came, as the channels of the Go runtime do it.
\<close>

section \<open>The channel of the manager\<close>

text \<open>The manager, with the messages whose handlers wait in their send, and those its broadcaster has
  taken.\<close>

record 'd fleet_manager =
  mgServer :: "'d web_server"
  mgBlocked :: "string list"
  mgTaken :: "string list"

definition settle :: "'d web_server \<Rightarrow> string list \<Rightarrow> string list \<Rightarrow> 'd fleet_manager" where
  "settle s sends shown = \<lparr>
     mgServer = s\<lparr>wExternalLogs := take external_capacity (wExternalLogs s @ sends)\<rparr>,
     mgBlocked = drop external_capacity (wExternalLogs s @ sends),
     mgTaken = shown\<rparr>"

text \<open>A post arrives: what its handler sends waits behind the handlers that wait already.\<close>

definition arrive :: "'d fleet_db \<Rightarrow> web_env \<Rightarrow> string \<Rightarrow> string \<times> string \<Rightarrow> 'd fleet_manager \<Rightarrow> 'd fleet_manager" where
  "arrive ops we remote msg M =
     (let s = mgServer M;
          s' = fst (deliver ops we remote s msg);
          sends = drop (length (wExternalLogs s)) (wExternalLogs s')
      in settle (s'\<lparr>wExternalLogs := wExternalLogs s\<rparr>) (mgBlocked M @ sends) (mgTaken M))"

text \<open>The broadcaster takes the oldest message, which makes room for a handler that waits.\<close>

definition broadcast_next :: "'d fleet_manager \<Rightarrow> 'd fleet_manager" where
  "broadcast_next M =
     (case broadcast_message (mgServer M) AgentLog of
        None \<Rightarrow> M
      | Some m \<Rightarrow> settle (broadcastLogs (mgServer M) AgentLog) (mgBlocked M) (mgTaken M @ [m]))"

section \<open>The agent\<close>

definition NewFleetClient :: "string \<Rightarrow> string \<Rightarrow> fleet_client" where
  "NewFleetClient fleetURL agentID = \<lparr>fcFleetURL = fleetURL, fcAgentID = agentID\<rparr>"

datatype fleet_event =
    Report ebpf_stats "(web_env \<times> string) option"
  | Forward string "(web_env \<times> string) option"
  | Broadcast

fun fleet_post :: "'d fleet_db \<Rightarrow> fleet_client \<Rightarrow> 'd fleet_manager \<Rightarrow> fleet_event \<Rightarrow> 'd fleet_manager" where
  "fleet_post ops fc M (Report st None) = M"
| "fleet_post ops fc M (Report st (Some (we, remote))) = arrive ops we remote (telemetryLoop fc (Some st)) M"
| "fleet_post ops fc M (Forward msg None) = M"
| "fleet_post ops fc M (Forward msg (Some (we, remote))) = arrive ops we remote (logLoop fc msg) M"
| "fleet_post ops fc M Broadcast = broadcast_next M"

definition FleetStart :: "'d fleet_db \<Rightarrow> fleet_client \<Rightarrow> fleet_event list \<Rightarrow> 'd fleet_manager \<Rightarrow> 'd fleet_manager" where
  "FleetStart ops fc evs M = foldl (fleet_post ops fc) M evs"

text \<open>The messages that arrived, in the order their handlers come to their send, and the last report that
  did.\<close>

fun arrived_logs :: "fleet_event list \<Rightarrow> string list" where
  "arrived_logs [] = []"
| "arrived_logs (Forward msg (Some p) # evs) = msg # arrived_logs evs"
| "arrived_logs (_ # evs) = arrived_logs evs"

fun last_report :: "(ebpf_stats \<times> int \<times> string) option \<Rightarrow> fleet_event list \<Rightarrow> (ebpf_stats \<times> int \<times> string) option" where
  "last_report r [] = r"
| "last_report r (Report st (Some (we, remote)) # evs) = last_report (Some (st, weNow we, remote)) evs"
| "last_report r (_ # evs) = last_report r evs"

fun report_row :: "fleet_client \<Rightarrow> ebpf_stats \<times> int \<times> string \<Rightarrow> agent_telemetry" where
  "report_row fc (st, now, remote) =
     \<lparr>AgentID = valid_utf8 (fcAgentID fc), IP = remote, DroppedPackets = stat (esDropped st),
      AuthSuccess = stat (esAuthSuccess st), AuthFailed = stat (esAuthFailed st), LastSeen = now\<rparr>"

definition mark :: "fleet_client \<Rightarrow> string \<Rightarrow> string" where
  "mark fc msg = ''[AGENT:'' @ valid_utf8 (fcAgentID fc) @ ''] '' @ valid_utf8 msg"

section \<open>Runs\<close>

lemma FleetStart_simps [simp]:
  "FleetStart ops fc [] M = M"
  "FleetStart ops fc (e # evs) M = FleetStart ops fc evs (fleet_post ops fc M e)"
  by (simp_all add: FleetStart_def)

text \<open>All messages of the manager, from the first one taken to the last one that waits, and what is kept
  of them: no handler waits while there is room.\<close>

definition all_logs :: "'d fleet_manager \<Rightarrow> string list" where
  "all_logs M = mgTaken M @ wExternalLogs (mgServer M) @ mgBlocked M"

definition channel_inv :: "'d fleet_manager \<Rightarrow> bool" where
  "channel_inv M \<longleftrightarrow> length (wExternalLogs (mgServer M)) \<le> external_capacity \<and>
     (mgBlocked M \<noteq> [] \<longrightarrow> length (wExternalLogs (mgServer M)) = external_capacity)"

lemma settle_simps [simp]:
  "channel_inv (settle s sends shown)"
  "all_logs (settle s sends shown) = shown @ wExternalLogs s @ sends"
  "wFleet (mgServer (settle s sends shown)) = wFleet s"
proof -
  show "all_logs (settle s sends shown) = shown @ wExternalLogs s @ sends"
    by (simp add: settle_def all_logs_def del: take_append drop_append)
qed (auto simp: settle_def channel_inv_def)

lemma broadcast_next:
  assumes "channel_inv M"
  shows "channel_inv (broadcast_next M)" "all_logs (broadcast_next M) = all_logs M"
    "wFleet (mgServer (broadcast_next M)) = wFleet (mgServer M)"
  using assms by (auto simp: broadcast_next_def all_logs_def [of M] split: list.splits)

lemma arrive_log:
  assumes "fcFleetURL fc = ''http://'' @ host" "CHR ''/'' \<notin> set host"
  shows "channel_inv (arrive ops we remote (logLoop fc msg) M)"
    "all_logs (arrive ops we remote (logLoop fc msg) M) = all_logs M @ [mark fc msg]"
    "wFleet (mgServer (arrive ops we remote (logLoop fc msg) M)) = wFleet (mgServer M)"
  by (simp_all add: arrive_def Let_def deliver_log [OF assms] broadcastRawLog_def mark_def all_logs_def [of M])

lemma arrive_report:
  assumes "fcFleetURL fc = ''http://'' @ host" "CHR ''/'' \<notin> set host"
  shows "channel_inv (arrive ops we remote (telemetryLoop fc (Some st)) M)"
    "all_logs (arrive ops we remote (telemetryLoop fc (Some st)) M) = all_logs M"
    "wFleet (mgServer (arrive ops we remote (telemetryLoop fc (Some st)) M)) =
       RegisterAgent ops (wFleet (mgServer M)) (weNow we)
         \<lparr>AgentID = valid_utf8 (fcAgentID fc), IP = remote, DroppedPackets = stat (esDropped st),
          AuthSuccess = stat (esAuthSuccess st), AuthFailed = stat (esAuthFailed st), LastSeen = 0\<rparr>"
  by (simp_all add: arrive_def Let_def deliver_telemetry [OF assms] all_logs_def [of M])

lemma fleet_run_logs:
  assumes url: "fcFleetURL fc = ''http://'' @ host" "CHR ''/'' \<notin> set host"
  shows "channel_inv M \<Longrightarrow> channel_inv (FleetStart ops fc evs M) \<and>
    all_logs (FleetStart ops fc evs M) = all_logs M @ map (mark fc) (arrived_logs evs)"
proof (induction evs arbitrary: M)
  case (Cons e evs)
  show ?case
  proof (cases e)
    case (Report st p)
    then show ?thesis using Cons by (cases p) (auto simp: arrive_report [OF url])
  next
    case (Forward msg p)
    then show ?thesis using Cons by (cases p) (auto simp: arrive_log [OF url])
  next
    case Broadcast
    then show ?thesis using Cons by (simp add: broadcast_next)
  qed
qed simp

lemma report_saved:
  assumes "fleet_laws ops" "\<And>d t. db_save ops d t \<noteq> None"
  shows "GetAgent ops (RegisterAgent ops d now \<lparr>AgentID = i, IP = remote, DroppedPackets = dp, AuthSuccess = a,
      AuthFailed = f, LastSeen = t\<rparr>) i =
    Some \<lparr>AgentID = i, IP = remote, DroppedPackets = dp, AuthSuccess = a, AuthFailed = f, LastSeen = now\<rparr>"
proof -
  let ?row = "\<lparr>AgentID = i, IP = remote, DroppedPackets = dp, AuthSuccess = a, AuthFailed = f, LastSeen = now\<rparr>"
  obtain d' where d: "db_save ops d ?row = Some d'" using assms(2) by blast
  moreover have "db_first ops d' (AgentID ?row) = Some ?row" using assms(1) d unfolding fleet_laws_def by blast
  ultimately show ?thesis by (simp add: RegisterAgent_def GetAgent_def)
qed

lemma fleet_run_report:
  assumes db: "fleet_laws ops" "\<And>d t. db_save ops d t \<noteq> None"
    and url: "fcFleetURL fc = ''http://'' @ host" "CHR ''/'' \<notin> set host"
  shows "channel_inv M \<Longrightarrow>
    GetAgent ops (wFleet (mgServer M)) (valid_utf8 (fcAgentID fc)) = map_option (report_row fc) r \<Longrightarrow>
    GetAgent ops (wFleet (mgServer (FleetStart ops fc evs M))) (valid_utf8 (fcAgentID fc)) =
      map_option (report_row fc) (last_report r evs)"
proof (induction evs arbitrary: M r)
  case (Cons e evs)
  show ?case
  proof (cases e)
    case (Report st p)
    then show ?thesis using Cons by (cases p) (auto simp: arrive_report [OF url] report_saved [OF db])
  next
    case (Forward msg p)
    then show ?thesis using Cons by (cases p) (auto simp: arrive_log [OF url])
  next
    case Broadcast
    then show ?thesis using Cons by (simp add: broadcast_next)
  qed
qed simp

text \<open>C39. However the two loops of an agent and the manager's broadcaster interleave and whichever posts
  get through: what the broadcaster has taken, what is in the channel and what waits in the handlers are,
  in this order, what was in the channel at first and the messages that arrived, each once and marked with
  the agent's name; the channel never holds more than 100, and no handler waits while there is room. For the
  agent the manager shows the counters, the address and the time of the last report that arrived, if any
  did, provided its database takes the rows. Name and messages may be any bytes: what is not valid UTF-8
  in them arrives as replacement characters.\<close>

theorem fleet_reporting:
  assumes "fleet_laws ops" "\<And>d t. db_save ops d t \<noteq> None" and host: "CHR ''/'' \<notin> set host"
    and fc: "fc = NewFleetClient (''http://'' @ host) agentID"
    and new: "GetAgent ops (wFleet s) (valid_utf8 agentID) = None"
    and room: "length (wExternalLogs s) \<le> 100"
    and M: "M = FleetStart ops fc evs \<lparr>mgServer = s, mgBlocked = [], mgTaken = []\<rparr>"
  shows "mgTaken M @ wExternalLogs (mgServer M) @ mgBlocked M = wExternalLogs s @ map (mark fc) (arrived_logs evs) \<and>
    length (wExternalLogs (mgServer M)) \<le> 100 \<and>
    (mgBlocked M \<noteq> [] \<longrightarrow> length (wExternalLogs (mgServer M)) = 100) \<and>
    GetAgent ops (wFleet (mgServer M)) (valid_utf8 agentID) = map_option (report_row fc) (last_report None evs)"
proof -
  let ?M0 = "\<lparr>mgServer = s, mgBlocked = [], mgTaken = []\<rparr>"
  have url: "fcFleetURL fc = ''http://'' @ host" and i: "fcAgentID fc = agentID"
    by (simp_all add: fc NewFleetClient_def)
  have "channel_inv ?M0" using room by (simp add: channel_inv_def external_capacity_def)
  then show ?thesis
    using fleet_run_logs [OF url host, of ?M0 ops evs] fleet_run_report [OF assms(1,2) url host, of ?M0 None evs] new
    by (simp add: M i all_logs_def channel_inv_def external_capacity_def)
qed

text \<open>Two messages and a report arrive, another message and a report do not; the broadcaster takes one
  message.\<close>

lemma fleet_reporting_witness:
  "\<exists>M :: agent_telemetry list fleet_manager. mgTaken M @ wExternalLogs (mgServer M) @ mgBlocked M = [''[AGENT:node-7] a'', ''[AGENT:node-7] b''] \<and>
     mgTaken M = [''[AGENT:node-7] a''] \<and>
     map_option DroppedPackets (GetAgent list_fleet (wFleet (mgServer M)) ''node-7'') = Some 7"
proof -
  define fc where "fc = NewFleetClient (''http://'' @ ''10.0.0.1:9999'') ''node-7''"
  let ?st = "\<lambda>n. \<lparr>esDropped = Some n, esAuthSuccess = None, esAuthFailed = None\<rparr>"
  define evs where "evs = [Forward ''a'' (Some (quiet_env 5, ''192.0.2.9:4711'')),
    Report (?st 7) (Some (quiet_env 6, ''192.0.2.9:4712'')), Broadcast, Forward ''lost'' None,
    Forward ''b'' (Some (quiet_env 7, ''192.0.2.9:4713'')), Report (?st 9) None]"
  define M where "M = FleetStart list_fleet fc evs \<lparr>mgServer = fresh_server, mgBlocked = [], mgTaken = []\<rparr>"
  have ascii: "valid_utf8 ''node-7'' = ''node-7''" "CHR ''/'' \<notin> set ''10.0.0.1:9999''" "valid_utf8 ''a'' = ''a''" "valid_utf8 ''b'' = ''b''"
    by code_simp+
  have saves: "\<And>d t. db_save list_fleet d t \<noteq> None" by (simp add: list_fleet_def)
  have new: "GetAgent list_fleet (wFleet fresh_server) (valid_utf8 ''node-7'') = None" "wExternalLogs fresh_server = []"
    "length (wExternalLogs fresh_server) \<le> 100"
    by (simp_all add: fresh_server_def GetAgent_def list_fleet_def)
  note r = fleet_reporting [OF list_fleet_laws saves ascii(2) fc_def new(1,3) M_def]
  have fc: "fcAgentID fc = ''node-7''" "fcFleetURL fc = ''http://'' @ ''10.0.0.1:9999''"
    by (simp_all add: fc_def NewFleetClient_def)
  have "mgTaken M = [mark fc ''a'']"
    by (simp add: M_def evs_def arrive_def broadcast_next_def settle_def deliver_log [OF fc(2) ascii(2)]
        deliver_telemetry [OF fc(2) ascii(2)] broadcastRawLog_def new(2) mark_def external_capacity_def)
  then have "mgTaken M @ wExternalLogs (mgServer M) @ mgBlocked M = [''[AGENT:node-7] a'', ''[AGENT:node-7] b''] \<and>
     mgTaken M = [''[AGENT:node-7] a''] \<and>
     map_option DroppedPackets (GetAgent list_fleet (wFleet (mgServer M)) ''node-7'') = Some 7"
    using r by (simp add: new evs_def mark_def fc ascii stat_def)
  then show ?thesis by blast
qed

end
