(* ===== verification/Certs.thy ===== *)
theory Certs
  imports Commands Webdash "HOL-Library.Countable"
begin

text \<open>
  \<^verbatim>\<open>internal/proxy/cert.go\<close>: the certificate authority and the certificates it signs, what the server
  of the fleet makes of them (\<^verbatim>\<open>internal/webdash/fleet.go\<close>), and what the mTLS proxy makes of a client
  that presents one. A certificate is what \<^verbatim>\<open>crypto/x509\<close> reads from it; its encodings and the keys are a
  parameter with the round trips they promise. Times are in nanoseconds, in certificates in seconds.
\<close>

section \<open>Certificates\<close>

record pkix_name =
  Organization :: "string list"
  Country :: "string list"
  Province :: "string list"
  Locality :: "string list"
  StreetAddress :: "string list"
  PostalCode :: "string list"
  CommonName :: string

definition no_name :: pkix_name where
  "no_name = \<lparr>Organization = [], Country = [], Province = [], Locality = [], StreetAddress = [], PostalCode = [],
     CommonName = []\<rparr>"

definition ExtKeyUsageAny :: nat where "ExtKeyUsageAny = 0"
definition ExtKeyUsageServerAuth :: nat where "ExtKeyUsageServerAuth = 1"
definition ExtKeyUsageClientAuth :: nat where "ExtKeyUsageClientAuth = 2"
definition KeyUsageDigitalSignature :: u32 where "KeyUsageDigitalSignature = 1"
definition KeyUsageCertSign :: u32 where "KeyUsageCertSign = 32"

lemmas usage_defs = ExtKeyUsageAny_def ExtKeyUsageServerAuth_def ExtKeyUsageClientAuth_def KeyUsageDigitalSignature_def KeyUsageCertSign_def

text \<open>The fields of a template the program sets.\<close>

record template =
  SerialNumber :: int
  Subject :: pkix_name
  URIs :: "(string \<times> string) list"
  DNSNames :: "string list"
  NotBefore :: int
  NotAfter :: int
  SubjectKeyId :: bytes
  ExtKeyUsage :: "nat list"
  KeyUsage :: u32
  IsCA :: bool
  BasicConstraintsValid :: bool

text \<open>A certificate: its content, whose it is, who issued it, and the public key that confirms its signature.\<close>

record x509 =
  xContent :: template
  xIssuer :: pkix_name
  xPublic :: bytes
  xSigner :: bytes

text \<open>What the library does with keys, certificates and their encodings.\<close>

record 'k pki =
  pkPublic :: "'k \<Rightarrow> bytes"
  pkCertDER :: "x509 \<Rightarrow> bytes"
  pkParseCert :: "bytes \<Rightarrow> x509 option"
  pkKeyDER :: "'k \<Rightarrow> bytes"
  pkParseKey :: "bytes \<Rightarrow> 'k option"
  pkPEM :: "string \<Rightarrow> bytes \<Rightarrow> bytes"
  pkDecodePEM :: "bytes \<Rightarrow> ((string \<times> bytes) \<times> bytes) option"
  pkOtherURL :: "string \<Rightarrow> (string \<times> string) option"

definition pki_laws :: "'k pki \<Rightarrow> bool" where
  "pki_laws L \<longleftrightarrow>
     (\<forall>c. pkParseCert L (pkCertDER L c) = Some c) \<and>
     (\<forall>k. pkParseKey L (pkKeyDER L k) = Some k) \<and>
     (\<forall>t b. pkDecodePEM L (pkPEM L t b) = Some ((t, b), [])) \<and> pkDecodePEM L [] = None"

text \<open>\<^verbatim>\<open>x509.CreateCertificate\<close>: times are cut to seconds; a parent with a public key must be that of the
  signing key. \<open>sig_ok\<close> says whether encoding and signing succeed.\<close>

definition nanoseconds :: int where "nanoseconds = 1000000000"

definition create_certificate ::
    "'k pki \<Rightarrow> bool \<Rightarrow> template \<Rightarrow> pkix_name \<Rightarrow> bytes option \<Rightarrow> bytes \<Rightarrow> 'k \<Rightarrow> bytes option" where
  "create_certificate L sig_ok t issuer parent_public public priv =
     (if SerialNumber t < 0 \<or> \<not> sig_ok then None
      else if (case parent_public of None \<Rightarrow> False | Some p \<Rightarrow> p \<noteq> pkPublic L priv) then None
      else Some (pkCertDER L \<lparr>xContent = t\<lparr>NotBefore := NotBefore t div nanoseconds, NotAfter := NotAfter t div nanoseconds\<rparr>,
                   xIssuer = issuer, xPublic = public, xSigner = pkPublic L priv\<rparr>))"

section \<open>The functions of cert.go\<close>

datatype cert_error = KeyNotGenerated | NotSigned | BadCACert | BadCAKey

text \<open>What one call meets: the readings of the clock in their order, the date ten years after one of them,
  the new key, and whether signing succeeds.\<close>

record 'k cert_env =
  ceSerial :: int
  ceNow :: int
  ceNow2 :: int
  ceTenYears :: int
  ceKey :: "'k option"
  ceSigned :: bool

definition ca_template :: "'k cert_env \<Rightarrow> template" where
  "ca_template ce = \<lparr>
     SerialNumber = 2026,
     Subject = no_name\<lparr>Organization := [''Phantom Grid''], Country := [''VN''], Province := [[]], Locality := [[]],
                       StreetAddress := [[]], PostalCode := [[]]\<rparr>,
     URIs = [], DNSNames = [],
     NotBefore = ceNow ce, NotAfter = ceTenYears ce,
     SubjectKeyId = [],
     ExtKeyUsage = [ExtKeyUsageClientAuth, ExtKeyUsageServerAuth],
     KeyUsage = KeyUsageDigitalSignature OR KeyUsageCertSign,
     IsCA = True, BasicConstraintsValid = True\<rparr>"

definition GenerateCA :: "'k pki \<Rightarrow> 'k cert_env \<Rightarrow> cert_error + bytes \<times> bytes" where
  "GenerateCA L ce =
     (case ceKey ce of
        None \<Rightarrow> Inl KeyNotGenerated
      | Some k \<Rightarrow>
          (case create_certificate L (ceSigned ce) (ca_template ce) (Subject (ca_template ce)) None (pkPublic L k) k of
             None \<Rightarrow> Inl NotSigned
           | Some caBytes \<Rightarrow> Inr (pkPEM L ''CERTIFICATE'' caBytes, pkPEM L ''RSA PRIVATE KEY'' (pkKeyDER L k))))"

text \<open>\<^verbatim>\<open>url.Parse\<close> with the scheme and the text of its result, for URIs of plain characters.\<close>

definition plain_char :: "char \<Rightarrow> bool" where
  "plain_char c \<longleftrightarrow> (let n = of_char c :: nat in 97 \<le> n \<and> n \<le> 122 \<or> 48 \<le> n \<and> n \<le> 57 \<or> n \<in> {45, 46, 47})"

definition url_parse :: "'k pki \<Rightarrow> string \<Rightarrow> (string \<times> string) option" where
  "url_parse L s =
     (if has_prefix s ''spiffe://'' \<and> 9 < length s \<and> list_all plain_char (drop 9 s) then Some (''spiffe'', s)
      else pkOtherURL L s)"

definition cert_uris :: "'k pki \<Rightarrow> string \<Rightarrow> (string \<times> string) list" where
  "cert_uris L spiffeID =
     (if spiffeID \<noteq> [] then (case url_parse L spiffeID of Some u \<Rightarrow> [u] | None \<Rightarrow> []) else [])"

definition cert_template :: "'k pki \<Rightarrow> 'k cert_env \<Rightarrow> bool \<Rightarrow> string \<Rightarrow> string \<Rightarrow> template" where
  "cert_template L ce isServer commonName spiffeID =
     (let cert = \<lparr>
            SerialNumber = ceSerial ce,
            Subject = no_name\<lparr>Organization := [''Phantom Grid Users''], CommonName := commonName\<rparr>,
            URIs = cert_uris L spiffeID, DNSNames = [],
            NotBefore = ceNow ce, NotAfter = ceNow2 ce + 24 * 3600 * nanoseconds,
            SubjectKeyId = [1, 2, 3, 4, 6],
            ExtKeyUsage = [ExtKeyUsageClientAuth],
            KeyUsage = KeyUsageDigitalSignature,
            IsCA = False, BasicConstraintsValid = False\<rparr>
      in if isServer then cert\<lparr>ExtKeyUsage := [ExtKeyUsageServerAuth], DNSNames := [''localhost'']\<rparr> else cert)"

definition GenerateCert ::
    "'k pki \<Rightarrow> 'k cert_env \<Rightarrow> bytes \<Rightarrow> bytes \<Rightarrow> bool \<Rightarrow> string \<Rightarrow> string \<Rightarrow> cert_error + bytes \<times> bytes" where
  "GenerateCert L ce caPEM caPrivKeyPEM isServer commonName spiffeID =
     (case pkDecodePEM L caPEM of
        None \<Rightarrow> Inl BadCACert
      | Some ((_, caBlock), _) \<Rightarrow>
     (case pkParseCert L caBlock of
        None \<Rightarrow> Inl BadCACert
      | Some ca \<Rightarrow>
     (case pkDecodePEM L caPrivKeyPEM of
        None \<Rightarrow> Inl BadCAKey
      | Some ((_, keyBlock), _) \<Rightarrow>
     (case pkParseKey L keyBlock of
        None \<Rightarrow> Inl BadCAKey
      | Some caPrivKey \<Rightarrow>
     (case ceKey ce of
        None \<Rightarrow> Inl KeyNotGenerated
      | Some k \<Rightarrow>
     (case create_certificate L (ceSigned ce) (cert_template L ce isServer commonName spiffeID)
             (Subject (xContent ca)) (Some (xPublic ca)) (pkPublic L k) caPrivKey of
        None \<Rightarrow> Inl NotSigned
      | Some certBytes \<Rightarrow>
          Inr (pkPEM L ''CERTIFICATE'' certBytes, pkPEM L ''RSA PRIVATE KEY'' (pkKeyDER L k))))))))"


section \<open>A client at the proxy\<close>

text \<open>\<^verbatim>\<open>AppendCertsFromPEM\<close>: the certificates among the blocks, each of which takes at least one byte.\<close>

fun pem_certs :: "'k pki \<Rightarrow> nat \<Rightarrow> bytes \<Rightarrow> x509 list" where
  "pem_certs L 0 pem = []"
| "pem_certs L (Suc n) pem =
     (case pkDecodePEM L pem of
        None \<Rightarrow> []
      | Some ((t, b), rest) \<Rightarrow>
          (if t = ''CERTIFICATE'' then (case pkParseCert L b of Some c \<Rightarrow> [c] | None \<Rightarrow> []) else []) @ pem_certs L n rest)"

definition cert_pool :: "'k pki \<Rightarrow> bytes \<Rightarrow> x509 list" where
  "cert_pool L pem = pem_certs L (length pem) pem"

text \<open>\<^verbatim>\<open>tls.X509KeyPair\<close>: the certificate and its key, which must belong together.\<close>

definition key_pair :: "'k pki \<Rightarrow> bytes \<Rightarrow> bytes \<Rightarrow> x509 option" where
  "key_pair L certPEM keyPEM =
     (case (pkDecodePEM L certPEM, pkDecodePEM L keyPEM) of
        (Some ((t, b), _), Some ((_, kb), _)) \<Rightarrow>
          (case (pkParseCert L b, pkParseKey L kb) of
             (Some c, Some k) \<Rightarrow> if t = ''CERTIFICATE'' \<and> xPublic c = pkPublic L k then Some c else None
           | _ \<Rightarrow> None)
      | _ \<Rightarrow> None)"

text \<open>\<^verbatim>\<open>Certificate.Verify\<close> for a client: a certificate of the pool, or one that a certificate of the pool
  has signed as an authority; both are in their time and may be used by clients.\<close>

definition in_time :: "int \<Rightarrow> x509 \<Rightarrow> bool" where
  "in_time now c \<longleftrightarrow> NotBefore (xContent c) * nanoseconds \<le> now \<and> now \<le> NotAfter (xContent c) * nanoseconds"

definition client_usage :: "x509 \<Rightarrow> bool" where
  "client_usage c \<longleftrightarrow>
     ExtKeyUsage (xContent c) = [] \<or> ExtKeyUsageAny \<in> set (ExtKeyUsage (xContent c)) \<or>
     ExtKeyUsageClientAuth \<in> set (ExtKeyUsage (xContent c))"

definition signed_by :: "x509 \<Rightarrow> x509 \<Rightarrow> bool" where
  "signed_by c ca \<longleftrightarrow>
     xIssuer c = Subject (xContent ca) \<and> BasicConstraintsValid (xContent ca) \<and> IsCA (xContent ca) \<and>
     (KeyUsage (xContent ca) = 0 \<or> KeyUsage (xContent ca) AND KeyUsageCertSign \<noteq> 0) \<and> xSigner c = xPublic ca"

definition verify_client :: "int \<Rightarrow> x509 list \<Rightarrow> x509 \<Rightarrow> bool" where
  "verify_client now roots c \<longleftrightarrow>
     in_time now c \<and> client_usage c \<and>
     (c \<in> set roots \<or> list_ex (\<lambda>ca. in_time now ca \<and> client_usage ca \<and> signed_by c ca) roots)"

text \<open>The handshake of a client that has the given certificate and key, with a proxy that trusts the given
  authorities; a client without a usable pair sends no certificate.\<close>

definition client_handshake :: "'k pki \<Rightarrow> int \<Rightarrow> bytes \<Rightarrow> bytes \<times> bytes \<Rightarrow> client_conn" where
  "client_handshake L now caPEM pair =
     TlsConn (case key_pair L (fst pair) (snd pair) of
        None \<Rightarrow> None
      | Some c \<Rightarrow> if verify_client now (cert_pool L caPEM) c then Some [\<lparr>certURIs = URIs (xContent c)\<rparr>] else None)"

text \<open>What \<^verbatim>\<open>proxy.MTLSServer\<close> asks of the library, answered by it.\<close>

definition tls_of :: "'k pki \<Rightarrow> (i64 \<Rightarrow> string option) \<Rightarrow> tls_env" where
  "tls_of L listen = \<lparr>
     teAppendCA = (\<lambda>pem. cert_pool L pem \<noteq> []),
     teKeyPair = (\<lambda>c k. if key_pair L c k = None then Some ''tls: private key does not match public key'' else None),
     teListen = listen\<rparr>"

section \<open>Provisioning\<close>

text \<open>The profile \<^verbatim>\<open>handleProvisionAccess\<close> answers with: the new SPA key, whose public half is dropped, and
  a certificate of an authority made for it, whose key is dropped.\<close>

definition spiffe_agent :: string where
  "spiffe_agent = ''spiffe://phantom.grid/ns/default/workload/phantom-agent''"

definition provision_profile ::
    "'k pki \<Rightarrow> bytes option \<Rightarrow> 'k cert_env \<Rightarrow> 'k cert_env \<Rightarrow> string + (string \<times> bytes) list" where
  "provision_profile L spa_key ce ge =
     (case spa_key of
        None \<Rightarrow> Inl ''Failed to generate keys''
      | Some privKey \<Rightarrow>
     (case GenerateCA L ce of
        Inl _ \<Rightarrow> Inl ''Failed to generate CA''
      | Inr (caPEM, caPriv) \<Rightarrow>
     (case GenerateCert L ge caPEM caPriv False ''phantom-user'' spiffe_agent of
        Inl _ \<Rightarrow> Inl ''Failed to generate Cert''
      | Inr (certPEM, certPriv) \<Rightarrow> Inr [
          (''spa_private_key'', privKey),
          (''totp_secret'', bytes_of_string ''NEW_TOTP_SECRET_GENERATED''),
          (''mtls_ca'', caPEM),
          (''mtls_cert'', certPEM),
          (''mtls_key'', certPriv),
          (''message'', bytes_of_string ''Provisioning Profile generated successfully'')])))"

section \<open>What the certificates are good for\<close>

lemma GenerateCA_Inr:
  assumes "GenerateCA L ce = Inr (ca, priv)"
  obtains k where "ceKey ce = Some k" "ceSigned ce"
    "ca = pkPEM L ''CERTIFICATE'' (pkCertDER L \<lparr>xContent = (ca_template ce)\<lparr>NotBefore := ceNow ce div nanoseconds, NotAfter := ceTenYears ce div nanoseconds\<rparr>,
       xIssuer = Subject (ca_template ce), xPublic = pkPublic L k, xSigner = pkPublic L k\<rparr>)"
    "priv = pkPEM L ''RSA PRIVATE KEY'' (pkKeyDER L k)"
proof (cases "ceKey ce")
  case None
  then show thesis using assms by (simp add: GenerateCA_def)
next
  case (Some k)
  have fields: "SerialNumber (ca_template ce) = 2026" "NotBefore (ca_template ce) = ceNow ce" "NotAfter (ca_template ce) = ceTenYears ce"
    by (simp_all add: ca_template_def)
  show thesis
  proof (rule that [OF Some])
    show "ceSigned ce" using assms Some by (simp add: GenerateCA_def create_certificate_def fields split: if_splits)
    then show "ca = pkPEM L ''CERTIFICATE'' (pkCertDER L \<lparr>xContent = (ca_template ce)\<lparr>NotBefore := ceNow ce div nanoseconds, NotAfter := ceTenYears ce div nanoseconds\<rparr>,
       xIssuer = Subject (ca_template ce), xPublic = pkPublic L k, xSigner = pkPublic L k\<rparr>)"
      and "priv = pkPEM L ''RSA PRIVATE KEY'' (pkKeyDER L k)"
      using assms Some by (simp_all add: GenerateCA_def create_certificate_def fields)
  qed
qed


text \<open>The certificate of the authority and one that it signed, as they are read back.\<close>

definition ca_cert :: "'k pki \<Rightarrow> 'k cert_env \<Rightarrow> 'k \<Rightarrow> x509" where
  "ca_cert L ce k = \<lparr>xContent = (ca_template ce)\<lparr>NotBefore := ceNow ce div nanoseconds, NotAfter := ceTenYears ce div nanoseconds\<rparr>,
     xIssuer = Subject (ca_template ce), xPublic = pkPublic L k, xSigner = pkPublic L k\<rparr>"

definition leaf_cert :: "'k pki \<Rightarrow> pkix_name \<Rightarrow> 'k \<Rightarrow> 'k cert_env \<Rightarrow> bool \<Rightarrow> string \<Rightarrow> string \<Rightarrow> 'k \<Rightarrow> x509" where
  "leaf_cert L issuer k ge isServer cn sid k' =
     (let t = cert_template L ge isServer cn sid
      in \<lparr>xContent = t\<lparr>NotBefore := ceNow ge div nanoseconds, NotAfter := (ceNow2 ge + 24 * 3600 * nanoseconds) div nanoseconds\<rparr>,
          xIssuer = issuer, xPublic = pkPublic L k', xSigner = pkPublic L k\<rparr>)"

lemma pki_lawsD:
  assumes "pki_laws L"
  shows "pkParseCert L (pkCertDER L c) = Some c" "pkParseKey L (pkKeyDER L k) = Some k"
    "pkDecodePEM L (pkPEM L t b) = Some ((t, b), [])" "pkDecodePEM L [] = None"
  using assms by (simp_all add: pki_laws_def)

lemma cert_pool_single:
  assumes "pki_laws L"
  shows "cert_pool L (pkPEM L ''CERTIFICATE'' (pkCertDER L c)) = [c]"
proof -
  let ?pem = "pkPEM L ''CERTIFICATE'' (pkCertDER L c)"
  have "?pem \<noteq> []" using pki_lawsD(3,4) [OF assms] by (metis option.distinct(1))
  then obtain n where "length ?pem = Suc n" by (cases "length ?pem") auto
  moreover have "pem_certs L n [] = []" by (cases n) (simp_all add: pki_lawsD(4) [OF assms])
  ultimately show ?thesis
    unfolding cert_pool_def by (simp add: pki_lawsD [OF assms])
qed

lemma key_pair_own:
  assumes "pki_laws L" "xPublic c = pkPublic L k"
  shows "key_pair L (pkPEM L ''CERTIFICATE'' (pkCertDER L c)) (pkPEM L ''RSA PRIVATE KEY'' (pkKeyDER L k)) = Some c"
  using assms by (simp add: key_pair_def pki_lawsD)

lemma GenerateCA_cert:
  assumes "GenerateCA L ce = Inr (ca, priv)"
  obtains k where "ceKey ce = Some k" "ca = pkPEM L ''CERTIFICATE'' (pkCertDER L (ca_cert L ce k))"
    "priv = pkPEM L ''RSA PRIVATE KEY'' (pkKeyDER L k)"
  using GenerateCA_Inr [OF assms] unfolding ca_cert_def .

lemma cert_template_fields:
  "SerialNumber (cert_template L ge isServer cn sid) = ceSerial ge"
  "NotBefore (cert_template L ge isServer cn sid) = ceNow ge"
  "NotAfter (cert_template L ge isServer cn sid) = ceNow2 ge + 24 * 3600 * nanoseconds"
  "URIs (cert_template L ge isServer cn sid) = cert_uris L sid"
  "ExtKeyUsage (cert_template L ge isServer cn sid) = [if isServer then ExtKeyUsageServerAuth else ExtKeyUsageClientAuth]"
  "IsCA (cert_template L ge isServer cn sid) = False"
  by (simp_all add: cert_template_def Let_def)

lemma ca_template_fields:
  "IsCA (ca_template ce) = True" "BasicConstraintsValid (ca_template ce) = True"
  "KeyUsage (ca_template ce) AND KeyUsageCertSign \<noteq> 0"
  "ExtKeyUsageClientAuth \<in> set (ExtKeyUsage (ca_template ce))" "Subject (ca_template ce) = Subject (ca_template ce')"
  by (simp_all add: ca_template_def usage_defs)

lemma GenerateCert_cert:
  assumes laws: "pki_laws L" and ca: "GenerateCA L ce = Inr (ca, priv)"
    and cert: "GenerateCert L ge ca priv isServer cn sid = Inr (cert, key)"
  obtains k k' where "ceKey ce = Some k" "ca = pkPEM L ''CERTIFICATE'' (pkCertDER L (ca_cert L ce k))"
    "cert = pkPEM L ''CERTIFICATE'' (pkCertDER L (leaf_cert L (Subject (ca_template ce)) k ge isServer cn sid k'))"
    "key = pkPEM L ''RSA PRIVATE KEY'' (pkKeyDER L k')"
proof -
  obtain k where k: "ceKey ce = Some k" "ca = pkPEM L ''CERTIFICATE'' (pkCertDER L (ca_cert L ce k))"
    "priv = pkPEM L ''RSA PRIVATE KEY'' (pkKeyDER L k)"
    using GenerateCA_cert [OF ca] .
  have subject: "Subject (xContent (ca_cert L ce k)) = Subject (ca_template ce)" "xPublic (ca_cert L ce k) = pkPublic L k"
    by (simp_all add: ca_cert_def)
  from cert obtain k' where k': "ceKey ge = Some k'"
    by (auto simp: GenerateCert_def k pki_lawsD [OF laws] split: option.splits)
  show thesis
  proof (rule that [OF k(1,2)])
    show "cert = pkPEM L ''CERTIFICATE'' (pkCertDER L (leaf_cert L (Subject (ca_template ce)) k ge isServer cn sid k'))"
      and "key = pkPEM L ''RSA PRIVATE KEY'' (pkKeyDER L k')"
      using cert unfolding GenerateCert_def k(2,3) pki_lawsD [OF laws] k' create_certificate_def subject
      by (simp_all add: pki_lawsD [OF laws] leaf_cert_def Let_def cert_template_fields subject split: if_splits)
  qed
qed


lemma leaf_cert_fields:
  "xPublic (leaf_cert L issuer k ge isServer cn sid k') = pkPublic L k'"
  "xSigner (leaf_cert L issuer k ge isServer cn sid k') = pkPublic L k"
  "xIssuer (leaf_cert L issuer k ge isServer cn sid k') = issuer"
  "IsCA (xContent (leaf_cert L issuer k ge isServer cn sid k')) = False"
  "URIs (xContent (leaf_cert L issuer k ge isServer cn sid k')) = cert_uris L sid"
  "client_usage (leaf_cert L issuer k ge isServer cn sid k') \<longleftrightarrow> \<not> isServer"
  "in_time now (leaf_cert L issuer k ge isServer cn sid k') \<longleftrightarrow>
     ceNow ge div nanoseconds * nanoseconds \<le> now \<and>
     now \<le> (ceNow2 ge + 24 * 3600 * nanoseconds) div nanoseconds * nanoseconds"
  by (simp_all add: leaf_cert_def Let_def cert_template_fields client_usage_def usage_defs in_time_def)

lemma ca_cert_fields:
  "xPublic (ca_cert L ce k) = pkPublic L k"
  "client_usage (ca_cert L ce k)"
  "in_time now (ca_cert L ce k) \<longleftrightarrow>
     ceNow ce div nanoseconds * nanoseconds \<le> now \<and> now \<le> ceTenYears ce div nanoseconds * nanoseconds"
  by (simp_all add: ca_cert_def ca_template_fields client_usage_def in_time_def)

lemma signed_by_ca:
  "signed_by (leaf_cert L (Subject (ca_template ce)) k ge isServer cn sid k') (ca_cert L ce' j) \<longleftrightarrow> pkPublic L k = pkPublic L j"
  using ca_template_fields(3) [of ce'] ca_template_fields(5) [of ce ce']
  by (simp add: signed_by_def leaf_cert_fields ca_cert_def ca_template_fields)

lemma leaf_cert_not_ca: "leaf_cert L issuer k ge isServer cn sid k' \<noteq> ca_cert L ce j"
proof
  assume "leaf_cert L issuer k ge isServer cn sid k' = ca_cert L ce j"
  then have "IsCA (xContent (leaf_cert L issuer k ge isServer cn sid k')) = IsCA (xContent (ca_cert L ce j))" by simp
  then show False by (simp add: leaf_cert_fields ca_cert_def ca_template_fields)
qed

lemma verify_issued:
  "verify_client now [ca_cert L ce' j] (leaf_cert L (Subject (ca_template ce)) k ge isServer cn sid k') \<longleftrightarrow>
     \<not> isServer \<and> pkPublic L k = pkPublic L j \<and>
     in_time now (leaf_cert L (Subject (ca_template ce)) k ge isServer cn sid k') \<and> in_time now (ca_cert L ce' j)"
  by (auto simp: verify_client_def leaf_cert_not_ca ca_cert_fields(2) leaf_cert_fields(6) signed_by_ca)

text \<open>C34. A certificate that was issued gets its owner through a proxy that trusts its authority exactly when
  it was made for a client, both certificates are in their time -- 24 hours and ten years, in whole
  seconds --, and the proxy asks for no identity or for the one in the certificate.\<close>

theorem issued_certificate_admits:
  assumes laws: "pki_laws L" and ca: "GenerateCA L ce = Inr (ca, priv)"
    and cert: "GenerateCert L ge ca priv isServer cn sid = Inr (cert, key)"
    and sid: "sid \<noteq> []" "url_parse L sid = Some (''spiffe'', sid)"
  shows "proxy_connection ids True (client_handshake L now ca (cert, key)) = Forwarding \<longleftrightarrow>
     \<not> isServer \<and>
     ceNow ge div nanoseconds * nanoseconds \<le> now \<and>
     now \<le> (ceNow2 ge + 24 * 3600 * nanoseconds) div nanoseconds * nanoseconds \<and>
     ceNow ce div nanoseconds * nanoseconds \<le> now \<and> now \<le> ceTenYears ce div nanoseconds * nanoseconds \<and>
     (ids = [] \<or> sid \<in> set ids)"
proof -
  obtain k k' where ca': "ca = pkPEM L ''CERTIFICATE'' (pkCertDER L (ca_cert L ce k))"
    and cert': "cert = pkPEM L ''CERTIFICATE'' (pkCertDER L (leaf_cert L (Subject (ca_template ce)) k ge isServer cn sid k'))"
    and key': "key = pkPEM L ''RSA PRIVATE KEY'' (pkKeyDER L k')"
    using GenerateCert_cert [OF laws ca cert] .
  define c where "c = leaf_cert L (Subject (ca_template ce)) k ge isServer cn sid k'"
  have pair: "key_pair L cert key = Some c"
    unfolding cert' key' c_def by (rule key_pair_own [OF laws]) (simp add: leaf_cert_fields)
  have uris: "URIs (xContent c) = [(''spiffe'', sid)]"
    using sid by (simp add: c_def leaf_cert_fields cert_uris_def)
  have "proxy_connection ids True (client_handshake L now ca (cert, key)) = Forwarding \<longleftrightarrow>
      verify_client now [ca_cert L ce k] c \<and> (ids = [] \<or> sid \<in> set ids)"
    unfolding client_handshake_def ca' cert_pool_single [OF laws] fst_conv snd_conv pair
    by (simp add: uris proxy_connection_def client_ids_def some_allowed_iff)
  then show ?thesis
    unfolding c_def verify_issued by (auto simp: leaf_cert_fields ca_cert_fields)
qed

text \<open>The certificate of a profile the fleet server hands out is refused by every proxy whose
  authority \<^verbatim>\<open>GenerateCA\<close> made with another key: the key of the profile's own authority is thrown away with
  the request.\<close>

theorem provisioned_certificate_refused:
  assumes laws: "pki_laws L" and profile: "provision_profile L spa_key ce ge = Inr p"
    and ca: "GenerateCA L ce' = Inr (ca', priv')" "ceKey ce = Some k" "ceKey ce' = Some k'" "pkPublic L k \<noteq> pkPublic L k'"
    and pair: "map_of p ''mtls_cert'' = Some cert" "map_of p ''mtls_key'' = Some key"
  shows "proxy_connection ids dial_ok (client_handshake L now ca' (cert, key)) = HandshakeFailed"
proof -
  obtain caPEM caPriv where ca0: "GenerateCA L ce = Inr (caPEM, caPriv)"
    and cert0: "GenerateCert L ge caPEM caPriv False ''phantom-user'' spiffe_agent = Inr (cert, key)"
    using profile pair by (auto simp: provision_profile_def split: option.splits sum.splits)
  obtain j j' where j: "ceKey ce = Some j"
    and cert1: "cert = pkPEM L ''CERTIFICATE'' (pkCertDER L (leaf_cert L (Subject (ca_template ce)) j ge False ''phantom-user'' spiffe_agent j'))"
    and key1: "key = pkPEM L ''RSA PRIVATE KEY'' (pkKeyDER L j')"
    using GenerateCert_cert [OF laws ca0 cert0] by metis
  have ca1: "ca' = pkPEM L ''CERTIFICATE'' (pkCertDER L (ca_cert L ce' k'))"
    using GenerateCA_cert [OF ca(1)] ca(3) by (metis option.inject)
  have jk: "j = k" using j ca(2) by simp
  have pair1: "key_pair L cert key = Some (leaf_cert L (Subject (ca_template ce)) j ge False ''phantom-user'' spiffe_agent j')"
    unfolding cert1 key1 by (rule key_pair_own [OF laws]) (simp add: leaf_cert_fields)
  show ?thesis
    unfolding client_handshake_def ca1 cert_pool_single [OF laws] fst_conv snd_conv pair1
    using ca(4) by (simp add: verify_issued jk proxy_connection_def)
qed


section \<open>An example of the library\<close>

text \<open>Encodings by numbering: a certificate, a block or a key is as many bytes as its number.\<close>

type_synonym name_code = "string list \<times> string list \<times> string list \<times> string list \<times> string list \<times> string list \<times> string"

definition name_code :: "pkix_name \<Rightarrow> name_code" where
  "name_code n = (Organization n, Country n, Province n, Locality n, StreetAddress n, PostalCode n, CommonName n)"

definition name_of :: "name_code \<Rightarrow> pkix_name" where
  "name_of x = (case x of (a, b, c, d, e, f, g) \<Rightarrow> \<lparr>Organization = a, Country = b, Province = c, Locality = d,
     StreetAddress = e, PostalCode = f, CommonName = g\<rparr>)"

lemma name_of_code: "name_of (name_code n) = n"
  by (cases n) (simp add: name_of_def name_code_def)

type_synonym template_code =
  "int \<times> name_code \<times> (string \<times> string) list \<times> string list \<times> int \<times> int \<times> bytes \<times> nat list \<times> u32 \<times> bool \<times> bool"

definition template_code :: "template \<Rightarrow> template_code" where
  "template_code t = (SerialNumber t, name_code (Subject t), URIs t, DNSNames t, NotBefore t, NotAfter t, SubjectKeyId t,
     ExtKeyUsage t, KeyUsage t, IsCA t, BasicConstraintsValid t)"

definition template_of :: "template_code \<Rightarrow> template" where
  "template_of x = (case x of (a, b, c, d, e, f, g, h, i, j, k) \<Rightarrow> \<lparr>SerialNumber = a, Subject = name_of b, URIs = c,
     DNSNames = d, NotBefore = e, NotAfter = f, SubjectKeyId = g, ExtKeyUsage = h, KeyUsage = i, IsCA = j,
     BasicConstraintsValid = k\<rparr>)"

lemma template_of_code: "template_of (template_code t) = t"
  by (cases t) (simp add: template_of_def template_code_def name_of_code)

type_synonym cert_code = "template_code \<times> name_code \<times> bytes \<times> bytes"

definition cert_code :: "x509 \<Rightarrow> cert_code" where
  "cert_code c = (template_code (xContent c), name_code (xIssuer c), xPublic c, xSigner c)"

definition cert_of :: "cert_code \<Rightarrow> x509" where
  "cert_of x = (case x of (a, b, c, d) \<Rightarrow> \<lparr>xContent = template_of a, xIssuer = name_of b, xPublic = c, xSigner = d\<rparr>)"

lemma cert_of_code: "cert_of (cert_code c) = c"
  by (cases c) (simp add: cert_of_def cert_code_def template_of_code name_of_code)

definition example_pki :: "nat pki" where
  "example_pki = \<lparr>
     pkPublic = (\<lambda>k. replicate k 0),
     pkCertDER = (\<lambda>c. replicate (to_nat (cert_code c)) 0),
     pkParseCert = (\<lambda>b. Some (cert_of (from_nat (length b)))),
     pkKeyDER = (\<lambda>k. replicate k 0),
     pkParseKey = (\<lambda>b. Some (length b)),
     pkPEM = (\<lambda>t b. replicate (Suc (to_nat (t, b))) 0),
     pkDecodePEM = (\<lambda>b. if b = [] then None else Some (from_nat (length b - 1), [])),
     pkOtherURL = (\<lambda>_. None)\<rparr>"

lemma example_pki_laws: "pki_laws example_pki"
  by (simp add: pki_laws_def example_pki_def cert_of_code)

lemma example_public: "pkPublic example_pki k = replicate k 0"
  by (simp add: example_pki_def)

definition example_ca_env :: "nat cert_env" where
  "example_ca_env = \<lparr>ceSerial = 0, ceNow = 5000000007, ceNow2 = 5000000009, ceTenYears = 315360005000000009, ceKey = Some 3, ceSigned = True\<rparr>"

definition example_cert_env :: "nat cert_env" where
  "example_cert_env = \<lparr>ceSerial = 7000000000, ceNow = 7000000001, ceNow2 = 7000000002, ceTenYears = 315360007000000000, ceKey = Some 4, ceSigned = True\<rparr>"

text \<open>Both functions succeed with a key and a signature.\<close>

lemma GenerateCA_ok: "ceKey ce = Some k \<Longrightarrow> ceSigned ce \<Longrightarrow> \<exists>ca priv. GenerateCA L ce = Inr (ca, priv)"
  by (simp add: GenerateCA_def create_certificate_def ca_template_def)

lemma GenerateCert_ok:
  assumes laws: "pki_laws L" and ca: "GenerateCA L ce = Inr (ca, priv)"
    and env: "ceKey ge = Some k'" "ceSigned ge" "0 \<le> ceSerial ge"
  shows "\<exists>cert key. GenerateCert L ge ca priv isServer cn sid = Inr (cert, key)"
proof -
  obtain k where k: "ca = pkPEM L ''CERTIFICATE'' (pkCertDER L (ca_cert L ce k))"
    "priv = pkPEM L ''RSA PRIVATE KEY'' (pkKeyDER L k)"
    using GenerateCA_cert [OF ca] .
  show ?thesis
    using env unfolding GenerateCert_def k
    by (simp add: pki_lawsD [OF laws] create_certificate_def cert_template_fields ca_cert_fields)
qed

theorem issued_certificate_admits_witness:
  "\<exists>ca priv cert key.
     GenerateCA example_pki example_ca_env = Inr (ca, priv) \<and>
     GenerateCert example_pki example_cert_env ca priv False ''ops'' spiffe_agent = Inr (cert, key) \<and>
     proxy_connection [spiffe_agent] True (client_handshake example_pki 8000000000 ca (cert, key)) = Forwarding"
proof -
  have env: "ceKey example_ca_env = Some 3" "ceSigned example_ca_env" "ceKey example_cert_env = Some 4" "ceSigned example_cert_env"
    "0 \<le> ceSerial example_cert_env"
    by (simp_all add: example_ca_env_def example_cert_env_def)
  obtain ca priv where ca: "GenerateCA example_pki example_ca_env = Inr (ca, priv)"
    using GenerateCA_ok [OF env(1,2)] by blast
  obtain cert key where cert: "GenerateCert example_pki example_cert_env ca priv False ''ops'' spiffe_agent = Inr (cert, key)"
    using GenerateCert_ok [OF example_pki_laws ca env(3-5)] by blast
  have "has_prefix spiffe_agent ''spiffe://''" "9 < length spiffe_agent" "list_all plain_char (drop 9 spiffe_agent)" "spiffe_agent \<noteq> []"
    by code_simp+
  then have "spiffe_agent \<noteq> []" "url_parse example_pki spiffe_agent = Some (''spiffe'', spiffe_agent)"
    by (simp_all add: url_parse_def)
  from issued_certificate_admits [OF example_pki_laws ca cert this, of "[spiffe_agent]" 8000000000]
  show ?thesis using ca cert by (simp add: example_ca_env_def example_cert_env_def nanoseconds_def)
qed

theorem provisioned_certificate_refused_witness:
  "\<exists>p cert key ca' priv'.
     provision_profile example_pki (Some [7]) example_ca_env example_cert_env = Inr p \<and>
     map_of p ''mtls_cert'' = Some cert \<and> map_of p ''mtls_key'' = Some key \<and>
     GenerateCA example_pki (example_ca_env\<lparr>ceKey := Some 5\<rparr>) = Inr (ca', priv') \<and>
     proxy_connection [] True (client_handshake example_pki 8000000000 ca' (cert, key)) = HandshakeFailed"
proof -
  have env: "ceKey example_ca_env = Some 3" "ceSigned example_ca_env" "ceKey example_cert_env = Some 4" "ceSigned example_cert_env"
    "0 \<le> ceSerial example_cert_env" "ceKey (example_ca_env\<lparr>ceKey := Some 5\<rparr>) = Some 5" "ceSigned (example_ca_env\<lparr>ceKey := Some 5\<rparr>)"
    by (simp_all add: example_ca_env_def example_cert_env_def)
  obtain ca priv where ca: "GenerateCA example_pki example_ca_env = Inr (ca, priv)"
    using GenerateCA_ok [OF env(1,2)] by blast
  obtain cert key where cert: "GenerateCert example_pki example_cert_env ca priv False ''phantom-user'' spiffe_agent = Inr (cert, key)"
    using GenerateCert_ok [OF example_pki_laws ca env(3-5)] by blast
  obtain ca' priv' where ca': "GenerateCA example_pki (example_ca_env\<lparr>ceKey := Some 5\<rparr>) = Inr (ca', priv')"
    using GenerateCA_ok [OF env(6,7)] by blast
  obtain p where p: "provision_profile example_pki (Some [7]) example_ca_env example_cert_env = Inr p"
    "map_of p ''mtls_cert'' = Some cert" "map_of p ''mtls_key'' = Some key"
    by (simp add: provision_profile_def ca cert)
  have "pkPublic example_pki 3 \<noteq> pkPublic example_pki 5" by (simp add: example_public)
  from provisioned_certificate_refused [OF example_pki_laws p(1) ca' env(1,6) this p(2,3)] p ca' show ?thesis by blast
qed


text \<open>With an issued pair the proxy starts, if it gets its port -- also with a client's, for which the
  library does not ask.\<close>

lemma issued_pair_starts:
  assumes laws: "pki_laws L" and ca: "GenerateCA L ce = Inr (ca, priv)"
    and cert: "GenerateCert L ge ca priv isServer cn sid = Inr (cert, key)" and port: "listen p = None"
  shows "MTLSStart (tls_of L listen) \<lparr>ListenPort = p, TargetPort = t, CACert = ca, ServerCert = cert, ServerKey = key,
     AllowedSPIFFEIDs = ids\<rparr> = Inr ()"
proof -
  obtain k k' where ca': "ca = pkPEM L ''CERTIFICATE'' (pkCertDER L (ca_cert L ce k))"
    and cert': "cert = pkPEM L ''CERTIFICATE'' (pkCertDER L (leaf_cert L (Subject (ca_template ce)) k ge isServer cn sid k'))"
    and key': "key = pkPEM L ''RSA PRIVATE KEY'' (pkKeyDER L k')"
    using GenerateCert_cert [OF laws ca cert] .
  have "key_pair L cert key \<noteq> None"
    unfolding cert' key' by (subst key_pair_own [OF laws]) (simp_all add: leaf_cert_fields)
  moreover have "cert_pool L ca \<noteq> []"
    unfolding ca' cert_pool_single [OF laws] by simp
  ultimately show ?thesis using port by (simp add: MTLSStart_def tls_of_def)
qed

end
