(* ===== verification/Loader.thy ===== *)
theory Loader
  imports Agent
begin

text \<open>
  \<^verbatim>\<open>internal/ebpf/loader.go\<close> and \<^verbatim>\<open>attachTCEgress\<close> of \<^verbatim>\<open>internal/agent/agent.go\<close>: loading the two
  kernel programs and attaching them to an interface. The kernel is reached through two libraries, whose
  operations are the parameter \<open>ko\<close> on a state of any type; loaded programs are numbered.
\<close>

section \<open>The kernel\<close>

text \<open>An operation gives an error or the new state; the error of adding a qdisc says whether it exists
  already. \<open>ko_egress\<close> is the program that filters what an interface sends.\<close>

record 'k kernel_ops =
  ko_memlock :: "'k \<Rightarrow> string option"
  ko_load_phantom :: "'k \<Rightarrow> string + nat \<times> 'k"
  ko_load_egress :: "'k \<Rightarrow> string + nat \<times> 'k"
  ko_unload :: "'k \<Rightarrow> nat \<Rightarrow> 'k"
  ko_attach_xdp :: "'k \<Rightarrow> i64 \<Rightarrow> nat \<Rightarrow> string + 'k"
  ko_detach_xdp :: "'k \<Rightarrow> i64 \<Rightarrow> string + 'k"
  ko_link :: "'k \<Rightarrow> i64 \<Rightarrow> string option"
  ko_qdisc_add :: "'k \<Rightarrow> i64 \<Rightarrow> bool \<times> string + 'k"
  ko_filter_add :: "'k \<Rightarrow> i64 \<Rightarrow> nat \<Rightarrow> string + 'k"
  ko_egress :: "'k \<Rightarrow> i64 \<Rightarrow> nat option"

text \<open>What is relied on: adding a filter puts it there and fails where there is one already; nothing else
  touches the filters, which keep their programs.\<close>

definition kernel_laws :: "'k kernel_ops \<Rightarrow> bool" where
  "kernel_laws ko \<longleftrightarrow>
     (\<forall>k i p k'. ko_filter_add ko k i p = Inr k' \<longrightarrow> ko_egress ko k i = None \<and> ko_egress ko k' i = Some p) \<and>
     (\<forall>k p k'. ko_load_phantom ko k = Inr (p, k') \<longrightarrow> ko_egress ko k' = ko_egress ko k) \<and>
     (\<forall>k p k'. ko_load_egress ko k = Inr (p, k') \<longrightarrow> ko_egress ko k' = ko_egress ko k) \<and>
     (\<forall>k p. ko_egress ko (ko_unload ko k p) = ko_egress ko k) \<and>
     (\<forall>k i p k'. ko_attach_xdp ko k i p = Inr k' \<longrightarrow> ko_egress ko k' = ko_egress ko k) \<and>
     (\<forall>k i k'. ko_detach_xdp ko k i = Inr k' \<longrightarrow> ko_egress ko k' = ko_egress ko k) \<and>
     (\<forall>k i k'. ko_qdisc_add ko k i = Inr k' \<longrightarrow> ko_egress ko k' = ko_egress ko k)"

section \<open>The loader\<close>

record loader =
  PhantomObjs :: "nat option"
  EgressObjs :: "nat option"
  xdpLink :: "i64 option"

definition NewLoader :: "'k kernel_ops \<Rightarrow> 'k \<Rightarrow> 'k \<times> (string + loader)" where
  "NewLoader ko k =
     (case ko_memlock ko k of
        Some err \<Rightarrow> (k, Inl (''failed to lock memory: '' @ err))
      | None \<Rightarrow>
          (case ko_load_phantom ko k of
             Inl err \<Rightarrow> (k, Inl (''failed to load phantom objects: '' @ err))
           | Inr (p, k') \<Rightarrow> (k', Inr \<lparr>PhantomObjs = Some p, EgressObjs = None, xdpLink = None\<rparr>)))"

definition LoadEgress :: "'k kernel_ops \<Rightarrow> 'k \<Rightarrow> loader \<Rightarrow> 'k \<times> loader \<times> string option" where
  "LoadEgress ko k l =
     (case ko_load_egress ko k of
        Inl err \<Rightarrow> (k, l, Some (''failed to load egress objects: '' @ err))
      | Inr (p, k') \<Rightarrow> (k', l\<lparr>EgressObjs := Some p\<rparr>, None))"

text \<open>It is called with the program loaded.\<close>

definition AttachXDP :: "'k kernel_ops \<Rightarrow> 'k \<Rightarrow> loader \<Rightarrow> i64 \<Rightarrow> ('k \<times> loader \<times> string option) option" where
  "AttachXDP ko k l ifaceIndex =
     (case PhantomObjs l of
        None \<Rightarrow> None
      | Some p \<Rightarrow>
          Some (case ko_attach_xdp ko k ifaceIndex p of
                  Inl err \<Rightarrow> (k, l, Some (''failed to attach XDP: '' @ err))
                | Inr k' \<Rightarrow> (k', l\<lparr>xdpLink := Some ifaceIndex\<rparr>, None)))"

definition unload :: "'k kernel_ops \<Rightarrow> nat option \<Rightarrow> 'k \<Rightarrow> 'k" where
  "unload ko objs k = (case objs of None \<Rightarrow> k | Some p \<Rightarrow> ko_unload ko k p)"

definition LoaderClose :: "'k kernel_ops \<Rightarrow> 'k \<Rightarrow> loader \<Rightarrow> 'k \<times> string option" where
  "LoaderClose ko k l =
     (case (case xdpLink l of None \<Rightarrow> Inr k | Some i \<Rightarrow> ko_detach_xdp ko k i) of
        Inl err \<Rightarrow> (k, Some err)
      | Inr k' \<Rightarrow> (unload ko (EgressObjs l) (unload ko (PhantomObjs l) k'), None))"

section \<open>The egress filter\<close>

definition isExist :: "(bool \<times> string) option \<Rightarrow> bool" where
  "isExist err = (case err of None \<Rightarrow> False | Some (exists, _) \<Rightarrow> exists)"

definition attachTCEgress :: "'k kernel_ops \<Rightarrow> 'k \<Rightarrow> i64 \<Rightarrow> nat \<Rightarrow> 'k \<times> string option" where
  "attachTCEgress ko k ifaceIndex prog =
     (case ko_link ko k ifaceIndex of
        Some err \<Rightarrow> (k, Some (''could not get link: '' @ err))
      | None \<Rightarrow>
          (let (k1, qerr) = (case ko_qdisc_add ko k ifaceIndex of Inl e \<Rightarrow> (k, Some e) | Inr k' \<Rightarrow> (k', None))
           in if qerr \<noteq> None \<and> \<not> isExist qerr then (k1, Some (''failed to add qdisc: '' @ snd (the qerr)))
              else case ko_filter_add ko k1 ifaceIndex prog of
                     Inl err \<Rightarrow> (k1, Some (''failed to add filter: '' @ err))
                   | Inr k2 \<Rightarrow> (k2, None)))"

text \<open>What an agent does to the kernel from its making to its start; the result is its loader.\<close>

definition boot_kernel :: "'k kernel_ops \<Rightarrow> 'k \<Rightarrow> i64 \<Rightarrow> 'k \<times> loader option \<times> string option" where
  "boot_kernel ko k ifaceIndex =
     (case NewLoader ko k of
        (k1, Inl err) \<Rightarrow> (k1, None, Some err)
      | (k1, Inr l) \<Rightarrow>
          (case LoadEgress ko k1 l of
             (k2, l2, _) \<Rightarrow>
               (case AttachXDP ko k2 l2 ifaceIndex of
                  None \<Rightarrow> (k2, Some l2, None)
                | Some (k3, l3, Some err) \<Rightarrow> (k3, Some l3, Some err)
                | Some (k3, l3, None) \<Rightarrow>
                    (case EgressObjs l3 of
                       None \<Rightarrow> (k3, Some l3, None)
                     | Some p \<Rightarrow> (fst (attachTCEgress ko k3 ifaceIndex p), Some l3, None)))))"

section \<open>What stays behind\<close>

lemma kernel_lawsD:
  assumes "kernel_laws ko"
  shows "ko_filter_add ko k i p = Inr k' \<Longrightarrow> ko_egress ko k i = None"
    "ko_filter_add ko k i p = Inr k' \<Longrightarrow> ko_egress ko k' i = Some p"
    "ko_load_phantom ko k = Inr (p, k') \<Longrightarrow> ko_egress ko k' = ko_egress ko k"
    "ko_load_egress ko k = Inr (p, k') \<Longrightarrow> ko_egress ko k' = ko_egress ko k"
    "ko_egress ko (ko_unload ko k p) = ko_egress ko k"
    "ko_attach_xdp ko k i p = Inr k' \<Longrightarrow> ko_egress ko k' = ko_egress ko k"
    "ko_detach_xdp ko k i = Inr k' \<Longrightarrow> ko_egress ko k' = ko_egress ko k"
    "ko_qdisc_add ko k i = Inr k' \<Longrightarrow> ko_egress ko k' = ko_egress ko k"
  using assms by (simp_all add: kernel_laws_def)

lemma LoaderClose_egress: "kernel_laws ko \<Longrightarrow> ko_egress ko (fst (LoaderClose ko k l)) = ko_egress ko k"
  by (auto simp: LoaderClose_def unload_def kernel_lawsD split: option.splits sum.splits)

lemma attachTCEgress_done:
  assumes "kernel_laws ko" "attachTCEgress ko k i p = (k', None)"
  shows "ko_egress ko k' i = Some p"
  using assms by (auto simp: attachTCEgress_def kernel_lawsD Let_def split: option.splits sum.splits if_splits prod.splits)

lemma attachTCEgress_occupied:
  assumes laws: "kernel_laws ko" and there: "ko_egress ko k i = Some q"
  shows "ko_egress ko (fst (attachTCEgress ko k i p)) i = Some q" "snd (attachTCEgress ko k i p) \<noteq> None"
  using there kernel_lawsD(1) [OF laws] kernel_lawsD(8) [OF laws]
  by (fastforce simp: attachTCEgress_def Let_def split: option.splits sum.splits if_splits prod.splits)+


lemma boot_kernel_occupied:
  assumes laws: "kernel_laws ko" and there: "ko_egress ko k i = Some q"
  shows "ko_egress ko (fst (boot_kernel ko k i)) i = Some q"
proof -
  have new: "ko_egress ko (fst (NewLoader ko k)) = ko_egress ko k"
    by (auto simp: NewLoader_def kernel_lawsD [OF laws] split: option.splits sum.splits)
  have load: "ko_egress ko (fst (LoadEgress ko k' l)) = ko_egress ko k'" for k' l
    by (auto simp: LoadEgress_def kernel_lawsD [OF laws] split: sum.splits)
  have attach: "AttachXDP ko k' l i = Some (k'', r) \<Longrightarrow> ko_egress ko k'' = ko_egress ko k'" for k' l k'' r
    by (auto simp: AttachXDP_def kernel_lawsD [OF laws] split: option.splits sum.splits)
  show ?thesis
  proof (cases "NewLoader ko k")
    case (Pair k1 r)
    then have k1: "ko_egress ko k1 i = Some q" using new there by simp
    show ?thesis
    proof (cases r)
      case Inl
      then show ?thesis using Pair k1 by (simp add: boot_kernel_def)
    next
      case (Inr l)
      obtain k2 l2 e2 where load2: "LoadEgress ko k1 l = (k2, l2, e2)" by (cases "LoadEgress ko k1 l") auto
      then have k2: "ko_egress ko k2 i = Some q" using load [of k1 l] k1 by simp
      show ?thesis
      proof (cases "AttachXDP ko k2 l2 i")
        case None
        then show ?thesis using Pair Inr load2 k2 by (simp add: boot_kernel_def)
      next
        case (Some x)
        obtain k3 l3 e3 where x: "x = (k3, l3, e3)" by (cases x) auto
        have k3: "ko_egress ko k3 i = Some q" using attach [of k2 l2 k3] Some x k2 by simp
        then show ?thesis
          using Pair Inr load2 Some x attachTCEgress_occupied(1) [OF laws k3]
          by (simp add: boot_kernel_def split: option.split)
      qed
    qed
  qed
qed

text \<open>The egress filter of an agent outlives it. Closing detaches the XDP program and unloads both, but
  the filter stays on the interface; the next agent cannot attach its own, and the old program, whose counter
  nobody reads any more, goes on filtering.\<close>

theorem egress_filter_outlives_agent:
  assumes "kernel_laws ko" "attachTCEgress ko k i p = (k1, None)"
  shows "ko_egress ko (fst (LoaderClose ko k1 l)) i = Some p \<and>
    snd (attachTCEgress ko (fst (LoaderClose ko k1 l)) i q) \<noteq> None \<and>
    ko_egress ko (fst (boot_kernel ko (fst (LoaderClose ko k1 l)) i)) i = Some p"
proof -
  have there: "ko_egress ko (fst (LoaderClose ko k1 l)) i = Some p"
    using LoaderClose_egress [OF assms(1)] attachTCEgress_done [OF assms] by simp
  then show ?thesis
    using attachTCEgress_occupied(2) [OF assms(1) there] boot_kernel_occupied [OF assms(1) there] by simp
qed

section \<open>An example of the kernel\<close>

text \<open>The next number, the XDP programs and the filters of the interfaces.\<close>

record small_kernel =
  skNext :: nat
  skXDP :: "i64 \<Rightarrow> nat option"
  skQdisc :: "i64 \<Rightarrow> bool"
  skFilter :: "i64 \<Rightarrow> nat option"

definition small_ops :: "small_kernel kernel_ops" where
  "small_ops = \<lparr>
     ko_memlock = (\<lambda>_. None),
     ko_load_phantom = (\<lambda>k. Inr (skNext k, k\<lparr>skNext := Suc (skNext k)\<rparr>)),
     ko_load_egress = (\<lambda>k. Inr (skNext k, k\<lparr>skNext := Suc (skNext k)\<rparr>)),
     ko_unload = (\<lambda>k _. k),
     ko_attach_xdp = (\<lambda>k i p. if skXDP k i = None then Inr (k\<lparr>skXDP := (skXDP k)(i \<mapsto> p)\<rparr>) else Inl ''device or resource busy''),
     ko_detach_xdp = (\<lambda>k i. Inr (k\<lparr>skXDP := (skXDP k)(i := None)\<rparr>)),
     ko_link = (\<lambda>_ _. None),
     ko_qdisc_add = (\<lambda>k i. if skQdisc k i then Inl (True, ''file exists'') else Inr (k\<lparr>skQdisc := (skQdisc k)(i := True)\<rparr>)),
     ko_filter_add = (\<lambda>k i p. if skFilter k i = None then Inr (k\<lparr>skFilter := (skFilter k)(i \<mapsto> p)\<rparr>) else Inl ''file exists''),
     ko_egress = skFilter\<rparr>"

lemma small_ops_laws: "kernel_laws small_ops"
  by (auto simp: kernel_laws_def small_ops_def split: if_splits)

definition fresh_kernel :: small_kernel where
  "fresh_kernel = \<lparr>skNext = 1, skXDP = (\<lambda>_. None), skQdisc = (\<lambda>_. False), skFilter = (\<lambda>_. None)\<rparr>"

theorem egress_filter_outlives_agent_witness:
  "snd (attachTCEgress small_ops fresh_kernel 2 7) = None \<and>
   ko_egress small_ops (fst (boot_kernel small_ops
     (fst (LoaderClose small_ops (fst (attachTCEgress small_ops fresh_kernel 2 7))
        \<lparr>PhantomObjs = Some 6, EgressObjs = Some 7, xdpLink = Some 2\<rparr>)) 2)) 2 = Some 7"
proof -
  have ok: "snd (attachTCEgress small_ops fresh_kernel 2 7) = None"
    by (simp add: attachTCEgress_def small_ops_def fresh_kernel_def Let_def)
  then have "attachTCEgress small_ops fresh_kernel 2 7 = (fst (attachTCEgress small_ops fresh_kernel 2 7), None)"
    by (metis prod.collapse)
  from egress_filter_outlives_agent [OF small_ops_laws this] ok show ?thesis by blast
qed

end
