(* ===== verification/Monitor.thy ===== *)
theory Monitor
  imports Gateway Logger
begin

text \<open>
  \<^verbatim>\<open>internal/spa/manager.go\<close> with its map wrapper (\<^verbatim>\<open>wrapper.go\<close>) beside the XDP program: what the log is told
  about authentications. The monitor reads two counters of the kernel every two seconds; the XDP program, which
  owns them, works on frames; the user-space server writes the whitelist.
\<close>

section \<open>The monitor and what it watches\<close>

definition NewMonitor :: "i64 \<Rightarrow> monitor" where
  "NewMonitor duration = \<lparr>lastSuccessCount = 0, lastFailedCount = 0, whitelistDuration = duration\<rparr>"

text \<open>A look-up through the wrapper is the kernel's counter, unless it fails.\<close>

definition GetSpaAuthSuccess :: "'m kernel \<Rightarrow> bool \<Rightarrow> u64 option" where
  "GetSpaAuthSuccess K ok = (if ok then Some (spa_auth_success K) else None)"

definition GetSpaAuthFailed :: "'m kernel \<Rightarrow> bool \<Rightarrow> u64 option" where
  "GetSpaAuthFailed K ok = (if ok then Some (spa_auth_failed K) else None)"

record 'm watched =
  waKernel :: "'m kernel"
  waMonitor :: monitor
  waSent :: "string list"

datatype 'm watch_event = FrameIn u64 bytes | WhitelistWritten 'm | MonitorTick bool bool

fun watch_step :: "'m bpf_ops \<Rightarrow> bool \<Rightarrow> xdp_consts \<Rightarrow> 'm watched \<Rightarrow> 'm watch_event \<Rightarrow> 'm watched" where
  "watch_step ops le C s (FrameIn now f) = s\<lparr>waKernel := fst (phantom_prog ops le C now (waKernel s) f)\<rparr>"
| "watch_step ops le C s (WhitelistWritten m) = s\<lparr>waKernel := (waKernel s)\<lparr>spa_whitelist := m\<rparr>\<rparr>"
| "watch_step ops le C s (MonitorTick ok1 ok2) =
     (case monitor_tick (GetSpaAuthSuccess (waKernel s) ok1) (GetSpaAuthFailed (waKernel s) ok2) (waMonitor s) of
        (m, msgs) \<Rightarrow> s\<lparr>waMonitor := m, waSent := waSent s @ msgs\<rparr>)"

definition watch_run :: "'m bpf_ops \<Rightarrow> bool \<Rightarrow> xdp_consts \<Rightarrow> 'm watched \<Rightarrow> 'm watch_event list \<Rightarrow> 'm watched" where
  "watch_run ops le C s es = foldl (watch_step ops le C) s es"

text \<open>A frame whose UDP payload begins with the static token.\<close>

definition token_frame :: "xdp_consts \<Rightarrow> bytes \<Rightarrow> bool" where
  "token_frame C f \<longleftrightarrow> 42 \<le> length f \<and> verify_magic_packet C (drop off_udp_payload f)"

fun token_event :: "xdp_consts \<Rightarrow> 'm watch_event \<Rightarrow> bool" where
  "token_event C (FrameIn now f) = token_frame C f"
| "token_event C _ = False"

section \<open>The counters\<close>

lemma phantom_prog_failed: "spa_auth_failed (fst (phantom_prog ops le C now K f)) = spa_auth_failed K"
  by (auto simp: phantom_prog_def tcp_filter_def is_spa_whitelisted_def spa_whitelist_ip_def mutate_os_personality_def Let_def
      split: option.split prod.split)

lemma phantom_prog_success:
  "spa_auth_success (fst (phantom_prog ops le C now K f)) = spa_auth_success K \<or>
   token_frame C f \<and> spa_auth_success (fst (phantom_prog ops le C now K f)) = spa_auth_success K + 1"
  by (auto simp: phantom_prog_def tcp_filter_def is_spa_whitelisted_def spa_whitelist_ip_def mutate_os_personality_def Let_def
      token_frame_def split: option.split prod.split)


section \<open>What is announced\<close>

definition announcements :: "i64 \<Rightarrow> u64 list \<Rightarrow> string list" where
  "announcements d ns = concat (map (\<lambda>n. [monitor_success n, monitor_whitelisted d]) ns)"

text \<open>The announced totals grow, and do not pass the counter, nor the counter the frames with the token.\<close>

definition watch_inv :: "i64 \<Rightarrow> nat \<Rightarrow> 'm watched \<Rightarrow> bool" where
  "watch_inv d c s \<longleftrightarrow>
     whitelistDuration (waMonitor s) = d \<and> lastFailedCount (waMonitor s) = 0 \<and> spa_auth_failed (waKernel s) = 0 \<and>
     lastSuccessCount (waMonitor s) \<le> spa_auth_success (waKernel s) \<and> unat (spa_auth_success (waKernel s)) \<le> c \<and>
     (\<exists>ns. waSent s = announcements d ns \<and> sorted_wrt (<) ns \<and>
        (\<forall>n \<in> set ns. 0 < n \<and> n \<le> lastSuccessCount (waMonitor s)))"

lemma watch_inv_frame:
  assumes inv: "watch_inv d c s" and small: "Suc c < 2 ^ 64"
  shows "watch_inv d (if token_frame C f then Suc c else c) (watch_step ops le C s (FrameIn now f))"
proof -
  let ?K = "waKernel s" and ?K' = "fst (phantom_prog ops le C now (waKernel s) f)"
  have count: "unat (spa_auth_success ?K) \<le> c" and last: "lastSuccessCount (waMonitor s) \<le> spa_auth_success ?K"
    using inv by (simp_all add: watch_inv_def)
  have plus: "unat (spa_auth_success ?K + 1) = Suc (unat (spa_auth_success ?K))"
    using count small by (simp add: unat_word_ariths)
  have "spa_auth_success ?K \<le> spa_auth_success ?K' \<and>
      unat (spa_auth_success ?K') \<le> (if token_frame C f then Suc c else c)"
    using phantom_prog_success [of ops le C now ?K f] count plus by (auto simp: word_le_nat_alt)
  then show ?thesis
    using inv last by (auto simp: watch_inv_def phantom_prog_failed)
qed

lemma watch_inv_tick:
  assumes inv: "watch_inv d c s"
  shows "watch_inv d c (watch_step ops le C s (MonitorTick ok1 ok2))"
proof -
  let ?m = "waMonitor s" and ?n = "spa_auth_success (waKernel s)"
  obtain ns where ns: "waSent s = announcements d ns" "sorted_wrt (<) ns" "\<forall>n \<in> set ns. 0 < n \<and> n \<le> lastSuccessCount ?m"
    and m: "whitelistDuration ?m = d" "lastFailedCount ?m = 0" "spa_auth_failed (waKernel s) = 0"
      "lastSuccessCount ?m \<le> ?n" "unat ?n \<le> c"
    using inv by (auto simp: watch_inv_def)
  show ?thesis
  proof (cases "ok1 \<and> lastSuccessCount ?m < ?n")
    case False
    then have "monitor_tick (GetSpaAuthSuccess (waKernel s) ok1) (GetSpaAuthFailed (waKernel s) ok2) ?m = (?m, [])"
      by (simp add: monitor_tick_def GetSpaAuthSuccess_def GetSpaAuthFailed_def m Let_def)
    then show ?thesis using inv by simp
  next
    case True
    then have tick: "monitor_tick (GetSpaAuthSuccess (waKernel s) ok1) (GetSpaAuthFailed (waKernel s) ok2) ?m =
        (?m\<lparr>lastSuccessCount := ?n\<rparr>, [monitor_success ?n, monitor_whitelisted d])"
      by (simp add: monitor_tick_def GetSpaAuthSuccess_def GetSpaAuthFailed_def m Let_def)
    have "sorted_wrt (<) (ns @ [?n])" "\<forall>n \<in> set (ns @ [?n]). 0 < n \<and> n \<le> ?n"
      using ns True by (auto simp: sorted_wrt_append intro: le_less_trans dest: order_trans less_imp_le)
    moreover have "waSent s @ [monitor_success ?n, monitor_whitelisted d] = announcements d (ns @ [?n])"
      by (simp add: ns(1) announcements_def)
    ultimately show ?thesis
      using m by (auto simp: watch_inv_def tick intro!: exI [of _ "ns @ [?n]"])
  qed
qed

lemma watch_inv_run:
  assumes "watch_inv d 0 s" "length es < 2 ^ 64"
  shows "watch_inv d (length (filter (token_event C) es)) (watch_run ops le C s es)"
  using assms(2)
proof (induction es rule: rev_induct)
  case Nil
  then show ?case using assms(1) by (simp add: watch_run_def)
next
  case (snoc e es)
  let ?c = "length (filter (token_event C) es)" and ?s = "watch_run ops le C s es"
  have inv: "watch_inv d ?c ?s" using snoc by simp
  have "?c \<le> length es" by (rule length_filter_le)
  then have small: "Suc ?c < 2 ^ 64" using snoc.prems by (simp only: length_append_singleton)
  have step: "watch_run ops le C s (es @ [e]) = watch_step ops le C ?s e" by (simp add: watch_run_def)
  show ?case
  proof (cases e)
    case (FrameIn now f)
    then show ?thesis using watch_inv_frame [OF inv small, of C f ops le now] by (simp add: FrameIn step [unfolded FrameIn] split: if_splits)
  next
    case (WhitelistWritten m)
    then show ?thesis using inv by (simp add: WhitelistWritten step [unfolded WhitelistWritten] watch_inv_def)
  next
    case (MonitorTick ok1 ok2)
    then show ?thesis using watch_inv_tick [OF inv] by (simp add: MonitorTick step [unfolded MonitorTick])
  qed
qed

text \<open>C40. What the log is told about authentications, in every run of frames, of writes to the whitelist and of
  ticks of the monitor: growing totals of successes, each once, no greater than the number of frames that
  carried the static token. A failure is never told, nor a success of the other modes, in which user space
  writes the whitelist.\<close>

theorem monitor_announcements:
  assumes "spa_auth_success K = 0" "spa_auth_failed K = 0" "length es < 2 ^ 64"
  shows "\<exists>ns. waSent (watch_run ops le C \<lparr>waKernel = K, waMonitor = NewMonitor d, waSent = []\<rparr> es) = announcements d ns \<and>
     sorted_wrt (<) ns \<and> (\<forall>n \<in> set ns. 0 < n \<and> unat n \<le> length (filter (token_event C) es))"
proof -
  have "watch_inv d 0 \<lparr>waKernel = K, waMonitor = NewMonitor d, waSent = []\<rparr>"
    using assms by (auto simp: watch_inv_def NewMonitor_def announcements_def intro!: exI [of _ "[]"])
  from watch_inv_run [OF this assms(3), of C ops le] obtain ns where ns:
    "waSent (watch_run ops le C \<lparr>waKernel = K, waMonitor = NewMonitor d, waSent = []\<rparr> es) = announcements d ns"
    "sorted_wrt (<) ns"
    and bound: "\<And>n. n \<in> set ns \<Longrightarrow> 0 < n \<and>
      n \<le> lastSuccessCount (waMonitor (watch_run ops le C \<lparr>waKernel = K, waMonitor = NewMonitor d, waSent = []\<rparr> es))"
    and last: "unat (lastSuccessCount (waMonitor (watch_run ops le C \<lparr>waKernel = K, waMonitor = NewMonitor d, waSent = []\<rparr> es))) \<le>
      length (filter (token_event C) es)"
    unfolding watch_inv_def by (auto simp: word_le_nat_alt)
  have "0 < n \<and> unat n \<le> length (filter (token_event C) es)" if "n \<in> set ns" for n
    using bound [OF that] last by (simp add: word_le_nat_alt)
  then show ?thesis using ns by blast
qed

text \<open>An accepted client and a refused one, on the whitelist by user space: two ticks later the log is silent.\<close>

theorem monitor_announcements_witness:
  "waSent (watch_run plain_map True example_consts \<lparr>waKernel = example_kernel, waMonitor = NewMonitor 300, waSent = []\<rparr>
     [WhitelistWritten [[192, 0, 2, 9] \<mapsto> native_u64 True 77], MonitorTick True True, MonitorTick True True]) = []"
proof -
  have "spa_auth_success example_kernel = 0" "spa_auth_failed example_kernel = 0"
    by (simp_all add: example_kernel_def)
  from monitor_announcements [OF this, of "[WhitelistWritten [[192, 0, 2, 9] \<mapsto> native_u64 True 77], MonitorTick True True, MonitorTick True True]"
      plain_map True example_consts 300]
  obtain ns where ns: "waSent (watch_run plain_map True example_consts \<lparr>waKernel = example_kernel, waMonitor = NewMonitor 300, waSent = []\<rparr>
      [WhitelistWritten [[192, 0, 2, 9] \<mapsto> native_u64 True 77], MonitorTick True True, MonitorTick True True]) = announcements 300 ns"
    "\<forall>n \<in> set ns. 0 < n \<and> unat n \<le> 0"
    by auto
  from ns(2) have "ns = []" by (cases ns) (auto simp: unat_eq_0)
  then show ?thesis using ns(1) by (simp add: announcements_def)
qed

end
