(* ===== verification/Uptime.thy ===== *)
theory Uptime
  imports Gateway GoText "HOL-Library.Log_Nat"
begin

text \<open>
  The uptime that \<^verbatim>\<open>WhitelistIP\<close> adds the duration to (\<^verbatim>\<open>getUptimeSeconds\<close> of
  \<^verbatim>\<open>internal/spa/map_loader.go\<close>): the text of \<^verbatim>\<open>/proc/uptime\<close>, read as a \<^verbatim>\<open>float64\<close>, multiplied
  by \<open>10\<^sup>9\<close> and cut to a \<^verbatim>\<open>uint64\<close>. The floating-point arithmetic is that of IEEE 754: a double
  that is not negative is its number of units of \<open>2\<^sup>-\<^sup>1\<^sup>0\<^sup>7\<^sup>4\<close>, and the result of an operation is
  the exact one, rounded to 53 significant bits, ties to even. The lemmas bound the rounding, and with
  it the moment at which an entry of the whitelist expires.
\<close>

section \<open>Doubles\<close>

definition double_unit :: nat where "double_unit = 2 ^ 1074"

definition double_limit :: nat where "double_limit = 2 ^ 2098"

text \<open>The integer nearest to \<open>a / b\<close>, the even one of two.\<close>

definition round_even :: "nat \<Rightarrow> nat \<Rightarrow> nat" where
  "round_even a b =
     (let q = a div b; r = a mod b
      in if 2 * r < b \<or> 2 * r = b \<and> even q then q else q + 1)"

text \<open>The double nearest to \<open>a / b\<close>: below \<open>2\<^sup>5\<^sup>3\<close> units every integer is one.\<close>

definition to_double :: "nat \<Rightarrow> nat \<Rightarrow> nat" where
  "to_double a b =
     (let s = floorlog 2 (a * double_unit div b) - 53
      in round_even (a * double_unit) (b * 2 ^ s) * 2 ^ s)"

definition double_times :: "nat \<Rightarrow> nat \<Rightarrow> nat" where
  "double_times x k = to_double (x * k) double_unit"

section \<open>The file\<close>

datatype double =
    NonNegative nat
  | OtherDouble u64

datatype uptime_error = UptimeIO string | UptimeFormat | UptimeSyntax

text \<open>Digits, with or without a fraction: the numerator and the power of ten below it.\<close>

definition decimal :: "string \<Rightarrow> (nat \<times> nat) option" where
  "decimal s =
     (let whole = takeWhile is_digit s
      in case dropWhile is_digit s of
           [] \<Rightarrow> if whole = [] then None else Some (digits_value whole, 0)
         | c # fs \<Rightarrow>
             (if c = CHR ''.'' \<and> list_all is_digit fs \<and> whole @ fs \<noteq> []
              then Some (digits_value (whole @ fs), length fs) else None))"

text \<open>\<^verbatim>\<open>strconv.ParseFloat\<close>: what it does with a sign, an exponent, hexadecimal digits or the names
  of the infinities, none of which the kernel writes, is the argument \<open>other\<close>; an \<open>OtherDouble\<close> stands for
  what the host makes of its conversion.\<close>

definition ParseFloat :: "(string \<Rightarrow> double option) \<Rightarrow> string \<Rightarrow> double option" where
  "ParseFloat other s =
     (case decimal s of
        Some (a, k) \<Rightarrow>
          (let x = to_double a (10 ^ k) in if x < double_limit then Some (NonNegative x) else None)
      | None \<Rightarrow> other s)"

text \<open>The file is its content or the error of opening or reading it.\<close>

definition getUptimeSeconds ::
    "(string \<Rightarrow> double option) \<Rightarrow> string + string \<Rightarrow> uptime_error + double" where
  "getUptimeSeconds other file =
     (case file of
        Inl e \<Rightarrow> Inl (UptimeIO e)
      | Inr content \<Rightarrow>
          (case str_fields content of
             [] \<Rightarrow> Inl UptimeFormat
           | f # _ \<Rightarrow> (case ParseFloat other f of None \<Rightarrow> Inl UptimeSyntax | Some x \<Rightarrow> Inr x)))"

text \<open>\<^verbatim>\<open>uint64(uptimeSeconds * 1e9)\<close>; the host decides, as \<open>big\<close>, what a product out of range becomes.\<close>

definition uptime_nanoseconds :: "(nat \<Rightarrow> u64) \<Rightarrow> double \<Rightarrow> u64" where
  "uptime_nanoseconds big x =
     (case x of
        NonNegative n \<Rightarrow>
          (let y = double_times n (10 ^ 9)
           in if y div double_unit < 2 ^ 64 then word_of_nat (y div double_unit) else big y)
      | OtherDouble w \<Rightarrow> w)"

text \<open>The argument of \<^verbatim>\<open>WhitelistIP\<close>: every error is the same to it.\<close>

definition uptime_reading ::
    "(string \<Rightarrow> double option) \<Rightarrow> (nat \<Rightarrow> u64) \<Rightarrow> string + string \<Rightarrow> u64 option" where
  "uptime_reading other big file =
     (case getUptimeSeconds other file of Inl _ \<Rightarrow> None | Inr x \<Rightarrow> Some (uptime_nanoseconds big x))"

text \<open>What the kernel writes (\<^verbatim>\<open>proc(5)\<close>): seconds with two decimals, since the boot, and the idle time.\<close>

definition centiseconds :: "nat \<Rightarrow> string" where
  "centiseconds n = show_nat (n div 100) @ ''.'' @ show_nat (n div 10 mod 10) @ show_nat (n mod 10)"

definition proc_uptime :: "nat \<Rightarrow> nat \<Rightarrow> string" where
  "proc_uptime n idle = centiseconds n @ '' '' @ centiseconds idle @ lf"

section \<open>Rounding\<close>

lemma round_even_near:
  assumes "0 < b"
  shows "2 * (round_even a b * b) \<le> 2 * a + b" "2 * a \<le> 2 * (round_even a b * b) + b"
proof -
  have a: "a = a div b * b + a mod b" and r: "a mod b < b" using assms by simp_all
  have "2 * (round_even a b * b) \<le> 2 * a + b \<and> 2 * a \<le> 2 * (round_even a b * b) + b"
  proof (cases "2 * (a mod b) < b \<or> 2 * (a mod b) = b \<and> even (a div b)")
    case True
    then have e: "round_even a b * b = a div b * b" by (simp add: round_even_def Let_def)
    have "2 * (a mod b) \<le> b" using True by linarith
    then show ?thesis unfolding e using a r by linarith
  next
    case False
    then have "round_even a b = a div b + 1" by (simp only: round_even_def Let_def if_not_P if_False)
    then have e: "round_even a b * b = a div b * b + b" by simp
    have "b \<le> 2 * (a mod b)" using False by linarith
    moreover have "b \<le> 2 * y \<Longrightarrow> y < b \<Longrightarrow> x = c + y \<Longrightarrow> 2 * (c + b) \<le> 2 * x + b \<and> 2 * x \<le> 2 * (c + b) + b"
      for x c y :: nat by simp
    ultimately show ?thesis unfolding e using a r by blast
  qed
  then show "2 * (round_even a b * b) \<le> 2 * a + b" "2 * a \<le> 2 * (round_even a b * b) + b" by simp_all
qed

lemma half_to_relative:
  fixes R :: nat
  assumes "2 ^ 52 * c \<le> A"
  shows "2 * R \<le> 2 * A + c \<Longrightarrow> 2 ^ 53 * R \<le> (2 ^ 53 + 1) * A"
    and "2 * A \<le> 2 * R + c \<Longrightarrow> 2 ^ 53 * A \<le> 2 ^ 53 * R + A"
  using assms by simp_all

text \<open>The relative error of one rounding is at most \<open>2\<^sup>-\<^sup>5\<^sup>3\<close> for a normal number.\<close>

lemma to_double_near:
  assumes "0 < b" and "2 ^ 52 \<le> a * double_unit div b"
  shows "2 ^ 53 * (to_double a b * b) \<le> (2 ^ 53 + 1) * (a * double_unit)"
    and "2 ^ 53 * (a * double_unit) \<le> 2 ^ 53 * (to_double a b * b) + a * double_unit"
proof -
  let ?A = "a * double_unit"
  let ?f = "floorlog 2 (?A div b)"
  let ?s = "?f - 53"
  have "53 \<le> ?f" using assms(2) by (intro floorlog_geI) simp_all
  moreover have "2 ^ (?f - 1) \<le> ?A div b"
    using assms(2) by (intro floorlog_bounds [THEN conjunct1]) (auto intro: Nat.gr0I)
  ultimately have "2 ^ (?s + 52) \<le> ?A div b" by (simp add: Suc_diff_le algebra_simps)
  then have "2 ^ (?s + 52) * b \<le> ?A" using assms(1) by (simp add: less_eq_div_iff_mult_less_eq)
  then have s: "2 ^ 52 * (b * 2 ^ ?s) \<le> ?A" by (simp add: power_add ac_simps)
  have "0 < b * 2 ^ ?s" using assms(1) by simp
  note r = round_even_near [OF this, of ?A]
  have d: "to_double a b * b = round_even ?A (b * 2 ^ ?s) * (b * 2 ^ ?s)"
    by (simp add: to_double_def Let_def)
  show "2 ^ 53 * (to_double a b * b) \<le> (2 ^ 53 + 1) * ?A"
    unfolding d by (rule half_to_relative(1) [OF s r(1)])
  show "2 ^ 53 * ?A \<le> 2 ^ 53 * (to_double a b * b) + ?A"
    unfolding d by (rule half_to_relative(2) [OF s r(2)])
qed

section \<open>Reading what the kernel wrote\<close>

declare show_nat.simps [simp del]

lemma digits_value_append: "digits_value (s @ t) = digits_value s * 10 ^ length t + digits_value t"
proof (induction t rule: rev_induct)
  case (snoc c t)
  have "digits_value (s @ t @ [c]) = 10 * digits_value (s @ t) + (of_char c - 48)"
    using digits_value_snoc [of "s @ t"] by simp
  then show ?case by (simp add: snoc digits_value_snoc algebra_simps)
qed (simp add: digits_value_def)

lemma show_nat_digit: "n < 10 \<Longrightarrow> length (show_nat n) = 1"
  by (subst show_nat.simps) simp

lemma decimal_centiseconds: "decimal (centiseconds n) = Some (n, 2)"
proof -
  let ?w = "show_nat (n div 100)" and ?fs = "show_nat (n div 10 mod 10) @ show_nat (n mod 10)"
  have dot: "\<not> is_digit (CHR ''.'')" by (simp add: is_digit_def)
  have w: "takeWhile is_digit (?w @ CHR ''.'' # ?fs) = ?w" "dropWhile is_digit (?w @ CHR ''.'' # ?fs) = CHR ''.'' # ?fs"
    using is_digit_show_nat [of "n div 100"] dot
    by (simp_all add: list_all_iff takeWhile_append2 dropWhile_append2)
  have "length ?fs = 2" by (simp add: show_nat_digit)
  moreover have "digits_value (?w @ ?fs) = n"
  proof -
    have "n div 100 = n div 10 div 10" by (simp flip: div_mult2_eq)
    then have "n = (n div 100 * 10 + n div 10 mod 10) * 10 + n mod 10" by simp
    then show ?thesis
      by (simp add: digits_value_append digits_value_show_nat show_nat_digit)
  qed
  ultimately show ?thesis
    using is_digit_show_nat by (simp add: decimal_def centiseconds_def Let_def w)
qed

text \<open>No digit and no dot begins a space, so the first field is the text before the first blank.\<close>

definition uptime_char :: "char \<Rightarrow> bool" where
  "uptime_char c \<longleftrightarrow> is_digit c \<or> c = CHR ''.''"

lemma plain_not_space: "uptime_char c \<Longrightarrow> leading space_strings (c # cs) = None"
proof -
  have "list_all (\<lambda>p. p = [] \<or> \<not> uptime_char (hd p)) space_strings" by code_simp
  then show "uptime_char c \<Longrightarrow> leading space_strings (c # cs) = None"
    by (intro leading_other_head) (auto simp: list_all_iff)
qed

lemma take_word_plain:
  assumes "list_all uptime_char w"
  shows "take_word (w @ CHR '' '' # rest) = w"
proof -
  have "leading space_strings (CHR '' '' # rest) \<noteq> None"
  proof -
    have "'' '' \<in> set space_strings" by code_simp
    then show ?thesis by (auto simp: leading_def find_None_iff)
  qed
  then have "take_word (CHR '' '' # rest) = []" by (simp add: take_word_Cons)
  then show ?thesis using assms by (induction w) (simp_all add: take_word_Cons plain_not_space)
qed

lemma plain_centiseconds: "list_all uptime_char (centiseconds n)"
  using is_digit_show_nat by (auto simp: centiseconds_def uptime_char_def list_all_iff)

lemma str_fields_proc: "\<exists>more. str_fields (proc_uptime n idle) = centiseconds n # more"
proof -
  have "trim_left space_strings (proc_uptime n idle) = proc_uptime n idle"
  proof (cases "centiseconds n")
    case Nil
    then show ?thesis by (simp add: centiseconds_def)
  next
    case (Cons c cs)
    then show ?thesis
      using plain_centiseconds [of n] by (simp add: proc_uptime_def plain_not_space)
  qed
  moreover have "proc_uptime n idle \<noteq> []" by (simp add: proc_uptime_def)
  moreover have "take_word (proc_uptime n idle) = centiseconds n"
    using take_word_plain [OF plain_centiseconds] by (simp add: proc_uptime_def)
  ultimately show ?thesis by (subst str_fields.simps) (simp add: Let_def)
qed

section \<open>How exact the nanoseconds are\<close>

lemma double_unit_bounds: "2 ^ 60 \<le> double_unit" "2 ^ 63 * double_unit \<le> double_limit"
  unfolding double_unit_def double_limit_def
  by (rule power_increasing, simp_all only: numeral_le_iff one_le_numeral semiring_norm)
    (simp only: power_add [symmetric], rule power_increasing, simp_all)

lemma to_double_zero [simp]: "to_double 0 b = 0"
  by (cases "b = 0") (simp_all add: to_double_def round_even_def Let_def)

text \<open>Both roundings together, in units.\<close>

lemma two_roundings:
  assumes "0 < n"
  defines "x \<equiv> to_double n 100"
  defines "y \<equiv> double_times x (10 ^ 9)"
  shows "2 ^ 51 * y \<le> (2 ^ 51 + 1) * (n * 10 ^ 7 * double_unit)"
    and "2 ^ 51 * (n * 10 ^ 7 * double_unit) \<le> 2 ^ 51 * y + n * 10 ^ 7 * double_unit"
    and "x \<le> n * double_unit"
proof -
  let ?U = double_unit
  define N where "N = n * ?U"
  have nU: "2 ^ 60 \<le> N" using assms(1) double_unit_bounds(1) by (cases n) (auto simp: N_def)
  then have "2 ^ 52 \<le> n * ?U div 100" by (simp add: less_eq_div_iff_mult_less_eq N_def)
  note x = to_double_near [of 100 n, OF _ this, folded x_def N_def]
  have x1: "2 ^ 53 * (x * 100) \<le> (2 ^ 53 + 1) * N" and x2: "2 ^ 53 * N \<le> 2 ^ 53 * (x * 100) + N"
    using x by simp_all
  have U: "0 < ?U" by (simp add: double_unit_def)
  have "2 ^ 52 \<le> x * 10 ^ 9" using x2 nU by simp
  then have "2 ^ 52 \<le> x * 10 ^ 9 * ?U div ?U" using U by simp
  note y = to_double_near [OF U this, folded double_times_def, folded y_def]
  have y1: "2 ^ 53 * y \<le> (2 ^ 53 + 1) * (x * 10 ^ 9)"
  proof -
    have "2 ^ 53 * y * ?U \<le> (2 ^ 53 + 1) * (x * 10 ^ 9) * ?U" using y(1) by (simp only: mult.assoc)
    then show ?thesis using U by (simp only: mult_le_cancel2)
  qed
  have y2: "2 ^ 53 * (x * 10 ^ 9) \<le> 2 ^ 53 * y + x * 10 ^ 9"
  proof -
    have "2 ^ 53 * (x * 10 ^ 9) * ?U \<le> (2 ^ 53 * y + x * 10 ^ 9) * ?U"
      using y(2) by (simp only: mult.assoc distrib_right)
    then show ?thesis using U by (simp only: mult_le_cancel2)
  qed
  have N: "n * 10 ^ 7 * ?U = 10 ^ 7 * N" by (simp add: N_def)
  show "2 ^ 51 * y \<le> (2 ^ 51 + 1) * (n * 10 ^ 7 * ?U)"
    "2 ^ 51 * (n * 10 ^ 7 * ?U) \<le> 2 ^ 51 * y + n * 10 ^ 7 * ?U" "x \<le> n * ?U"
    unfolding N N_def [symmetric] using x1 x2 y1 y2 by simp_all
qed

lemma div_by_unit:
  assumes "2 ^ 51 * y \<le> (2 ^ 51 + 1) * (M * U)" and "2 ^ 51 * (M * U) \<le> 2 ^ 51 * y + M * U"
    and "0 < (U :: nat)"
  shows "y div U \<le> M + M div 2 ^ 51" and "M \<le> y div U + M div 2 ^ 51 + 1"
proof -
  let ?u = "y div U"
  have low: "?u * U \<le> y" by simp
  have high: "y < (?u + 1) * U" using assms(3) dividend_less_times_div [of U y] by (simp add: algebra_simps)
  have "2 ^ 51 * (?u * U) \<le> (2 ^ 51 + 1) * (M * U)"
    by (rule order.trans [OF mult_le_mono2 [OF low] assms(1)])
  then have "2 ^ 51 * ?u * U \<le> (2 ^ 51 + 1) * M * U" by (simp only: mult.assoc)
  then have "2 ^ 51 * ?u \<le> (2 ^ 51 + 1) * M" using assms(3) by (simp only: mult_le_cancel2)
  then show "?u \<le> M + M div 2 ^ 51" by (simp add: algebra_simps)
  have "2 ^ 51 * (M * U) < 2 ^ 51 * ((?u + 1) * U) + M * U"
    by (rule order.strict_trans1 [OF assms(2)]) (use high in simp)
  then have "2 ^ 51 * M * U < (2 ^ 51 * (?u + 1) + M) * U" by (simp only: mult.assoc distrib_right)
  then have "2 ^ 51 * M < 2 ^ 51 * (?u + 1) + M" using assms(3) by (simp only: mult_less_cancel2)
  then show "M \<le> ?u + M div 2 ^ 51 + 1" by (simp add: algebra_simps)
qed

text \<open>
  The nanoseconds that \<^verbatim>\<open>WhitelistIP\<close> computes from a file that says \<open>n\<close> hundredths of a second are
  \<open>n * 10\<^sup>7\<close>, but for one part in \<open>2\<^sup>5\<^sup>1\<close>.
\<close>

lemma uptime_reading_near:
  assumes "n * 10 ^ 7 < 2 ^ 62"
  shows "\<exists>u. uptime_reading other big (Inr (proc_uptime n idle)) = Some u \<and>
    unat u \<le> n * 10 ^ 7 + n * 10 ^ 7 div 2 ^ 51 \<and> n * 10 ^ 7 \<le> unat u + n * 10 ^ 7 div 2 ^ 51 + 1"
proof -
  let ?x = "to_double n 100" and ?M = "n * 10 ^ 7"
  let ?y = "double_times ?x (10 ^ 9)"
  have U: "0 < double_unit" by (simp add: double_unit_def)
  have b: "?y div double_unit \<le> ?M + ?M div 2 ^ 51" "?M \<le> ?y div double_unit + ?M div 2 ^ 51 + 1"
    "?x < double_limit"
  proof (atomize (full), cases "n = 0")
    case True
    then show "?y div double_unit \<le> ?M + ?M div 2 ^ 51 \<and> ?M \<le> ?y div double_unit + ?M div 2 ^ 51 + 1 \<and>
        ?x < double_limit"
      by (simp add: double_times_def double_limit_def)
  next
    case False
    then have n: "0 < n" by simp
    have "n * double_unit < 2 ^ 63 * double_unit" using assms U by simp
    then have "?x < double_limit" using two_roundings(3) [OF n] double_unit_bounds(2) by linarith
    then show "?y div double_unit \<le> ?M + ?M div 2 ^ 51 \<and> ?M \<le> ?y div double_unit + ?M div 2 ^ 51 + 1 \<and>
        ?x < double_limit"
      using div_by_unit [OF two_roundings(1,2) [OF n] U] by blast
  qed
  have small: "?y div double_unit < 2 ^ 64"
  proof -
    have "z \<le> m + m div 2 ^ 51 \<Longrightarrow> m < 2 ^ 62 \<Longrightarrow> z < 2 ^ 64" for z m :: nat by simp
    then show ?thesis using b(1) assms by blast
  qed
  obtain more where "str_fields (proc_uptime n idle) = centiseconds n # more" using str_fields_proc by blast
  then have "uptime_reading other big (Inr (proc_uptime n idle)) = Some (word_of_nat (?y div double_unit))"
    using b(3) small
    by (simp add: uptime_reading_def getUptimeSeconds_def ParseFloat_def decimal_centiseconds uptime_nanoseconds_def Let_def)
  moreover have "unat (word_of_nat (?y div double_unit) :: u64) = ?y div double_unit"
    using small by (simp add: unsigned_of_nat take_bit_nat_eq_self)
  ultimately show ?thesis using b(1,2) by simp
qed

section \<open>The expiry\<close>

lemma unat_expiry:
  assumes "unat u < 2 ^ 63" and "unat dur \<le> 10 ^ 9"
  shows "unat (whitelist_expiry (Some u) dur) = unat u + (unat dur + 1) * 10 ^ 9"
proof -
  have "whitelist_expiry (Some u) dur = word_of_nat (unat u + (unat dur + 1) * 10 ^ 9)"
    by (simp add: whitelist_expiry_def Let_def algebra_simps)
  then show ?thesis using assms by (simp only: unsigned_of_nat) (simp add: take_bit_nat_eq_self)
qed

text \<open>C21. 
  How long the kernel admits the address. \<^verbatim>\<open>/proc/uptime\<close> counts the time the host was suspended,
  the clock of the XDP program does not. A \<^verbatim>\<open>WhitelistIP\<close> called when that clock shows \<open>ktime\<close> on a
  host that was suspended for \<open>suspended\<close> nanoseconds since its boot admits the stored key until the
  clock has advanced by the duration and a second, less at most two hundredths or so (the digits the
  file does not have), and by all of \<open>suspended\<close> on top of it.
\<close>

theorem whitelist_lasts:
  assumes "bpf_laws ops"
    and "WhitelistIP ops le ml ip dur (uptime_reading other big
      (Inr (proc_uptime ((ktime + suspended) div 10 ^ 7) idle))) = (ml', Inr ())"
    and "ip_to4 ip = Some a" and "whitelistMap ml = Some m"
    and "ktime + suspended < 2 ^ 62" and "unat dur \<le> 10 ^ 9" and "e < 2 ^ 63"
  shows "\<exists>m'. whitelistMap ml' = Some m' \<and>
    (whitelisted ops le (word_of_nat (ktime + e)) (if le then rev a else a) m' \<longrightarrow>
       e \<le> suspended + (unat dur + 1) * 10 ^ 9 + 2 ^ 11) \<and>
    (e + 10 ^ 7 + 2 ^ 11 \<le> suspended + (unat dur + 1) * 10 ^ 9 \<longrightarrow>
       whitelisted ops le (word_of_nat (ktime + e)) (if le then rev a else a) m')"
proof -
  let ?B = "ktime + suspended" and ?up = "uptime_reading other big (Inr (proc_uptime ((ktime + suspended) div 10 ^ 7) idle))"
  let ?M = "?B div 10 ^ 7 * 10 ^ 7"
  have M: "?M \<le> ?B" "?B < ?M + 10 ^ 7" by simp_all
  then have "?M < 2 ^ 62" using assms(5) by linarith
  then obtain u where u: "?up = Some u" "unat u \<le> ?M + ?M div 2 ^ 51" "?M \<le> unat u + ?M div 2 ^ 51 + 1"
    using uptime_reading_near by blast
  have "?M div 2 ^ 51 < 2 ^ 11" using \<open>?M < 2 ^ 62\<close> by (simp add: less_mult_imp_div_less)
  then have near: "unat u \<le> ?B + 2 ^ 11" "?B \<le> unat u + 10 ^ 7 + 2 ^ 11" using u(2,3) M by linarith+
  have "unat u < 2 ^ 63" using near(1) assms(5) by simp
  then have exp: "unat (whitelist_expiry ?up dur) = unat u + (unat dur + 1) * 10 ^ 9"
    using unat_expiry [OF _ assms(6)] u(1) by simp
  have now: "unat (word_of_nat (ktime + e) :: u64) = ktime + e"
    using assms(5,7) by (simp only: unsigned_of_nat) (simp add: take_bit_nat_eq_self)
  obtain m' where m': "whitelistMap ml' = Some m'"
    "\<And>now. whitelisted ops le now (loader_key le a) m' \<longleftrightarrow> now \<le> whitelist_expiry ?up dur"
    using WhitelistIP_whitelists [OF assms(1,2,3,4)] by blast
  have "whitelisted ops le (word_of_nat (ktime + e)) (if le then rev a else a) m' \<longleftrightarrow>
      ktime + e \<le> unat u + (unat dur + 1) * 10 ^ 9"
    using m'(2) [of "word_of_nat (ktime + e)"] exp now by (simp add: loader_key_def word_le_nat_alt)
  then show ?thesis using m'(1) near by auto
qed

lemma whitelist_lasts_witness:
  "\<exists>ml m. WhitelistIP plain_map True (NewMapLoader (Some Map.empty) None None None None)
       (Some [192, 168, 1, 100]) 60
       (uptime_reading (\<lambda>_. None) (\<lambda>_. 0) (Inr (proc_uptime 460 0))) = (ml, Inr ())
     \<and> whitelistMap ml = Some m
     \<and> whitelisted plain_map True (3600000000 + 61900000000) [100, 1, 168, 192] m
     \<and> \<not> whitelisted plain_map True (3600000000 + 62100000000) [100, 1, 168, 192] m"
proof -
  let ?ml = "NewMapLoader (Some (Map.empty :: bytes \<Rightarrow> bytes option)) None None None None"
  let ?ip = "Some [192, 168, 1, 100]"
  let ?up = "uptime_reading (\<lambda>_. None) (\<lambda>_. 0) (Inr (proc_uptime 460 0))"
  have "snd (WhitelistIP plain_map True ?ml ?ip 60 ?up) = Inr ()"
    by (simp add: WhitelistIP_def NewMapLoader_def ip_to4_def plain_map_def)
  then obtain ml where ml: "WhitelistIP plain_map True ?ml ?ip 60 ?up = (ml, Inr ())"
    by (cases "WhitelistIP plain_map True ?ml ?ip 60 ?up") simp
  have n: "(460 :: nat) = (3600000000 + 1000000000) div 10 ^ 7" by simp
  have a: "ip_to4 ?ip = Some [192, 168, 1, 100]" and m: "whitelistMap ?ml = Some Map.empty"
    by (simp_all add: ip_to4_def NewMapLoader_def)
  note lasts = whitelist_lasts [OF plain_map_laws(1) ml [unfolded n] a m, simplified]
  show ?thesis
    using lasts [of 61900000000] lasts [of 62100000000] ml by auto
qed

end
