(* ===== verification/Variants.thy ===== *)
theory Variants
  imports Gateway Packet
begin

text \<open>
  \<^verbatim>\<open>internal/ebpf/programs/phantom_spa.c\<close> and \<^verbatim>\<open>phantom_spa_dynamic.c\<close>: two XDP programs that drop
  everything but the traffic of whitelisted hosts. No Go code loads them; \<^verbatim>\<open>LoadConfiguration\<close>
  fills the maps of the second. Frames, maps and the byte order are those of \<open>Gateway\<close>. Both
  call \<^verbatim>\<open>bpf_strncmp\<close> with its last two arguments exchanged, so what it answers about a payload is the
  argument \<open>same\<close>.
\<close>

text \<open>The kernel's maps: \<^verbatim>\<open>spa_whitelist\<close> and the two counters, and those of the second program.\<close>

record 'm variant =
  vKernel :: "'m kernel"
  vReplay :: 'm
  vConfig :: 'm
  vReplayBlocked :: u64

definition is_whitelisted :: "'m bpf_ops \<Rightarrow> bool \<Rightarrow> u64 \<Rightarrow> bytes \<Rightarrow> 'm variant \<Rightarrow> 'm variant \<times> bool" where
  "is_whitelisted ops le now src V =
     (case is_spa_whitelisted ops le now src (vKernel V) of (K, ok) \<Rightarrow> (V\<lparr>vKernel := K\<rparr>, ok))"

definition variant_whitelist_ip :: "'m bpf_ops \<Rightarrow> bool \<Rightarrow> xdp_consts \<Rightarrow> u64 \<Rightarrow> bytes \<Rightarrow> 'm variant \<Rightarrow> 'm variant" where
  "variant_whitelist_ip ops le C now src V = V\<lparr>vKernel := spa_whitelist_ip ops le C now src (vKernel V)\<rparr>"

definition auth_failed :: "'m variant \<Rightarrow> 'm variant" where
  "auth_failed V = V\<lparr>vKernel := (vKernel V)\<lparr>spa_auth_failed := spa_auth_failed (vKernel V) + 1\<rparr>\<rparr>"

definition verify_static_token :: "(bytes \<Rightarrow> bool) \<Rightarrow> xdp_consts \<Rightarrow> bytes \<Rightarrow> bool" where
  "verify_static_token same C payload = (length (xToken C) \<le> length payload \<and> same payload)"

section \<open>Dynamic packets\<close>

definition read_u32 :: "bool \<Rightarrow> bytes \<Rightarrow> u32" where
  "read_u32 le bs = (if le then get_be32 (rev bs) else get_be32 bs)"

definition replay_window :: "'m bpf_ops \<Rightarrow> bool \<Rightarrow> 'm variant \<Rightarrow> u64 option" where
  "replay_window ops le V =
     map_option (\<lambda>v. ucast (read_u32 le v) * 1000000000) (bpf_lookup ops (vConfig V) (native_u32 le 2))"

text \<open>The key is made of the first eight bytes of the signature; true for a replay.\<close>

definition check_replay_protection ::
    "'m bpf_ops \<Rightarrow> bool \<Rightarrow> u64 \<Rightarrow> bytes \<Rightarrow> 'm variant \<Rightarrow> 'm variant \<times> bool" where
  "check_replay_protection ops le now signature V =
     (if length signature < 8 then (V, False)
      else
        (let sig_hash = native_u64 le (get_be64 (take 8 signature));
             record_it = V\<lparr>vReplay := (case bpf_put ops (vReplay V) sig_hash (native_u64 le now) of
                                        None \<Rightarrow> vReplay V | Some m \<Rightarrow> m)\<rparr>
         in case bpf_lookup ops (vReplay V) sig_hash of
              None \<Rightarrow> (record_it, False)
            | Some seen \<Rightarrow>
                (case replay_window ops le V of
                   None \<Rightarrow> (record_it, False)
                 | Some w \<Rightarrow>
                     (if now - read_u64 le seen < w then (V\<lparr>vReplayBlocked := vReplayBlocked V + 1\<rparr>, True)
                      else (record_it, False)))))"

definition packet_signature :: "bytes \<Rightarrow> bytes option" where
  "packet_signature payload =
     (if length payload < 14 then None
      else if payload ! 0 \<noteq> 1 then None
      else
        (let sig_size = (if payload ! 1 = 1 then Some 32 else if payload ! 1 = 2 then Some 64 else None)
         in case sig_size of
              None \<Rightarrow> None
            | Some n \<Rightarrow> if length payload < 14 + n then None else Some (drop (length payload - n) payload)))"

definition verify_dynamic_packet ::
    "'m bpf_ops \<Rightarrow> bool \<Rightarrow> u64 \<Rightarrow> bytes \<Rightarrow> 'm variant \<Rightarrow> 'm variant \<times> bool" where
  "verify_dynamic_packet ops le now payload V =
     (case packet_signature payload of
        None \<Rightarrow> (V, False)
      | Some s \<Rightarrow> (case check_replay_protection ops le now s V of (V', replay) \<Rightarrow> (V', \<not> replay)))"

section \<open>The programs\<close>

text \<open>Everything that is no magic packet: only whitelisted sources pass.\<close>

definition default_drop :: "'m bpf_ops \<Rightarrow> bool \<Rightarrow> u64 \<Rightarrow> bytes \<Rightarrow> 'm variant \<Rightarrow> 'm variant \<times> verdict" where
  "default_drop ops le now f V =
     (case is_whitelisted ops le now (src_addr f) V of
        (V', ok) \<Rightarrow> (V', if ok then XDP_PASS else XDP_DROP))"

definition variant_prog ::
    "(bytes \<Rightarrow> 'm variant \<Rightarrow> 'm variant \<times> verdict) \<Rightarrow> 'm bpf_ops \<Rightarrow> bool \<Rightarrow> xdp_consts \<Rightarrow> u64
       \<Rightarrow> bytes \<Rightarrow> 'm variant \<Rightarrow> 'm variant \<times> verdict" where
  "variant_prog magic ops le C now f V =
     (if length f < 14 then (V, XDP_PASS)
      else if load16 le off_proto f \<noteq> bpf_htons le 0x0800 then (V, XDP_PASS)
      else if length f < 34 then (V, XDP_PASS)
      else if f ! off_protocol = 17 then
        (if length f < 42 then (V, XDP_DROP)
         else if load16 le off_dest f = bpf_htons le (xMagicPort C) then magic f V
         else default_drop ops le now f V)
      else default_drop ops le now f V)"

definition phantom_spa_prog ::
    "(bytes \<Rightarrow> bool) \<Rightarrow> 'm bpf_ops \<Rightarrow> bool \<Rightarrow> xdp_consts \<Rightarrow> u64 \<Rightarrow> bytes \<Rightarrow> 'm variant \<Rightarrow> 'm variant \<times> verdict" where
  "phantom_spa_prog same ops le C now =
     variant_prog
       (\<lambda>f V. (if verify_static_token same C (drop off_udp_payload f)
               then variant_whitelist_ip ops le C now (src_addr f) V else auth_failed V, XDP_DROP))
       ops le C now"

text \<open>The mode is read from the settings; without one the token decides.\<close>

definition spa_mode_setting :: "'m bpf_ops \<Rightarrow> bool \<Rightarrow> 'm variant \<Rightarrow> u32" where
  "spa_mode_setting ops le V =
     (case bpf_lookup ops (vConfig V) (native_u32 le 3) of None \<Rightarrow> 0 | Some v \<Rightarrow> read_u32 le v)"

definition dynamic_magic ::
    "(bytes \<Rightarrow> bool) \<Rightarrow> 'm bpf_ops \<Rightarrow> bool \<Rightarrow> xdp_consts \<Rightarrow> u64 \<Rightarrow> bytes \<Rightarrow> 'm variant \<Rightarrow> 'm variant \<times> verdict" where
  "dynamic_magic same ops le C now f V =
     (let payload = drop off_udp_payload f
      in if spa_mode_setting ops le V = 0 then
           (if verify_static_token same C payload
            then (variant_whitelist_ip ops le C now (src_addr f) V, XDP_DROP)
            else (auth_failed V, XDP_DROP))
         else
           (case verify_dynamic_packet ops le now payload V of
              (V', True) \<Rightarrow> (V', XDP_PASS)
            | (V', False) \<Rightarrow> (auth_failed V', XDP_DROP)))"

definition phantom_spa_dynamic_prog ::
    "(bytes \<Rightarrow> bool) \<Rightarrow> 'm bpf_ops \<Rightarrow> bool \<Rightarrow> xdp_consts \<Rightarrow> u64 \<Rightarrow> bytes \<Rightarrow> 'm variant \<Rightarrow> 'm variant \<times> verdict" where
  "phantom_spa_dynamic_prog same ops le C now = variant_prog (dynamic_magic same ops le C now) ops le C now"

lemmas variant_defs = phantom_spa_prog_def phantom_spa_dynamic_prog_def variant_prog_def dynamic_magic_def

section \<open>What passes\<close>

definition ipv4 :: "bytes \<Rightarrow> bool" where
  "ipv4 f \<longleftrightarrow> 34 \<le> length f \<and> join16 (f ! 12) (f ! 13) = 0x0800"

definition magic_frame :: "xdp_consts \<Rightarrow> bytes \<Rightarrow> bool" where
  "magic_frame C f \<longleftrightarrow> ipv4 f \<and> f ! 23 = 17 \<and> 42 \<le> length f \<and> join16 (f ! 36) (f ! 37) = xMagicPort C"

lemma default_drop_passes:
  "snd (default_drop ops le now f V) = XDP_PASS \<longleftrightarrow>
     whitelisted ops le now (src_addr f) (spa_whitelist (vKernel V))"
  by (auto simp: default_drop_def is_whitelisted_def is_spa_whitelisted_def whitelisted_def
      split: option.splits prod.splits if_splits)

lemma ipv4_variant:
  assumes "ipv4 f"
  shows "variant_prog magic ops le C now f V =
    (if f ! 23 = 17 then
       (if length f < 42 then (V, XDP_DROP)
        else if magic_frame C f then magic f V else default_drop ops le now f V)
     else default_drop ops le now f V)"
  using assms
  by (auto simp: variant_prog_def ipv4_def magic_frame_def htons_eq_load16 offsets)

text \<open>The token program lets an IPv4 frame through exactly if its source is whitelisted, and is no
  magic packet.\<close>

theorem phantom_spa_passes_iff:
  assumes "ipv4 f"
  shows "snd (phantom_spa_prog same ops le C now f V) = XDP_PASS \<longleftrightarrow>
    \<not> magic_frame C f \<and> \<not> (f ! 23 = 17 \<and> length f < 42) \<and>
    whitelisted ops le now (src_addr f) (spa_whitelist (vKernel V))"
  unfolding phantom_spa_prog_def ipv4_variant [OF assms]
  by (auto simp: default_drop_passes magic_frame_def)

text \<open>
  With a mode other than static set, what passes as a magic packet has the structure of a version 1
  packet and a signature that was not seen within the window; nothing of it is verified.
\<close>

lemma dynamic_magic_verdict:
  "spa_mode_setting ops le V \<noteq> 0 \<Longrightarrow>
   snd (dynamic_magic same ops le C now f V) =
     (if snd (verify_dynamic_packet ops le now (drop 42 f) V) then XDP_PASS else XDP_DROP)"
  by (auto simp: dynamic_magic_def Let_def off_udp_payload_def split: prod.splits bool.splits)

theorem phantom_spa_dynamic_passes_iff:
  assumes "ipv4 f" and "spa_mode_setting ops le V \<noteq> 0"
  shows "snd (phantom_spa_dynamic_prog same ops le C now f V) = XDP_PASS \<longleftrightarrow>
    (if magic_frame C f then
       \<exists>s. packet_signature (drop 42 f) = Some s \<and> \<not> snd (check_replay_protection ops le now s V)
     else \<not> (f ! 23 = 17 \<and> length f < 42) \<and> whitelisted ops le now (src_addr f) (spa_whitelist (vKernel V)))"
proof -
  have "snd (verify_dynamic_packet ops le now p V) \<longleftrightarrow>
      (\<exists>s. packet_signature p = Some s \<and> \<not> snd (check_replay_protection ops le now s V))" for p
    by (auto simp: verify_dynamic_packet_def split: option.split prod.split)
  then show ?thesis
    unfolding phantom_spa_dynamic_prog_def ipv4_variant [OF assms(1)]
    by (auto simp: default_drop_passes magic_frame_def dynamic_magic_verdict [OF assms(2)])
qed

section \<open>The packets of the client\<close>

lemma packet_signature_version: "packet_signature p \<noteq> None \<Longrightarrow> p ! 0 = 1"
  by (auto simp: packet_signature_def split: if_splits)

text \<open>
  The clients of \<^verbatim>\<open>pkg/spa\<close> make version 2 packets, and the program knows version 1 only: with a mode set,
  every one of their packets is dropped before it can reach user space, where it would be accepted.
\<close>

theorem client_packets_never_pass:
  assumes "magic_frame C f" and "spa_mode_setting ops le V \<noteq> 0"
    and "CreateAsymmetricPacket E env sk totpSecret step obf cip = Some (Inr (drop 42 f)) \<or>
      CreateDynamicPacket env k totpSecret step obf cip = Some (Inr (drop 42 f))"
  shows "phantom_spa_dynamic_prog same ops le C now f V = (auth_failed V, XDP_DROP)"
proof -
  have "drop 42 f ! 0 = 2"
    using assms(3) CreateAsymmetricPacket_sealed [of E env sk totpSecret step obf cip "drop 42 f"]
      CreateDynamicPacket_sealed [of env k totpSecret step obf cip "drop 42 f"]
    by (auto simp: packet_header_def)
  then have "packet_signature (drop 42 f) = None"
    using packet_signature_version [of "drop 42 f"] by (cases "packet_signature (drop 42 f)") auto
  moreover have "ipv4 f" "f ! 23 = 17" "\<not> length f < 42" using assms(1) by (auto simp: magic_frame_def)
  ultimately show ?thesis
    using assms(1,2)
    by (simp add: phantom_spa_dynamic_prog_def ipv4_variant dynamic_magic_def verify_dynamic_packet_def
        off_udp_payload_def Let_def)
qed

section \<open>Replays\<close>

text \<open>
  The signature is recorded when the packet passes, before anyone has verified it: whoever sends the same
  eight bytes at the same place within the window, the true sender included, is dropped.
\<close>

theorem recorded_signature_drops:
  assumes "bpf_laws ops"
    and "packet_signature (drop 42 f) = Some s" and "packet_signature (drop 42 g) = Some r"
    and "take 8 s = take 8 r" and "magic_frame C f" and "magic_frame C g"
    and "spa_mode_setting ops le V \<noteq> 0" and "replay_window ops le V = Some w"
    and "\<And>key val. bpf_put ops (vReplay V) key val \<noteq> None"
    and "phantom_spa_dynamic_prog same ops le C t0 f V = (V1, XDP_PASS)" and "now - t0 < w"
  shows "snd (phantom_spa_dynamic_prog same ops le C now g V1) = XDP_DROP"
proof -
  have sig: "\<not> length s < 8" "\<not> length r < 8"
    using assms(2,3) by (auto simp: packet_signature_def Let_def split: if_splits)
  let ?k = "native_u64 le (get_be64 (take 8 s))"
  obtain m where m: "bpf_put ops (vReplay V) ?k (native_u64 le t0) = Some m"
    using assms(9) by blast
  have fg: "ipv4 f" "f ! 23 = 17" "\<not> length f < 42" "ipv4 g" "g ! 23 = 17" "\<not> length g < 42"
    using assms(5,6) by (auto simp: magic_frame_def)
  have V1: "V1 = V\<lparr>vReplay := m\<rparr>"
    using assms(2,5,7,10) fg sig(1) m
    by (auto simp: phantom_spa_dynamic_prog_def ipv4_variant dynamic_magic_def verify_dynamic_packet_def
        check_replay_protection_def off_udp_payload_def Let_def split: option.splits if_splits)
  have "bpf_lookup ops m ?k = Some (native_u64 le t0)" using assms(1) m by (rule bpf_put_same)
  moreover have "replay_window ops le V1 = Some w" using assms(8) V1 by (simp add: replay_window_def)
  ultimately have "snd (check_replay_protection ops le now r V1)"
    using sig(2) assms(4,11) V1 by (simp add: check_replay_protection_def Let_def)
  moreover have "spa_mode_setting ops le V1 \<noteq> 0" using assms(7) V1 by (simp add: spa_mode_setting_def)
  ultimately show ?thesis
    using fg assms(3,6)
    by (cases "check_replay_protection ops le now r V1")
      (simp add: phantom_spa_dynamic_prog_def ipv4_variant dynamic_magic_verdict verify_dynamic_packet_def)
qed

section \<open>Examples\<close>

definition example_variant :: "(bytes \<Rightarrow> bytes option) variant" where
  "example_variant = \<lparr>vKernel = example_kernel, vReplay = Map.empty,
     vConfig = [native_u32 True 3 \<mapsto> native_u32 True 2, native_u32 True 2 \<mapsto> native_u32 True 60],
     vReplayBlocked = 0\<rparr>"

lemma read_native_u32 [simp]: "read_u32 le (native_u32 le w) = w"
  by (simp add: read_u32_def native_u32_def)

lemma example_variant_settings:
  "spa_mode_setting plain_map True example_variant = 2"
  "replay_window plain_map True example_variant = Some 60000000000"
  by (simp_all add: spa_mode_setting_def replay_window_def example_variant_def plain_map_def native_u32_inj)

lemma example_magic_frame:
  "magic_frame example_consts (example_frame 17 1337 ([0, 0, 0, 0] @ d))"
  "drop 42 (example_frame 17 1337 ([0, 0, 0, 0] @ d)) = d"
  by (simp_all add: magic_frame_def ipv4_def example_frame_def example_consts_def nth_append)

lemma client_packets_never_pass_witness:
  "\<exists>d. CreateAsymmetricPacket ed_example example_env (ed_newkey ed_example [3]) [1] 30 True example_ip = Some (Inr d) \<and>
     phantom_spa_dynamic_prog (\<lambda>_. False) plain_map True example_consts 5
       (example_frame 17 1337 ([0, 0, 0, 0] @ d)) example_variant = (auth_failed example_variant, XDP_DROP)"
proof -
  obtain d where d: "CreateAsymmetricPacket ed_example example_env (ed_newkey ed_example [3]) [1] 30 True example_ip = Some (Inr d)"
    using CreateAsymmetricPacket_example by blast
  let ?f = "example_frame 17 1337 ([0, 0, 0, 0] @ d)"
  have "phantom_spa_dynamic_prog (\<lambda>_. False) plain_map True example_consts 5 ?f example_variant
      = (auth_failed example_variant, XDP_DROP)"
    by (rule client_packets_never_pass [OF example_magic_frame(1), where E = ed_example and env = example_env
          and sk = "ed_newkey ed_example [3]" and totpSecret = "[1]" and step = 30 and obf = True and cip = example_ip])
      (use d in \<open>simp_all only: example_magic_frame(2) example_variant_settings, simp_all\<close>)
  with d show ?thesis by blast
qed

lemma recorded_signature_drops_witness:
  "\<exists>V1. phantom_spa_dynamic_prog (\<lambda>_. False) plain_map True example_consts 5
        (example_frame 17 1337 ([0, 0, 0, 0] @ 1 # 1 # replicate 44 7)) example_variant = (V1, XDP_PASS) \<and>
     snd (phantom_spa_dynamic_prog (\<lambda>_. False) plain_map True example_consts 59000000000
        (example_frame 17 1337 ([0, 0, 0, 0] @ 1 # 1 # replicate 20 9 @ replicate 32 7)) V1) = XDP_DROP"
proof -
  let ?p = "1 # 1 # replicate 44 (7 :: byte)" and ?q = "1 # 1 # replicate 20 9 @ replicate 32 (7 :: byte)"
  let ?f = "example_frame 17 1337 ([0, 0, 0, 0] @ ?p)" and ?g = "example_frame 17 1337 ([0, 0, 0, 0] @ ?q)"
  let ?P = "phantom_spa_dynamic_prog (\<lambda>_. False) plain_map True example_consts"
  have p: "packet_signature ?p = Some (replicate 32 7)" "packet_signature ?q = Some (replicate 32 7)"
    by (simp_all add: packet_signature_def)
  have "snd (check_replay_protection plain_map True 5 (replicate 32 7) example_variant) = False"
    by (simp add: check_replay_protection_def example_variant_def plain_map_def Let_def)
  then have "snd (?P 5 ?f example_variant) = XDP_PASS"
    using example_magic_frame [of ?p] p(1) by (subst phantom_spa_dynamic_passes_iff)
      (simp_all only: example_variant_settings, simp_all add: magic_frame_def)
  then obtain V1 where V1: "?P 5 ?f example_variant = (V1, XDP_PASS)" by (cases "?P 5 ?f example_variant") simp
  have "snd (?P 59000000000 ?g V1) = XDP_DROP"
    by (rule recorded_signature_drops [OF plain_map_laws(1) _ _ _ example_magic_frame(1) example_magic_frame(1) _ _ _ V1])
      (simp_all only: example_magic_frame(2) p example_variant_settings, simp_all add: plain_map_def)
  with V1 show ?thesis by blast
qed

end
