(* ===== verification/ElkLoop.thy ===== *)
theory ElkLoop
  imports Exporter
begin

text \<open>
  The rest of \<^verbatim>\<open>internal/exporter/elk.go\<close>: the HTTP client with what it takes from the configuration,
  and \<^verbatim>\<open>flushLoop\<close>, the goroutine that flushes at every tick and a last time when the exporter is
  closed. A flush is numbered; \<open>send i\<close> says whether the client delivers the batch of flush \<open>i\<close>, and
  \<open>others i\<close> is what other goroutines do while it is on its way.
\<close>

section \<open>The client\<close>

record es_client =
  esAddresses :: "string list"
  esUsername :: string
  esPassword :: string
  esSkipVerify :: bool
  esTimeoutSeconds :: nat

text \<open>\<^verbatim>\<open>UseTLS\<close> guards an empty block: only the scheme of an address decides.\<close>

definition NewElasticsearchHTTPClient :: "elk_config \<Rightarrow> es_client" where
  "NewElasticsearchHTTPClient cfg =
     \<lparr>esAddresses = elkAddresses cfg, esUsername = elkUsername cfg, esPassword = elkPassword cfg,
      esSkipVerify = elkSkipVerify cfg, esTimeoutSeconds = 10\<rparr>"

definition NewElasticsearchClient :: "elk_config \<Rightarrow> es_client" where
  "NewElasticsearchClient cfg = NewElasticsearchHTTPClient cfg"

text \<open>One request of \<^verbatim>\<open>BulkIndex\<close>: the address, the credentials if both are set, and the body.\<close>

record es_request =
  reqURL :: string
  reqContentType :: string
  reqBasicAuth :: "(string \<times> string) option"
  reqBody :: string

definition bulk_request :: "es_client \<Rightarrow> string \<Rightarrow> string \<Rightarrow> es_request" where
  "bulk_request c addr body =
     \<lparr>reqURL = addr @ ''/_bulk'', reqContentType = ''application/json'',
      reqBasicAuth = (if esUsername c \<noteq> [] \<and> esPassword c \<noteq> [] then Some (esUsername c, esPassword c) else None),
      reqBody = body\<rparr>"

definition bulk_requests ::
    "(nat \<Rightarrow> string \<Rightarrow> string \<Rightarrow> reply) \<Rightarrow> elk_config \<Rightarrow> document list \<Rightarrow> es_request list" where
  "bulk_requests http cfg docs =
     map (\<lambda>(a, b). bulk_request (NewElasticsearchClient cfg) a b)
       (snd (BulkIndex http cfg (elkIndex cfg) docs))"

section \<open>The loop\<close>

text \<open>The interval in nanoseconds wraps around; \<^verbatim>\<open>time.NewTicker\<close> panics when it is not positive, and a
  panic of a goroutine ends the program.\<close>

definition flush_period :: "elk_config \<Rightarrow> i64 option" where
  "flush_period cfg =
     (let d = elkFlushInterval cfg * 1000000000 in if d \<le>s 0 then None else Some d)"

datatype loop_event = Tick | Cancelled

definition flush_round ::
    "(nat \<Rightarrow> document list \<Rightarrow> bool) \<Rightarrow> (nat \<Rightarrow> exporter \<Rightarrow> exporter) \<Rightarrow> nat \<Rightarrow> exporter
       \<Rightarrow> exporter \<times> (document list \<times> bool) list" where
  "flush_round send others i e =
     (fst (Flush (send i) (others i) e),
      case snd (flush_begin e) of None \<Rightarrow> [] | Some b \<Rightarrow> [(b, send i b)])"

text \<open>The result has the exporter, the batches that were sent with their outcomes, and whether the loop
  has returned.\<close>

fun flush_rounds ::
    "(nat \<Rightarrow> document list \<Rightarrow> bool) \<Rightarrow> (nat \<Rightarrow> exporter \<Rightarrow> exporter) \<Rightarrow> nat \<Rightarrow> loop_event list \<Rightarrow> exporter
       \<Rightarrow> exporter \<times> (document list \<times> bool) list \<times> bool" where
  "flush_rounds send others i [] e = (e, [], False)"
| "flush_rounds send others i (Cancelled # evs) e =
     (case flush_round send others i e of (e', log) \<Rightarrow> (e', log, True))"
| "flush_rounds send others i (Tick # evs) e =
     (case flush_round send others i e of (e', log) \<Rightarrow>
        (case flush_rounds send others (Suc i) evs e' of (e'', log', r) \<Rightarrow> (e'', log @ log', r)))"

definition flushLoop ::
    "(nat \<Rightarrow> document list \<Rightarrow> bool) \<Rightarrow> (nat \<Rightarrow> exporter \<Rightarrow> exporter) \<Rightarrow> loop_event list \<Rightarrow> exporter
       \<Rightarrow> (exporter \<times> (document list \<times> bool) list \<times> bool) option" where
  "flushLoop send others evs e =
     (case flush_period (eConfig e) of None \<Rightarrow> None | Some _ \<Rightarrow> Some (flush_rounds send others 0 evs e))"

section \<open>An outage\<close>

text \<open>What other goroutines do to the exporter meanwhile is to add documents.\<close>

definition adding :: "document list \<Rightarrow> exporter \<Rightarrow> exporter" where
  "adding ds e = e\<lparr>eBuffer := eBuffer e @ ds\<rparr>"

lemma flush_round_adding:
  assumes "eBuffer e \<noteq> []"
  shows "flush_round send (\<lambda>i. adding (news i)) i e =
    (e\<lparr>eBuffer := (if send i (eBuffer e) then [] else eBuffer e) @ news i\<rparr>, [(eBuffer e, send i (eBuffer e))])"
  using assms
  by (simp add: flush_round_def Flush_def flushLocked_def flush_begin_def flush_end_def adding_def)

lemma flush_outage_rounds:
  assumes "\<And>j b. i \<le> j \<Longrightarrow> j < i + k \<Longrightarrow> \<not> send j b" and "\<And>b. send (i + k) b" and "eBuffer e \<noteq> []"
  shows "\<exists>log. flush_rounds send (\<lambda>i. adding (news i)) i (replicate (Suc k) Tick @ evs) e =
      (case flush_rounds send (\<lambda>i. adding (news i)) (i + Suc k) evs (e\<lparr>eBuffer := news (i + k)\<rparr>) of
         (e', log', r) \<Rightarrow> (e', log @ log', r)) \<and>
    map fst (filter snd log) = [eBuffer e @ concat (map news [i..<i + k])] \<and> length log = Suc k"
  using assms
proof (induction k arbitrary: i e)
  case 0
  then show ?case by (auto simp: flush_round_adding split: prod.splits)
next
  case (Suc k)
  let ?e = "e\<lparr>eBuffer := eBuffer e @ news i\<rparr>"
  have no: "\<not> send i b" for b using Suc.prems(1) [of i] by simp
  obtain log where log: "flush_rounds send (\<lambda>i. adding (news i)) (Suc i) (replicate (Suc k) Tick @ evs) ?e =
      (case flush_rounds send (\<lambda>i. adding (news i)) (Suc i + Suc k) evs (?e\<lparr>eBuffer := news (Suc i + k)\<rparr>) of
         (e', log', r) \<Rightarrow> (e', log @ log', r))"
    "map fst (filter snd log) = [eBuffer ?e @ concat (map news [Suc i..<Suc i + k])]" "length log = Suc k"
    using Suc.IH [of "Suc i" ?e] Suc.prems by auto
  have "[i..<i + Suc k] = i # [Suc i..<Suc i + k]" by (simp add: upt_rec)
  then show ?case
    using log Suc.prems(3)
    by (intro exI [of _ "(eBuffer e, False) # log"]) (simp add: flush_round_adding no split: prod.splits)
qed

text \<open>
  The client fails at the first \<open>k\<close> ticks while other goroutines add documents, and delivers at the next
  one: then it has delivered one batch, all documents of the outage in the order they came in, and only what
  was added during this last flush is left.
\<close>

theorem flush_outage:
  assumes "flush_period (eConfig e) \<noteq> None" and "eBuffer e \<noteq> []"
    and "\<And>j b. j < k \<Longrightarrow> \<not> send j b" and "\<And>b. send k b"
  shows "\<exists>log. flushLoop send (\<lambda>i. adding (news i)) (replicate (Suc k) Tick) e =
      Some (e\<lparr>eBuffer := news k\<rparr>, log, False) \<and>
    map fst (filter snd log) = [eBuffer e @ concat (map news [0..<k])] \<and> length log = Suc k"
  using flush_outage_rounds [of 0 k send e news "[]"] assms
  by (auto simp: flushLoop_def simp del: replicate_Suc)

lemma flush_outage_witness:
  "\<exists>log. flushLoop (\<lambda>i _. i = 2) (\<lambda>i. adding [doc_example (show_nat i)]) [Tick, Tick, Tick]
      \<lparr>eConfig = elk_example, eBuffer = [doc_example ''a'']\<rparr> =
      Some (\<lparr>eConfig = elk_example, eBuffer = [doc_example (show_nat 2)]\<rparr>, log, False) \<and>
    map fst (filter snd log) = [[doc_example ''a'', doc_example (show_nat 0), doc_example (show_nat 1)]] \<and>
    length log = 3"
proof -
  let ?e = "\<lparr>eConfig = elk_example, eBuffer = [doc_example ''a'']\<rparr>"
  have "flush_period (eConfig ?e) \<noteq> None"
    by (simp add: flush_period_def elk_example_def DefaultELKConfig_def Let_def word_sle_eq)
  then show ?thesis
    using flush_outage [of ?e 2 "\<lambda>i _. i = 2" "\<lambda>i. [doc_example (show_nat i)]"]
    by (simp add: numeral_2_eq_2 numeral_3_eq_3 del: show_nat.simps)
qed

text \<open>Closing: the loop returns at the cancellation, having flushed, and \<^verbatim>\<open>Close\<close> flushes once more, so a
  document is left behind only if both of these flushes fail or it is added during the last one.\<close>

theorem closed_exporter_left:
  "flush_rounds (\<lambda>_. send1) (\<lambda>_. others) i [Cancelled] e =
     (fst (Flush send1 others e), snd (flush_round (\<lambda>_. send1) (\<lambda>_. others) i e), True)"
  "eBuffer (Close send1 send2 (adding []) e) =
     (if eBuffer e = [] \<or> send1 (eBuffer e) \<or> send2 (eBuffer e) then [] else eBuffer e)"
  by (auto simp: flush_round_def Close_def Flush_def flushLocked_def flush_begin_def flush_end_def adding_def
      split: prod.splits)

text \<open>Nothing checks the interval: zero, as any that is negative, makes the goroutine panic.\<close>

theorem flush_interval_panics:
  assumes "- 9223372036 \<le> sint (elkFlushInterval (eConfig e))" and "sint (elkFlushInterval (eConfig e)) \<le> 9223372036"
  shows "flushLoop send others evs e = None \<longleftrightarrow> sint (elkFlushInterval (eConfig e)) \<le> 0"
proof -
  have "sint (1000000000 :: i64) = 1000000000" by simp
  moreover have "sint (elkFlushInterval (eConfig e) * 1000000000) = sint (elkFlushInterval (eConfig e)) * sint (1000000000 :: i64)"
    by (rule sint_mult64) (use assms in \<open>simp add: int64_fits_def\<close>)
  ultimately show ?thesis by (simp add: flushLoop_def flush_period_def Let_def word_sle_eq)
qed

text \<open>The setting for TLS changes nothing about the requests.\<close>

theorem UseTLS_ignored:
  "bulk_requests http (cfg\<lparr>elkUseTLS := b\<rparr>) docs = bulk_requests http cfg docs"
  by (simp add: bulk_requests_def NewElasticsearchClient_def NewElasticsearchHTTPClient_def BulkIndex_def bulk_request_def)

end
