(* ===== verification/Tunnel.thy ===== *)
theory Tunnel
  imports Proxy Prelude
begin

text \<open>
  The proxy at work (\<^verbatim>\<open>internal/proxy/mtls.go\<close>): the loop that accepts connections, and a connection
  that is forwarded, with its two \<^verbatim>\<open>io.Copy\<close> goroutines beside the peers. Each direction is a pipe: bytes
  the sender has written, the chunk a goroutine has read and not written yet, and bytes that have
  been written. The connection is closed as soon as the first of the two goroutines is done.
\<close>

section \<open>The accept loop\<close>

datatype accept = AcceptError string | AcceptConn bool client_conn

text \<open>What becomes of the connections; an error of \<^verbatim>\<open>Accept\<close> is logged and the loop goes on at once.\<close>

fun accept_loop :: "string list \<Rightarrow> accept list \<Rightarrow> proxy_outcome list \<times> string list" where
  "accept_loop ids [] = ([], [])"
| "accept_loop ids (AcceptError e # as) =
     apsnd ((#) (''[mTLS Proxy] Accept error: '' @ e)) (accept_loop ids as)"
| "accept_loop ids (AcceptConn dial_ok c # as) =
     apfst ((#) (proxy_connection ids dial_ok c)) (accept_loop ids as)"

section \<open>One direction\<close>

record pipe =
  pWritten :: bytes
  pEnded :: bool
  pWaiting :: bytes
  pHeld :: bytes
  pSunk :: bytes
  pDone :: bool
  pClean :: bool

definition copy_buffer :: nat where "copy_buffer = 32768"

definition pipe_start :: pipe where
  "pipe_start = \<lparr>pWritten = [], pEnded = False, pWaiting = [], pHeld = [], pSunk = [], pDone = False, pClean = False\<rparr>"

text \<open>The sender writes or ends its stream; the goroutine reads a chunk, writes it, ends at the end of the
  stream, or ends with an error.\<close>

inductive pipe_step :: "pipe \<Rightarrow> pipe \<Rightarrow> bool" where
  sender_writes:
    "\<not> pEnded p \<Longrightarrow> pipe_step p (p\<lparr>pWritten := pWritten p @ bs, pWaiting := pWaiting p @ bs\<rparr>)"
| sender_ends:
    "pipe_step p (p\<lparr>pEnded := True\<rparr>)"
| copy_reads:
    "\<not> pDone p \<Longrightarrow> pHeld p = [] \<Longrightarrow> 0 < n \<Longrightarrow> n \<le> copy_buffer \<Longrightarrow> n \<le> length (pWaiting p) \<Longrightarrow>
     pipe_step p (p\<lparr>pHeld := take n (pWaiting p), pWaiting := drop n (pWaiting p)\<rparr>)"
| copy_writes:
    "\<not> pDone p \<Longrightarrow> pHeld p \<noteq> [] \<Longrightarrow> pipe_step p (p\<lparr>pSunk := pSunk p @ pHeld p, pHeld := []\<rparr>)"
| copy_ends:
    "\<not> pDone p \<Longrightarrow> pEnded p \<Longrightarrow> pWaiting p = [] \<Longrightarrow> pHeld p = [] \<Longrightarrow>
     pipe_step p (p\<lparr>pDone := True, pClean := True\<rparr>)"
| copy_fails:
    "\<not> pDone p \<Longrightarrow> pipe_step p (p\<lparr>pDone := True\<rparr>)"

inductive_cases pipe_stepE: "pipe_step p q"

definition pipe_inv :: "pipe \<Rightarrow> bool" where
  "pipe_inv p \<longleftrightarrow> pSunk p @ pHeld p @ pWaiting p = pWritten p \<and>
     (pClean p \<longrightarrow> pDone p \<and> pEnded p \<and> pSunk p = pWritten p) \<and> length (pHeld p) \<le> copy_buffer"

lemma pipe_start_inv: "pipe_inv pipe_start"
  by (simp add: pipe_inv_def pipe_start_def)

lemma pipe_step_inv: "pipe_step p q \<Longrightarrow> pipe_inv p \<Longrightarrow> pipe_inv q"
  by (erule pipe_stepE) (auto simp: pipe_inv_def)

section \<open>Both directions\<close>

record tunnel =
  tUp :: pipe
  tDown :: pipe
  tClosed :: bool

definition tunnel_start :: tunnel where
  "tunnel_start = \<lparr>tUp = pipe_start, tDown = pipe_start, tClosed = False\<rparr>"

text \<open>\<^verbatim>\<open>handleConnection\<close> waits for one result, whichever goroutine sends it, and returns, which closes
  both connections; the channel has room for the other.\<close>

inductive tunnel_step :: "tunnel \<Rightarrow> tunnel \<Rightarrow> bool" where
  up: "\<not> tClosed t \<Longrightarrow> pipe_step (tUp t) p \<Longrightarrow> tunnel_step t (t\<lparr>tUp := p\<rparr>)"
| down: "\<not> tClosed t \<Longrightarrow> pipe_step (tDown t) p \<Longrightarrow> tunnel_step t (t\<lparr>tDown := p\<rparr>)"
| close_both: "\<not> tClosed t \<Longrightarrow> pDone (tUp t) \<or> pDone (tDown t) \<Longrightarrow> tunnel_step t (t\<lparr>tClosed := True\<rparr>)"

inductive_cases tunnel_stepE: "tunnel_step t u"

lemma tunnel_run_inv:
  "tunnel_step\<^sup>*\<^sup>* tunnel_start t \<Longrightarrow> pipe_inv (tUp t) \<and> pipe_inv (tDown t) \<and>
     (tClosed t \<longrightarrow> pDone (tUp t) \<or> pDone (tDown t))"
proof (induction rule: rtranclp_induct)
  case base
  then show ?case using pipe_start_inv by (simp add: tunnel_start_def)
next
  case (step t u)
  then show ?case by (auto elim!: tunnel_stepE dest: pipe_step_inv)
qed

text \<open>
  In every run the target has received a prefix of what the client wrote, and the client of what the target
  wrote, in order and nothing twice; a direction that ended by itself is complete; and the
  connection is closed only when a direction has ended.
\<close>

theorem tunnel_prefixes:
  assumes "tunnel_step\<^sup>*\<^sup>* tunnel_start t"
  shows "(\<exists>rest. pSunk (tUp t) @ rest = pWritten (tUp t)) \<and> (\<exists>rest. pSunk (tDown t) @ rest = pWritten (tDown t)) \<and>
    (pClean (tUp t) \<longrightarrow> pSunk (tUp t) = pWritten (tUp t)) \<and>
    (pClean (tDown t) \<longrightarrow> pSunk (tDown t) = pWritten (tDown t)) \<and>
    (tClosed t \<longrightarrow> pDone (tUp t) \<or> pDone (tDown t))"
  using tunnel_run_inv [OF assms] unfolding pipe_inv_def by blast

text \<open>Nothing happens to a closed connection.\<close>

lemma closed_tunnel: "tunnel_step\<^sup>*\<^sup>* t u \<Longrightarrow> tClosed t \<Longrightarrow> u = t"
  by (induction rule: converse_rtranclp_induct) (auto elim: tunnel_stepE)

lemma tunnel_up: "pipe_step\<^sup>*\<^sup>* p q \<Longrightarrow> tunnel_step\<^sup>*\<^sup>* \<lparr>tUp = p, tDown = d, tClosed = False\<rparr> \<lparr>tUp = q, tDown = d, tClosed = False\<rparr>"
proof (induction rule: rtranclp_induct)
  case (step q r)
  then show ?case
    using tunnel_step.up [of "\<lparr>tUp = q, tDown = d, tClosed = False\<rparr>" r] by (simp add: rtranclp.rtrancl_into_rtrancl)
qed simp

text \<open>
  A client that sends its request and ends its side of the connection, as many do, can lose the whole
  answer: the end of the request ends the first goroutine, and the connection is closed under the second.
\<close>

theorem half_close_loses_answer:
  assumes "req \<noteq> []" and "length req \<le> copy_buffer"
  shows "\<exists>t. tunnel_step\<^sup>*\<^sup>* tunnel_start t \<and> pSunk (tUp t) = req \<and> pClean (tUp t) \<and>
    pWritten (tDown t) = answer \<and> tClosed t \<and>
    (\<forall>u. tunnel_step\<^sup>*\<^sup>* t u \<longrightarrow> pSunk (tDown u) = [])"
proof -
  let ?p1 = "pipe_start\<lparr>pWritten := req, pWaiting := req\<rparr>"
  let ?p2 = "?p1\<lparr>pEnded := True\<rparr>"
  let ?p3 = "?p2\<lparr>pHeld := req, pWaiting := []\<rparr>"
  let ?p4 = "?p3\<lparr>pSunk := req, pHeld := []\<rparr>"
  let ?p5 = "?p4\<lparr>pDone := True, pClean := True\<rparr>"
  have "pipe_step pipe_start ?p1" using pipe_step.sender_writes [of pipe_start req] by (simp add: pipe_start_def)
  moreover have "pipe_step ?p1 ?p2" by (rule pipe_step.sender_ends)
  moreover have "pipe_step ?p2 ?p3"
    using pipe_step.copy_reads [of ?p2 "length req"] assms by (simp add: pipe_start_def)
  moreover have "pipe_step ?p3 ?p4"
    using pipe_step.copy_writes [of ?p3] assms by (simp add: pipe_start_def)
  moreover have "pipe_step ?p4 ?p5" by (rule pipe_step.copy_ends) (simp_all add: pipe_start_def)
  ultimately have up: "pipe_step\<^sup>*\<^sup>* pipe_start ?p5" by (meson rtranclp.rtrancl_refl rtranclp.rtrancl_into_rtrancl)
  let ?d = "pipe_start\<lparr>pWritten := answer, pWaiting := answer\<rparr>"
  let ?t1 = "\<lparr>tUp = ?p5, tDown = pipe_start, tClosed = False\<rparr>"
  let ?t2 = "\<lparr>tUp = ?p5, tDown = ?d, tClosed = False\<rparr>"
  let ?t3 = "\<lparr>tUp = ?p5, tDown = ?d, tClosed = True\<rparr>"
  have "tunnel_step\<^sup>*\<^sup>* tunnel_start ?t1" using tunnel_up [OF up] by (simp add: tunnel_start_def)
  moreover have "tunnel_step ?t1 ?t2"
    using tunnel_step.down [of ?t1 ?d] pipe_step.sender_writes [of pipe_start answer] by (simp add: pipe_start_def)
  moreover have "tunnel_step ?t2 ?t3" using tunnel_step.close_both [of ?t2] by simp
  ultimately have "tunnel_step\<^sup>*\<^sup>* tunnel_start ?t3" by (meson rtranclp.rtrancl_into_rtrancl)
  moreover have "pSunk (tDown u) = []" if "tunnel_step\<^sup>*\<^sup>* ?t3 u" for u
    using closed_tunnel [OF that] by (simp add: pipe_start_def)
  ultimately show ?thesis by (intro exI [of _ ?t3]) (auto simp: pipe_start_def)
qed

lemma half_close_loses_answer_witness:
  "\<exists>t. tunnel_step\<^sup>*\<^sup>* tunnel_start t \<and> pSunk (tUp t) = [71] \<and> pWritten (tDown t) = [79, 75] \<and>
     tClosed t \<and> pSunk (tDown t) = []"
  using half_close_loses_answer [of "[71]" "[79, 75]"] by (auto simp: copy_buffer_def)

lemma tunnel_prefixes_witness:
  "\<exists>t. tunnel_step\<^sup>*\<^sup>* tunnel_start t \<and> pWritten (tUp t) = [71] \<and> (\<exists>rest. pSunk (tUp t) @ rest = [71])"
proof -
  obtain t where t: "tunnel_step\<^sup>*\<^sup>* tunnel_start t" "pSunk (tUp t) = [71]" "pClean (tUp t)"
    using half_close_loses_answer [of "[71]" "[]"] by (auto simp: copy_buffer_def)
  then show ?thesis using tunnel_prefixes [OF t(1)] by metis
qed

end
