(* ===== verification/AuditLog.thy ===== *)
theory AuditLog
  imports Service
begin

text \<open>
  The audit file of \<^verbatim>\<open>internal/logger/logger.go\<close>: the first call of \<^verbatim>\<open>LogAttack\<close> in the life of the
  program opens it, under a \<^verbatim>\<open>sync.Once\<close>, and what this attempt gave holds for every later call.
\<close>

record audit =
  auTried :: bool
  auOpened :: bool
  auFile :: "attack_log list"

definition audit_start :: audit where
  "audit_start = \<lparr>auTried = False, auOpened = False, auFile = []\<rparr>"

text \<open>Whether the directory can be made and the file opened.\<close>

record audit_disk =
  adMkdir :: bool
  adOpen :: bool

definition initAuditLogger :: "audit_disk \<Rightarrow> audit \<Rightarrow> audit" where
  "initAuditLogger D s =
     (if \<not> adMkdir D then s else if \<not> adOpen D then s else s\<lparr>auOpened := True\<rparr>)"

definition audit_call :: "audit_disk \<Rightarrow> string \<Rightarrow> string \<Rightarrow> string \<Rightarrow> audit \<Rightarrow> audit" where
  "audit_call D now ip cmd s =
     (let s1 = (if auTried s then s else (initAuditLogger D s)\<lparr>auTried := True\<rparr>)
      in s1\<lparr>auFile := auFile s1 @ LogAttack (auOpened s1) now ip cmd\<rparr>)"

text \<open>The actions of the services, each with the state of the disk at its time.\<close>

fun audit_run :: "string \<Rightarrow> (audit_disk \<times> action) list \<Rightarrow> audit \<Rightarrow> audit" where
  "audit_run now [] s = s"
| "audit_run now ((D, Attack ip cmd) # acts) s = audit_run now acts (audit_call D now ip cmd s)"
| "audit_run now (_ # acts) s = audit_run now acts s"

lemma audit_run_tried:
  "auTried s \<Longrightarrow> auFile (audit_run now acts s) = auFile s @ attack_trail (auOpened s) now (map snd acts)"
proof (induction acts arbitrary: s)
  case (Cons a acts)
  obtain D act where a: "a = (D, act)" by (cases a)
  show ?case using Cons by (cases act) (simp_all add: a audit_call_def Let_def)
qed simp

definition first_disk :: "(audit_disk \<times> action) list \<Rightarrow> audit_disk option" where
  "first_disk acts = map_option fst (find (\<lambda>a. \<exists>ip cmd. snd a = Attack ip cmd) acts)"

text \<open>
  The whole file, for any sequence of actions: every attack is in it if the disk was writable at the
  first of them, and none is otherwise, however soon the disk recovers.
\<close>

theorem audit_file_all_or_nothing:
  "auFile (audit_run now acts audit_start) =
     attack_trail (case first_disk acts of None \<Rightarrow> False | Some D \<Rightarrow> adMkdir D \<and> adOpen D) now (map snd acts)"
proof (induction acts)
  case Nil
  then show ?case by (simp add: audit_start_def)
next
  case (Cons a acts)
  obtain D act where a: "a = (D, act)" by (cases a)
  show ?case
  proof (cases act)
    case (Attack ip cmd)
    let ?s = "audit_call D now ip cmd audit_start"
    have s: "auTried ?s" "auOpened ?s = (adMkdir D \<and> adOpen D)"
      "auFile ?s = LogAttack (adMkdir D \<and> adOpen D) now ip cmd"
      by (simp_all add: audit_call_def audit_start_def initAuditLogger_def)
    show ?thesis using audit_run_tried [OF s(1), of now acts] s by (simp add: a Attack first_disk_def)
  qed (use Cons in \<open>simp_all add: a first_disk_def\<close>)
qed

end
