(* ===== verification/Spec2Isabelle.thy ===== *)
theory Spec2Isabelle
  imports ConfigGen ExampleClient LogStream SpaServer Egress MenuRuns FleetRun Certs Loader Monitor Uptime Variants ElkLoop
    Tunnel AuditLog
begin

text \<open>
  Phantom Grid hides the services of a host behind single packet authorization (SPA). An XDP program
  drops what arrives for a protected port unless its sender is on a whitelist in the kernel; a client puts
  itself on the whitelist with one signed UDP packet. What scans or tries other ports is dropped or led to
  a honeypot. An agent in user space loads the kernel programs, checks SPA packets, runs the honeypot, a log
  with Elasticsearch output, a web dashboard and an mTLS proxy; a fleet manager collects the reports of many
  agents. This development models these programs in HOL and proves what makes them correct -- or, where they
  are not, what they do instead.

  \<^bold>\<open>How the model follows the code.\<close> Structs are records, enumerations are datatypes or strings as in the
  code, \<^verbatim>\<open>int64\<close> and \<^verbatim>\<open>uint64\<close> are words of their width, Go's \<^verbatim>\<open>string\<close> and \<^verbatim>\<open>[]byte\<close> are lists of bytes. A
  function that can fail gives a sum with the error on the left; a panic is \<open>None\<close>. Goroutines are step
  relations, one step for each action between two accesses to shared state. Clocks, random bytes, the order of
  maps, the network and the disk are arguments. A definition has the name of its function where HOL allows it.

  \<^bold>\<open>Foundations.\<close>
  \<^item> \<open>Prelude\<close>: machine integers, the big-endian codec, slices, and the collections of simplification rules
    (\<open>go_len\<close>, \<open>go_codec\<close>, \<open>go_slice\<close>) the other theories use.
  \<^item> \<open>GoLib\<close>, \<open>GoText\<close>, \<open>Json\<close>, \<open>Flags\<close>: what the program uses of \<^verbatim>\<open>net\<close>, \<^verbatim>\<open>bytes\<close>, \<^verbatim>\<open>strings\<close>, \<^verbatim>\<open>fmt\<close>,
    \<^verbatim>\<open>encoding/json\<close>, \<^verbatim>\<open>flag\<close> and \<^verbatim>\<open>strconv\<close>.
  \<^item> \<open>Crypto\<close>: SHA-1, SHA-256 and HMAC as in their standards, with the locale \<open>digest\<close>; Ed25519 is a
    parameter with its documented laws.

  \<^bold>\<open>Single packet authorization.\<close>
  \<^item> \<open>Config\<close> (\<^verbatim>\<open>internal/config\<close>): ports, settings, key files. \<open>ConfigGen\<close> (\<^verbatim>\<open>cmd/config-gen\<close>): the header the C
    programs are compiled with agrees with the Go tables.
  \<^item> \<open>Totp\<close> (\<^verbatim>\<open>internal/spa/totp.go\<close>): which passwords a window accepts; the loop over the window is a partial
    function, and it is proved when it returns.
  \<^item> \<open>Packet\<close> (\<^verbatim>\<open>internal/spa/packet.go\<close>): the wire format, a reference decoder the parser agrees with, and the
    locale \<open>authenticator\<close>, interpreted by HMAC and by Ed25519.
  \<^item> \<open>Verifier\<close> (\<^verbatim>\<open>internal/spa/verifier.go\<close>): the checks and the replay cache, alone (locale \<open>replay_store\<close>) and
    with calls that interleave (\<open>verify_step\<close>).
  \<^item> \<open>MapLoader\<close>, \<open>Handler\<close> (\<^verbatim>\<open>internal/spa/map_loader.go\<close>, \<^verbatim>\<open>handler.go\<close>): what is written to the kernel's
    maps, and the server with its shared read buffer (\<open>handler_step\<close>). \<open>SpaServer\<close>: its start, its loop and its
    stop, whose runs are runs of \<open>handler_step\<close>.
  \<^item> \<open>Uptime\<close> (\<^verbatim>\<open>map_loader.go\<close>): the uptime as a double, with its rounding errors, and how long an entry of the
    whitelist lasts by the kernel's clock.
  \<^item> \<open>Client\<close>, \<open>Cli\<close> (\<^verbatim>\<open>pkg/spa\<close>, parts of \<^verbatim>\<open>cmd/agent\<close>, \<^verbatim>\<open>cmd/spa-client\<close>, \<^verbatim>\<open>cmd/spa-keygen\<close>): from the
    files of the client to a packet the agent accepts. \<open>ExampleClient\<close> (\<^verbatim>\<open>examples/spa-client-example.go\<close>): it
    sends what the client would send with one fixed address.

  \<^bold>\<open>The kernel.\<close>
  \<^item> \<open>Gateway\<close> (\<^verbatim>\<open>internal/ebpf/programs/phantom.c\<close>): the XDP program over the bytes of a frame; what it lets
    through when the IP header has no options, and the way round it with one.
  \<^item> \<open>Egress\<close> (\<^verbatim>\<open>phantom_egress.c\<close>): the filter on outgoing frames.
  \<^item> \<open>Variants\<close> (\<^verbatim>\<open>phantom_spa.c\<close>, \<^verbatim>\<open>phantom_spa_dynamic.c\<close>): two programs nothing loads; what passes them, and that
    no packet of the clients does.
  \<^item> \<open>Monitor\<close> (\<^verbatim>\<open>internal/spa/manager.go\<close>): what the log is told about the counters of the XDP program.
  \<^item> \<open>Loader\<close> (\<^verbatim>\<open>internal/ebpf/loader.go\<close>): loading and attaching both, and what is left behind.

  \<^bold>\<open>The honeypot.\<close>
  \<^item> \<open>Service\<close>, \<open>Mirage\<close>, \<open>FakeShell\<close>, \<open>FakeHTTP\<close>, \<open>FakeLogin\<close>, \<open>FakeMySQL\<close>, \<open>Redis\<close>
    (\<^verbatim>\<open>internal/honeypot\<close>, \<^verbatim>\<open>internal/mirage\<close>): the dialogues, as functions from what is read to what is
    written and logged.
  \<^item> \<open>Honeypot\<close> (\<^verbatim>\<open>honeypot.go\<close>, \<^verbatim>\<open>handler.go\<close>): listeners, accept loops and shutdown (\<open>honeypot_step\<close>).

  \<^bold>\<open>Logs and reports.\<close>
  \<^item> \<open>Logger\<close> (\<^verbatim>\<open>internal/logger\<close>): events, the classification of messages, the manager (\<open>log_step\<close>).
  \<^item> \<open>Exporter\<close> (\<^verbatim>\<open>internal/exporter/elk.go\<close>): the buffer and its flushes refine an outbox, step by step
    (locale \<open>accounted_outbox\<close>), so no document is lost or sent again after a success; bulk requests. \<open>ElkLoop\<close>:
    its client, and the flush loop in an outage and at the end.
  \<^item> \<open>AuditLog\<close> (\<^verbatim>\<open>internal/logger/logger.go\<close>): the file of attacks, opened once or never.
  \<^item> \<open>Webdash\<close>, \<open>WebAccess\<close> (\<^verbatim>\<open>internal/webdash\<close>): the server, and who can change what in it. \<open>LogStream\<close>: its
    log stream as goroutines side by side (\<open>stream_step\<close>).
  \<^item> \<open>Fleet\<close>, \<open>FleetRun\<close> (\<^verbatim>\<open>internal/agent/fleet_client.go\<close>): reports, as JSON text, from an agent to the manager's
    page, one by one and in runs with the bounded channel of the manager; what is not UTF-8 is altered on the way.

  \<^bold>\<open>The programs.\<close>
  \<^item> \<open>Network\<close>, \<open>Proxy\<close>, \<open>Certs\<close> (\<^verbatim>\<open>internal/network\<close>, \<^verbatim>\<open>internal/proxy\<close>): the choice of the interface, whom
    the proxy admits, and what the certificates it can make are good for. \<open>Tunnel\<close>: the two directions of a forwarded
    connection (\<open>tunnel_step\<close>).
  \<^item> \<open>Agent\<close> (\<^verbatim>\<open>internal/agent/agent.go\<close>): making, starting and closing an agent beside its honeypot
    (\<open>agent_close_step\<close>, \<open>boot_step\<close>).
  \<^item> \<open>Commands\<close> (the \<^verbatim>\<open>main\<close> functions of \<^verbatim>\<open>cmd/agent\<close>, \<^verbatim>\<open>cmd/spa-client\<close>, \<^verbatim>\<open>cmd/fleet\<close>, \<^verbatim>\<open>cmd/spa-keygen\<close>):
    from the arguments to the parts above.
  \<^item> \<open>Menu\<close>, \<open>MenuRuns\<close> (\<^verbatim>\<open>cmd/phantom\<close>): the menus as computations over input, files and output; which
    programs they run, when they end, and how answers reach the agent.

  This theory joins the packet handler to the XDP program: an accepted packet does or does not open a port, by the
  byte order of the host; and the honeypot to the XDP program.

  \<^bold>\<open>Bounds and fuel.\<close> \<open>json_members\<close> and \<open>pem_certs\<close> take the length of their text as fuel, which is enough
  because each element takes at least one character; the claims about them show the results. \<open>menu_run\<close> takes the
  number of turns of a program that need not end; that it ends, or never does, is stated for every number.
  All other recursion terminates by structure or by a measure, but for \<open>validate_loop\<close> (see \<open>Totp\<close>).

  \<^bold>\<open>Parameters.\<close> Ed25519 (\<open>ed25519\<close>), kernel maps (\<open>bpf_ops\<close>) and programs (\<open>kernel_ops\<close>), the agents' database
  (\<open>fleet_db\<close>), keys and encodings of certificates (\<open>pki\<close>), Unicode tables (\<open>unicode\<close>), and the programs the
  menus run (\<open>platform\<close>). What is relied on are the \<open>..._laws\<close>; each has an instance that satisfies them.

  \<^bold>\<open>Not modelled.\<close> When a ticker ticks and how long a delay is: the model has the ticks as events in any order;
  deadlines of reads, which only let a loop look at its stop channel; usage texts and console messages, which
  nothing reads; the text of the web pages, embedded files that the server hands out as they are, and the opening of a
  browser; the negative, infinite and hexadecimal numbers that \<^verbatim>\<open>ParseFloat\<close> would read and no kernel writes.
\<close>

section \<open>From the packet to the protected port\<close>

text \<open>
  The loader's whitelist is the kernel's: one map, written by the handler and read by the XDP
  program. The two theorems follow an accepted packet to a TCP frame of its sender to port 22, on
  the two kinds of hosts.
\<close>

lemma phantom_consts_critical:
  "xCritical phantom_consts 22" "xHoneypotPort phantom_consts = 9999" "\<not> xCritical phantom_consts 80"
proof -
  have table: "xCritical phantom_consts p \<longleftrightarrow> (\<exists>d \<in> set CriticalPortDefinitions. sint (Port d) = int (unat p))" for p
    unfolding phantom_consts_def
    by (rule config_gen_functions(1) [OF _ config_gen_ok generated_header_consistent]) simp
  show "xCritical phantom_consts 22" "\<not> xCritical phantom_consts 80"
    by (simp_all add: table CriticalPortDefinitions_def port_def_def)
  have "(''HONEYPOT_PORT'', Num 9999) \<in> set (genHeader generated_config)"
    using config_gen_content(1) [OF _ config_gen_ok]
    by (simp add: constant_defines_def GetEBPFConstants_def HoneypotPort_def)
  then have "macro (genHeader generated_config) ''HONEYPOT_PORT'' = Some (Num 9999)"
    by (simp add: macro_consistent [OF generated_header_consistent])
  then show "xHoneypotPort phantom_consts = 9999"
    by (simp add: phantom_consts_def compiled_def Let_def num_macro_def)
qed

lemma accepted_then_frame:
  assumes "VerifyPacket E (hVerifier h) clk d ip = Some (v, Inr ())"
    and laws: "bpf_laws ops" and map: "whitelistMap (hLoader h) = Some (spa_whitelist K)"
    and a: "ip_to4 ip = Some a"
    and put: "bpf_put ops (spa_whitelist K) (loader_key le a)
                (native_u64 le (whitelist_expiry up (ReplayWindowSeconds (hConfig h)))) \<noteq> None"
    and tcp: "tcp_frame f" "src_addr f = a" "dest_port f = 22"
  obtains h' ev m where "processPacket ops le E h clk up d ip = Some (h', ev)"
    and "whitelistMap (hLoader h') = Some m"
    and "\<And>now. whitelisted ops le now (loader_key le a) m \<longleftrightarrow>
           now \<le> whitelist_expiry up (ReplayWindowSeconds (hConfig h))"
    and "\<And>now src. src \<noteq> loader_key le a \<Longrightarrow> whitelisted ops le now src m \<Longrightarrow>
           whitelisted ops le now src (spa_whitelist K)"
    and "\<And>now. snd (snd (phantom_prog ops le phantom_consts now (K\<lparr>spa_whitelist := m\<rparr>) f)) =
           (if whitelisted ops le now a m then XDP_PASS else XDP_DROP)"
proof -
  let ?dur = "ReplayWindowSeconds (hConfig h)"
  obtain ml where ml: "WhitelistIP ops le (hLoader h) ip ?dur up = (ml, Inr ())"
    using put map a unfolding WhitelistIP_ok by blast
  obtain ev where run: "processPacket ops le E h clk up d ip = Some (h\<lparr>hVerifier := v, hLoader := ml\<rparr>, ev)"
    using processPacket_accepted [OF assms(1) ml] by blast
  obtain m where m: "whitelistMap ml = Some m"
    "\<forall>now src. whitelisted ops le now src m \<longrightarrow>
       src = loader_key le a \<and> now \<le> whitelist_expiry up ?dur \<or> whitelisted ops le now src (spa_whitelist K)"
    "\<forall>now. whitelisted ops le now (loader_key le a) m \<longleftrightarrow> now \<le> whitelist_expiry up ?dur"
    using WhitelistIP_whitelists [OF laws ml a map] by blast
  have port: "xCritical phantom_consts (dest_port f)" "dest_port f \<noteq> xHoneypotPort phantom_consts"
    using tcp(3) phantom_consts_critical by simp_all
  have frame: "snd (snd (phantom_prog ops le phantom_consts now (K\<lparr>spa_whitelist := m\<rparr>) f)) =
      (if whitelisted ops le now a m then XDP_PASS else XDP_DROP)" for now
    by (simp add: phantom_critical [OF tcp(1) port] tcp(2))
  show ?thesis by (rule that [OF run _ _ _ frame]) (use m in auto)
qed

text \<open>C2. On a big-endian host an accepted packet opens port 22 to its sender until the expiry that
  \<^verbatim>\<open>WhitelistIP\<close> computed, and not after.\<close>

theorem accepted_opens_ssh_big_endian:
  assumes "VerifyPacket E (hVerifier h) clk d ip = Some (v, Inr ())"
    and "bpf_laws ops" and "whitelistMap (hLoader h) = Some (spa_whitelist K)" and "ip_to4 ip = Some a"
    and "bpf_put ops (spa_whitelist K) a
           (native_u64 False (whitelist_expiry up (ReplayWindowSeconds (hConfig h)))) \<noteq> None"
    and "tcp_frame f" "src_addr f = a" "dest_port f = 22"
  shows "\<exists>h' ev m. processPacket ops False E h clk up d ip = Some (h', ev) \<and>
    whitelistMap (hLoader h') = Some m \<and>
    (\<forall>now. snd (snd (phantom_prog ops False phantom_consts now (K\<lparr>spa_whitelist := m\<rparr>) f)) =
       (if now \<le> whitelist_expiry up (ReplayWindowSeconds (hConfig h)) then XDP_PASS else XDP_DROP))"
proof -
  have key: "loader_key False a = a" by (simp add: loader_key_def)
  show ?thesis
    by (rule accepted_then_frame [OF assms(1-4) _ assms(6-8), of False up])
       (use assms(5) in \<open>auto simp: key\<close>)
qed

text \<open>C1. On a little-endian host it does not: the key is stored in the other byte order, so a sender
  whose address is no palindrome and who was not admitted before stays shut out of port 22, although
  its packet was accepted and the handler reports success.\<close>

theorem accepted_not_opened_little_endian:
  assumes "VerifyPacket E (hVerifier h) clk d ip = Some (v, Inr ())"
    and "bpf_laws ops" and "whitelistMap (hLoader h) = Some (spa_whitelist K)" and "ip_to4 ip = Some a"
    and "bpf_put ops (spa_whitelist K) (rev a)
           (native_u64 True (whitelist_expiry up (ReplayWindowSeconds (hConfig h)))) \<noteq> None"
    and "tcp_frame f" "src_addr f = a" "dest_port f = 22"
    and "rev a \<noteq> a" and "\<forall>now. \<not> whitelisted ops True now a (spa_whitelist K)"
  shows "\<exists>h' ev m. processPacket ops True E h clk up d ip = Some (h', ev) \<and>
    whitelistMap (hLoader h') = Some m \<and>
    (\<forall>now. snd (snd (phantom_prog ops True phantom_consts now (K\<lparr>spa_whitelist := m\<rparr>) f)) = XDP_DROP)"
proof -
  have key: "loader_key True a = rev a" by (simp add: loader_key_def)
  obtain h' ev m where run: "processPacket ops True E h clk up d ip = Some (h', ev)"
    "whitelistMap (hLoader h') = Some m"
    and other: "\<And>now src. src \<noteq> rev a \<Longrightarrow> whitelisted ops True now src m \<Longrightarrow>
      whitelisted ops True now src (spa_whitelist K)"
    and frame: "\<And>now. snd (snd (phantom_prog ops True phantom_consts now (K\<lparr>spa_whitelist := m\<rparr>) f)) =
      (if whitelisted ops True now a m then XDP_PASS else XDP_DROP)"
    by (rule accepted_then_frame [OF assms(1-4) _ assms(6-8), of True up])
       (use assms(5) in \<open>auto simp: key\<close>)
  have "\<not> whitelisted ops True now a m" for now using other [of a now] assms(9,10) by auto
  then show ?thesis using run frame by auto
qed

lemma example_handler_map: "whitelistMap (hLoader example_handler) = Some (spa_whitelist example_kernel)"
  by (simp add: example_handler_def NewHandler_def NewMapLoader_def example_kernel_def)

lemma example_handler_accepts:
  "\<exists>d v. VerifyPacket ed_example (hVerifier example_handler) (\<lambda>n. 1010) d example_ip = Some (v, Inr ())"
  using example_accepted by (simp add: example_handler_def NewHandler_def)

lemma accepted_opens_ssh_big_endian_witness:
  "\<exists>m. snd (snd (phantom_prog plain_map False phantom_consts 5 (example_kernel\<lparr>spa_whitelist := m\<rparr>)
     (example_frame 6 22 (replicate 16 0)))) = XDP_PASS"
proof -
  obtain d v where v: "VerifyPacket ed_example (hVerifier example_handler) (\<lambda>n. 1010) d example_ip = Some (v, Inr ())"
    using example_handler_accepts by blast
  have le: "(5 :: u64) \<le> whitelist_expiry (Some 5) (ReplayWindowSeconds (hConfig example_handler))"
    by (simp add: whitelist_expiry_def example_handler_def NewHandler_def example_dynamic_config_def
        DefaultDynamicSPAConfig_def)
  have "\<exists>h' ev m. processPacket plain_map False ed_example example_handler (\<lambda>n. 1010) (Some 5) d example_ip = Some (h', ev) \<and>
      whitelistMap (hLoader h') = Some m \<and>
      (\<forall>now. snd (snd (phantom_prog plain_map False phantom_consts now (example_kernel\<lparr>spa_whitelist := m\<rparr>)
           (example_frame 6 22 (replicate 16 0)))) =
         (if now \<le> whitelist_expiry (Some 5) (ReplayWindowSeconds (hConfig example_handler)) then XDP_PASS else XDP_DROP))"
    by (rule accepted_opens_ssh_big_endian [OF v plain_map_laws(1) example_handler_map, of "[192, 168, 1, 100]"])
       (simp_all add: example_ip_def ip_to4_def plain_map_def example_frame_simps)
  then obtain m where "\<forall>now. snd (snd (phantom_prog plain_map False phantom_consts now (example_kernel\<lparr>spa_whitelist := m\<rparr>)
           (example_frame 6 22 (replicate 16 0)))) =
         (if now \<le> whitelist_expiry (Some 5) (ReplayWindowSeconds (hConfig example_handler)) then XDP_PASS else XDP_DROP)"
    by blast
  from this [rule_format, of 5] le show ?thesis by (intro exI [of _ m]) simp
qed

lemma accepted_not_opened_little_endian_witness:
  "\<exists>m. snd (snd (phantom_prog plain_map True phantom_consts 5 (example_kernel\<lparr>spa_whitelist := m\<rparr>)
     (example_frame 6 22 (replicate 16 0)))) = XDP_DROP"
proof -
  obtain d v where v: "VerifyPacket ed_example (hVerifier example_handler) (\<lambda>n. 1010) d example_ip = Some (v, Inr ())"
    using example_handler_accepts by blast
  have "\<exists>h' ev m. processPacket plain_map True ed_example example_handler (\<lambda>n. 1010) (Some 5) d example_ip = Some (h', ev) \<and>
      whitelistMap (hLoader h') = Some m \<and>
      (\<forall>now. snd (snd (phantom_prog plain_map True phantom_consts now (example_kernel\<lparr>spa_whitelist := m\<rparr>)
           (example_frame 6 22 (replicate 16 0)))) = XDP_DROP)"
    by (rule accepted_not_opened_little_endian [OF v plain_map_laws(1) example_handler_map, of "[192, 168, 1, 100]"])
       (simp_all add: example_ip_def ip_to4_def plain_map_def example_frame_simps whitelisted_def example_kernel_def)
  then show ?thesis by auto
qed

section \<open>From the frame to the honeypot\<close>

lemma phantom_consts_ports:
  "xCritical phantom_consts p \<longleftrightarrow> (\<exists>q \<in> set CriticalPorts. sint q = int (unat p))"
  "xFake phantom_consts p \<longleftrightarrow> (\<exists>q \<in> set FakePorts. sint q = int (unat p))"
  using config_gen_functions [OF _ config_gen_ok generated_header_consistent, of p]
  by (auto simp: phantom_consts_def CriticalPorts_def GetCriticalPorts_def FakePorts_def GetFakePorts_def)

lemma phantom_fake:
  assumes "tcp_frame f" "dest_port f \<noteq> xHoneypotPort C" "\<not> xCritical C (dest_port f)" "xFake C (dest_port f)"
  shows "snd (phantom_prog ops le C now K f) = (f, XDP_PASS)"
  using assms by (simp add: phantom_tcp tcp_filter_def Let_def dest_field)

lemma Start_warns:
  assumes "listen q = Some err" "q \<in> set FakePorts"
  shows "(''[WARN] Cannot bind port '' @ show_i64 q @ '': '' @ err @ '' (XDP will redirect to 9999)'')
    \<in> set (fst (snd (Start listen New)))"
proof -
  obtain h bound logs where b: "bind_ports listen FakePorts (New, [], []) = (h, bound, logs)"
    by (metis prod_cases3)
  have "set logs \<subseteq> set (fst (snd (Start listen New)))"
  proof -
    obtain h2 more_logs r where "bindFallback listen h = (h2, more_logs, r)" by (metis prod_cases3)
    then show ?thesis unfolding Start_def b by (cases r; simp; blast)
  qed
  with bind_ports_warns [of listen, OF assms, of New "[]" "[]"] show ?thesis
    unfolding b snd_conv by (rule subsetD [rotated])
qed

text \<open>When the honeypot cannot listen on a fake port it logs that the XDP program will redirect the
  port to the fallback; the XDP program built from the same tables does not: it passes a frame to that
  port unchanged, whoever listens there.\<close>

theorem unbound_fake_port_not_redirected:
  assumes "listen q = Some err" "q \<in> set FakePorts" "q \<notin> set CriticalPorts"
    and "tcp_frame f" "sint q = int (unat (dest_port f))"
  shows "(''[WARN] Cannot bind port '' @ show_i64 q @ '': '' @ err @ '' (XDP will redirect to 9999)'')
      \<in> set (fst (snd (Start listen New))) \<and>
    snd (phantom_prog ops le phantom_consts now K f) = (f, XDP_PASS)"
proof -
  have same: "r = q" if "sint r = int (unat (dest_port f))" for r
    using that assms(5) by (metis signed_word_eqI)
  have "HoneypotPort \<notin> set FakePorts" by code_simp
  then have "q \<noteq> 9999" using assms(2) by (auto simp: HoneypotPort_def)
  then have "dest_port f \<noteq> xHoneypotPort phantom_consts"
    using same [of 9999] by (auto simp: phantom_consts_critical)
  moreover have "\<not> xCritical phantom_consts (dest_port f)"
    unfolding phantom_consts_ports using assms(3) same by blast
  moreover have "xFake phantom_consts (dest_port f)"
    unfolding phantom_consts_ports using assms(2,5) by blast
  ultimately have "snd (phantom_prog ops le phantom_consts now K f) = (f, XDP_PASS)"
    by (rule phantom_fake [OF assms(4)])
  with Start_warns [of listen, OF assms(1,2)] show ?thesis by (rule conjI)
qed

lemma unbound_fake_port_not_redirected_witness:
  "snd (snd (phantom_prog plain_map True phantom_consts 5 example_kernel (example_frame 6 80 (replicate 16 0)))) = XDP_PASS"
proof -
  have "(80 :: i64) \<in> set FakePorts" "(80 :: i64) \<notin> set CriticalPorts" by code_simp+
  then show ?thesis
    using unbound_fake_port_not_redirected [of only_fallback 80 "''in use''" "example_frame 6 80 (replicate 16 0)"
        plain_map True 5 example_kernel]
    by (simp add: only_fallback_def HoneypotPort_def example_frame_simps)
qed

end
